(* ===== verification/Prelude.thy ===== *)
theory Prelude
  imports Main "HOL-Library.Word" "HOL-Library.Signed_Division" "HOL-Library.Monad_Syntax"
begin

text \<open>
  The vocabulary the component theories share.

  \<^item> The effects of a process: a C++ function of the program becomes a \<open>prog\<close>, a
    function from the state it works on to an outcome and the state it leaves.  The
    outcomes are the ways a call can end: it returns, it ends the process (the macro
    \<open>THROW_UTIL\<close> of include/constants.h prints and calls \<open>exit(1)\<close>), it does
    something the language leaves undefined (a null dereference, an access out of the
    bounds of an array), or it waits for a message that never comes.
  \<^item> The C conversions the code relies on: \<open>int32\<close>, \<open>int16\<close> and \<open>int8\<close>
    are what is left of an integer stored in an \<open>int\<close>, a \<open>short\<close> or a
    \<open>char\<close> of the target (two's complement).
  \<^item> Copying into a C array and C strings in character arrays.
  \<^item> Two collections of rewrite rules: \<open>prog_simps\<close> unfolds the effects,
    \<open>array_simps\<close> reasons on copies and conversions.
\<close>

named_theorems prog_simps "unfold the effects of a process"
named_theorems array_simps "copies into C arrays and conversions of C integers"

section \<open>Effects\<close>

datatype 'a outcome =
    Ret 'a          \<comment> \<open>the call returns\<close>
  | Exit int        \<comment> \<open>the process ends with this status\<close>
  | Undef           \<comment> \<open>undefined behaviour\<close>
  | Blocked         \<comment> \<open>the call waits and is never woken\<close>

type_synonym ('a, 's) prog = "'s \<Rightarrow> 'a outcome \<times> 's"

definition ret :: "'a \<Rightarrow> ('a, 's) prog" where
  "ret x = (\<lambda>s. (Ret x, s))"

definition andThen :: "('a, 's) prog \<Rightarrow> ('a \<Rightarrow> ('b, 's) prog) \<Rightarrow> ('b, 's) prog" where
  "andThen m f = (\<lambda>s. case m s of
      (Ret x, s') \<Rightarrow> f x s'
    | (Exit c, s') \<Rightarrow> (Exit c, s')
    | (Undef, s') \<Rightarrow> (Undef, s')
    | (Blocked, s') \<Rightarrow> (Blocked, s'))"

definition exit_with :: "int \<Rightarrow> ('a, 's) prog" where
  "exit_with c = (\<lambda>s. (Exit c, s))"

text \<open>The macro \<open>THROW_UTIL\<close>.\<close>

definition throw_util :: "('a, 's) prog" where
  "throw_util = exit_with 1"

definition undef_behaviour :: "('a, 's) prog" where
  "undef_behaviour = (\<lambda>s. (Undef, s))"

definition get_state :: "('s, 's) prog" where
  "get_state = (\<lambda>s. (Ret s, s))"

definition modify :: "('s \<Rightarrow> 's) \<Rightarrow> (unit, 's) prog" where
  "modify f = (\<lambda>s. (Ret (), f s))"

text \<open>A computation that is undefined where the option is \<open>None\<close>.\<close>

definition defined :: "'a option \<Rightarrow> ('a, 's) prog" where
  "defined x = (case x of None \<Rightarrow> undef_behaviour | Some v \<Rightarrow> ret v)"

primrec for_each :: "'a list \<Rightarrow> ('a \<Rightarrow> (unit, 's) prog) \<Rightarrow> (unit, 's) prog" where
  "for_each [] f = ret ()"
| "for_each (x # xs) f = andThen (f x) (\<lambda>_. for_each xs f)"

lemma ret_run [simp, prog_simps]: "ret x s = (Ret x, s)"
  by (simp add: ret_def)

lemma exit_with_run [simp, prog_simps]: "exit_with c s = (Exit c, s)"
  by (simp add: exit_with_def)

lemma throw_util_run [simp, prog_simps]: "throw_util s = (Exit 1, s)"
  by (simp add: throw_util_def)

lemma undef_behaviour_run [simp, prog_simps]: "undef_behaviour s = (Undef, s)"
  by (simp add: undef_behaviour_def)

lemma get_state_run [simp, prog_simps]: "get_state s = (Ret s, s)"
  by (simp add: get_state_def)

lemma modify_run [simp, prog_simps]: "modify f s = (Ret (), f s)"
  by (simp add: modify_def)

lemma defined_run [simp, prog_simps]:
  "defined None s = (Undef, s)" "defined (Some v) s = (Ret v, s)"
  by (simp_all add: defined_def)

lemma andThen_Ret [simp, prog_simps]: "m s = (Ret x, s') \<Longrightarrow> andThen m f s = f x s'"
  by (simp add: andThen_def)

lemma andThen_stops:
  "m s = (Exit c, s') \<Longrightarrow> andThen m f s = (Exit c, s')"
  "m s = (Undef, s') \<Longrightarrow> andThen m f s = (Undef, s')"
  "m s = (Blocked, s') \<Longrightarrow> andThen m f s = (Blocked, s')"
  by (simp_all add: andThen_def)

declare andThen_stops [simp, prog_simps]

lemma andThen_assoc: "andThen (andThen m f) g = andThen m (\<lambda>x. andThen (f x) g)"
  by (rule ext) (simp add: andThen_def split: prod.splits outcome.splits)

lemma andThen_ret_left: "andThen (ret x) f = f x"
  by (rule ext) simp

lemma andThen_Ret_iff:
  "andThen m f s = (Ret y, t) \<longleftrightarrow> (\<exists>x s'. m s = (Ret x, s') \<and> f x s' = (Ret y, t))"
  by (auto simp: andThen_def split: prod.splits outcome.splits)

text \<open>
  An invariant of the state that a computation keeps, however it ends.  The rules build
  such facts along the structure of a handler.
\<close>

definition keeps :: "('s \<Rightarrow> bool) \<Rightarrow> ('a, 's) prog \<Rightarrow> bool" where
  "keeps P m \<longleftrightarrow> (\<forall>s. P s \<longrightarrow> P (snd (m s)))"

named_theorems keeps_intros "introduction rules for invariants kept by computations"

lemma keeps_ret [keeps_intros]: "keeps P (ret x)"
  by (simp add: keeps_def)

lemma keeps_exit [keeps_intros]: "keeps P (exit_with c)"
  by (simp add: keeps_def)

lemma keeps_throw [keeps_intros]: "keeps P throw_util"
  by (simp add: keeps_def)

lemma keeps_undef [keeps_intros]: "keeps P undef_behaviour"
  by (simp add: keeps_def)

lemma keeps_defined [keeps_intros]: "keeps P (defined x)"
  by (cases x) (simp_all add: keeps_def)

lemma keeps_andThen [keeps_intros]:
  assumes "keeps P m" and "\<And>x. keeps P (f x)"
  shows "keeps P (andThen m f)"
  unfolding keeps_def
proof (intro allI impI)
  fix s assume "P s"
  with assms(1) have P: "P (snd (m s))" by (simp add: keeps_def)
  show "P (snd (andThen m f s))"
    using P assms(2) by (cases "m s"; cases "fst (m s)") (auto simp: keeps_def)
qed

lemma keeps_if [keeps_intros]:
  "(b \<Longrightarrow> keeps P m) \<Longrightarrow> (\<not> b \<Longrightarrow> keeps P m') \<Longrightarrow> keeps P (if b then m else m')"
  by simp

lemma keeps_modify: "(\<And>s. P s \<Longrightarrow> P (f s)) \<Longrightarrow> keeps P (modify f)"
  by (simp add: keeps_def)

lemma keeps_for_each [keeps_intros]: "(\<And>x. keeps P (f x)) \<Longrightarrow> keeps P (for_each xs f)"
  by (induction xs) (simp_all add: keeps_intros)

lemma keepsD: "keeps P m \<Longrightarrow> P s \<Longrightarrow> P (snd (m s))"
  by (simp add: keeps_def)

text \<open>
  What holds of the value a computation returns, whatever state it starts in.  The rules for
  the basic computations name the strongest such fact, so that \<open>yields_intros\<close> walks through a
  handler and leaves what is to be shown of its results.
\<close>

definition yields :: "('a, 's) prog \<Rightarrow> ('a \<Rightarrow> bool) \<Rightarrow> bool" where
  "yields m P \<longleftrightarrow> (\<forall>s x s'. m s = (Ret x, s') \<longrightarrow> P x)"

named_theorems yields_intros "introduction rules for what computations return"

lemma yieldsD: "yields m P \<Longrightarrow> m s = (Ret x, s') \<Longrightarrow> P x"
  by (auto simp: yields_def)

lemma yields_ret [yields_intros]: "P x \<Longrightarrow> yields (ret x) P"
  by (simp add: yields_def)

lemma yields_exit [yields_intros]: "yields (exit_with c) P"
  by (simp add: yields_def)

lemma yields_throw [yields_intros]: "yields throw_util P"
  by (simp add: yields_def)

lemma yields_undef [yields_intros]: "yields undef_behaviour P"
  by (simp add: yields_def)

lemma yields_defined: "yields (defined x) (\<lambda>v. x = Some v)"
  by (cases x) (simp_all add: yields_def)

lemma yields_any: "yields m (\<lambda>_. True)"
  by (simp add: yields_def)

lemma yields_andThen:
  "yields m Q \<Longrightarrow> (\<And>x. Q x \<Longrightarrow> yields (f x) P) \<Longrightarrow> yields (andThen m f) P"
  unfolding yields_def andThen_Ret_iff by blast

lemma yields_if [yields_intros]:
  "(b \<Longrightarrow> yields m P) \<Longrightarrow> (\<not> b \<Longrightarrow> yields m' P) \<Longrightarrow> yields (if b then m else m') P"
  by simp

lemmas yields_defined_then [yields_intros] = yields_andThen [OF yields_defined]

section \<open>C integers\<close>

definition int32 :: "int \<Rightarrow> int" where
  "int32 x = sint (word_of_int x :: 32 word)"

definition int16 :: "int \<Rightarrow> int" where
  "int16 x = sint (word_of_int x :: 16 word)"

definition int8 :: "int \<Rightarrow> int" where
  "int8 x = sint (word_of_int x :: 8 word)"

abbreviation in_int32 :: "int \<Rightarrow> bool" where
  "in_int32 x \<equiv> - (2 ^ 31) \<le> x \<and> x < 2 ^ 31"

abbreviation in_int8 :: "int \<Rightarrow> bool" where
  "in_int8 x \<equiv> - 128 \<le> x \<and> x < 128"

lemma sint_word_of_int_32: "in_int32 x \<Longrightarrow> sint (word_of_int x :: 32 word) = x"
  by (simp add: sint_sbintrunc' signed_take_bit_int_eq_self)

lemma sint_word_of_int_8: "in_int8 x \<Longrightarrow> sint (word_of_int x :: 8 word) = x"
  by (simp add: sint_sbintrunc' signed_take_bit_int_eq_self)

lemma int32_id [array_simps]: "in_int32 x \<Longrightarrow> int32 x = x"
  by (simp add: int32_def sint_word_of_int_32)

lemma int8_id [array_simps]: "in_int8 x \<Longrightarrow> int8 x = x"
  by (simp add: int8_def sint_word_of_int_8)

lemma int32_range: "in_int32 (int32 x)"
  using sint_range_size [of "word_of_int x :: 32 word"]
  by (simp add: int32_def word_size)

lemma int8_range: "in_int8 (int8 x)"
  using sint_range_size [of "word_of_int x :: 8 word"]
  by (simp add: int8_def word_size)

section \<open>C arrays and strings\<close>

text \<open>
  \<open>std::copy(src.begin(), src.end(), dst)\<close> into a C array: undefined
  (\<open>None\<close>) where the source is longer than the array.
\<close>

definition std_copy :: "'a list \<Rightarrow> 'a list \<Rightarrow> 'a list option" where
  "std_copy src dst = (if length src \<le> length dst then Some (src @ drop (length src) dst) else None)"

lemma std_copy_Some [array_simps]:
  "std_copy src dst = Some d \<longleftrightarrow> length src \<le> length dst \<and> d = src @ drop (length src) dst"
  by (auto simp: std_copy_def)

lemma std_copy_None [array_simps]: "std_copy src dst = None \<longleftrightarrow> length dst < length src"
  by (auto simp: std_copy_def)

lemma std_copy_take: "std_copy src dst = Some d \<Longrightarrow> take (length src) d = src \<and> length d = length dst"
  by (auto simp: std_copy_def split: if_splits)

abbreviation NUL :: char where
  "NUL \<equiv> CHR 0x00"

text \<open>\<open>strcpy\<close>: the characters and the terminating zero.\<close>

definition strcpy :: "char list \<Rightarrow> string \<Rightarrow> char list option" where
  "strcpy dst src = std_copy (src @ [NUL]) dst"

text \<open>The string a character array holds: up to the first zero.\<close>

definition c_string :: "char list \<Rightarrow> string" where
  "c_string cs = takeWhile (\<lambda>c. c \<noteq> NUL) cs"

lemma c_string_strcpy:
  assumes "strcpy dst src = Some d" and "NUL \<notin> set src"
  shows "c_string d = src"
proof -
  have d: "d = src @ NUL # drop (Suc (length src)) dst"
    using assms(1) by (auto simp: strcpy_def std_copy_def split: if_splits)
  have "takeWhile (\<lambda>c. c \<noteq> NUL) (src @ NUL # rest) = src" for rest
    using assms(2) by (subst takeWhile_append2) auto
  then show ?thesis by (simp add: c_string_def d)
qed

section \<open>Runs of a labelled step relation\<close>

text \<open>\<open>path step es s s'\<close>: from \<open>s\<close> to \<open>s'\<close> with the events \<open>es\<close>, in this order.\<close>

inductive path :: "('e \<Rightarrow> 's \<Rightarrow> 's \<Rightarrow> bool) \<Rightarrow> 'e list \<Rightarrow> 's \<Rightarrow> 's \<Rightarrow> bool" for step where
  path_Nil: "path step [] s s"
| path_snoc: "path step es s t \<Longrightarrow> step e t u \<Longrightarrow> path step (es @ [e]) s u"

lemma path_one: "step e s t \<Longrightarrow> path step [e] s t"
  using path_snoc [OF path_Nil, of step e s t] by simp

lemma path_mono: "path step es s t \<Longrightarrow> (\<And>e s t. step e s t \<Longrightarrow> step' e s t) \<Longrightarrow> path step' es s t"
  by (induction rule: path.induct) (auto intro: path.intros)

text \<open>What every step keeps, and a step by step image of a run, event by event.\<close>

lemma path_keeps:
  assumes "path step es s t" and "I s" and "\<And>e s t. I s \<Longrightarrow> step e s t \<Longrightarrow> I t"
  shows "I t"
  using assms(1,2) by (induction rule: path.induct) (auto intro: assms(3))

lemma path_refines:
  assumes "path step es s t" and "I s"
    and "\<And>e s t. I s \<Longrightarrow> step e s t \<Longrightarrow> I t \<and> astep e (f s) (f t)"
  shows "I t \<and> path astep es (f s) (f t)"
  using assms(1,2)
proof (induction rule: path.induct)
  case (path_snoc es s t e u)
  then show ?case using assms(3) by (blast intro: path.intros)
qed (auto intro: path.intros)

end
