(* ===== verification/Messages.thy ===== *)
theory Messages
  imports Prelude
begin

text \<open>
  The data of the program: include/constants.h (rooms, seats, reservations, the limits and
  the status codes) and include/messages/message.h (the messages the processes exchange).

  The members of the union \<open>message_choice\<close> are the constructors of a datatype.  A member
  is read with an accessor \<open>as_m<i>\<close>, which is what the C++ gives: the member last written;
  or, for the first \<open>int\<close>, the common initial \<open>int\<close> of every member but \<open>m0\<close> (their common
  initial sequence); or zeros, for a message that was value-initialised by \<open>q_message m{}\<close>.
  A C \<open>int\<close> that is only stored and compared is an \<open>int\<close>; conversions to a width are written
  where a value is stored (\<open>int32\<close>, \<open>int8\<close>).
\<close>

section \<open>Constants\<close>

definition MAX_LENGTH_STRING :: nat where "MAX_LENGTH_STRING = 500"
definition MAX_ROOMS :: nat where "MAX_ROOMS = 20"
definition MAX_SEATS :: nat where "MAX_SEATS = 50"

definition SEAT_STATUS_FREE :: int where "SEAT_STATUS_FREE = 0"
definition SEAT_STATUS_OCCUPED :: int where "SEAT_STATUS_OCCUPED = 1"

definition NOT_SUCCESS :: int where "NOT_SUCCESS = 1"
definition SUCCESS :: int where "SUCCESS = 0"

definition MAX_CLIENTS :: int where "MAX_CLIENTS = 100"
definition MAX_CLIENTS_HOST :: int where "MAX_CLIENTS_HOST = 50"

definition TYPE_CONNECTION_CINEMA_REQUEST :: int where "TYPE_CONNECTION_CINEMA_REQUEST = 1"
definition TYPE_CONNECTION_MOM_REQUEST :: int where "TYPE_CONNECTION_MOM_REQUEST = 2"
definition ADMIN_REQUEST :: int where "ADMIN_REQUEST = 1"

definition CHOICE_CONNECTION_ACCEPTED :: int where "CHOICE_CONNECTION_ACCEPTED = 2"
definition CHOICE_ROOMS_REQUEST :: int where "CHOICE_ROOMS_REQUEST = 3"
definition CHOICE_ROOMS_RESPONSE :: int where "CHOICE_ROOMS_RESPONSE = 4"
definition CHOICE_SEATS_REQUEST :: int where "CHOICE_SEATS_REQUEST = 5"
definition CHOICE_SEATS_RESPONSE :: int where "CHOICE_SEATS_RESPONSE = 6"
definition CHOICE_SEAT_SELECT_REQUEST :: int where "CHOICE_SEAT_SELECT_REQUEST = 7"
definition CHOICE_SEAT_SELECT_RESPONSE :: int where "CHOICE_SEAT_SELECT_RESPONSE = 8"
definition CHOICE_PAY_RESERVATION_REQUEST :: int where "CHOICE_PAY_RESERVATION_REQUEST = 11"
definition CHOICE_PAY_RESERVATION_RESPONSE :: int where "CHOICE_PAY_RESERVATION_RESPONSE = 12"
definition CHOICE_EXIT :: int where "CHOICE_EXIT = 9"
definition CHOICE_INVALID_REQUEST :: int where "CHOICE_INVALID_REQUEST = 10"

lemmas choice_numbers [simp] =
  CHOICE_CONNECTION_ACCEPTED_def CHOICE_ROOMS_REQUEST_def CHOICE_ROOMS_RESPONSE_def
  CHOICE_SEATS_REQUEST_def CHOICE_SEATS_RESPONSE_def CHOICE_SEAT_SELECT_REQUEST_def
  CHOICE_SEAT_SELECT_RESPONSE_def CHOICE_PAY_RESERVATION_REQUEST_def
  CHOICE_PAY_RESERVATION_RESPONSE_def CHOICE_EXIT_def CHOICE_INVALID_REQUEST_def

lemmas type_numbers [simp] =
  TYPE_CONNECTION_CINEMA_REQUEST_def TYPE_CONNECTION_MOM_REQUEST_def ADMIN_REQUEST_def

lemmas limits [simp] =
  MAX_LENGTH_STRING_def MAX_ROOMS_def MAX_SEATS_def MAX_CLIENTS_def MAX_CLIENTS_HOST_def

lemmas status_codes [simp] =
  SEAT_STATUS_FREE_def SEAT_STATUS_OCCUPED_def NOT_SUCCESS_def SUCCESS_def

section \<open>Rooms, seats and reservations\<close>

record Room =
  room_no :: int            \<comment> \<open>\<open>Room.id\<close>\<close>

record Seat =
  seat_no :: int            \<comment> \<open>\<open>Seat.id\<close>\<close>
  seat_room :: int          \<comment> \<open>\<open>Seat.room_id\<close>\<close>
  seat_status :: int        \<comment> \<open>\<open>Seat.status\<close>, a \<open>char\<close>\<close>

record Seats_update =
  su_update :: int          \<comment> \<open>a \<open>char\<close>\<close>
  su_count :: int
  su_seats :: "Seat list"   \<comment> \<open>\<open>MAX_SEATS\<close> of them\<close>

record Reservation =
  res_room :: int
  res_seat_num :: int

definition zero_Room :: Room where
  "zero_Room = \<lparr>room_no = 0\<rparr>"

definition zero_Seat :: Seat where
  "zero_Seat = \<lparr>seat_no = 0, seat_room = 0, seat_status = 0\<rparr>"

definition zero_Seats_update :: Seats_update where
  "zero_Seats_update = \<lparr>su_update = 0, su_count = 0, su_seats = replicate MAX_SEATS zero_Seat\<rparr>"

definition zero_Reservation :: Reservation where
  "zero_Reservation = \<lparr>res_room = 0, res_seat_num = 0\<rparr>"

section \<open>Messages\<close>

record m2_rooms =
  m2_count :: int
  m2_ids :: "int list"              \<comment> \<open>\<open>MAX_ROOMS\<close>\<close>

record m4_seats =
  m4_count :: int
  m4_success :: int                 \<comment> \<open>a \<open>short\<close>\<close>
  m4_information :: "char list"     \<comment> \<open>\<open>MAX_LENGTH_STRING\<close>\<close>
  m4_seats_id :: "int list"         \<comment> \<open>\<open>MAX_SEATS\<close>\<close>
  m4_seats_status :: "int list"     \<comment> \<open>\<open>MAX_SEATS\<close> \<open>char\<close>s\<close>

record m6_atomic_response =
  m6_success :: int
  m6_information :: "char list"     \<comment> \<open>\<open>MAX_LENGTH_STRING\<close>\<close>

record m7_seat_payments =
  m7_count :: int
  m7_list :: "Reservation list"     \<comment> \<open>\<open>MAX_LENGTH_STRING\<close>\<close>

datatype message_choice =
    M0 "char list"                  \<comment> \<open>\<open>m0_test.test_msg\<close>, \<open>MAX_LENGTH_STRING\<close>\<close>
  | M1 int                          \<comment> \<open>\<open>m1_connection_request.client_id\<close>\<close>
  | M2 m2_rooms
  | M3 int                          \<comment> \<open>\<open>m3_seats_request.room_id\<close>\<close>
  | M4 m4_seats
  | M5 int                          \<comment> \<open>\<open>m5_seats_select.seat_id\<close>\<close>
  | M6 m6_atomic_response
  | M7 m7_seat_payments

record q_message =
  message_type :: int
  client_id :: int
  message_choice_number :: int      \<comment> \<open>an \<open>unsigned int\<close>\<close>
  msg_choice :: message_choice

definition zero_chars :: "char list" where
  "zero_chars = replicate MAX_LENGTH_STRING NUL"

definition zero_m2 :: m2_rooms where
  "zero_m2 = \<lparr>m2_count = 0, m2_ids = replicate MAX_ROOMS 0\<rparr>"

definition zero_m4 :: m4_seats where
  "zero_m4 = \<lparr>m4_count = 0, m4_success = 0, m4_information = zero_chars,
     m4_seats_id = replicate MAX_SEATS 0, m4_seats_status = replicate MAX_SEATS 0\<rparr>"

definition zero_m6 :: m6_atomic_response where
  "zero_m6 = \<lparr>m6_success = 0, m6_information = zero_chars\<rparr>"

definition zero_m7 :: m7_seat_payments where
  "zero_m7 = \<lparr>m7_count = 0, m7_list = replicate MAX_LENGTH_STRING zero_Reservation\<rparr>"

text \<open>\<open>q_message m{}\<close>: value-initialisation, which makes \<open>m0\<close> the member of the union.\<close>

definition zero_message :: q_message where
  "zero_message = \<lparr>message_type = 0, client_id = 0, message_choice_number = 0, msg_choice = M0 zero_chars\<rparr>"

text \<open>
  The first four bytes of the union as an \<open>int\<close>: every member but \<open>m0\<close> starts with one; in
  \<open>m0\<close> they are characters, the first one the lowest byte on the little-endian target.
\<close>

fun first_int :: "message_choice \<Rightarrow> int" where
  "first_int (M0 cs) = int32 (horner_sum id 256 (map of_char (take 4 cs)))"
| "first_int (M1 c) = c"
| "first_int (M2 m) = m2_count m"
| "first_int (M3 r) = r"
| "first_int (M4 m) = m4_count m"
| "first_int (M5 s) = s"
| "first_int (M6 m) = m6_success m"
| "first_int (M7 m) = m7_count m"

definition as_m1 :: "message_choice \<Rightarrow> int" where
  "as_m1 mc = first_int mc"

definition as_m3 :: "message_choice \<Rightarrow> int" where
  "as_m3 mc = first_int mc"

definition as_m5 :: "message_choice \<Rightarrow> int" where
  "as_m5 mc = first_int mc"

fun as_m2 :: "message_choice \<Rightarrow> m2_rooms" where
  "as_m2 (M2 m) = m"
| "as_m2 mc = zero_m2\<lparr>m2_count := first_int mc\<rparr>"

fun as_m4 :: "message_choice \<Rightarrow> m4_seats" where
  "as_m4 (M4 m) = m"
| "as_m4 mc = zero_m4\<lparr>m4_count := first_int mc\<rparr>"

fun as_m6 :: "message_choice \<Rightarrow> m6_atomic_response" where
  "as_m6 (M6 m) = m"
| "as_m6 mc = zero_m6\<lparr>m6_success := first_int mc\<rparr>"

fun as_m7 :: "message_choice \<Rightarrow> m7_seat_payments" where
  "as_m7 (M7 m) = m"
| "as_m7 mc = zero_m7\<lparr>m7_count := first_int mc\<rparr>"

lemma first_int_zero [simp]: "first_int (M0 zero_chars) = 0"
proof -
  have "map of_char (take 4 zero_chars) = [0, 0, 0, 0 :: int]"
    by (simp add: zero_chars_def take_replicate numeral_eq_Suc)
  then show ?thesis by (simp only: first_int.simps) (simp add: int32_def)
qed

lemma as_member_of_zero [simp]:
  "as_m2 (M0 zero_chars) = zero_m2" "as_m4 (M0 zero_chars) = zero_m4"
  "as_m6 (M0 zero_chars) = zero_m6" "as_m7 (M0 zero_chars) = zero_m7"
  by (simp_all add: zero_m2_def zero_m4_def zero_m6_def zero_m7_def del: first_int.simps)

lemma length_zero_chars [simp]: "length zero_chars = 500"
  by (simp add: zero_chars_def)

section \<open>Well-formed messages\<close>

text \<open>
  The type of a message as C++ gives it: the arrays have their declared length, the integers
  their width, and the member of the union is the one the choice number announces.
\<close>

definition wf_m2 :: "m2_rooms \<Rightarrow> bool" where
  "wf_m2 m \<longleftrightarrow> in_int32 (m2_count m) \<and> length (m2_ids m) = MAX_ROOMS \<and> list_all in_int32 (m2_ids m)"

definition wf_m4 :: "m4_seats \<Rightarrow> bool" where
  "wf_m4 m \<longleftrightarrow> in_int32 (m4_count m) \<and> - (2 ^ 15) \<le> m4_success m \<and> m4_success m < 2 ^ 15
     \<and> length (m4_information m) = MAX_LENGTH_STRING
     \<and> length (m4_seats_id m) = MAX_SEATS \<and> list_all in_int32 (m4_seats_id m)
     \<and> length (m4_seats_status m) = MAX_SEATS \<and> list_all in_int8 (m4_seats_status m)"

definition wf_m6 :: "m6_atomic_response \<Rightarrow> bool" where
  "wf_m6 m \<longleftrightarrow> in_int32 (m6_success m) \<and> length (m6_information m) = MAX_LENGTH_STRING"

definition wf_reservation :: "Reservation \<Rightarrow> bool" where
  "wf_reservation r \<longleftrightarrow> in_int32 (res_room r) \<and> in_int32 (res_seat_num r)"

definition wf_m7 :: "m7_seat_payments \<Rightarrow> bool" where
  "wf_m7 m \<longleftrightarrow> in_int32 (m7_count m) \<and> length (m7_list m) = MAX_LENGTH_STRING
     \<and> list_all wf_reservation (m7_list m)"

fun wf_choice :: "message_choice \<Rightarrow> bool" where
  "wf_choice (M0 cs) = (length cs = MAX_LENGTH_STRING)"
| "wf_choice (M1 c) = in_int32 c"
| "wf_choice (M2 m) = wf_m2 m"
| "wf_choice (M3 r) = in_int32 r"
| "wf_choice (M4 m) = wf_m4 m"
| "wf_choice (M5 s) = in_int32 s"
| "wf_choice (M6 m) = wf_m6 m"
| "wf_choice (M7 m) = wf_m7 m"

text \<open>Which member of the union a choice number announces (the rest carry none or \<open>m1\<close>).\<close>

fun tagged :: "int \<Rightarrow> message_choice \<Rightarrow> bool" where
  "tagged n (M2 _) = (n = CHOICE_ROOMS_RESPONSE)"
| "tagged n (M3 _) = (n = CHOICE_SEATS_REQUEST)"
| "tagged n (M4 _) = (n = CHOICE_SEATS_RESPONSE)"
| "tagged n (M5 _) = (n = CHOICE_SEAT_SELECT_REQUEST)"
| "tagged n (M6 _) = (n = CHOICE_SEAT_SELECT_RESPONSE \<or> n = CHOICE_PAY_RESERVATION_RESPONSE)"
| "tagged n (M7 _) = (n = CHOICE_PAY_RESERVATION_REQUEST)"
| "tagged n _ = True"

definition wf_message :: "q_message \<Rightarrow> bool" where
  "wf_message m \<longleftrightarrow> in_int32 (message_type m) \<and> in_int32 (client_id m)
     \<and> 0 \<le> message_choice_number m \<and> message_choice_number m < 2 ^ 32
     \<and> wf_choice (msg_choice m) \<and> tagged (message_choice_number m) (msg_choice m)"

lemma wf_zero_members [simp]: "wf_m2 zero_m2" "wf_m4 zero_m4" "wf_m6 zero_m6" "wf_m7 zero_m7"
  by (simp_all add: wf_m2_def wf_m4_def wf_m6_def wf_m7_def zero_m2_def zero_m4_def zero_m6_def
      zero_m7_def wf_reservation_def zero_Reservation_def list_all_iff)

lemma wf_zero_message [simp]: "wf_message zero_message"
  by (simp add: wf_message_def zero_message_def)

lemma in_int32_first_int [simp]: "wf_choice mc \<Longrightarrow> in_int32 (first_int mc)"
  by (cases mc) (simp_all add: wf_m2_def wf_m4_def wf_m6_def wf_m7_def int32_range [simplified])

end
