(* ===== verification/Wire.thy ===== *)
theory Wire
  imports Messages
begin

text \<open>
  The wire format of src/network/socket.cpp: \<open>serialize_message\<close> and
  \<open>deserialize_message\<close>, with the helpers they call.

  The buffer is the list of bytes \<open>malloc\<close> returned, of any contents; a pointer into it is
  an offset.  A store, a load or an array access outside its object is undefined in C and
  is \<open>None\<close> here.  The target is a little-endian machine with 32-bit \<open>int\<close>: an \<open>int\<close> is
  stored lowest byte first, so \<open>htonl\<close>, \<open>ntohl\<close> and \<open>ntohs\<close> reverse the bytes.

  After the code come the bytes it should produce (\<open>wire_bytes\<close>, network order), the value a
  message carries (\<open>payload\<close>), and the lemmas that relate them: \<open>serialize_message_bytes\<close>,
  \<open>deserialize_message_bytes\<close> and, from both, \<open>wire_transfer\<close>.  The last section is about any bytes at all:
  \<open>net_payload\<close> reads them in network order, as \<open>deserialize_message\<close> does when no count is too large.
\<close>

unbundle bit_operations_syntax

section \<open>Bytes and words of the target\<close>

type_synonym byte = "8 word"

definition byte_of :: "nat \<Rightarrow> 32 word \<Rightarrow> byte" where
  "byte_of k x = ucast (drop_bit (8 * k) x)"

definition word_of_bytes :: "byte \<Rightarrow> byte \<Rightarrow> byte \<Rightarrow> byte \<Rightarrow> 32 word" where
  "word_of_bytes b0 b1 b2 b3 =
     ucast b0 OR push_bit 8 (ucast b1) OR push_bit 16 (ucast b2) OR push_bit 24 (ucast b3)"

lemma byte_of_word_of_bytes [simp]:
  "byte_of 0 (word_of_bytes b0 b1 b2 b3) = b0"
  "byte_of 1 (word_of_bytes b0 b1 b2 b3) = b1"
  "byte_of (Suc 0) (word_of_bytes b0 b1 b2 b3) = b1"
  "byte_of 2 (word_of_bytes b0 b1 b2 b3) = b2"
  "byte_of 3 (word_of_bytes b0 b1 b2 b3) = b3"
  by (rule bit_word_eqI;
      auto simp: byte_of_def word_of_bytes_def bit_simps dest: bit_imp_le_length; fail)+

lemma word_of_bytes_byte_of [simp]:
  "word_of_bytes (byte_of 0 x) (byte_of (Suc 0) x) (byte_of 2 x) (byte_of 3 x) = x"
proof (rule bit_word_eqI)
  fix n :: nat
  have "n < 8 \<or> (8 \<le> n \<and> n < 16) \<or> (16 \<le> n \<and> n < 24) \<or> 24 \<le> n" by arith
  moreover assume "n < LENGTH(32)"
  ultimately show "bit (word_of_bytes (byte_of 0 x) (byte_of (Suc 0) x) (byte_of 2 x) (byte_of 3 x)) n = bit x n"
    by (elim disjE) (auto simp: byte_of_def word_of_bytes_def bit_simps)
qed

definition store_int :: "byte list \<Rightarrow> nat \<Rightarrow> 32 word \<Rightarrow> byte list option" where
  "store_int buf p x =
     (if p + 4 \<le> length buf
      then Some (take p buf @ [byte_of 0 x, byte_of 1 x, byte_of 2 x, byte_of 3 x] @ drop (p + 4) buf)
      else None)"

definition load_int :: "byte list \<Rightarrow> nat \<Rightarrow> 32 word option" where
  "load_int buf p =
     (if p + 4 \<le> length buf
      then Some (word_of_bytes (buf ! p) (buf ! (p + 1)) (buf ! (p + 2)) (buf ! (p + 3)))
      else None)"

definition htonl :: "32 word \<Rightarrow> 32 word" where
  "htonl x = word_of_bytes (byte_of 3 x) (byte_of 2 x) (byte_of 1 x) (byte_of 0 x)"

definition ntohl :: "32 word \<Rightarrow> 32 word" where
  "ntohl x = word_of_bytes (byte_of 3 x) (byte_of 2 x) (byte_of 1 x) (byte_of 0 x)"

text \<open>The argument of \<open>ntohs\<close> is converted to 16 bits, and its two bytes are swapped.\<close>

definition ntohs :: "32 word \<Rightarrow> 16 word" where
  "ntohs x = push_bit 8 (ucast (byte_of 0 x)) OR ucast (byte_of 1 x)"

section \<open>serialize\_message\<close>

primrec serialize_chars :: "byte list \<Rightarrow> nat \<Rightarrow> byte list \<Rightarrow> nat \<Rightarrow> nat \<Rightarrow> (byte list \<times> nat) option" where
  "serialize_chars buf p data i 0 = Some (buf, p)"
| "serialize_chars buf p data i (Suc k) =
     (if p < length buf \<and> i < length data
      then serialize_chars (buf[p := data ! i]) (p + 1) data (i + 1) k
      else None)"

primrec serialize_ints :: "byte list \<Rightarrow> nat \<Rightarrow> int list \<Rightarrow> nat \<Rightarrow> nat \<Rightarrow> (byte list \<times> nat) option" where
  "serialize_ints buf p data i 0 = Some (buf, p)"
| "serialize_ints buf p data i (Suc k) =
     (if i < length data
      then do {
        buf \<leftarrow> store_int buf p (htonl (word_of_int (data ! i)));
        serialize_ints buf (p + 4) data (i + 1) k
      }
      else None)"

primrec serialize_reservation ::
  "byte list \<Rightarrow> nat \<Rightarrow> Reservation list \<Rightarrow> nat \<Rightarrow> nat \<Rightarrow> (byte list \<times> nat) option" where
  "serialize_reservation buf p data i 0 = Some (buf, p)"
| "serialize_reservation buf p data i (Suc k) =
     (if i < length data
      then do {
        buf \<leftarrow> store_int buf p (htonl (word_of_int (res_room (data ! i))));
        buf \<leftarrow> store_int buf (p + 4) (htonl (word_of_int (res_seat_num (data ! i))));
        serialize_reservation buf (p + 8) data (i + 1) k
      }
      else None)"

definition char_bytes :: "char list \<Rightarrow> byte list" where
  "char_bytes cs = map of_char cs"

definition status_bytes :: "int list \<Rightarrow> byte list" where
  "status_bytes ss = map word_of_int ss"

text \<open>The \<open>int\<close> loop bound \<open>i < count\<close> makes no iteration for a negative count: \<open>nat count\<close>.\<close>

definition serialize_message :: "q_message \<Rightarrow> byte list \<Rightarrow> byte list option" where
  "serialize_message sent_msg buf = do {
     let mc = msg_choice sent_msg;
     let choice = message_choice_number sent_msg;
     buf \<leftarrow> store_int buf 0 (htonl (word_of_int (message_type sent_msg)));
     buf \<leftarrow> store_int buf 4 (htonl (word_of_int (client_id sent_msg)));
     buf \<leftarrow> store_int buf 8 (htonl (word_of_int choice));
     if choice = CHOICE_CONNECTION_ACCEPTED then
       store_int buf 12 (htonl (word_of_int (as_m1 mc)))
     else if choice = CHOICE_ROOMS_REQUEST then
       Some buf
     else if choice = CHOICE_ROOMS_RESPONSE then do {
       buf \<leftarrow> store_int buf 12 (htonl (word_of_int (m2_count (as_m2 mc))));
       (buf, p) \<leftarrow> serialize_ints buf 16 (m2_ids (as_m2 mc)) 0 (nat (m2_count (as_m2 mc)));
       Some buf
     }
     else if choice = CHOICE_SEATS_REQUEST then
       store_int buf 12 (htonl (word_of_int (as_m3 mc)))
     else if choice = CHOICE_SEATS_RESPONSE then do {
       buf \<leftarrow> store_int buf 12 (htonl (word_of_int (m4_success (as_m4 mc))));
       buf \<leftarrow> store_int buf 16 (htonl (word_of_int (m4_count (as_m4 mc))));
       (buf, p) \<leftarrow> serialize_ints buf 20 (m4_seats_id (as_m4 mc)) 0 (nat (m4_count (as_m4 mc)));
       (buf, p) \<leftarrow> serialize_chars buf p (status_bytes (m4_seats_status (as_m4 mc))) 0 (nat (m4_count (as_m4 mc)));
       (buf, p) \<leftarrow> serialize_chars buf p (char_bytes (m4_information (as_m4 mc))) 0 MAX_LENGTH_STRING;
       Some buf
     }
     else if choice = CHOICE_SEAT_SELECT_REQUEST then
       store_int buf 12 (htonl (word_of_int (as_m5 mc)))
     else if choice = CHOICE_SEAT_SELECT_RESPONSE \<or> choice = CHOICE_PAY_RESERVATION_RESPONSE then do {
       buf \<leftarrow> store_int buf 12 (word_of_int (m6_success (as_m6 mc)));
       (buf, p) \<leftarrow> serialize_chars buf 16 (char_bytes (m6_information (as_m6 mc))) 0 MAX_LENGTH_STRING;
       Some buf
     }
     else if choice = CHOICE_PAY_RESERVATION_REQUEST then do {
       buf \<leftarrow> store_int buf 12 (htonl (word_of_int (m7_count (as_m7 mc))));
       (buf, p) \<leftarrow> serialize_reservation buf 16 (m7_list (as_m7 mc)) 0 (nat (m7_count (as_m7 mc)));
       Some buf
     }
     else
       store_int buf 12 (htonl (word_of_int (as_m1 mc)))
   }"

section \<open>deserialize\_message\<close>

primrec deserialize_ints :: "byte list \<Rightarrow> nat \<Rightarrow> int list \<Rightarrow> nat \<Rightarrow> nat \<Rightarrow> (int list \<times> nat) option" where
  "deserialize_ints buf p dest i 0 = Some (dest, p)"
| "deserialize_ints buf p dest i (Suc k) = do {
     x \<leftarrow> load_int buf p;
     if i < length dest
     then deserialize_ints buf (p + 4) (dest[i := sint (ntohl x)]) (i + 1) k
     else None
   }"

primrec deserialize_chars :: "byte list \<Rightarrow> nat \<Rightarrow> byte list \<Rightarrow> nat \<Rightarrow> nat \<Rightarrow> (byte list \<times> nat) option" where
  "deserialize_chars buf p dest i 0 = Some (dest, p)"
| "deserialize_chars buf p dest i (Suc k) =
     (if p < length buf \<and> i < length dest
      then deserialize_chars buf (p + 1) (dest[i := buf ! p]) (i + 1) k
      else None)"

primrec deserialize_reservations ::
  "byte list \<Rightarrow> nat \<Rightarrow> Reservation list \<Rightarrow> nat \<Rightarrow> nat \<Rightarrow> (Reservation list \<times> nat) option" where
  "deserialize_reservations buf p dest i 0 = Some (dest, p)"
| "deserialize_reservations buf p dest i (Suc k) = do {
     r \<leftarrow> load_int buf p;
     s \<leftarrow> load_int buf (p + 4);
     if i < length dest
     then deserialize_reservations buf (p + 8)
            (dest[i := \<lparr>res_room = sint (ntohl r), res_seat_num = sint (ntohl s)\<rparr>]) (i + 1) k
     else None
   }"

definition byte_chars :: "byte list \<Rightarrow> char list" where
  "byte_chars bs = map (\<lambda>b. char_of (unat b)) bs"

definition byte_statuses :: "byte list \<Rightarrow> int list" where
  "byte_statuses bs = map sint bs"

text \<open>\<open>rec_msg\<close> is the message the caller passes by reference, with what it held before.\<close>

definition deserialize_message :: "q_message \<Rightarrow> byte list \<Rightarrow> q_message option" where
  "deserialize_message rec_msg buf = do {
     let mc = msg_choice rec_msg;
     t \<leftarrow> load_int buf 0;
     c \<leftarrow> load_int buf 4;
     n \<leftarrow> load_int buf 8;
     let choice = uint (ntohl n);
     let rec_msg = rec_msg\<lparr>message_type := sint (ntohl t), client_id := sint (ntohl c),
                           message_choice_number := choice\<rparr>;
     if choice = CHOICE_CONNECTION_ACCEPTED then do {
       x \<leftarrow> load_int buf 12;
       Some (rec_msg\<lparr>msg_choice := M1 (sint (ntohl x))\<rparr>)
     }
     else if choice = CHOICE_ROOMS_REQUEST then
       Some rec_msg
     else if choice = CHOICE_ROOMS_RESPONSE then do {
       x \<leftarrow> load_int buf 12;
       let count = sint (ntohl x);
       (ids, p) \<leftarrow> deserialize_ints buf 16 (m2_ids (as_m2 mc)) 0 (nat count);
       Some (rec_msg\<lparr>msg_choice := M2 \<lparr>m2_count = count, m2_ids = ids\<rparr>\<rparr>)
     }
     else if choice = CHOICE_SEATS_REQUEST then do {
       x \<leftarrow> load_int buf 12;
       Some (rec_msg\<lparr>msg_choice := M3 (sint (ntohl x))\<rparr>)
     }
     else if choice = CHOICE_SEATS_RESPONSE then do {
       s \<leftarrow> load_int buf 12;
       x \<leftarrow> load_int buf 16;
       let count = sint (ntohl x);
       (ids, p) \<leftarrow> deserialize_ints buf 20 (m4_seats_id (as_m4 mc)) 0 (nat count);
       (sts, p) \<leftarrow> deserialize_chars buf p (status_bytes (m4_seats_status (as_m4 mc))) 0 (nat count);
       (info, p) \<leftarrow> deserialize_chars buf p (char_bytes (m4_information (as_m4 mc))) 0 MAX_LENGTH_STRING;
       Some (rec_msg\<lparr>msg_choice := M4 \<lparr>m4_count = count, m4_success = sint (ntohs s),
         m4_information = byte_chars info, m4_seats_id = ids, m4_seats_status = byte_statuses sts\<rparr>\<rparr>)
     }
     else if choice = CHOICE_SEAT_SELECT_REQUEST then do {
       x \<leftarrow> load_int buf 12;
       Some (rec_msg\<lparr>msg_choice := M5 (sint (ntohl x))\<rparr>)
     }
     else if choice = CHOICE_SEAT_SELECT_RESPONSE \<or> choice = CHOICE_PAY_RESERVATION_RESPONSE then do {
       s \<leftarrow> load_int buf 12;
       (info, p) \<leftarrow> deserialize_chars buf 16 (char_bytes (m6_information (as_m6 mc))) 0 MAX_LENGTH_STRING;
       Some (rec_msg\<lparr>msg_choice := M6 \<lparr>m6_success = sint (ntohl s), m6_information = byte_chars info\<rparr>\<rparr>)
     }
     else if choice = CHOICE_PAY_RESERVATION_REQUEST then do {
       x \<leftarrow> load_int buf 12;
       let count = sint (ntohl x);
       (rs, p) \<leftarrow> deserialize_reservations buf 16 (m7_list (as_m7 mc)) 0 (nat count);
       Some (rec_msg\<lparr>msg_choice := M7 \<lparr>m7_count = count, m7_list = rs\<rparr>\<rparr>)
     }
     else do {
       x \<leftarrow> load_int buf 12;
       Some (rec_msg\<lparr>msg_choice := M1 (sint (ntohl x))\<rparr>)
     }
   }"

section \<open>Bytes in network order\<close>

text \<open>The four bytes of an \<open>int\<close>, highest first (network order) and lowest first.\<close>

definition be_int :: "int \<Rightarrow> byte list" where
  "be_int x = (let w = word_of_int x :: 32 word in [byte_of 3 w, byte_of 2 w, byte_of 1 w, byte_of 0 w])"

definition le_int :: "int \<Rightarrow> byte list" where
  "le_int x = (let w = word_of_int x :: 32 word in [byte_of 0 w, byte_of 1 w, byte_of 2 w, byte_of 3 w])"

lemma length_be_int [simp]: "length (be_int x) = 4" "length (le_int x) = 4"
  by (simp_all add: be_int_def le_int_def Let_def)

lemma length_concat_be_int [simp]: "length (concat (map be_int xs)) = 4 * length xs"
  by (induction xs) simp_all

lemma ntohl_htonl [simp]: "ntohl (htonl x) = x"
  by (simp add: ntohl_def htonl_def)

definition filled :: "byte list \<Rightarrow> byte list \<Rightarrow> byte list" where
  "filled pre b = pre @ drop (length pre) b"

lemma filled_Nil: "filled [] b = b"
  by (simp add: filled_def)

lemma store_int_filled:
  assumes "p = length pre" and "p + 4 \<le> length b"
  shows "store_int (filled pre b) p (htonl (word_of_int x)) = Some (filled (pre @ be_int x) b)"
    and "store_int (filled pre b) p (word_of_int x) = Some (filled (pre @ le_int x) b)"
proof -
  have 4: "length pre + 4 = Suc (Suc (Suc (Suc (length pre))))" by simp
  show "store_int (filled pre b) p (htonl (word_of_int x)) = Some (filled (pre @ be_int x) b)"
    and "store_int (filled pre b) p (word_of_int x) = Some (filled (pre @ le_int x) b)"
    using assms unfolding 4
    by (simp_all add: store_int_def filled_def be_int_def le_int_def htonl_def Let_def add.commute 4)
qed

lemma serialize_chars_filled:
  assumes "p = length pre" and "p + k \<le> length b" and "i + k \<le> length data"
  shows "serialize_chars (filled pre b) p data i k = Some (filled (pre @ take k (drop i data)) b, p + k)"
  using assms
proof (induction k arbitrary: pre p i)
  case 0
  then show ?case by simp
next
  case (Suc k)
  have upd: "(filled pre b)[p := data ! i] = filled (pre @ [data ! i]) b"
    using Suc.prems by (simp add: filled_def list_update_append Cons_nth_drop_Suc [symmetric])
  have "p < length (filled pre b)" using Suc.prems by (simp add: filled_def)
  with Suc.prems upd Suc.IH [of "Suc p" "pre @ [data ! i]" "Suc i"] show ?case
    by (simp add: Cons_nth_drop_Suc [symmetric])
qed

lemma serialize_ints_filled:
  assumes "p = length pre" and "p + 4 * k \<le> length b" and "i + k \<le> length data"
  shows "serialize_ints (filled pre b) p data i k =
     Some (filled (pre @ concat (map be_int (take k (drop i data)))) b, p + 4 * k)"
  using assms
proof (induction k arbitrary: pre p i)
  case 0
  then show ?case by simp
next
  case (Suc k)
  from Suc.prems Suc.IH [of "p + 4" "pre @ be_int (data ! i)" "Suc i"] show ?case
    by (simp add: store_int_filled Cons_nth_drop_Suc [symmetric])
qed

definition be_reservation :: "Reservation \<Rightarrow> byte list" where
  "be_reservation r = be_int (res_room r) @ be_int (res_seat_num r)"

lemma length_be_reservation [simp]: "length (be_reservation r) = 8"
  by (simp add: be_reservation_def)

lemma length_concat_be_reservation [simp]: "length (concat (map be_reservation rs)) = 8 * length rs"
  by (induction rs) simp_all

lemma serialize_reservation_filled:
  assumes "p = length pre" and "p + 8 * k \<le> length b" and "i + k \<le> length data"
  shows "serialize_reservation (filled pre b) p data i k =
     Some (filled (pre @ concat (map be_reservation (take k (drop i data)))) b, p + 8 * k)"
  using assms
proof (induction k arbitrary: pre p i)
  case 0
  then show ?case by simp
next
  case (Suc k)
  from Suc.prems Suc.IH [of "p + 8" "pre @ be_reservation (data ! i)" "Suc i"] show ?case
    by (simp add: store_int_filled Cons_nth_drop_Suc [symmetric] be_reservation_def)
qed

lemmas serialize_filled =
  store_int_filled serialize_chars_filled serialize_ints_filled serialize_reservation_filled

section \<open>Reading what was written\<close>

definition at :: "byte list \<Rightarrow> nat \<Rightarrow> byte list \<Rightarrow> bool" where
  "at B p bs \<longleftrightarrow> p + length bs \<le> length B \<and> take (length bs) (drop p B) = bs"

lemma at_append: "at B p (bs @ cs) \<longleftrightarrow> at B p bs \<and> at B (p + length bs) cs"
  unfolding at_def by (auto simp: take_add add.commute add.left_commute add.assoc)

lemma at_Cons: "at B p (b # bs) \<longleftrightarrow> p < length B \<and> B ! p = b \<and> at B (Suc p) bs"
  unfolding at_def
  by (auto simp: Cons_nth_drop_Suc [symmetric] take_Suc_conv_app_nth)

lemma at_Nil: "at B p [] \<longleftrightarrow> p \<le> length B"
  by (simp add: at_def)

lemma at_4:
  "at B p [a, b, c, d] \<Longrightarrow> p + 4 \<le> length B \<and> B ! p = a \<and> B ! (p + 1) = b \<and> B ! (p + 2) = c \<and> B ! (p + 3) = d"
  by (simp add: at_Cons at_Nil numeral_eq_Suc)

lemma load_int_at:
  "at B p (be_int x) \<Longrightarrow> load_int B p = Some (htonl (word_of_int x))"
  "at B p (le_int x) \<Longrightarrow> load_int B p = Some (word_of_int x)"
  unfolding be_int_def le_int_def Let_def
  by (drule at_4, simp add: load_int_def htonl_def)+

lemma deserialize_chars_at:
  assumes "at B p bs" and "k = length bs" and "i + k \<le> length dest"
  shows "deserialize_chars B p dest i k = Some (take i dest @ bs @ drop (i + k) dest, p + k)"
  using assms
proof (induction k arbitrary: p i dest bs)
  case 0
  then show ?case by simp
next
  case (Suc k)
  then obtain c cs where bs: "bs = c # cs" by (cases bs) auto
  with Suc.prems Suc.IH [of "Suc p" cs "Suc i" "dest[i := c]"] show ?case
    by (simp add: at_Cons take_Suc_conv_app_nth)
qed

lemma deserialize_ints_at:
  assumes "at B p (concat (map be_int xs))" and "k = length xs" and "i + k \<le> length dest"
    and "list_all in_int32 xs"
  shows "deserialize_ints B p dest i k = Some (take i dest @ xs @ drop (i + k) dest, p + 4 * k)"
  using assms
proof (induction k arbitrary: p i dest xs)
  case 0
  then show ?case by simp
next
  case (Suc k)
  then obtain x xs' where xs: "xs = x # xs'" by (cases xs) auto
  with Suc.prems(1) have x: "at B p (be_int x)" and rest: "at B (p + 4) (concat (map be_int xs'))"
    by (simp_all add: at_append)
  have "deserialize_ints B (p + 4) (dest[i := x]) (Suc i) k
      = Some (take (Suc i) (dest[i := x]) @ xs' @ drop (Suc i + k) (dest[i := x]), p + 4 + 4 * k)"
    by (rule Suc.IH) (use Suc.prems xs rest in simp_all)
  with Suc.prems xs load_int_at(1) [OF x] show ?case
    by (simp add: take_Suc_conv_app_nth sint_word_of_int_32)
qed

lemma deserialize_reservations_at:
  assumes "at B p (concat (map be_reservation rs))" and "k = length rs" and "i + k \<le> length dest"
    and "list_all wf_reservation rs"
  shows "deserialize_reservations B p dest i k = Some (take i dest @ rs @ drop (i + k) dest, p + 8 * k)"
  using assms
proof (induction k arbitrary: p i dest rs)
  case 0
  then show ?case by simp
next
  case (Suc k)
  then obtain r rs' where rs: "rs = r # rs'" by (cases rs) auto
  with Suc.prems(1) have r: "at B p (be_int (res_room r))" "at B (p + 4) (be_int (res_seat_num r))"
    and rest: "at B (p + 8) (concat (map be_reservation rs'))"
    by (simp_all add: at_append be_reservation_def [of r] add.assoc)
  have "deserialize_reservations B (p + 8) (dest[i := r]) (Suc i) k
      = Some (take (Suc i) (dest[i := r]) @ rs' @ drop (Suc i + k) (dest[i := r]), p + 8 + 8 * k)"
    by (rule Suc.IH) (use Suc.prems rs rest in simp_all)
  with Suc.prems rs load_int_at(1) [OF r(1)] load_int_at(1) [OF r(2)] show ?case
    by (cases r) (simp add: take_Suc_conv_app_nth sint_word_of_int_32 wf_reservation_def)
qed

lemma ntohs_htonl_bits: "ntohs (htonl w) = ucast (drop_bit 16 w)"
proof (rule bit_word_eqI)
  fix n :: nat
  have "n < 8 \<or> (8 \<le> n \<and> n < 16) \<or> 16 \<le> n" by arith
  moreover assume "n < LENGTH(16)"
  moreover have "ntohs (htonl w) = push_bit 8 (ucast (byte_of 3 w)) OR ucast (byte_of 2 w)"
    by (simp add: ntohs_def htonl_def)
  ultimately show "bit (ntohs (htonl w)) n = bit (ucast (drop_bit 16 w) :: 16 word) n"
    by (elim disjE) (auto simp: byte_of_def bit_simps)
qed

lemma high_bits_of_short:
  fixes s :: int
  assumes "- (2 ^ 15) \<le> s" and "s < 2 ^ 15" and "16 \<le> n"
  shows "bit s n \<longleftrightarrow> s < 0"
proof -
  have self: "signed_take_bit 15 s = s"
    using assms by (simp add: signed_take_bit_int_eq_self)
  have "bit (signed_take_bit 15 s) n \<longleftrightarrow> bit s 15"
    using assms(3) by (simp add: bit_signed_take_bit_iff min_def)
  moreover have "signed_take_bit 15 s < 0 \<longleftrightarrow> bit s 15"
    by (rule signed_take_bit_negative_iff)
  ultimately show ?thesis by (simp add: self)
qed

lemma ntohs_htonl_short:
  assumes "- (2 ^ 15) \<le> s" and "s < 2 ^ 15"
  shows "sint (ntohs (htonl (word_of_int s))) = (if s < 0 then -1 else 0)"
proof -
  have "ntohs (htonl (word_of_int s)) = (if s < 0 then -1 else 0)"
    by (rule bit_word_eqI) (auto simp: ntohs_htonl_bits bit_simps high_bits_of_short [OF assms])
  then show ?thesis by simp
qed


section \<open>What a message carries\<close>

datatype payload =
    P_none
  | P_id int
  | P_rooms "int list"
  | P_room int
  | P_seats int "int list" "int list" "char list"
  | P_seat int
  | P_atomic int "char list"
  | P_pay "Reservation list"

definition payload :: "q_message \<Rightarrow> payload" where
  "payload m = (
     let mc = msg_choice m; n = message_choice_number m in
     if n = CHOICE_ROOMS_REQUEST then P_none
     else if n = CHOICE_ROOMS_RESPONSE then
       P_rooms (take (nat (m2_count (as_m2 mc))) (m2_ids (as_m2 mc)))
     else if n = CHOICE_SEATS_REQUEST then P_room (as_m3 mc)
     else if n = CHOICE_SEATS_RESPONSE then
       P_seats (m4_success (as_m4 mc)) (take (nat (m4_count (as_m4 mc))) (m4_seats_id (as_m4 mc)))
         (take (nat (m4_count (as_m4 mc))) (m4_seats_status (as_m4 mc))) (m4_information (as_m4 mc))
     else if n = CHOICE_SEAT_SELECT_REQUEST then P_seat (as_m5 mc)
     else if n = CHOICE_SEAT_SELECT_RESPONSE \<or> n = CHOICE_PAY_RESERVATION_RESPONSE then
       P_atomic (m6_success (as_m6 mc)) (m6_information (as_m6 mc))
     else if n = CHOICE_PAY_RESERVATION_REQUEST then
       P_pay (take (nat (m7_count (as_m7 mc))) (m7_list (as_m7 mc)))
     else P_id (as_m1 mc))"

text \<open>The counts a message of its choice number carries are within its arrays.\<close>

definition counts_ok :: "q_message \<Rightarrow> bool" where
  "counts_ok m = (
     let mc = msg_choice m; n = message_choice_number m in
     if n = CHOICE_ROOMS_RESPONSE then 0 \<le> m2_count (as_m2 mc) \<and> m2_count (as_m2 mc) \<le> int MAX_ROOMS
     else if n = CHOICE_SEATS_RESPONSE then 0 \<le> m4_count (as_m4 mc) \<and> m4_count (as_m4 mc) \<le> int MAX_SEATS
     else if n = CHOICE_PAY_RESERVATION_REQUEST then
       0 \<le> m7_count (as_m7 mc) \<and> m7_count (as_m7 mc) \<le> int MAX_LENGTH_STRING
     else True)"

text \<open>
  What the two ends of the wire make of a payload: the \<open>success\<close> of a seats response is
  written as four bytes and read as the first two of them, and the \<open>success\<close> of an atomic
  response is written without \<open>htonl\<close> and read with \<open>ntohl\<close>.
\<close>

definition swap_int :: "int \<Rightarrow> int" where
  "swap_int x = sint (ntohl (word_of_int x))"

fun on_wire :: "payload \<Rightarrow> payload" where
  "on_wire (P_seats s ids sts info) = P_seats (if s < 0 then -1 else 0) ids sts info"
| "on_wire (P_atomic s info) = P_atomic (swap_int s) info"
| "on_wire p = p"

definition wire_header :: "q_message \<Rightarrow> byte list" where
  "wire_header m = be_int (message_type m) @ be_int (client_id m) @ be_int (message_choice_number m)"

fun wire_payload :: "payload \<Rightarrow> byte list" where
  "wire_payload P_none = []"
| "wire_payload (P_id x) = be_int x"
| "wire_payload (P_rooms ids) = be_int (int (length ids)) @ concat (map be_int ids)"
| "wire_payload (P_room x) = be_int x"
| "wire_payload (P_seats s ids sts info) =
     be_int s @ be_int (int (length ids)) @ concat (map be_int ids) @ status_bytes sts @ char_bytes info"
| "wire_payload (P_seat x) = be_int x"
| "wire_payload (P_atomic s info) = le_int s @ char_bytes info"
| "wire_payload (P_pay rs) = be_int (int (length rs)) @ concat (map be_reservation rs)"

definition wire_bytes :: "q_message \<Rightarrow> byte list" where
  "wire_bytes m = wire_header m @ wire_payload (payload m)"

lemma length_wire_header [simp]: "length (wire_header m) = 12"
  by (simp add: wire_header_def)

lemma length_char_bytes [simp]: "length (char_bytes cs) = length cs"
  by (simp add: char_bytes_def)

lemma length_status_bytes [simp]: "length (status_bytes cs) = length cs"
  by (simp add: status_bytes_def)

lemma wf_members:
  assumes "wf_message m"
  shows "message_choice_number m = 4 \<Longrightarrow> wf_m2 (as_m2 (msg_choice m))"
    and "message_choice_number m = 6 \<Longrightarrow> wf_m4 (as_m4 (msg_choice m))"
    and "message_choice_number m = 8 \<or> message_choice_number m = 12 \<Longrightarrow> wf_m6 (as_m6 (msg_choice m))"
    and "message_choice_number m = 11 \<Longrightarrow> wf_m7 (as_m7 (msg_choice m))"
proof -
  note defs = wf_message_def wf_m2_def wf_m4_def wf_m6_def wf_m7_def zero_m2_def zero_m4_def
    zero_m6_def zero_m7_def wf_reservation_def zero_Reservation_def list_all_iff
  have "wf_choice (msg_choice m)" and tag: "tagged (message_choice_number m) (msg_choice m)"
    using assms by (simp_all add: wf_message_def)
  then have fi: "in_int32 (first_int (msg_choice m))" by (simp only: in_int32_first_int)
  show "wf_m2 (as_m2 (msg_choice m))" if "message_choice_number m = 4"
    using assms fi that by (cases "msg_choice m") (simp_all add: defs del: first_int.simps(1))
  show "wf_m4 (as_m4 (msg_choice m))" if "message_choice_number m = 6"
    using assms fi that by (cases "msg_choice m") (simp_all add: defs del: first_int.simps(1))
  show "wf_m6 (as_m6 (msg_choice m))" if "message_choice_number m = 8 \<or> message_choice_number m = 12"
    using assms fi that by (cases "msg_choice m") (auto simp add: defs simp del: first_int.simps(1))
  show "wf_m7 (as_m7 (msg_choice m))" if "message_choice_number m = 11"
    using assms fi that by (cases "msg_choice m") (simp_all add: defs del: first_int.simps(1))
qed

definition SIZEOF_q_message :: nat where
  "SIZEOF_q_message = 12 + (4 + 8 * MAX_LENGTH_STRING)"

definition PACKET_SIZE :: nat where
  "PACKET_SIZE = SIZEOF_q_message + 4 * 2"

lemma wire_bytes_fit:
  assumes "wf_message m" and "counts_ok m"
  shows "length (wire_bytes m) \<le> SIZEOF_q_message"
  using assms wf_members [OF assms(1)]
  by (auto simp: wire_bytes_def payload_def counts_ok_def Let_def SIZEOF_q_message_def
      wf_m2_def wf_m4_def wf_m6_def wf_m7_def min_def)

lemma choice_cases:
  obtains "n = 2" | "n = 3" | "n = 4" | "n = 5" | "n = 6" | "n = 7" | "n = 8 \<or> n = 12" | "n = 11"
    | "n \<notin> {2, 3, 4, 5, 6, 7, 8, 11, 12 :: int}"
  by blast

lemmas wf_member_defs = wf_m2_def wf_m4_def wf_m6_def wf_m7_def

lemma header_choice:
  "0 \<le> n \<Longrightarrow> n < 2 ^ 32 \<Longrightarrow> uint (word_of_int n :: 32 word) = n"
  by (simp add: uint_word_of_int take_bit_int_eq_self)

lemma list_all_take: "list_all P xs \<Longrightarrow> list_all P (take n xs)"
  by (auto simp: list_all_iff dest: in_set_takeD)

lemma as_member_lengths:
  assumes "wf_choice mc"
  shows "length (m2_ids (as_m2 mc)) = 20" "length (m4_information (as_m4 mc)) = 500"
    "length (m4_seats_id (as_m4 mc)) = 50" "length (m4_seats_status (as_m4 mc)) = 50"
    "length (m6_information (as_m6 mc)) = 500" "length (m7_list (as_m7 mc)) = 500"
  using assms
  by (cases mc; simp add: wf_m2_def wf_m4_def wf_m6_def wf_m7_def zero_m2_def zero_m4_def zero_m6_def
      zero_m7_def)+

lemma byte_chars_char_bytes [simp]: "byte_chars (char_bytes cs) = cs"
proof -
  have "(char_of (unat (of_char c :: byte)) :: char) = c" for c
  proof -
    have "unat (of_char c :: byte) = unat (of_nat (of_char c) :: byte)"
      by (simp only: of_nat_of_char)
    also have "\<dots> = of_char c"
      by (simp only: unat_of_nat) (simp add: take_bit_nat_eq_self)
    finally show ?thesis by simp
  qed
  then show ?thesis by (simp add: byte_chars_def char_bytes_def comp_def)
qed

lemma byte_statuses_status_bytes:
  "list_all in_int8 ss \<Longrightarrow> byte_statuses (status_bytes ss) = ss"
  by (induction ss) (simp_all add: byte_statuses_def status_bytes_def sint_word_of_int_8)

lemma byte_statuses_append [simp]: "byte_statuses (xs @ ys) = byte_statuses xs @ byte_statuses ys"
  by (simp add: byte_statuses_def)

lemma length_byte_statuses [simp]: "length (byte_statuses bs) = length bs"
  by (simp add: byte_statuses_def)

lemma count_min: "0 \<le> c \<Longrightarrow> c \<le> int n \<Longrightarrow> int (min n (nat c)) = c"
  by simp

lemma count_min': "0 \<le> c \<Longrightarrow> c \<le> int n \<Longrightarrow> min n (nat c) = nat c"
  by simp

lemmas serialize_defs =
  serialize_message_def wire_bytes_def wire_header_def payload_def Let_def serialize_filled

lemmas deserialize_defs =
  deserialize_message_def wire_bytes_def wire_header_def payload_def Let_def at_append
  load_int_at header_choice sint_word_of_int_32

lemma serialize_message_bytes:
  assumes wf: "wf_message m" and ok: "counts_ok m" and fits: "length (wire_bytes m) \<le> length buf"
  shows "serialize_message m buf = Some (filled (wire_bytes m) buf)"
proof -
  have "buf = filled [] buf" by (simp add: filled_Nil)
  then have "serialize_message m buf = serialize_message m (filled [] buf)" by simp
  also have "\<dots> = Some (filled (wire_bytes m) buf)"
  proof (cases "message_choice_number m" rule: choice_cases)
    case 1 with fits show ?thesis by (simp add: serialize_defs)
  next
    case 2 with fits show ?thesis by (simp add: serialize_defs)
  next
    case 3
    with ok obtain k where k: "m2_count (as_m2 (msg_choice m)) = int k" "k \<le> 20"
      by (auto simp: counts_ok_def Let_def elim: nonneg_int_cases)
    with 3 wf_members(1) [OF wf] fits show ?thesis
      by (simp add: serialize_defs wf_m2_def)
  next
    case 4 with fits show ?thesis by (simp add: serialize_defs)
  next
    case 5
    with ok obtain k where k: "m4_count (as_m4 (msg_choice m)) = int k" "k \<le> 50"
      by (auto simp: counts_ok_def Let_def elim: nonneg_int_cases)
    with 5 wf_members(2) [OF wf] fits show ?thesis
      by (simp add: serialize_defs wf_m4_def status_bytes_def take_map)
  next
    case 6 with fits show ?thesis by (simp add: serialize_defs)
  next
    case 7 with wf_members(3) [OF wf] fits show ?thesis
      by (auto simp: serialize_defs wf_m6_def)
  next
    case 8
    with ok obtain k where k: "m7_count (as_m7 (msg_choice m)) = int k" "k \<le> 500"
      by (auto simp: counts_ok_def Let_def elim: nonneg_int_cases)
    with 8 wf_members(4) [OF wf] fits show ?thesis
      by (simp add: serialize_defs wf_m7_def)
  next
    case 9 with fits show ?thesis by (simp add: serialize_defs)
  qed
  finally show ?thesis .
qed

text \<open>\<open>deserialize_message\<close> on a buffer that starts with those bytes.\<close>

lemma deserialize_message_bytes:
  assumes wf: "wf_message m" and ok: "counts_ok m" and rec: "wf_choice (msg_choice rec_msg)"
    and at: "at B 0 (wire_bytes m)"
  shows "\<exists>r. deserialize_message rec_msg B = Some r \<and> message_type r = message_type m
     \<and> client_id r = client_id m \<and> message_choice_number r = message_choice_number m
     \<and> payload r = on_wire (payload m)"
proof -
  have rng: "in_int32 (message_type m)" "in_int32 (client_id m)"
     "0 \<le> message_choice_number m" "message_choice_number m < 2 ^ 32"
    using wf by (simp_all add: wf_message_def)
  have fi: "in_int32 (first_int (msg_choice m))"
    using wf by (intro in_int32_first_int) (simp add: wf_message_def)
  let ?mc = "msg_choice m"
  from at have hdr: "at B 0 (be_int (message_type m))" "at B 4 (be_int (client_id m))"
      "at B 8 (be_int (message_choice_number m))" and body: "at B 12 (wire_payload (payload m))"
    by (simp_all add: wire_bytes_def wire_header_def at_append)
  note simps = deserialize_message_def payload_def Let_def sint_word_of_int_32 sint_word_of_int_32 [OF rng(1)]
    sint_word_of_int_32 [OF rng(2)] header_choice [OF rng(3,4)]
    load_int_at(1) [OF hdr(1)] load_int_at(1) [OF hdr(2)] load_int_at(1) [OF hdr(3)]
    as_m1_def as_m3_def as_m5_def
  show ?thesis
  proof (cases "message_choice_number m" rule: choice_cases)
    case 1
    with body have "at B 12 (be_int (as_m1 ?mc))" by (simp add: payload_def Let_def)
    from load_int_at(1) [OF this] 1 fi show ?thesis by (simp add: simps)
  next
    case 2
    then show ?thesis by (simp add: simps)
  next
    case 3
    with body wf_members(1) [OF wf] ok have m2: "wf_m2 (as_m2 ?mc)" and
      b: "at B 12 (be_int (m2_count (as_m2 ?mc)))"
         "at B 16 (concat (map be_int (take (nat (m2_count (as_m2 ?mc))) (m2_ids (as_m2 ?mc)))))" and
      c: "0 \<le> m2_count (as_m2 ?mc)" "m2_count (as_m2 ?mc) \<le> 20"
      by (simp_all add: payload_def Let_def at_append counts_ok_def count_min wf_m2_def)
    note load_int_at(1) [OF b(1)] deserialize_ints_at [OF b(2), where i = 0, simplified]
    with 3 m2 c rec show ?thesis
      by (simp add: simps wf_m2_def as_member_lengths list_all_take)
  next
    case 4
    with body have "at B 12 (be_int (as_m3 ?mc))" by (simp add: payload_def Let_def)
    from load_int_at(1) [OF this] 4 fi show ?thesis by (simp add: simps)
  next
    case 5
    let ?n = "nat (m4_count (as_m4 ?mc))"
    from 5 body wf_members(2) [OF wf] ok have m4: "wf_m4 (as_m4 ?mc)" and
      b: "at B 12 (be_int (m4_success (as_m4 ?mc)))" "at B 16 (be_int (m4_count (as_m4 ?mc)))"
         "at B 20 (concat (map be_int (take ?n (m4_seats_id (as_m4 ?mc)))))"
         "at B (20 + 4 * ?n) (status_bytes (take ?n (m4_seats_status (as_m4 ?mc))))"
         "at B (20 + 4 * ?n + ?n) (char_bytes (m4_information (as_m4 ?mc)))" and
      c: "0 \<le> m4_count (as_m4 ?mc)" "m4_count (as_m4 ?mc) \<le> 50"
      by (simp_all add: payload_def Let_def at_append counts_ok_def wf_m4_def count_min count_min' add.assoc)
    note load_int_at(1) [OF b(1)] load_int_at(1) [OF b(2)]
      deserialize_ints_at [OF b(3), where i = 0, simplified]
      deserialize_chars_at [OF b(4), where i = 0, simplified]
      deserialize_chars_at [OF b(5), where i = 0, simplified]
    with 5 m4 c rec show ?thesis
      by (simp add: simps wf_m4_def as_member_lengths list_all_take ntohs_htonl_short
          byte_statuses_append byte_statuses_status_bytes)
  next
    case 6
    with body have "at B 12 (be_int (as_m5 ?mc))" by (simp add: payload_def Let_def)
    from load_int_at(1) [OF this] 6 fi show ?thesis by (simp add: simps)
  next
    case 7
    with body wf_members(3) [OF wf] have m6: "wf_m6 (as_m6 ?mc)" and
      b: "at B 12 (le_int (m6_success (as_m6 ?mc)))" "at B 16 (char_bytes (m6_information (as_m6 ?mc)))"
      by (auto simp: payload_def Let_def at_append)
    note load_int_at(2) [OF b(1)] deserialize_chars_at [OF b(2), where i = 0, simplified]
    with 7 m6 rec show ?thesis
      by (auto simp: simps wf_m6_def as_member_lengths swap_int_def)
  next
    case 8
    with body wf_members(4) [OF wf] ok have m7: "wf_m7 (as_m7 ?mc)" and
      b: "at B 12 (be_int (m7_count (as_m7 ?mc)))"
         "at B 16 (concat (map be_reservation (take (nat (m7_count (as_m7 ?mc))) (m7_list (as_m7 ?mc)))))" and
      c: "0 \<le> m7_count (as_m7 ?mc)" "m7_count (as_m7 ?mc) \<le> 500"
      by (simp_all add: payload_def Let_def at_append counts_ok_def count_min wf_m7_def)
    note load_int_at(1) [OF b(1)] deserialize_reservations_at [OF b(2), where i = 0, simplified]
    with 8 m7 c rec show ?thesis
      by (simp add: simps wf_m7_def as_member_lengths list_all_take)
  next
    case 9
    with body have "at B 12 (be_int (as_m1 ?mc))" by (simp add: payload_def Let_def)
    from load_int_at(1) [OF this] 9 fi show ?thesis by (simp add: simps)
  qed
qed
section \<open>From one end of the wire to the other\<close>

lemma length_filled: "length pre \<le> length b \<Longrightarrow> length (filled pre b) = length b"
  by (simp add: filled_def)

lemma at_filled: "at (filled pre b) 0 pre"
  by (simp add: at_def filled_def)

lemma at_take: "at B p bs \<Longrightarrow> p + length bs \<le> n \<Longrightarrow> at (take n B) p bs"
  by (auto simp: at_def drop_take min_def)

lemma serialize_then_deserialize:
  assumes "wf_message m" and "counts_ok m" and "wf_choice (msg_choice rec_msg)"
    and "PACKET_SIZE \<le> length buf"
  shows "\<exists>b r. serialize_message m buf = Some b \<and> length b = length buf
     \<and> deserialize_message rec_msg b = Some r \<and> message_type r = message_type m
     \<and> client_id r = client_id m \<and> message_choice_number r = message_choice_number m
     \<and> payload r = on_wire (payload m)"
proof -
  have fits: "length (wire_bytes m) \<le> length buf"
    using wire_bytes_fit [OF assms(1,2)] assms(4) by (simp add: PACKET_SIZE_def)
  with assms(1-3) show ?thesis
    using serialize_message_bytes [OF assms(1,2) fits] length_filled [OF fits]
      deserialize_message_bytes [OF assms(1-3) at_filled] by auto
qed


lemma ntohl_ntohl [simp]: "ntohl (ntohl w) = w"
  by (simp add: ntohl_def)

lemma swap_int_zero: "in_int32 s \<Longrightarrow> swap_int s = 0 \<longleftrightarrow> s = 0"
proof
  assume s: "in_int32 s" and "swap_int s = 0"
  then have "sint (ntohl (word_of_int s)) = sint (0 :: 32 word)" by (simp add: swap_int_def)
  then have "ntohl (word_of_int s) = 0" by (rule signed_word_eqI)
  then have "ntohl (ntohl (word_of_int s)) = ntohl 0" by simp
  also have "ntohl 0 = 0" by (simp add: ntohl_def byte_of_def word_of_bytes_def)
  finally have "(word_of_int s :: 32 word) = 0" by simp
  with sint_word_of_int_32 [OF s] show "s = 0" by simp
qed (simp add: swap_int_def ntohl_def byte_of_def word_of_bytes_def)

lemma swap_int_one: "swap_int 1 = 16777216"
  by (simp add: swap_int_def ntohl_def byte_of_def word_of_bytes_def)

section \<open>Properties\<close>

text \<open>
  C16. A well-formed message whose counts are within its arrays, serialized into a buffer of
  the size \<open>send_packet\<close> allocates, and deserialized by the receiver into a message that held
  anything: neither side touches memory outside its objects, the three header fields arrive
  unchanged, and what the message carries (ids, rooms, seats and their status, the seat,
  the information text, the reservations) arrives as \<open>on_wire\<close> says, which is unchanged but for
  the two \<open>success\<close> fields.
\<close>

theorem wire_transfer:
  assumes "wf_message m" and "counts_ok m" and "wf_choice (msg_choice rec_msg)"
    and "PACKET_SIZE \<le> length buf"
  shows "\<exists>b r. serialize_message m buf = Some b \<and> length b = length buf
     \<and> deserialize_message rec_msg b = Some r \<and> message_type r = message_type m
     \<and> client_id r = client_id m \<and> message_choice_number r = message_choice_number m
     \<and> payload r = on_wire (payload m)"
  using assms by (rule serialize_then_deserialize)

definition rooms_example :: q_message where
  "rooms_example = \<lparr>message_type = 7, client_id = 7, message_choice_number = CHOICE_ROOMS_RESPONSE,
     msg_choice = M2 (zero_m2\<lparr>m2_count := 3, m2_ids := [1, 2, 3] @ replicate 17 0\<rparr>)\<rparr>"

theorem wire_transfer_witness:
  "\<exists>b r. serialize_message rooms_example (replicate PACKET_SIZE 0) = Some b
     \<and> deserialize_message zero_message b = Some r \<and> payload r = P_rooms [1, 2, 3]"
proof -
  have "wf_message rooms_example" "counts_ok rooms_example" "wf_choice (msg_choice zero_message)"
    "PACKET_SIZE \<le> length (replicate PACKET_SIZE (0 :: byte))"
    by (simp_all add: rooms_example_def wf_message_def counts_ok_def zero_message_def wf_m2_def zero_m2_def Let_def list_all_iff)
  moreover have "payload rooms_example = P_rooms [1, 2, 3]"
    by (simp add: rooms_example_def payload_def Let_def)
  ultimately show ?thesis
    using wire_transfer [of rooms_example zero_message "replicate PACKET_SIZE 0"] by auto
qed

text \<open>The outcome of a seat selection or a payment on the wire: a success arrives as a
  success and only a success does, but a failure does not arrive as \<open>NOT_SUCCESS\<close>.  The
  field is written without \<open>htonl\<close> and read with \<open>ntohl\<close>, so \<open>NOT_SUCCESS\<close> (1) arrives as
  16777216.
\<close>

theorem atomic_status_on_wire:
  assumes "wf_message m" and "counts_ok m" and "wf_choice (msg_choice rec_msg)"
    and "PACKET_SIZE \<le> length buf"
    and choice: "message_choice_number m \<in> {CHOICE_SEAT_SELECT_RESPONSE, CHOICE_PAY_RESERVATION_RESPONSE}"
  shows "\<exists>b r. serialize_message m buf = Some b \<and> deserialize_message rec_msg b = Some r
     \<and> (m6_success (as_m6 (msg_choice r)) = SUCCESS \<longleftrightarrow> m6_success (as_m6 (msg_choice m)) = SUCCESS)
     \<and> (m6_success (as_m6 (msg_choice m)) = NOT_SUCCESS \<longrightarrow> m6_success (as_m6 (msg_choice r)) = 16777216)"
proof -
  obtain b r where br: "serialize_message m buf = Some b" "deserialize_message rec_msg b = Some r"
    "message_choice_number r = message_choice_number m" "payload r = on_wire (payload m)"
    using serialize_then_deserialize [OF assms(1-4)] by auto
  with choice have "m6_success (as_m6 (msg_choice r)) = swap_int (m6_success (as_m6 (msg_choice m)))"
    by (auto simp: payload_def Let_def)
  moreover have "in_int32 (m6_success (as_m6 (msg_choice m)))"
    using wf_members(3) [OF assms(1)] choice by (auto simp: wf_m6_def)
  ultimately show ?thesis
    using br swap_int_zero swap_int_one by auto
qed

definition failure_example :: q_message where
  "failure_example = \<lparr>message_type = 7, client_id = 7, message_choice_number = CHOICE_PAY_RESERVATION_RESPONSE,
     msg_choice = M6 (zero_m6\<lparr>m6_success := NOT_SUCCESS\<rparr>)\<rparr>"

theorem atomic_status_on_wire_witness:
  "\<exists>b r. serialize_message failure_example (replicate PACKET_SIZE 0) = Some b
     \<and> deserialize_message zero_message b = Some r \<and> m6_success (as_m6 (msg_choice r)) = 16777216"
proof -
  have "wf_message failure_example" "counts_ok failure_example" "wf_choice (msg_choice zero_message)"
    "PACKET_SIZE \<le> length (replicate PACKET_SIZE (0 :: byte))"
    "message_choice_number failure_example \<in> {CHOICE_SEAT_SELECT_RESPONSE, CHOICE_PAY_RESERVATION_RESPONSE}"
    by (simp_all add: failure_example_def wf_message_def counts_ok_def zero_message_def wf_m6_def zero_m6_def)
  from atomic_status_on_wire [OF this] show ?thesis
    by (auto simp: failure_example_def)
qed

text \<open>The status of a seats response does not survive the wire: it is written as four bytes
  in network order and \<open>ntohs\<close> reads the two high ones, so every non-negative \<open>success\<close>
  arrives as 0.  A \<open>NOT_SUCCESS\<close> sent by the server reads as \<open>SUCCESS\<close> at the client.
\<close>

theorem seats_status_on_wire:
  assumes "wf_message m" and "counts_ok m" and "wf_choice (msg_choice rec_msg)"
    and "PACKET_SIZE \<le> length buf"
    and choice: "message_choice_number m = CHOICE_SEATS_RESPONSE"
    and nonneg: "0 \<le> m4_success (as_m4 (msg_choice m))"
  shows "\<exists>b r. serialize_message m buf = Some b \<and> deserialize_message rec_msg b = Some r
     \<and> m4_success (as_m4 (msg_choice r)) = SUCCESS"
proof -
  obtain b r where br: "serialize_message m buf = Some b" "deserialize_message rec_msg b = Some r"
    "message_choice_number r = message_choice_number m" "payload r = on_wire (payload m)"
    using serialize_then_deserialize [OF assms(1-4)] by auto
  with choice nonneg have "m4_success (as_m4 (msg_choice r)) = 0"
    by (auto simp: payload_def Let_def)
  with br show ?thesis by auto
qed

definition seats_failure_example :: q_message where
  "seats_failure_example = \<lparr>message_type = 7, client_id = 7, message_choice_number = CHOICE_SEATS_RESPONSE,
     msg_choice = M4 (zero_m4\<lparr>m4_success := NOT_SUCCESS\<rparr>)\<rparr>"

theorem seats_status_on_wire_witness:
  "\<exists>b r. serialize_message seats_failure_example (replicate PACKET_SIZE 0) = Some b
     \<and> deserialize_message zero_message b = Some r \<and> m4_success (as_m4 (msg_choice r)) = SUCCESS"
proof -
  have "wf_message seats_failure_example" "counts_ok seats_failure_example" "wf_choice (msg_choice zero_message)"
    "PACKET_SIZE \<le> length (replicate PACKET_SIZE (0 :: byte))"
    "message_choice_number seats_failure_example = CHOICE_SEATS_RESPONSE"
    "0 \<le> m4_success (as_m4 (msg_choice seats_failure_example))"
    by (simp_all add: seats_failure_example_def wf_message_def counts_ok_def zero_message_def wf_m4_def zero_m4_def Let_def list_all_iff)
  from seats_status_on_wire [OF this] show ?thesis .
qed

section \<open>Whatever arrives\<close>

text \<open>The loops that read an array keep its length and its type, and run within it.\<close>

lemma deserialize_ints_fits:
  "deserialize_ints buf p dest i k = Some (d, p') \<Longrightarrow> list_all in_int32 dest \<Longrightarrow>
    length d = length dest \<and> list_all in_int32 d \<and> (k = 0 \<or> i + k \<le> length dest)"
proof (induction k arbitrary: p dest i)
  case (Suc k)
  from Suc.prems obtain x where x: "i < length dest"
    "deserialize_ints buf (p + 4) (dest[i := sint (ntohl x)]) (i + 1) k = Some (d, p')"
    by (auto simp: bind_eq_Some_conv split: if_splits)
  have "in_int32 (sint (ntohl x))" using sint_range_size [of "ntohl x"] by (simp add: word_size)
  then have "list_all in_int32 (dest[i := sint (ntohl x)])"
    using Suc.prems(2) by (auto simp: list_all_iff dest!: subsetD [OF set_update_subset_insert])
  from Suc.IH [OF x(2) this] x(1) show ?case by auto
qed simp

lemma deserialize_chars_fits:
  "deserialize_chars buf p dest i k = Some (d, p') \<Longrightarrow> length d = length dest \<and> (k = 0 \<or> i + k \<le> length dest)"
proof (induction k arbitrary: p dest i)
  case (Suc k)
  then have x: "i < length dest" "deserialize_chars buf (p + 1) (dest[i := buf ! p]) (i + 1) k = Some (d, p')"
    by (auto split: if_splits)
  from Suc.IH [OF x(2)] x(1) show ?case by auto
qed simp

lemma deserialize_reservations_fits:
  "deserialize_reservations buf p dest i k = Some (d, p') \<Longrightarrow> list_all wf_reservation dest \<Longrightarrow>
    length d = length dest \<and> list_all wf_reservation d \<and> (k = 0 \<or> i + k \<le> length dest)"
proof (induction k arbitrary: p dest i)
  case (Suc k)
  from Suc.prems obtain x y where x: "i < length dest"
    "deserialize_reservations buf (p + 8) (dest[i := \<lparr>res_room = sint (ntohl x), res_seat_num = sint (ntohl y)\<rparr>]) (i + 1) k = Some (d, p')"
    by (auto simp: bind_eq_Some_conv split: if_splits)
  have "wf_reservation \<lparr>res_room = sint (ntohl x), res_seat_num = sint (ntohl y)\<rparr>"
    using sint_range_size [of "ntohl x"] sint_range_size [of "ntohl y"] by (simp add: word_size wf_reservation_def)
  then have "list_all wf_reservation (dest[i := \<lparr>res_room = sint (ntohl x), res_seat_num = sint (ntohl y)\<rparr>])"
    using Suc.prems(2) by (auto simp: list_all_iff dest!: subsetD [OF set_update_subset_insert])
  from Suc.IH [OF x(2) this] x(1) show ?case by auto
qed simp

text \<open>The counts a message carries are at most the lengths of its arrays.\<close>

definition counts_bounded :: "q_message \<Rightarrow> bool" where
  "counts_bounded m \<longleftrightarrow> (let mc = msg_choice m; n = message_choice_number m in
     if n = CHOICE_ROOMS_RESPONSE then m2_count (as_m2 mc) \<le> int MAX_ROOMS
     else if n = CHOICE_SEATS_RESPONSE then m4_count (as_m4 mc) \<le> int MAX_SEATS
     else if n = CHOICE_PAY_RESERVATION_REQUEST then m7_count (as_m7 mc) \<le> int MAX_LENGTH_STRING
     else True)"

lemma sint_in_int32: "in_int32 (sint (x :: 32 word))"
  using sint_range_size [of x] by (simp add: word_size)

lemma sint_in_int8: "in_int8 (sint (x :: 8 word))"
  using sint_range_size [of x] by (simp add: word_size)

lemma byte_statuses_in_int8: "list_all in_int8 (byte_statuses bs)"
  by (simp add: byte_statuses_def list_all_iff sint_in_int8 [simplified])

lemma as_member_ints:
  assumes "wf_choice mc"
  shows "list_all in_int32 (m2_ids (as_m2 mc))" "list_all in_int32 (m4_seats_id (as_m4 mc))"
    "list_all wf_reservation (m7_list (as_m7 mc))"
  using assms
  by (cases mc; simp add: wf_m2_def wf_m4_def wf_m6_def wf_m7_def zero_m2_def zero_m4_def zero_m6_def
      zero_m7_def list_all_iff zero_Reservation_def wf_reservation_def)+

lemma uint_below: "0 \<le> uint (x :: 32 word)" "uint (x :: 32 word) < 2 ^ 32"
  using uint_lt2p [of x] by simp_all

lemma sint_in_int16: "- (2 ^ 15) \<le> sint (x :: 16 word)" "sint (x :: 16 word) < 2 ^ 15"
  using sint_range_size [of x] by (simp_all add: word_size)

lemma deserialize_fits:
  assumes "deserialize_message rec_msg buf = Some r" and "wf_choice (msg_choice rec_msg)"
  shows "in_int32 (message_type r) \<and> in_int32 (client_id r)
     \<and> 0 \<le> message_choice_number r \<and> message_choice_number r < 2 ^ 32
     \<and> wf_choice (msg_choice r) \<and> counts_bounded r"
proof -
  let ?mc = "msg_choice rec_msg"
  from assms(1) obtain t c n where h: "load_int buf 0 = Some t" "load_int buf 4 = Some c" "load_int buf 8 = Some n"
    by (auto simp: deserialize_message_def Let_def bind_eq_Some_conv)
  have head: "message_type r = sint (ntohl t) \<and> client_id r = sint (ntohl c) \<and> message_choice_number r = uint (ntohl n)"
    using assms(1) by (auto simp: deserialize_message_def h Let_def bind_eq_Some_conv split: if_splits)
  note fits = deserialize_ints_fits [OF _ as_member_ints(1) [OF assms(2)]] deserialize_ints_fits [OF _ as_member_ints(2) [OF assms(2)]]
    deserialize_reservations_fits [OF _ as_member_ints(3) [OF assms(2)]] deserialize_chars_fits
  have "wf_choice (msg_choice r) \<and> counts_bounded r"
    using assms(1)
    by (auto simp: deserialize_message_def h Let_def bind_eq_Some_conv counts_bounded_def
        wf_m2_def wf_m4_def wf_m6_def wf_m7_def as_member_lengths [OF assms(2)] sint_in_int32 [simplified] sint_in_int16 [simplified]
        byte_statuses_in_int8 [unfolded byte_statuses_def] byte_chars_def byte_statuses_def status_bytes_def char_bytes_def assms(2) dest!: fits split: if_splits)
  then show ?thesis using head sint_in_int32 uint_below by auto
qed


text \<open>
  The packet as the protocol means it: four bytes are an \<open>int\<close> in network order, two of them a \<open>short\<close>, and the payload
  follows the header in the order of the members, as many entries as the count in front of them says.
\<close>

definition net_word :: "byte list \<Rightarrow> nat \<Rightarrow> 32 word" where
  "net_word B p = word_of_bytes (B ! (p + 3)) (B ! (p + 2)) (B ! (p + 1)) (B ! p)"

definition net_int :: "byte list \<Rightarrow> nat \<Rightarrow> int" where
  "net_int B p = sint (net_word B p)"

definition net_short :: "byte list \<Rightarrow> nat \<Rightarrow> int" where
  "net_short B p = sint (push_bit 8 (ucast (B ! p)) OR ucast (B ! (p + 1)) :: 16 word)"

definition net_ints :: "byte list \<Rightarrow> nat \<Rightarrow> nat \<Rightarrow> int list" where
  "net_ints B p k = map (\<lambda>i. net_int B (p + 4 * i)) [0..<k]"

definition net_reservations :: "byte list \<Rightarrow> nat \<Rightarrow> nat \<Rightarrow> Reservation list" where
  "net_reservations B p k =
     map (\<lambda>i. \<lparr>res_room = net_int B (p + 8 * i), res_seat_num = net_int B (p + 8 * i + 4)\<rparr>) [0..<k]"

text \<open>The count a packet announces for its array, and the length of that array.\<close>

definition net_count :: "int \<Rightarrow> byte list \<Rightarrow> int" where
  "net_count choice B =
     (if choice = CHOICE_ROOMS_RESPONSE \<or> choice = CHOICE_PAY_RESERVATION_REQUEST then net_int B 12
      else if choice = CHOICE_SEATS_RESPONSE then net_int B 16 else 0)"

definition array_length :: "int \<Rightarrow> nat" where
  "array_length choice =
     (if choice = CHOICE_ROOMS_RESPONSE then MAX_ROOMS
      else if choice = CHOICE_SEATS_RESPONSE then MAX_SEATS else MAX_LENGTH_STRING)"

definition net_payload :: "int \<Rightarrow> byte list \<Rightarrow> payload" where
  "net_payload choice B =
     (let k = nat (net_count choice B) in
      if choice = CHOICE_ROOMS_REQUEST then P_none
      else if choice = CHOICE_ROOMS_RESPONSE then P_rooms (net_ints B 16 k)
      else if choice = CHOICE_SEATS_REQUEST then P_room (net_int B 12)
      else if choice = CHOICE_SEATS_RESPONSE then
        P_seats (net_short B 12) (net_ints B 20 k) (byte_statuses (take k (drop (20 + 4 * k) B)))
          (byte_chars (take MAX_LENGTH_STRING (drop (20 + 5 * k) B)))
      else if choice = CHOICE_SEAT_SELECT_REQUEST then P_seat (net_int B 12)
      else if choice = CHOICE_SEAT_SELECT_RESPONSE \<or> choice = CHOICE_PAY_RESERVATION_RESPONSE then
        P_atomic (net_int B 12) (byte_chars (take MAX_LENGTH_STRING (drop 16 B)))
      else if choice = CHOICE_PAY_RESERVATION_REQUEST then P_pay (net_reservations B 16 k)
      else P_id (net_int B 12))"

lemma load_int_net: "p + 4 \<le> length B \<Longrightarrow> load_int B p = Some (ntohl (net_word B p))"
  by (simp add: load_int_def net_word_def ntohl_def)

lemma ntohs_net: "p + 4 \<le> length B \<Longrightarrow> sint (ntohs (ntohl (net_word B p))) = net_short B p"
  by (simp add: net_word_def ntohl_def ntohs_def net_short_def)

lemma net_ints_Suc: "net_ints B p (Suc k) = net_int B p # net_ints B (p + 4) k"
  by (simp add: net_ints_def upt_conv_Cons map_Suc_upt [symmetric] del: upt_Suc map_Suc_upt) (simp add: algebra_simps)

lemma net_reservations_Suc:
  "net_reservations B p (Suc k) = \<lparr>res_room = net_int B p, res_seat_num = net_int B (p + 4)\<rparr> # net_reservations B (p + 8) k"
  by (simp add: net_reservations_def upt_conv_Cons map_Suc_upt [symmetric] del: upt_Suc map_Suc_upt) (simp add: algebra_simps)

lemma length_net [simp]: "length (net_ints B p k) = k" "length (net_reservations B p k) = k"
  by (simp_all add: net_ints_def net_reservations_def)

text \<open>The loops on a buffer that is long enough.\<close>

lemma deserialize_ints_net:
  "p + 4 * k \<le> length B \<Longrightarrow> i + k \<le> length dest \<Longrightarrow>
    deserialize_ints B p dest i k = Some (take i dest @ net_ints B p k @ drop (i + k) dest, p + 4 * k)"
proof (induction k arbitrary: p dest i)
  case 0
  then show ?case by (simp add: net_ints_def)
next
  case (Suc k)
  then show ?case
    using Suc.IH [of "p + 4" "Suc i" "dest[i := net_int B p]"]
    by (simp add: load_int_net net_int_def [symmetric] net_ints_Suc take_Suc_conv_app_nth)
qed

lemma deserialize_reservations_net:
  "p + 8 * k \<le> length B \<Longrightarrow> i + k \<le> length dest \<Longrightarrow>
    deserialize_reservations B p dest i k = Some (take i dest @ net_reservations B p k @ drop (i + k) dest, p + 8 * k)"
proof (induction k arbitrary: p dest i)
  case 0
  then show ?case by (simp add: net_reservations_def)
next
  case (Suc k)
  then show ?case
    using Suc.IH [of "p + 8" "Suc i" "dest[i := \<lparr>res_room = net_int B p, res_seat_num = net_int B (p + 4)\<rparr>]"]
    by (simp add: load_int_net net_int_def [symmetric] net_reservations_Suc take_Suc_conv_app_nth)
qed

lemma deserialize_chars_net:
  assumes "p + k \<le> length B" and "i + k \<le> length dest"
  shows "deserialize_chars B p dest i k = Some (take i dest @ take k (drop p B) @ drop (i + k) dest, p + k)"
  using deserialize_chars_at [of B p "take k (drop p B)" k i dest] assms by (simp add: at_def)

text \<open>They run out of the array when there are more entries than it has.\<close>

lemma deserialize_ints_over: "length dest < i + k \<Longrightarrow> 0 < k \<Longrightarrow> deserialize_ints B p dest i k = None"
proof (induction k arbitrary: p dest i)
  case (Suc k)
  have "deserialize_ints B p' (dest[i := x]) (Suc i) k = None" if "i < length dest" for p' x
    using Suc.prems that by (intro Suc.IH) auto
  then show ?case by (auto split: Option.bind_split)
qed simp

lemma deserialize_reservations_over: "length dest < i + k \<Longrightarrow> 0 < k \<Longrightarrow> deserialize_reservations B p dest i k = None"
proof (induction k arbitrary: p dest i)
  case (Suc k)
  have "deserialize_reservations B p' (dest[i := x]) (Suc i) k = None" if "i < length dest" for p' x
    using Suc.prems that by (intro Suc.IH) auto
  then show ?case by (auto split: Option.bind_split)
qed simp

text \<open>C17. Any packet at all: whatever the \<open>PACKET_SIZE\<close> bytes are, \<open>deserialize_message\<close> writes past the end of an array
  exactly when the count the packet announces for it is larger than the array, which the code never checks; otherwise
  the message it returns has the header and the payload that the bytes spell in network order (a negative count means an
  empty array), and fits its C types.\<close>

theorem any_packet_received:
  assumes "length B = PACKET_SIZE" and "wf_choice (msg_choice rec_msg)" and "choice = uint (net_word B 8)"
  shows "(deserialize_message rec_msg B = None \<longleftrightarrow> int (array_length choice) < net_count choice B)
     \<and> (\<forall>r. deserialize_message rec_msg B = Some r \<longrightarrow>
          message_type r = net_int B 0 \<and> client_id r = net_int B 4 \<and> message_choice_number r = choice
        \<and> payload r = net_payload choice B \<and> wf_choice (msg_choice r) \<and> counts_bounded r)"
proof -
  have len: "length B = 4024" using assms(1) by (simp add: PACKET_SIZE_def SIZEOF_q_message_def)
  note fits = deserialize_fits [OF _ assms(2)]
  note lens = as_member_lengths [OF assms(2)]
  note simps = deserialize_message_def payload_def net_payload_def Let_def load_int_net len net_count_def array_length_def
    as_m1_def as_m3_def as_m5_def net_int_def [symmetric] assms(3) [symmetric] lens ntohs_net
  have "(deserialize_message rec_msg B = None \<longleftrightarrow> int (array_length choice) < net_count choice B)
     \<and> (\<forall>r. deserialize_message rec_msg B = Some r \<longrightarrow> message_type r = net_int B 0 \<and> client_id r = net_int B 4
        \<and> message_choice_number r = choice \<and> payload r = net_payload choice B)"
  proof (cases choice rule: choice_cases)
    case 3
    show ?thesis
    proof (cases "nat (net_int B 12) \<le> 20")
      case True
      then show ?thesis using 3 by (simp add: simps deserialize_ints_net)
    next
      case False
      then show ?thesis using 3 by (simp add: simps deserialize_ints_over)
    qed
  next
    case 5
    show ?thesis
    proof (cases "nat (net_int B 16) \<le> 50")
      case True
      then show ?thesis using 5 by (simp add: simps deserialize_ints_net deserialize_chars_net add.commute)
    next
      case False
      then show ?thesis using 5 by (simp add: simps deserialize_ints_over)
    qed
  next
    case 8
    show ?thesis
    proof (cases "nat (net_int B 12) \<le> 500")
      case True
      then show ?thesis using 8 by (simp add: simps deserialize_reservations_net)
    next
      case False
      then show ?thesis using 8 by (simp add: simps deserialize_reservations_over)
    qed
  next
    case 7
    then show ?thesis by (auto simp: simps deserialize_chars_net)
  qed (simp_all add: simps)
  then show ?thesis using fits by blast
qed

text \<open>A packet that announces three rooms, one that announces \<open>-1\<close> and one that announces 21.\<close>

definition rooms_packet :: "byte list \<Rightarrow> byte list" where
  "rooms_packet count = [0,0,0,1, 0,0,0,7, 0,0,0,4] @ count @ [0,0,0,5, 0,0,0,6, 0,0,1,0] @ replicate (PACKET_SIZE - 28) 0"

theorem any_packet_received_witness:
  "(\<exists>r. deserialize_message zero_message (rooms_packet [0,0,0,3]) = Some r \<and> client_id r = 7 \<and> payload r = P_rooms [5, 6, 256])
   \<and> (\<exists>r. deserialize_message zero_message (rooms_packet [255,255,255,255]) = Some r \<and> payload r = P_rooms [])
   \<and> deserialize_message zero_message (rooms_packet [0,0,0,21]) = None"
proof -
  have h: "length (rooms_packet c) = PACKET_SIZE" if "length c = 4" for c
    using that by (simp add: rooms_packet_def PACKET_SIZE_def SIZEOF_q_message_def)
  have rec: "wf_choice (msg_choice zero_message)" by (simp add: zero_message_def)
  have choice: "uint (net_word (rooms_packet c) 8) = 4" for c
    by (simp add: net_word_def rooms_packet_def word_of_bytes_def)
  have vals: "net_int (rooms_packet [0,0,0,3]) 12 = 3" "net_int (rooms_packet [255,255,255,255]) 12 = - 1"
    "net_int (rooms_packet [0,0,0,21]) 12 = 21" "net_int (rooms_packet [0,0,0,3]) 4 = 7"
    "net_ints (rooms_packet [0,0,0,3]) 16 3 = [5, 6, 256]"
    by (simp_all add: net_ints_def net_int_def net_word_def rooms_packet_def word_of_bytes_def upt_conv_Cons)
  note t = any_packet_received [OF h rec choice [symmetric]]
  show ?thesis
    using t [of "[0,0,0,3]"] t [of "[255,255,255,255]"] t [of "[0,0,0,21]"]
    by (auto simp: net_count_def array_length_def net_payload_def vals net_ints_def [of _ _ 0])
qed

end
