(* ===== verification/Sockets.thy ===== *)
theory Sockets
  imports Wire
begin

text \<open>
  src/network/socket.cpp (the wrappers of the socket calls, \<open>send_packet\<close> and
  \<open>receive_packet\<close>) and src/network/network_comm.cpp.

  The operating system's socket calls are the parameter \<open>sock_api\<close>: functions on a kernel
  state \<open>'k\<close> that return what the call returns.  The two packet loops may not end, so they
  are \<open>partial_function (option)\<close>: \<open>None\<close> is a call that never returns.
\<close>

record 'k sock_api =
  k_socket :: "'k \<Rightarrow> int \<times> 'k"
  k_connect :: "int \<Rightarrow> string \<Rightarrow> int \<Rightarrow> 'k \<Rightarrow> int \<times> 'k"      \<comment> \<open>descriptor, address, port\<close>
  k_bind :: "int \<Rightarrow> string \<Rightarrow> int \<Rightarrow> 'k \<Rightarrow> int \<times> 'k"
  k_listen :: "int \<Rightarrow> int \<Rightarrow> 'k \<Rightarrow> int \<times> 'k"                 \<comment> \<open>descriptor, backlog\<close>
  k_accepting :: "int \<Rightarrow> 'k \<Rightarrow> int \<times> int"                    \<comment> \<open>\<open>getsockopt SO_ACCEPTCONN\<close>: result, value\<close>
  k_accept :: "int \<Rightarrow> 'k \<Rightarrow> (int \<times> string \<times> int) \<times> 'k"      \<comment> \<open>descriptor, peer address, \<open>sin_port\<close>\<close>
  k_close :: "int \<Rightarrow> 'k \<Rightarrow> int \<times> 'k"
  k_send :: "int \<Rightarrow> byte list \<Rightarrow> 'k \<Rightarrow> int \<times> 'k"
  k_recv :: "int \<Rightarrow> nat \<Rightarrow> 'k \<Rightarrow> (int \<times> byte list) \<times> 'k"

definition MAX_BACKLOG_CONN :: int where "MAX_BACKLOG_CONN = 20"
definition CINEMA_IP_ADDR :: string where "CINEMA_IP_ADDR = ''192.168.1.102''"
definition CINEMA_PORT :: int where "CINEMA_PORT = 8080"
definition ADMIN_PORT :: int where "ADMIN_PORT = 8090"

section \<open>The wrappers of the socket calls\<close>

definition create_sock_fd :: "'k sock_api \<Rightarrow> (int, 'k) prog" where
  "create_sock_fd K = andThen (\<lambda>k. let (fd, k') = k_socket K k in (Ret fd, k')) (\<lambda>ret_sockfd.
     if ret_sockfd < 0 then throw_util else ret ret_sockfd)"

definition connect_socket :: "'k sock_api \<Rightarrow> int \<Rightarrow> string \<Rightarrow> int \<Rightarrow> (int, 'k) prog" where
  "connect_socket K sock_fd ip_addr port =
     andThen (\<lambda>k. let (r, k') = k_connect K sock_fd ip_addr port k in (Ret r, k')) (\<lambda>connect_res.
       if connect_res < 0 then throw_util else ret connect_res)"

definition bind_socket :: "'k sock_api \<Rightarrow> int \<Rightarrow> string \<Rightarrow> int \<Rightarrow> (int, 'k) prog" where
  "bind_socket K sock_fd ip_addr port =
     andThen (\<lambda>k. let (r, k') = k_bind K sock_fd ip_addr port k in (Ret r, k')) (\<lambda>bind_res.
       if bind_res < 0 then throw_util else ret bind_res)"

definition listen_socket :: "'k sock_api \<Rightarrow> int \<Rightarrow> (int, 'k) prog" where
  "listen_socket K sock_fd =
     andThen (\<lambda>k. let (r, k') = k_listen K sock_fd MAX_BACKLOG_CONN k in (Ret r, k')) (\<lambda>res_listen.
       if res_listen < 0 then throw_util else ret res_listen)"

definition accept_connection :: "'k sock_api \<Rightarrow> int \<Rightarrow> (int \<times> string \<times> int, 'k) prog" where
  "accept_connection K sock_fd = (\<lambda>k.
     let (res, val) = k_accepting K sock_fd k in
     if res = -1 then throw_util k
     else if val = 0 then throw_util k
     else let (client, k') = k_accept K sock_fd k in (Ret client, k'))"

definition close_socket :: "'k sock_api \<Rightarrow> int \<Rightarrow> (int, 'k) prog" where
  "close_socket K sock_fd =
     andThen (\<lambda>k. let (r, k') = k_close K sock_fd k in (Ret r, k')) (\<lambda>res.
       if res < 0 then throw_util else ret res)"

section \<open>send\_packet and receive\_packet\<close>

text \<open>
  The loop of \<open>send_packet\<close>: \<open>data\<close> is what \<open>data_buffer\<close> still points to, up to the end
  of the packet, so its length is \<open>msg_size - sent_bytes\<close>.
\<close>

partial_function (option) send_loop ::
  "'k sock_api \<Rightarrow> int \<Rightarrow> byte list \<Rightarrow> nat \<Rightarrow> nat \<Rightarrow> 'k \<Rightarrow> (int outcome \<times> 'k) option" where
  "send_loop K sock_fd data_buffer msg_size sent_bytes k =
     (if sent_bytes < msg_size then
        let (temp, k') = k_send K sock_fd (take (msg_size - sent_bytes) data_buffer) k in
        if temp < 0 then Some (Exit 1, k')
        else send_loop K sock_fd (drop (nat temp) data_buffer) msg_size (sent_bytes + nat temp) k'
      else Some (Ret 1, k))"

text \<open>\<open>junk\<close> is the contents of the memory \<open>malloc\<close> returns.\<close>

definition send_packet ::
  "'k sock_api \<Rightarrow> byte list \<Rightarrow> int \<Rightarrow> q_message \<Rightarrow> 'k \<Rightarrow> (int outcome \<times> 'k) option" where
  "send_packet K junk sock_fd msg_to_send k =
     (case serialize_message msg_to_send junk of
        None \<Rightarrow> Some (Undef, k)
      | Some data_buffer \<Rightarrow> send_loop K sock_fd data_buffer PACKET_SIZE 0 k)"

text \<open>
  The loop of \<open>receive_packet\<close>: \<open>buf\<close> is the part of the buffer filled so far.  \<open>recv\<close> returns
  a negative number on an error, 0 once the peer has closed, or the number of bytes it wrote.
\<close>

partial_function (option) recv_loop ::
  "'k sock_api \<Rightarrow> int \<Rightarrow> byte list \<Rightarrow> nat \<Rightarrow> 'k \<Rightarrow> (byte list outcome \<times> 'k) option" where
  "recv_loop K sock_fd buf msg_size k =
     (if length buf < msg_size then
        let ((temp, data), k') = k_recv K sock_fd (msg_size - length buf) k in
        if temp < 0 then Some (Exit 1, k')
        else recv_loop K sock_fd (buf @ take (nat temp) data) msg_size k'
      else Some (Ret buf, k))"

definition receive_packet ::
  "'k sock_api \<Rightarrow> int \<Rightarrow> q_message \<Rightarrow> 'k \<Rightarrow> (q_message outcome \<times> 'k) option" where
  "receive_packet K sock_fd received_msg k =
     (case recv_loop K sock_fd [] PACKET_SIZE k of
        None \<Rightarrow> None
      | Some (Ret data_buffer, k') \<Rightarrow>
          (case deserialize_message received_msg data_buffer of
             None \<Rightarrow> Some (Undef, k')
           | Some m \<Rightarrow> Some (Ret m, k'))
      | Some (Exit c, k') \<Rightarrow> Some (Exit c, k')
      | Some (Undef, k') \<Rightarrow> Some (Undef, k')
      | Some (Blocked, k') \<Rightarrow> Some (Blocked, k'))"

section \<open>network\_comm.cpp\<close>

record network_comm =
  nc_sock_fd :: int
  nc_ip_addr :: string
  nc_port :: int            \<comment> \<open>an \<open>unsigned short\<close>\<close>

definition network_newconn :: "'k sock_api \<Rightarrow> string \<Rightarrow> int \<Rightarrow> (network_comm, 'k) prog" where
  "network_newconn K ip_addr port = andThen (create_sock_fd K) (\<lambda>fd.
     ret \<lparr>nc_sock_fd = fd, nc_ip_addr = ip_addr, nc_port = port\<rparr>)"

definition network_prepare_accept :: "'k sock_api \<Rightarrow> network_comm \<Rightarrow> (unit, 'k) prog" where
  "network_prepare_accept K net_com =
     andThen (bind_socket K (nc_sock_fd net_com) (nc_ip_addr net_com) (nc_port net_com)) (\<lambda>_.
     andThen (listen_socket K (nc_sock_fd net_com)) (\<lambda>_. ret ()))"

definition network_accept_connection :: "'k sock_api \<Rightarrow> network_comm \<Rightarrow> (network_comm, 'k) prog" where
  "network_accept_connection K net_com =
     andThen (accept_connection K (nc_sock_fd net_com)) (\<lambda>(fd, addr, sin_port).
       ret \<lparr>nc_sock_fd = fd, nc_ip_addr = addr, nc_port = sin_port\<rparr>)"

definition network_connect :: "'k sock_api \<Rightarrow> network_comm \<Rightarrow> (unit, 'k) prog" where
  "network_connect K net_com =
     andThen (connect_socket K (nc_sock_fd net_com) (nc_ip_addr net_com) (nc_port net_com)) (\<lambda>_. ret ())"

definition network_delete :: "'k sock_api \<Rightarrow> network_comm \<Rightarrow> (unit, 'k) prog" where
  "network_delete K net_com = andThen (close_socket K (nc_sock_fd net_com)) (\<lambda>_. ret ())"

definition network_send_data ::
  "'k sock_api \<Rightarrow> byte list \<Rightarrow> network_comm \<Rightarrow> q_message \<Rightarrow> 'k \<Rightarrow> (int outcome \<times> 'k) option" where
  "network_send_data K junk net_com m = send_packet K junk (nc_sock_fd net_com) m"

definition network_receive_data ::
  "'k sock_api \<Rightarrow> network_comm \<Rightarrow> q_message \<Rightarrow> 'k \<Rightarrow> (q_message outcome \<times> 'k) option" where
  "network_receive_data K net_com m = receive_packet K (nc_sock_fd net_com) m"


section \<open>What the program relies on of a stream socket\<close>

text \<open>
  \<open>out\<close> is what a kernel has accepted for the peer and \<open>inp\<close> what it holds for the program.
  \<open>send\<close> takes a prefix of the data or fails; \<open>recv\<close> hands over the next bytes, at most as
  many as asked for, or fails.  Neither returns 0 while there is something to move.
\<close>

definition sends_stream :: "'k sock_api \<Rightarrow> ('k \<Rightarrow> byte list) \<Rightarrow> bool" where
  "sends_stream K out \<longleftrightarrow> (\<forall>fd d k. case k_send K fd d k of (n, k') \<Rightarrow>
     (n < 0 \<and> out k' = out k) \<or> (0 \<le> n \<and> n \<le> int (length d) \<and> out k' = out k @ take (nat n) d))"

definition send_progress :: "'k sock_api \<Rightarrow> bool" where
  "send_progress K \<longleftrightarrow> (\<forall>fd d k. d \<noteq> [] \<longrightarrow> fst (k_send K fd d k) \<noteq> 0)"

definition receives_stream :: "'k sock_api \<Rightarrow> ('k \<Rightarrow> byte list) \<Rightarrow> bool" where
  "receives_stream K inp \<longleftrightarrow> (\<forall>fd n k. case k_recv K fd n k of ((t, d), k') \<Rightarrow>
     (t < 0 \<and> inp k' = inp k) \<or> (t = int (length d) \<and> length d \<le> n \<and> inp k = d @ inp k'))"

definition recv_progress :: "'k sock_api \<Rightarrow> ('k \<Rightarrow> byte list) \<Rightarrow> bool" where
  "recv_progress K inp \<longleftrightarrow> (\<forall>fd n k. 0 < n \<longrightarrow> inp k \<noteq> [] \<longrightarrow> fst (fst (k_recv K fd n k)) \<noteq> 0)"

definition recv_no_error :: "'k sock_api \<Rightarrow> bool" where
  "recv_no_error K \<longleftrightarrow> (\<forall>fd n k. 0 \<le> fst (fst (k_recv K fd n k)))"

text \<open>A \<open>recv\<close> has failed on the way from \<open>k\<close> to \<open>k'\<close>, when some of the \<open>n\<close> bytes wanted had come.\<close>

definition recv_failed :: "'k sock_api \<Rightarrow> ('k \<Rightarrow> byte list) \<Rightarrow> int \<Rightarrow> nat \<Rightarrow> 'k \<Rightarrow> 'k \<Rightarrow> bool" where
  "recv_failed K inp fd n k k' \<longleftrightarrow> (\<exists>got k1 t d. inp k = got @ inp k1 \<and> length got < n
     \<and> k_recv K fd (n - length got) k1 = ((t, d), k') \<and> t < 0)"

lemma recv_failed_now: "k_recv K fd n k = ((t, d), k') \<Longrightarrow> t < 0 \<Longrightarrow> 0 < n \<Longrightarrow> recv_failed K inp fd n k k'"
  unfolding recv_failed_def by (intro exI [of _ "[]"] exI [of _ k]) auto

lemma recv_failed_later:
  assumes "recv_failed K inp fd (n - length d) k k''" and "inp k0 = d @ inp k" and "length d \<le> n"
  shows "recv_failed K inp fd n k0 k''"
proof -
  obtain got k1 t e where f: "inp k = got @ inp k1" "length got < n - length d"
    "k_recv K fd (n - length d - length got) k1 = ((t, e), k'')" "t < 0"
    using assms(1) unfolding recv_failed_def by blast
  then show ?thesis
    unfolding recv_failed_def using assms(2,3) by (intro exI [of _ "d @ got"] exI [of _ k1]) auto
qed

lemma send_loop_total:
  assumes stream: "sends_stream K out" and prog: "send_progress K"
    and "length data = n - sent" and "sent \<le> n"
  shows "\<exists>p k'. (send_loop K fd data n sent k = Some (Ret 1, k') \<and> out k' = out k @ data)
     \<or> (send_loop K fd data n sent k = Some (Exit 1, k') \<and> out k' = out k @ take p data \<and> p < length data)"
  using assms(3,4)
proof (induction "n - sent" arbitrary: data sent k rule: less_induct)
  case less
  show ?case
  proof (cases "sent < n")
    case False
    with less.prems show ?thesis by (simp add: send_loop.simps)
  next
    case True
    obtain t k' where tk: "k_send K fd data k = (t, k')" by force
    from True less.prems have d: "data \<noteq> []" "take (n - sent) data = data" by auto
    with stream prog tk have cases: "(t < 0 \<and> out k' = out k) \<or>
        (0 < t \<and> t \<le> int (length data) \<and> out k' = out k @ take (nat t) data)"
      unfolding sends_stream_def send_progress_def
      by (metis (mono_tags, lifting) case_prod_conv fst_conv order_le_less)
    then show ?thesis
    proof
      assume t: "t < 0 \<and> out k' = out k"
      then have "send_loop K fd data n sent k = Some (Exit 1, k')"
        using True tk d by (simp add: send_loop.simps)
      with t d show ?thesis by (intro exI [of _ 0] exI [of _ k']) simp
    next
      assume t: "0 < t \<and> t \<le> int (length data) \<and> out k' = out k @ take (nat t) data"
      let ?data = "drop (nat t) data"
      have step: "send_loop K fd data n sent k = send_loop K fd ?data n (sent + nat t) k'"
        using True tk d t by (simp add: send_loop.simps [of _ _ data])
      have "n - (sent + nat t) < n - sent" "length ?data = n - (sent + nat t)" "sent + nat t \<le> n"
        using t True less.prems by auto
      from less.hyps [OF this, of k'] obtain p k'' where
        "(send_loop K fd ?data n (sent + nat t) k' = Some (Ret 1, k'') \<and> out k'' = out k' @ ?data)
        \<or> (send_loop K fd ?data n (sent + nat t) k' = Some (Exit 1, k'') \<and> out k'' = out k' @ take p ?data
           \<and> p < length ?data)" by blast
      then show ?thesis
      proof
        assume "send_loop K fd ?data n (sent + nat t) k' = Some (Ret 1, k'') \<and> out k'' = out k' @ ?data"
        with step t show ?thesis by (intro exI [of _ 0] exI [of _ k'']) simp
      next
        assume "send_loop K fd ?data n (sent + nat t) k' = Some (Exit 1, k'') \<and> out k'' = out k' @ take p ?data
           \<and> p < length ?data"
        with step t show ?thesis
          by (intro exI [of _ "nat t + p"] exI [of _ k'']) (auto simp: take_add)
      qed
    qed
  qed
qed

lemma recv_loop_total:
  assumes stream: "receives_stream K inp" and prog: "recv_progress K inp"
    and "n \<le> length buf + length (inp k)" and "length buf \<le> n"
  shows "\<exists>k'. (recv_loop K fd buf n k = Some (Ret (buf @ take (n - length buf) (inp k)), k')
        \<and> inp k' = drop (n - length buf) (inp k))
     \<or> (recv_loop K fd buf n k = Some (Exit 1, k') \<and> recv_failed K inp fd (n - length buf) k k')"
  using assms(3,4)
proof (induction "n - length buf" arbitrary: buf k rule: less_induct)
  case less
  show ?case
  proof (cases "length buf < n")
    case False
    with less.prems show ?thesis by (simp add: recv_loop.simps)
  next
    case True
    obtain t d k' where tk: "k_recv K fd (n - length buf) k = ((t, d), k')" by (metis surj_pair)
    from True less.prems have "inp k \<noteq> []" "0 < n - length buf" by auto
    with prog tk have "t \<noteq> 0" unfolding recv_progress_def by (metis fst_conv)
    with stream tk have cases: "t < 0 \<or> (0 < t \<and> t = int (length d) \<and> length d \<le> n - length buf \<and> inp k = d @ inp k')"
      unfolding receives_stream_def
      by (metis (mono_tags, lifting) case_prod_conv linorder_neqE_linordered_idom)
    then show ?thesis
    proof
      assume "t < 0"
      with True tk have "recv_loop K fd buf n k = Some (Exit 1, k')" by (simp add: recv_loop.simps)
      then show ?thesis using recv_failed_now [OF tk \<open>t < 0\<close>] True by auto
    next
      assume t: "0 < t \<and> t = int (length d) \<and> length d \<le> n - length buf \<and> inp k = d @ inp k'"
      have step: "recv_loop K fd buf n k = recv_loop K fd (buf @ d) n k'"
        using True tk t by (simp add: recv_loop.simps [of _ _ buf])
      from t have d: "0 < length d" "length d \<le> n - length buf" by auto
      from True d have "n - length (buf @ d) < n - length buf" "length (buf @ d) \<le> n"
        by (simp_all only: length_append)
      moreover from less.prems t have "n \<le> length (buf @ d) + length (inp k')" by simp
      ultimately have "n - length (buf @ d) < n - length buf" "n \<le> length (buf @ d) + length (inp k')"
        "length (buf @ d) \<le> n" by blast+
      from less.hyps [OF this] obtain k'' where "(recv_loop K fd (buf @ d) n k' = Some (Ret (buf @ d @ take (n - length (buf @ d)) (inp k')), k'')
            \<and> inp k'' = drop (n - length (buf @ d)) (inp k'))
         \<or> (recv_loop K fd (buf @ d) n k' = Some (Exit 1, k'') \<and> recv_failed K inp fd (n - length buf - length d) k' k'')"
        by auto
      then show ?thesis using t step recv_failed_later [of K inp fd "n - length buf" d k' k'' k] by auto
    qed
  qed
qed

lemma recv_loop_starves:
  assumes stream: "receives_stream K inp" and noerr: "recv_no_error K"
    and "recv_loop K fd buf n k = Some r"
  shows "n \<le> length buf + length (inp k)"
proof -
  have "K = K \<longrightarrow> n \<le> length buf + length (inp k)"
  proof (rule recv_loop.raw_induct
      [where P = "\<lambda>K' fd buf n k r. K' = K \<longrightarrow> n \<le> length buf + length (inp k)", OF _ assms(3)])
    fix f K' fd buf n k r
    assume IH: "\<And>K' fd buf n k r. f K' fd buf n k = Some r \<Longrightarrow> K' = K \<longrightarrow> n \<le> length buf + length (inp k)"
      and eq: "(if length buf < n then
          let ((temp, data), k') = k_recv K' fd (n - length buf) k in
          if temp < 0 then Some (Exit 1, k') else f K' fd (buf @ take (nat temp) data) n k'
        else Some (Ret buf, k)) = Some r"
    show "K' = K \<longrightarrow> n \<le> length buf + length (inp k)"
    proof (intro impI, cases "length buf < n")
      assume K: "K' = K" and True: "length buf < n"
      obtain t d k' where tk: "k_recv K fd (n - length buf) k = ((t, d), k')" by (metis surj_pair)
      with stream noerr have t: "t = int (length d)" "inp k = d @ inp k'"
        unfolding receives_stream_def recv_no_error_def
        by (metis (mono_tags, lifting) case_prod_conv fst_conv not_less)+
      with eq True tk K have "f K fd (buf @ d) n k' = Some r" by simp
      with IH [OF this] t show "n \<le> length buf + length (inp k)" by simp
    qed simp
  qed
  then show ?thesis by simp
qed


section \<open>Packets\<close>

text \<open>The packet \<open>send_packet\<close> writes: the bytes of the message, then what the buffer held.\<close>

definition packet_of :: "q_message \<Rightarrow> byte list \<Rightarrow> byte list" where
  "packet_of m junk = filled (wire_bytes m) junk"

lemma serialize_packet:
  assumes "wf_message m" and "counts_ok m" and "length junk = PACKET_SIZE"
  shows "serialize_message m junk = Some (packet_of m junk)" and "length (packet_of m junk) = PACKET_SIZE"
proof -
  have fits: "length (wire_bytes m) \<le> length junk"
    using wire_bytes_fit [OF assms(1,2)] assms(3) by (simp add: PACKET_SIZE_def)
  show "serialize_message m junk = Some (packet_of m junk)"
    using serialize_message_bytes [OF assms(1,2) fits] by (simp add: packet_of_def)
  show "length (packet_of m junk) = PACKET_SIZE"
    using length_filled [OF fits] assms(3) by (simp add: packet_of_def)
qed

lemma deserialize_packet:
  assumes "wf_message m" and "counts_ok m" and "wf_choice (msg_choice rec_msg)"
  shows "\<exists>r. deserialize_message rec_msg (packet_of m junk) = Some r \<and> message_type r = message_type m
     \<and> client_id r = client_id m \<and> message_choice_number r = message_choice_number m
     \<and> payload r = on_wire (payload m)"
  unfolding packet_of_def by (rule deserialize_message_bytes [OF assms at_filled])

text \<open>
  C21. \<open>send_packet\<close> on a stream socket, however the kernel splits the transfer: it returns, and
  it has handed over exactly the packet; or a \<open>send\<close> failed, the process ends with status 1,
  and the peer is given a strict prefix of the packet.
\<close>

theorem send_packet_whole:
  assumes "sends_stream K out" and "send_progress K"
    and "wf_message m" and "counts_ok m" and "length junk = PACKET_SIZE"
  shows "\<exists>p k'. (send_packet K junk fd m k = Some (Ret 1, k') \<and> out k' = out k @ packet_of m junk)
     \<or> (send_packet K junk fd m k = Some (Exit 1, k') \<and> out k' = out k @ take p (packet_of m junk)
        \<and> p < PACKET_SIZE)"
  using send_loop_total [OF assms(1,2), of "packet_of m junk" PACKET_SIZE 0 fd k] serialize_packet [OF assms(3-5)]
  by (simp add: send_packet_def)

text \<open>
  A pipe: what was sent, what is to be received, and how many bytes one call moves.
\<close>

record pipe =
  p_out :: "byte list"
  p_inp :: "byte list"
  p_step :: nat

definition pipe_kernel :: "pipe sock_api" where
  "pipe_kernel = \<lparr>
     k_socket = (\<lambda>k. (3, k)), k_connect = (\<lambda>fd ip port k. (0, k)), k_bind = (\<lambda>fd ip port k. (0, k)),
     k_listen = (\<lambda>fd n k. (0, k)), k_accepting = (\<lambda>fd k. (0, 1)),
     k_accept = (\<lambda>fd k. ((4, ''127.0.0.1'', 0), k)), k_close = (\<lambda>fd k. (0, k)),
     k_send = (\<lambda>fd d k. let d' = take (Suc (p_step k)) d in (int (length d'), k\<lparr>p_out := p_out k @ d'\<rparr>)),
     k_recv = (\<lambda>fd n k. let d = take (min n (Suc (p_step k))) (p_inp k) in
        ((int (length d), d), k\<lparr>p_inp := drop (min n (Suc (p_step k))) (p_inp k)\<rparr>))\<rparr>"

lemma pipe_sends: "sends_stream pipe_kernel p_out" "send_progress pipe_kernel"
  by (auto simp: sends_stream_def send_progress_def pipe_kernel_def Let_def min_def)

lemma pipe_receives: "receives_stream pipe_kernel p_inp" "recv_progress pipe_kernel p_inp" "recv_no_error pipe_kernel"
  by (auto simp: receives_stream_def recv_progress_def recv_no_error_def pipe_kernel_def Let_def)

theorem send_packet_whole_witness:
  "\<exists>p k'. (send_packet pipe_kernel (replicate PACKET_SIZE 0) 3 rooms_example \<lparr>p_out = [], p_inp = [], p_step = 9\<rparr>
        = Some (Ret 1, k') \<and> p_out k' = packet_of rooms_example (replicate PACKET_SIZE 0))
     \<or> (send_packet pipe_kernel (replicate PACKET_SIZE 0) 3 rooms_example \<lparr>p_out = [], p_inp = [], p_step = 9\<rparr>
        = Some (Exit 1, k') \<and> p < PACKET_SIZE)"
proof -
  have "wf_message rooms_example" "counts_ok rooms_example" "length (replicate PACKET_SIZE (0 :: byte)) = PACKET_SIZE"
    by (simp_all add: rooms_example_def wf_message_def counts_ok_def wf_m2_def zero_m2_def Let_def list_all_iff)
  from send_packet_whole [OF pipe_sends this, of 3 "\<lparr>p_out = [], p_inp = [], p_step = 9\<rparr>"]
  show ?thesis by fastforce
qed

text \<open>
  C22. From \<open>send_packet\<close> to \<open>receive_packet\<close>: if the next bytes of the stream are the packet
  of a message, then, however the kernel splits the transfer, \<open>receive_packet\<close> returns: it delivers
  that message (as \<open>on_wire\<close> says) and leaves the stream right after the packet, unless a \<open>recv\<close> for
  what is still missing of the packet fails, and then the process ends there with status 1.
\<close>

theorem receive_packet_whole:
  assumes "receives_stream K inp" and "recv_progress K inp"
    and "wf_message m" and "counts_ok m" and "length junk = PACKET_SIZE" and "wf_choice (msg_choice rec_msg)"
    and stream: "inp k = packet_of m junk @ rest"
  shows "\<exists>k'. (\<exists>r. receive_packet K fd rec_msg k = Some (Ret r, k') \<and> inp k' = rest
        \<and> message_type r = message_type m \<and> client_id r = client_id m
        \<and> message_choice_number r = message_choice_number m \<and> payload r = on_wire (payload m))
     \<or> (receive_packet K fd rec_msg k = Some (Exit 1, k') \<and> recv_failed K inp fd PACKET_SIZE k k')"
proof -
  have len: "length (packet_of m junk) = PACKET_SIZE" by (rule serialize_packet [OF assms(3-5)])
  obtain r where "deserialize_message rec_msg (packet_of m junk) = Some r \<and> message_type r = message_type m
     \<and> client_id r = client_id m \<and> message_choice_number r = message_choice_number m
     \<and> payload r = on_wire (payload m)"
    using deserialize_packet [OF assms(3,4,6)] by blast
  then show ?thesis
    using recv_loop_total [OF assms(1,2), of PACKET_SIZE "[]" k fd] stream len
    by (fastforce simp: receive_packet_def)
qed

theorem receive_packet_whole_witness:
  "\<exists>r k'. receive_packet pipe_kernel 3 zero_message
        \<lparr>p_out = [], p_inp = packet_of rooms_example (replicate PACKET_SIZE 0) @ [1, 2], p_step = 9\<rparr> = Some (Ret r, k')
        \<and> p_inp k' = [1, 2] \<and> payload r = P_rooms [1, 2, 3]"
proof -
  let ?k = "\<lparr>p_out = [], p_inp = packet_of rooms_example (replicate PACKET_SIZE 0) @ [1, 2], p_step = 9\<rparr>"
  have h: "wf_message rooms_example" "counts_ok rooms_example" "length (replicate PACKET_SIZE (0 :: byte)) = PACKET_SIZE"
    "wf_choice (msg_choice zero_message)" "p_inp ?k = packet_of rooms_example (replicate PACKET_SIZE 0) @ [1, 2]"
    by (simp_all add: rooms_example_def wf_message_def counts_ok_def wf_m2_def zero_m2_def Let_def list_all_iff zero_message_def)
  have "\<not> recv_failed pipe_kernel p_inp fd n k k'" for fd n k k'
    using pipe_receives(3) unfolding recv_no_error_def recv_failed_def by (metis fst_conv not_less)
  moreover have "payload rooms_example = P_rooms [1, 2, 3]"
    by (simp add: rooms_example_def payload_def Let_def)
  ultimately show ?thesis using receive_packet_whole [OF pipe_receives(1,2) h, of 3] by fastforce
qed

text \<open>\<open>receive_packet\<close> does not look for the end of the stream: \<open>recv\<close> then returns 0, which
  the loop adds and tries again.  When the peer closes the connection before a whole packet
  has come (fewer than \<open>PACKET_SIZE\<close> bytes are left and no call fails), \<open>receive_packet\<close>
  never returns.
\<close>

theorem receive_packet_never_returns:
  assumes "receives_stream K inp" and "recv_no_error K" and "length (inp k) < PACKET_SIZE"
  shows "receive_packet K fd rec_msg k = None"
proof -
  have "recv_loop K fd [] PACKET_SIZE k = None"
    using recv_loop_starves [OF assms(1,2)] assms(3) by (cases "recv_loop K fd [] PACKET_SIZE k") fastforce+
  then show ?thesis by (simp add: receive_packet_def)
qed

theorem receive_packet_never_returns_witness:
  "receive_packet pipe_kernel 3 zero_message \<lparr>p_out = [], p_inp = [1, 2, 3], p_step = 9\<rparr> = None"
  by (rule receive_packet_never_returns [OF pipe_receives(1,3)]) (simp add: PACKET_SIZE_def SIZEOF_q_message_def)

end
