(* ===== verification/Sysv_Ipc.thy ===== *)
theory Sysv_Ipc
  imports Messages
begin

text \<open>
  The System V objects and the wrappers of src/ipc: queue.cpp, semaphore.cpp,
  sharedmemory.cpp and communicationqueue.cpp.

  \<^item> \<open>ipc\<close> is the kernel's state: the message queues, semaphores and shared memory segments,
    each found through its key (\<open>msgget\<close>, \<open>semget\<close>, \<open>shmget\<close> with \<open>IPC_CREAT\<close> make a new one
    for a key that has none).  Limits on sizes and counts are not modelled, so a send never
    waits for room.  \<open>ftok\<close>, whose values depend on the file system, is a parameter.
  \<^item> The other processes are the parameter \<open>env\<close> of an operation that may wait: what they do
    to the state while it waits.  A wait they do not end is the outcome \<open>Blocked\<close>.
  \<^item> A segment is read and written with one type of element, ints (the timers) or seat
    updates; both views are kept, of zeros when the segment is new.
  \<^item> The locale \<open>mailbox\<close> is what the rest of the program relies on of a queue: messages of a
    type come out in the order they went in, and types do not disturb each other.
\<close>

section \<open>The kernel's objects\<close>

record segment =
  seg_size :: nat
  seg_nattch :: nat
  seg_ints :: "int list"
  seg_updates :: "Seats_update list"

record ipc =
  msg_ids :: "int \<Rightarrow> int option"
  msg_queues :: "int \<Rightarrow> (int \<times> q_message) list option"
  sem_ids :: "int \<Rightarrow> int option"
  sem_vals :: "int \<Rightarrow> int option"
  shm_ids :: "int \<Rightarrow> int option"
  shm_segs :: "int \<Rightarrow> segment option"
  next_id :: int

type_synonym ftok = "string \<Rightarrow> char \<Rightarrow> int"

definition empty_ipc :: ipc where
  "empty_ipc = \<lparr>msg_ids = \<lambda>_. None, msg_queues = \<lambda>_. None, sem_ids = \<lambda>_. None, sem_vals = \<lambda>_. None,
     shm_ids = \<lambda>_. None, shm_segs = \<lambda>_. None, next_id = 0\<rparr>"

text \<open>Removing an object frees its key.\<close>

definition drop_id :: "(int \<Rightarrow> int option) \<Rightarrow> int \<Rightarrow> int \<Rightarrow> int option" where
  "drop_id ids i = (\<lambda>k. if ids k = Some i then None else ids k)"

text \<open>The state with other contents of one queue.\<close>

definition set_queue :: "int \<Rightarrow> (int \<times> q_message) list \<Rightarrow> 'a ipc_scheme \<Rightarrow> 'a ipc_scheme" where
  "set_queue i q s = s\<lparr>msg_queues := (msg_queues s)(i \<mapsto> q)\<rparr>"

lemma msg_queues_set_queue [simp]:
  "msg_queues (set_queue i q s) j = (if j = i then Some q else msg_queues s j)"
  by (simp add: set_queue_def)

lemma set_queue_set_queue [simp]: "set_queue i q' (set_queue i q s) = set_queue i q' s"
  by (simp add: set_queue_def del: fun_upd_apply)

lemma set_queue_same: "msg_queues s i = Some q \<Longrightarrow> set_queue i q s = s"
  by (simp add: set_queue_def fun_upd_idem del: fun_upd_apply)

lemma set_queue_other [simp]:
  "msg_ids (set_queue i q s) = msg_ids s" "sem_ids (set_queue i q s) = sem_ids s"
  "sem_vals (set_queue i q s) = sem_vals s" "shm_ids (set_queue i q s) = shm_ids s"
  "shm_segs (set_queue i q s) = shm_segs s" "next_id (set_queue i q s) = next_id s"
  by (simp_all add: set_queue_def)

section \<open>queue.cpp\<close>

definition queue_create :: "ftok \<Rightarrow> string \<Rightarrow> char \<Rightarrow> (int, 'a ipc_scheme) prog" where
  "queue_create ftok file letter = (\<lambda>s.
     let key = ftok file letter in
     if key = -1 then throw_util s
     else (case msg_ids s key of
         Some queue_id \<Rightarrow> (Ret queue_id, s)
       | None \<Rightarrow> (Ret (next_id s), s\<lparr>msg_ids := (msg_ids s)(key \<mapsto> next_id s),
                  msg_queues := (msg_queues s)(next_id s \<mapsto> []), next_id := next_id s + 1\<rparr>)))"

text \<open>\<open>msgsnd\<close> fails for a queue that does not exist and for a type that is not positive.\<close>

definition queue_send :: "int \<Rightarrow> q_message \<Rightarrow> int \<Rightarrow> (unit, 'a ipc_scheme) prog" where
  "queue_send queue_id buf msgType = (\<lambda>s.
     case msg_queues s queue_id of
       None \<Rightarrow> throw_util s
     | Some q \<Rightarrow>
         if msgType < 1 then throw_util s
         else (Ret (), set_queue queue_id (q @ [(msgType, buf)]) s))"

fun take_first :: "('m \<Rightarrow> bool) \<Rightarrow> 'm list \<Rightarrow> ('m \<times> 'm list) option" where
  "take_first P [] = None"
| "take_first P (m # q) =
     (if P m then Some (m, q)
      else (case take_first P q of None \<Rightarrow> None | Some (x, q') \<Rightarrow> Some (x, m # q')))"

text \<open>
  \<open>msgrcv\<close>: the first message (type 0), the first message of the type (positive), or the first
  one of the lowest type up to the absolute value (negative).
\<close>

definition msgrcv :: "int \<Rightarrow> (int \<times> 'm) list \<Rightarrow> ((int \<times> 'm) \<times> (int \<times> 'm) list) option" where
  "msgrcv t q =
     (if t = 0 then take_first (\<lambda>_. True) q
      else if 0 < t then take_first (\<lambda>m. fst m = t) q
      else (let ts = filter (\<lambda>u. u \<le> - t) (map fst q) in
            if ts = [] then None else take_first (\<lambda>m. fst m = Min (set ts)) q))"

definition try_receive :: "int \<Rightarrow> int \<Rightarrow> (q_message, 'a ipc_scheme) prog" where
  "try_receive queue_id msgType = (\<lambda>s.
     case msg_queues s queue_id of
       None \<Rightarrow> throw_util s
     | Some q \<Rightarrow> (case msgrcv msgType q of
           None \<Rightarrow> (Blocked, s)
         | Some (m, q') \<Rightarrow> (Ret (snd m), set_queue queue_id q' s)))"

definition queue_receive ::
  "('a ipc_scheme \<Rightarrow> 'a ipc_scheme) \<Rightarrow> int \<Rightarrow> int \<Rightarrow> (q_message, 'a ipc_scheme) prog" where
  "queue_receive env queue_id msgType = (\<lambda>s.
     case try_receive queue_id msgType s of
       (Blocked, s') \<Rightarrow> try_receive queue_id msgType (env s')
     | result \<Rightarrow> result)"

definition queue_destroy :: "int \<Rightarrow> (unit, 'a ipc_scheme) prog" where
  "queue_destroy queue_id = (\<lambda>s.
     case msg_queues s queue_id of
       None \<Rightarrow> throw_util s
     | Some q \<Rightarrow> (Ret (), s\<lparr>msg_ids := drop_id (msg_ids s) queue_id,
                            msg_queues := (msg_queues s)(queue_id := None)\<rparr>))"

section \<open>communicationqueue.cpp\<close>

definition UNDEFINED_CHANNEL_ID :: int where "UNDEFINED_CHANNEL_ID = -1"
definition COMMQUEUE_AS_SERVER :: int where "COMMQUEUE_AS_SERVER = 0"
definition COMMQUEUE_AS_CLIENT :: int where "COMMQUEUE_AS_CLIENT = 1"

lemmas channel_constants [simp] =
  UNDEFINED_CHANNEL_ID_def COMMQUEUE_AS_SERVER_def COMMQUEUE_AS_CLIENT_def

text \<open>\<open>create_commqueue\<close> leaves the orientation uninitialised: \<open>None\<close>, whose use is undefined.\<close>

record commqueue =
  id_firstqueue :: int
  id_secondqueue :: int
  orientation :: "int option"
  cq_id :: int

definition next_char :: "char \<Rightarrow> char" where
  "next_char c = char_of (of_char c + 1 :: nat)"

definition create_commqueue :: "ftok \<Rightarrow> string \<Rightarrow> char \<Rightarrow> (commqueue, 'a ipc_scheme) prog" where
  "create_commqueue ftok filename key_char =
     andThen (queue_create ftok filename key_char) (\<lambda>first.
     andThen (queue_create ftok filename (next_char key_char)) (\<lambda>second.
       ret \<lparr>id_firstqueue = first, id_secondqueue = second, orientation = None,
            cq_id = UNDEFINED_CHANNEL_ID\<rparr>))"

definition send_message :: "commqueue \<Rightarrow> q_message \<Rightarrow> (unit, 'a ipc_scheme) prog" where
  "send_message channel input =
     andThen (defined (orientation channel)) (\<lambda>orient.
       let queue_id = (if orient = 0 then id_firstqueue channel else id_secondqueue channel);
           type = (if cq_id channel \<noteq> UNDEFINED_CHANNEL_ID then cq_id channel else message_type input);
           input = (if message_type input \<noteq> TYPE_CONNECTION_CINEMA_REQUEST
                    then input\<lparr>message_type := type\<rparr> else input)
       in queue_send queue_id input type)"

definition receive_message_type ::
  "('a ipc_scheme \<Rightarrow> 'a ipc_scheme) \<Rightarrow> commqueue \<Rightarrow> int \<Rightarrow> (q_message, 'a ipc_scheme) prog" where
  "receive_message_type env channel m_type =
     andThen (defined (orientation channel)) (\<lambda>orient.
       let queue_id = (if orient = 0 then id_secondqueue channel else id_firstqueue channel)
       in queue_receive env queue_id m_type)"

definition receive_message ::
  "('a ipc_scheme \<Rightarrow> 'a ipc_scheme) \<Rightarrow> commqueue \<Rightarrow> (q_message, 'a ipc_scheme) prog" where
  "receive_message env channel =
     (if cq_id channel = UNDEFINED_CHANNEL_ID then throw_util
      else receive_message_type env channel (cq_id channel))"

definition delete_queue :: "commqueue \<Rightarrow> (unit, 'a ipc_scheme) prog" where
  "delete_queue channel = andThen (queue_destroy (id_firstqueue channel)) (\<lambda>_.
     queue_destroy (id_secondqueue channel))"

text \<open>The channel is passed by value: the assignment is lost (the source says so in a TODO).\<close>

definition set_channel_orientation :: "commqueue \<Rightarrow> int \<Rightarrow> (unit, 'a ipc_scheme) prog" where
  "set_channel_orientation channel FLAG =
     (let channel = channel\<lparr>orientation := Some FLAG\<rparr> in ret ())"

section \<open>semaphore.cpp\<close>

definition semaphore_get :: "ftok \<Rightarrow> string \<Rightarrow> char \<Rightarrow> (int, 'a ipc_scheme) prog" where
  "semaphore_get ftok file letter = (\<lambda>s.
     let key = ftok file letter in
     case sem_ids s key of
       Some sem_id \<Rightarrow> (Ret sem_id, s)
     | None \<Rightarrow> (Ret (next_id s), s\<lparr>sem_ids := (sem_ids s)(key \<mapsto> next_id s),
                 sem_vals := (sem_vals s)(next_id s \<mapsto> 0), next_id := next_id s + 1\<rparr>))"

text \<open>\<open>semctl SETVAL\<close> fails for a semaphore that does not exist or a negative value.\<close>

definition sem_init :: "int \<Rightarrow> int \<Rightarrow> (unit, 'a ipc_scheme) prog" where
  "sem_init sem_id init_value = (\<lambda>s.
     if sem_vals s sem_id = None \<or> init_value < 0 then throw_util s
     else (Ret (), s\<lparr>sem_vals := (sem_vals s)(sem_id \<mapsto> init_value)\<rparr>))"

definition semaphore_create :: "ftok \<Rightarrow> string \<Rightarrow> char \<Rightarrow> int \<Rightarrow> (int, 'a ipc_scheme) prog" where
  "semaphore_create ftok file letter init_value =
     andThen (semaphore_get ftok file letter) (\<lambda>sem_id.
     andThen (sem_init sem_id init_value) (\<lambda>_. ret sem_id))"

text \<open>The operation that \<open>sem_op\<close> hands to \<open>semop\<close>: \<open>(short) value\<close>, with \<open>SEM_UNDO\<close>.\<close>

record sembuf =
  sem_num :: int
  sem_change :: int         \<comment> \<open>\<open>sembuf.sem_op\<close>, a \<open>short\<close>\<close>
  sem_flg :: int

definition SEM_UNDO :: int where "SEM_UNDO = 4096"

definition sem_operation :: "int \<Rightarrow> sembuf" where
  "sem_operation value = \<lparr>sem_num = 0, sem_change = int16 value, sem_flg = SEM_UNDO\<rparr>"

text \<open>
  \<open>semop\<close> on a set of one semaphore: the value is changed unless it became negative, and then the
  process waits.  What \<open>SEM_UNDO\<close> asks of the kernel, to give back what the process has taken when it
  ends, is in the theory Mutual\_Exclusion.
\<close>

definition semop :: "int \<Rightarrow> sembuf \<Rightarrow> (unit, 'a ipc_scheme) prog" where
  "semop sem_id operation = (\<lambda>s.
     case sem_vals s sem_id of
       None \<Rightarrow> throw_util s
     | Some v \<Rightarrow>
         if sem_num operation \<noteq> 0 then throw_util s
         else if v + sem_change operation < 0 then (Blocked, s)
         else (Ret (), s\<lparr>sem_vals := (sem_vals s)(sem_id \<mapsto> v + sem_change operation)\<rparr>))"

definition sem_op :: "('a ipc_scheme \<Rightarrow> 'a ipc_scheme) \<Rightarrow> int \<Rightarrow> int \<Rightarrow> (unit, 'a ipc_scheme) prog" where
  "sem_op env sem_id value = (\<lambda>s.
     let operation = sem_operation value in
     case semop sem_id operation s of
       (Blocked, s') \<Rightarrow> semop sem_id operation (env s')
     | result \<Rightarrow> result)"

lemma semop_operation:
  "semop sem_id (sem_operation value) = (\<lambda>s.
     case sem_vals s sem_id of
       None \<Rightarrow> throw_util s
     | Some v \<Rightarrow>
         if v + int16 value < 0 then (Blocked, s)
         else (Ret (), s\<lparr>sem_vals := (sem_vals s)(sem_id \<mapsto> v + int16 value)\<rparr>))"
  by (rule ext) (simp add: semop_def sem_operation_def split: option.splits)

definition semaphore_signal :: "('a ipc_scheme \<Rightarrow> 'a ipc_scheme) \<Rightarrow> int \<Rightarrow> (unit, 'a ipc_scheme) prog" where
  "semaphore_signal env sem_id = sem_op env sem_id 1"

definition semaphore_wait :: "('a ipc_scheme \<Rightarrow> 'a ipc_scheme) \<Rightarrow> int \<Rightarrow> (unit, 'a ipc_scheme) prog" where
  "semaphore_wait env sem_id = sem_op env sem_id (-1)"

definition semaphore_delete :: "int \<Rightarrow> (unit, 'a ipc_scheme) prog" where
  "semaphore_delete sem_id = (\<lambda>s.
     if sem_vals s sem_id = None then throw_util s
     else (Ret (), s\<lparr>sem_ids := drop_id (sem_ids s) sem_id, sem_vals := (sem_vals s)(sem_id := None)\<rparr>))"

section \<open>sharedmemory.cpp\<close>

definition SIZEOF_int :: nat where "SIZEOF_int = 4"
definition SIZEOF_Seats_update :: nat where "SIZEOF_Seats_update = 4 + 4 + 12 * MAX_SEATS"

definition new_segment :: "nat \<Rightarrow> segment" where
  "new_segment data_size = \<lparr>seg_size = data_size, seg_nattch = 0,
     seg_ints = replicate (data_size div SIZEOF_int) 0,
     seg_updates = replicate (data_size div SIZEOF_Seats_update) zero_Seats_update\<rparr>"

text \<open>\<open>shmget\<close> fails for an existing segment that is smaller than asked for.\<close>

definition shm_create :: "ftok \<Rightarrow> string \<Rightarrow> char \<Rightarrow> nat \<Rightarrow> (int, 'a ipc_scheme) prog" where
  "shm_create ftok file letter data_size = (\<lambda>s.
     let key = ftok file letter in
     if key = -1 then throw_util s
     else (case shm_ids s key of
         None \<Rightarrow> (Ret (next_id s), s\<lparr>shm_ids := (shm_ids s)(key \<mapsto> next_id s),
                  shm_segs := (shm_segs s)(next_id s \<mapsto> new_segment data_size), next_id := next_id s + 1\<rparr>)
       | Some shm_id \<Rightarrow> (case shm_segs s shm_id of
             None \<Rightarrow> throw_util s
           | Some g \<Rightarrow> if seg_size g < data_size then throw_util s else (Ret shm_id, s))))"

text \<open>The pointer \<open>shmat\<close> returns is named by the segment's identifier.\<close>

definition shm_get_data :: "ftok \<Rightarrow> string \<Rightarrow> char \<Rightarrow> nat \<Rightarrow> (int, 'a ipc_scheme) prog" where
  "shm_get_data ftok file letter data_size =
     andThen (shm_create ftok file letter data_size) (\<lambda>shm_id s.
       case shm_segs s shm_id of
         None \<Rightarrow> throw_util s
       | Some g \<Rightarrow> (Ret shm_id, s\<lparr>shm_segs := (shm_segs s)(shm_id \<mapsto> g\<lparr>seg_nattch := seg_nattch g + 1\<rparr>)\<rparr>))"

definition shm_dettach :: "int \<Rightarrow> (unit, 'a ipc_scheme) prog" where
  "shm_dettach data_ptr = (\<lambda>s.
     case shm_segs s data_ptr of
       None \<Rightarrow> throw_util s
     | Some g \<Rightarrow> if seg_nattch g = 0 then throw_util s
         else (Ret (), s\<lparr>shm_segs := (shm_segs s)(data_ptr \<mapsto> g\<lparr>seg_nattch := seg_nattch g - 1\<rparr>)\<rparr>))"

text \<open>A segment still attached keeps its contents until it is detached; its key is freed.\<close>

definition shm_remove :: "int \<Rightarrow> (unit, 'a ipc_scheme) prog" where
  "shm_remove shm_id = (\<lambda>s.
     case shm_segs s shm_id of
       None \<Rightarrow> throw_util s
     | Some g \<Rightarrow> (Ret (), s\<lparr>shm_ids := drop_id (shm_ids s) shm_id,
         shm_segs := (if seg_nattch g = 0 then (shm_segs s)(shm_id := None) else shm_segs s)\<rparr>))"


section \<open>The interface: a mailbox with types\<close>

locale mailbox =
  fixes put :: "int \<Rightarrow> 'm \<Rightarrow> 'q \<Rightarrow> 'q"
    and get :: "int \<Rightarrow> 'q \<Rightarrow> ('m \<times> 'q) option"
    and inbox :: "'q \<Rightarrow> int \<Rightarrow> 'm list"
  assumes inbox_put: "inbox (put t m q) u = (if u = t then inbox q t @ [m] else inbox q u)"
    and get_None: "0 < t \<Longrightarrow> get t q = None \<longleftrightarrow> inbox q t = []"
    and get_Some: "0 < t \<Longrightarrow> get t q = Some (m, q') \<Longrightarrow>
        inbox q t = m # inbox q' t \<and> (\<forall>u. u \<noteq> t \<longrightarrow> inbox q' u = inbox q u)"
begin

lemma get_head:
  assumes "0 < t" and "inbox q t = m # ms"
  shows "\<exists>q'. get t q = Some (m, q') \<and> inbox q' t = ms \<and> (\<forall>u. u \<noteq> t \<longrightarrow> inbox q' u = inbox q u)"
proof -
  from get_None [OF assms(1), of q] assms(2) obtain m' q' where "get t q = Some (m', q')"
    by (cases "get t q") auto
  with get_Some [OF assms(1) this] assms(2) show ?thesis by auto
qed

lemma put_get:
  assumes "0 < t" and "inbox q t = []"
  shows "\<exists>q'. get t (put t m q) = Some (m, q') \<and> (\<forall>u. inbox q' u = inbox q u)"
proof -
  have "inbox (put t m q) t = m # []" by (simp add: inbox_put assms(2))
  from get_head [OF assms(1) this] obtain q' where
    "get t (put t m q) = Some (m, q')" "inbox q' t = []" "\<forall>u. u \<noteq> t \<longrightarrow> inbox q' u = inbox (put t m q) u"
    by auto
  moreover from this have "inbox q' u = inbox q u" for u
    using assms(2) by (cases "u = t") (simp_all add: inbox_put)
  ultimately show ?thesis by blast
qed

primrec put_all :: "int \<Rightarrow> 'm list \<Rightarrow> 'q \<Rightarrow> 'q" where
  "put_all t [] q = q"
| "put_all t (m # ms) q = put_all t ms (put t m q)"

lemma inbox_put_all: "inbox (put_all t ms q) u = (if u = t then inbox q t @ ms else inbox q u)"
  by (induction ms arbitrary: q) (simp_all add: inbox_put)

primrec get_n :: "int \<Rightarrow> nat \<Rightarrow> 'q \<Rightarrow> ('m list \<times> 'q) option" where
  "get_n t 0 q = Some ([], q)"
| "get_n t (Suc n) q = (case get t q of None \<Rightarrow> None
     | Some (m, q') \<Rightarrow> (case get_n t n q' of None \<Rightarrow> None | Some (ms, q'') \<Rightarrow> Some (m # ms, q'')))"

lemma get_n_inbox:
  assumes "0 < t" and "inbox q t = ms @ rest"
  shows "\<exists>q'. get_n t (length ms) q = Some (ms, q') \<and> inbox q' t = rest \<and> (\<forall>u. u \<noteq> t \<longrightarrow> inbox q' u = inbox q u)"
  using assms(2)
proof (induction ms arbitrary: q)
  case Nil
  then show ?case by simp
next
  case (Cons m ms)
  then have "inbox q t = m # (ms @ rest)" by simp
  from get_head [OF assms(1) this] obtain q' where
    "get t q = Some (m, q')" "inbox q' t = ms @ rest" "\<forall>u. u \<noteq> t \<longrightarrow> inbox q' u = inbox q u"
    by auto
  with Cons.IH [of q'] show ?case by auto
qed

lemma fifo:
  assumes "0 < t" and "inbox q t = []"
  shows "\<exists>q'. get_n t (length ms) (put_all t ms q) = Some (ms, q') \<and> (\<forall>u. inbox q' u = inbox q u)"
proof -
  have "inbox (put_all t ms q) t = ms @ []" by (simp add: inbox_put_all assms(2))
  from get_n_inbox [OF assms(1) this] obtain q' where
    "get_n t (length ms) (put_all t ms q) = Some (ms, q')" "inbox q' t = []"
    "\<forall>u. u \<noteq> t \<longrightarrow> inbox q' u = inbox (put_all t ms q) u" by blast
  moreover from this have "inbox q' u = inbox q u" for u
    using assms(2) by (cases "u = t") (simp_all add: inbox_put_all)
  ultimately show ?thesis by blast
qed

end

text \<open>The message queues of the kernel are mailboxes.\<close>

definition q_put :: "int \<Rightarrow> 'm \<Rightarrow> (int \<times> 'm) list \<Rightarrow> (int \<times> 'm) list" where
  "q_put t m q = q @ [(t, m)]"

definition q_get :: "int \<Rightarrow> (int \<times> 'm) list \<Rightarrow> ('m \<times> (int \<times> 'm) list) option" where
  "q_get t q = map_option (\<lambda>(m, q'). (snd m, q')) (msgrcv t q)"

definition q_inbox :: "(int \<times> 'm) list \<Rightarrow> int \<Rightarrow> 'm list" where
  "q_inbox q t = map snd (filter (\<lambda>m. fst m = t) q)"

lemma take_first_None: "take_first P q = None \<longleftrightarrow> filter P q = []"
  by (induction q) (auto split: option.splits)

lemma take_first_Some:
  "take_first P q = Some (m, q') \<Longrightarrow> P m \<and> (\<exists>pre post. q = pre @ m # post \<and> q' = pre @ post \<and> filter P pre = [])"
proof (induction q arbitrary: q')
  case Nil
  then show ?case by simp
next
  case (Cons x q)
  show ?case
  proof (cases "P x")
    case True
    with Cons.prems show ?thesis by (intro conjI exI [of _ "[]"] exI [of _ q]) auto
  next
    case False
    with Cons.prems obtain q'' where q'': "take_first P q = Some (m, q'')" "q' = x # q''"
      by (auto split: option.splits)
    from Cons.IH [OF q''(1)] obtain pre post where
      "P m" "q = pre @ m # post" "q'' = pre @ post" "filter P pre = []" by auto
    with False q'' show ?thesis by (intro conjI exI [of _ "x # pre"] exI [of _ post]) auto
  qed
qed

interpretation sysv: mailbox q_put q_get q_inbox
proof unfold_locales
  fix t u :: int and m :: 'm and q
  show "q_inbox (q_put t m q) u = (if u = t then q_inbox q t @ [m] else q_inbox q u)"
    by (simp add: q_inbox_def q_put_def)
next
  fix t :: int and q :: "(int \<times> 'm) list"
  assume "0 < t"
  then show "q_get t q = None \<longleftrightarrow> q_inbox q t = []"
    by (simp add: q_get_def msgrcv_def take_first_None q_inbox_def)
next
  fix t :: int and q q' :: "(int \<times> 'm) list" and m :: 'm
  assume "0 < t" and "q_get t q = Some (m, q')"
  then obtain x where x: "take_first (\<lambda>m. fst m = t) q = Some (x, q')" "m = snd x"
    by (auto simp: q_get_def msgrcv_def split: if_splits)
  from take_first_Some [OF x(1)] obtain pre post where
    "fst x = t" "q = pre @ x # post" "q' = pre @ post" "filter (\<lambda>m. fst m = t) pre = []" by auto
  with x(2) show "q_inbox q t = m # q_inbox q' t \<and> (\<forall>u. u \<noteq> t \<longrightarrow> q_inbox q' u = q_inbox q u)"
    by (auto simp: q_inbox_def)
qed


section \<open>Channels\<close>

text \<open>What \<open>send_message\<close> does to the type stored inside the message.\<close>

definition stamp :: "int \<Rightarrow> q_message \<Rightarrow> q_message" where
  "stamp t m = (if message_type m \<noteq> TYPE_CONNECTION_CINEMA_REQUEST then m\<lparr>message_type := t\<rparr> else m)"

text \<open>The queue a channel end sends to and the one it receives from.\<close>

definition out_queue :: "commqueue \<Rightarrow> int" where
  "out_queue ch = (if orientation ch = Some 0 then id_firstqueue ch else id_secondqueue ch)"

definition in_queue :: "commqueue \<Rightarrow> int" where
  "in_queue ch = (if orientation ch = Some 0 then id_secondqueue ch else id_firstqueue ch)"

lemma queue_send_run:
  "msg_queues s i = Some q \<Longrightarrow> 0 < t \<Longrightarrow>
     queue_send i m t s = (Ret (), set_queue (i) (q_put t m q) s)"
  by (simp add: queue_send_def q_put_def)

lemma try_receive_run:
  "msg_queues s i = Some q \<Longrightarrow> q_get t q = Some (m, q') \<Longrightarrow>
     try_receive i t s = (Ret m, set_queue (i) (q') s)"
  by (auto simp: try_receive_def q_get_def)

lemma queue_receive_run:
  "msg_queues s i = Some q \<Longrightarrow> q_get t q = Some (m, q') \<Longrightarrow>
     queue_receive env i t s = (Ret m, set_queue (i) (q') s)"
  by (simp add: queue_receive_def try_receive_run)

lemma send_message_run:
  assumes "orientation ch \<noteq> None" and "cq_id ch = t" and "0 < t" and "msg_queues s (out_queue ch) = Some q"
  shows "send_message ch m s = (Ret (), set_queue (out_queue ch) (q_put t (stamp t m) q) s)"
  using assms by (auto simp: send_message_def out_queue_def stamp_def queue_send_run)

lemma receive_message_run:
  assumes "orientation ch \<noteq> None" and "cq_id ch = t" and "0 < t" and "msg_queues s (in_queue ch) = Some q"
    and "q_get t q = Some (m, q')"
  shows "receive_message env ch s = (Ret m, set_queue (in_queue ch) (q') s)"
  using assms by (auto simp: receive_message_def receive_message_type_def in_queue_def queue_receive_run)

text \<open>Receiving a number of messages, one after the other.\<close>

primrec receive_n ::
  "('a ipc_scheme \<Rightarrow> 'a ipc_scheme) \<Rightarrow> commqueue \<Rightarrow> nat \<Rightarrow> (q_message list, 'a ipc_scheme) prog" where
  "receive_n env ch 0 = ret []"
| "receive_n env ch (Suc n) = andThen (receive_message env ch) (\<lambda>m.
     andThen (receive_n env ch n) (\<lambda>ms. ret (m # ms)))"

lemma send_all_run:
  assumes "orientation ch \<noteq> None" and "cq_id ch = t" and "0 < t" and "msg_queues s (out_queue ch) = Some q"
  shows "for_each ms (send_message ch) s =
     (Ret (), set_queue (out_queue ch) (sysv.put_all t (map (stamp t) ms) q) s)"
  using assms(4)
proof (induction ms arbitrary: s q)
  case Nil
  then show ?case by (simp add: set_queue_same)
next
  case (Cons m ms)
  then show ?case using assms(1-3) by (simp add: send_message_run)
qed

lemma receive_n_run:
  assumes "orientation ch \<noteq> None" and "cq_id ch = t" and "0 < t" and "msg_queues s (in_queue ch) = Some q"
    and "sysv.get_n t n q = Some (ms, q')"
  shows "receive_n env ch n s = (Ret ms, set_queue (in_queue ch) (q') s)"
  using assms(4,5)
proof (induction n arbitrary: s q ms)
  case 0
  then show ?case by (simp add: set_queue_same)
next
  case (Suc n)
  from Suc.prems(2) obtain m q1 ms' where m: "q_get t q = Some (m, q1)"
    "sysv.get_n t n q1 = Some (ms', q')" "ms = m # ms'"
    by (auto split: option.splits)
  let ?s1 = "set_queue (in_queue ch) (q1) s"
  have "receive_message env ch s = (Ret m, ?s1)"
    using assms(1-3) Suc.prems(1) m(1) by (rule receive_message_run)
  moreover have "receive_n env ch n ?s1 = (Ret ms', set_queue (in_queue ch) (q') ?s1)"
    by (rule Suc.IH [OF _ m(2)]) simp
  ultimately show ?case by (simp add: m(3))
qed

text \<open>
  C20. A channel is ordered and typed.  One end sends a list of messages under its identifier
  and the other end, with the same identifier and the opposite orientation, receives as
  many: it gets the same messages in the same order, each stamped with the identifier
  (a connection request keeps its type).  The messages of every other identifier in the
  queue are as they were, and so is every other queue.
\<close>

theorem channel_fifo:
  assumes "orientation a \<noteq> None" and "orientation b \<noteq> None" and "out_queue a = in_queue b"
    and "cq_id a = t" and "cq_id b = t" and "0 < t"
    and "msg_queues s (out_queue a) = Some q" and "q_inbox q t = []"
  shows "\<exists>s1 s2 q2. for_each ms (send_message a) s = (Ret (), s1)
     \<and> receive_n env b (length ms) s1 = (Ret (map (stamp t) ms), s2)
     \<and> s2 = set_queue (out_queue a) q2 s \<and> (\<forall>u. q_inbox q2 u = q_inbox q u)"
proof -
  let ?q1 = "sysv.put_all t (map (stamp t) ms) q"
  let ?s1 = "set_queue (out_queue a) (?q1) s"
  obtain q2 where q2: "sysv.get_n t (length ms) ?q1 = Some (map (stamp t) ms, q2)" "\<forall>u. q_inbox q2 u = q_inbox q u"
    using sysv.fifo [OF assms(6,8), of "map (stamp t) ms"] by auto
  have "for_each ms (send_message a) s = (Ret (), ?s1)"
    using assms(1,4,6,7) by (rule send_all_run)
  moreover have "receive_n env b (length ms) ?s1 = (Ret (map (stamp t) ms),
      set_queue (in_queue b) (q2) ?s1)"
    by (rule receive_n_run [OF assms(2,5,6) _ q2(1)]) (simp add: assms(3))
  ultimately show ?thesis using q2(2) assms(3) by auto
qed

definition queue_example :: ipc where
  "queue_example = empty_ipc\<lparr>msg_queues := [1 \<mapsto> [(5, zero_message)], 2 \<mapsto> []]\<rparr>"

theorem channel_fifo_witness:
  "\<exists>s1 s2 q2. for_each [zero_message\<lparr>client_id := 1\<rparr>, zero_message\<lparr>client_id := 2\<rparr>]
        (send_message \<lparr>id_firstqueue = 1, id_secondqueue = 2, orientation = Some 0, cq_id = 7\<rparr>) queue_example = (Ret (), s1)
     \<and> receive_n (\<lambda>s. s) \<lparr>id_firstqueue = 1, id_secondqueue = 2, orientation = Some 1, cq_id = 7\<rparr> 2 s1
        = (Ret [zero_message\<lparr>message_type := 7, client_id := 1\<rparr>, zero_message\<lparr>message_type := 7, client_id := 2\<rparr>], s2)
     \<and> q_inbox q2 5 = [zero_message]"
proof -
  let ?a = "\<lparr>id_firstqueue = 1, id_secondqueue = 2, orientation = Some 0, cq_id = 7\<rparr>"
  let ?b = "\<lparr>id_firstqueue = 1, id_secondqueue = 2, orientation = Some 1, cq_id = 7\<rparr>"
  have "orientation ?a \<noteq> None" "orientation ?b \<noteq> None" "out_queue ?a = in_queue ?b" "cq_id ?a = 7" "cq_id ?b = 7"
    "(0 :: int) < 7" "msg_queues queue_example (out_queue ?a) = Some [(5, zero_message)]"
    "q_inbox [(5, zero_message)] 7 = []"
    by (simp_all add: out_queue_def in_queue_def queue_example_def q_inbox_def)
  note channel_fifo [OF this, of "[zero_message\<lparr>client_id := 1\<rparr>, zero_message\<lparr>client_id := 2\<rparr>]" "\<lambda>s. s"]
  moreover have "map (stamp 7) [zero_message\<lparr>client_id := 1\<rparr>, zero_message\<lparr>client_id := 2\<rparr>]
      = [zero_message\<lparr>message_type := 7, client_id := 1\<rparr>, zero_message\<lparr>message_type := 7, client_id := 2\<rparr>]"
    by (simp add: stamp_def zero_message_def)
  moreover have "q_inbox [(5, zero_message)] 5 = [zero_message]" by (simp add: q_inbox_def)
  moreover have "length [zero_message\<lparr>client_id := 1\<rparr>, zero_message\<lparr>client_id := 2\<rparr>] = 2" by simp
  ultimately show ?thesis by metis
qed


section \<open>The kernel's objects stay consistent\<close>

text \<open>
  A table of keys finds existing objects, different ones for different keys, and new
  identifiers are new; messages have positive types and semaphores no negative value.
\<close>

definition table_ok :: "(int \<Rightarrow> int option) \<Rightarrow> (int \<Rightarrow> 'b option) \<Rightarrow> int \<Rightarrow> bool" where
  "table_ok ids objs fresh \<longleftrightarrow> inj_on ids (dom ids) \<and> (\<forall>k i. ids k = Some i \<longrightarrow> objs i \<noteq> None)
     \<and> (\<forall>i. objs i \<noteq> None \<longrightarrow> i < fresh)"

definition ipc_ok :: "'a ipc_scheme \<Rightarrow> bool" where
  "ipc_ok s \<longleftrightarrow> table_ok (msg_ids s) (msg_queues s) (next_id s)
     \<and> table_ok (sem_ids s) (sem_vals s) (next_id s) \<and> table_ok (shm_ids s) (shm_segs s) (next_id s)
     \<and> (\<forall>i q m. msg_queues s i = Some q \<longrightarrow> m \<in> set q \<longrightarrow> 0 < fst m)
     \<and> (\<forall>i v. sem_vals s i = Some v \<longrightarrow> 0 \<le> v)"

lemma table_ok_new:
  "table_ok ids objs n \<Longrightarrow> ids k = None \<Longrightarrow> table_ok (ids(k \<mapsto> n)) (objs(n \<mapsto> x)) (n + 1)"
  by (auto simp: table_ok_def inj_on_def dom_def) (metis less_irrefl zless_add1_eq not_Some_eq)+

lemma table_ok_later: "table_ok ids objs n \<Longrightarrow> table_ok ids objs (n + 1)"
  by (auto simp: table_ok_def)

lemma table_ok_update: "table_ok ids objs n \<Longrightarrow> objs i \<noteq> None \<Longrightarrow> table_ok ids (objs(i \<mapsto> x)) n"
  by (auto simp: table_ok_def)

lemma table_ok_drop: "table_ok ids objs n \<Longrightarrow> table_ok (drop_id ids i) (objs(i := None)) n"
  by (auto simp: table_ok_def drop_id_def inj_on_def dom_def split: if_splits)

lemma table_ok_drop_key: "table_ok ids objs n \<Longrightarrow> table_ok (drop_id ids i) objs n"
  by (auto simp: table_ok_def drop_id_def inj_on_def dom_def split: if_splits)

lemmas table_ok_intros = table_ok_new table_ok_later table_ok_update table_ok_drop table_ok_drop_key

lemma take_first_subset: "take_first P q = Some (m, q') \<Longrightarrow> set q' \<subseteq> set q"
  by (drule take_first_Some) auto

lemma msgrcv_subset: "msgrcv t q = Some (m, q') \<Longrightarrow> set q' \<subseteq> set q"
  by (auto simp: msgrcv_def Let_def split: if_splits dest!: take_first_subset)

lemma ipc_ok_set_queue:
  assumes "ipc_ok s" and "msg_queues s i \<noteq> None" and "\<forall>m \<in> set q. 0 < fst m"
  shows "ipc_ok (set_queue i q s)"
proof -
  have "msg_queues (set_queue i q s) = (msg_queues s)(i \<mapsto> q)" by (rule ext) simp
  with assms show ?thesis
    by (auto simp: ipc_ok_def intro: table_ok_update split: if_splits)
qed

lemma ipc_ok_queue_create: "keeps ipc_ok (queue_create ftok file letter)"
  by (auto simp: keeps_def queue_create_def Let_def ipc_ok_def simp del: fun_upd_apply
      split: option.splits intro: table_ok_intros) (auto split: if_splits)

lemma ipc_ok_queue_send: "keeps ipc_ok (queue_send i m t)"
  by (auto simp: keeps_def queue_send_def split: option.splits intro!: ipc_ok_set_queue)
    (auto simp: ipc_ok_def)

lemma ipc_ok_try_receive: "keeps ipc_ok (try_receive i t)"
  by (auto simp: keeps_def try_receive_def split: option.splits intro!: ipc_ok_set_queue dest!: msgrcv_subset)
    (fastforce simp: ipc_ok_def subset_iff)

lemma ipc_ok_queue_receive: "(\<And>s. ipc_ok s \<Longrightarrow> ipc_ok (env s)) \<Longrightarrow> keeps ipc_ok (queue_receive env i t)"
  using ipc_ok_try_receive [of i t]
  by (auto simp: keeps_def queue_receive_def split: prod.splits outcome.splits) (metis snd_conv)+

lemma ipc_ok_queue_destroy: "keeps ipc_ok (queue_destroy i)"
  by (auto simp: keeps_def queue_destroy_def ipc_ok_def simp del: fun_upd_apply
      split: option.splits intro: table_ok_intros) (auto split: if_splits)

lemma ipc_ok_semaphore_get: "keeps ipc_ok (semaphore_get ftok file letter)"
  by (auto simp: keeps_def semaphore_get_def Let_def ipc_ok_def simp del: fun_upd_apply
      split: option.splits intro: table_ok_intros) (auto split: if_splits)

lemma ipc_ok_sem_init: "keeps ipc_ok (sem_init i v)"
  by (auto simp: keeps_def sem_init_def ipc_ok_def simp del: fun_upd_apply
      intro: table_ok_intros) (auto split: if_splits)

lemma ipc_ok_semop: "keeps ipc_ok (semop i b)"
  by (auto simp: keeps_def semop_def ipc_ok_def simp del: fun_upd_apply
      split: option.splits intro: table_ok_intros) (auto split: if_splits)

lemma ipc_ok_sem_op: "(\<And>s. ipc_ok s \<Longrightarrow> ipc_ok (env s)) \<Longrightarrow> keeps ipc_ok (sem_op env i v)"
  using ipc_ok_semop [of i "sem_operation v"]
  by (auto simp: keeps_def sem_op_def Let_def split: prod.splits outcome.splits) (metis snd_conv)+

lemma ipc_ok_semaphore_delete: "keeps ipc_ok (semaphore_delete i)"
  by (auto simp: keeps_def semaphore_delete_def ipc_ok_def simp del: fun_upd_apply
      intro: table_ok_intros) (auto split: if_splits)

lemma ipc_ok_shm_create: "keeps ipc_ok (shm_create ftok file letter n)"
  by (auto simp: keeps_def shm_create_def Let_def ipc_ok_def simp del: fun_upd_apply
      split: option.splits intro: table_ok_intros)

lemma ipc_ok_shm_dettach: "keeps ipc_ok (shm_dettach i)"
  by (auto simp: keeps_def shm_dettach_def ipc_ok_def simp del: fun_upd_apply
      split: option.splits intro: table_ok_intros)

lemma ipc_ok_shm_get_data: "keeps ipc_ok (shm_get_data ftok file letter n)"
proof -
  have "keeps ipc_ok (\<lambda>s. case shm_segs s shm_id of
         None \<Rightarrow> throw_util s
       | Some g \<Rightarrow> (Ret shm_id, s\<lparr>shm_segs := (shm_segs s)(shm_id \<mapsto> g\<lparr>seg_nattch := seg_nattch g + 1\<rparr>)\<rparr>))"
    for shm_id :: int
    by (auto simp: keeps_def ipc_ok_def simp del: fun_upd_apply split: option.splits intro: table_ok_intros)
  then show ?thesis
    unfolding shm_get_data_def by (intro keeps_andThen ipc_ok_shm_create)
qed

lemma ipc_ok_shm_remove: "keeps ipc_ok (shm_remove i)"
  by (auto simp: keeps_def shm_remove_def ipc_ok_def simp del: fun_upd_apply
      split: option.splits intro: table_ok_intros)

lemmas ipc_ok_intros = ipc_ok_queue_create ipc_ok_queue_send ipc_ok_queue_receive ipc_ok_queue_destroy
  ipc_ok_semaphore_get ipc_ok_sem_init ipc_ok_sem_op ipc_ok_semaphore_delete
  ipc_ok_shm_create ipc_ok_shm_dettach ipc_ok_shm_get_data ipc_ok_shm_remove keeps_intros

lemma ipc_ok_channels:
  "keeps ipc_ok (create_commqueue ftok file letter)" "keeps ipc_ok (send_message ch m)" "keeps ipc_ok (delete_queue ch)"
  "keeps ipc_ok (semaphore_create ftok file letter v)"
  by (auto simp: create_commqueue_def send_message_def delete_queue_def semaphore_create_def Let_def
      intro!: ipc_ok_intros)

lemma ipc_ok_receive_message:
  "(\<And>s. ipc_ok s \<Longrightarrow> ipc_ok (env s)) \<Longrightarrow> keeps ipc_ok (receive_message_type env ch t)"
  "(\<And>s. ipc_ok s \<Longrightarrow> ipc_ok (env s)) \<Longrightarrow> keeps ipc_ok (receive_message env ch)"
  by (auto simp: receive_message_def receive_message_type_def Let_def intro!: ipc_ok_intros)

lemma ipc_ok_empty: "ipc_ok empty_ipc"
  by (simp add: ipc_ok_def empty_ipc_def table_ok_def)

text \<open>Every operation of the wrappers keeps the kernel's objects consistent (\<open>ipc_ok\<close>: keys
  find existing objects, no two keys share one, identifiers are never handed out twice while
  in use, queued messages have a positive type, semaphores are not negative), however it ends
  and whatever it is called with, if the other processes keep them so while it waits.
\<close>

theorem ipc_ok_kept:
  assumes "\<forall>s. ipc_ok s \<longrightarrow> ipc_ok (env s)"
  shows "keeps ipc_ok (create_commqueue ftok file letter) \<and> keeps ipc_ok (send_message ch m)
     \<and> keeps ipc_ok (receive_message env ch) \<and> keeps ipc_ok (receive_message_type env ch t)
     \<and> keeps ipc_ok (delete_queue ch) \<and> keeps ipc_ok (semaphore_create ftok file letter v)
     \<and> keeps ipc_ok (semaphore_get ftok file letter)
     \<and> keeps ipc_ok (semaphore_wait env i) \<and> keeps ipc_ok (semaphore_signal env i)
     \<and> keeps ipc_ok (semaphore_delete i) \<and> keeps ipc_ok (shm_create ftok file letter n)
     \<and> keeps ipc_ok (shm_get_data ftok file letter n)
     \<and> keeps ipc_ok (shm_dettach i) \<and> keeps ipc_ok (shm_remove i)"
  using assms
  by (simp add: ipc_ok_channels ipc_ok_receive_message semaphore_wait_def semaphore_signal_def ipc_ok_intros)

theorem ipc_ok_kept_witness:
  "ipc_ok (snd (create_commqueue (\<lambda>f c. of_char c) ''/bin/ls'' (CHR ''a'') empty_ipc))"
proof -
  have "\<forall>s. ipc_ok s \<longrightarrow> ipc_ok ((\<lambda>s. s) s)" by simp
  from keepsD [OF ipc_ok_kept [OF this, THEN conjunct1] ipc_ok_empty] show ?thesis .
qed

text \<open>A send that is not addressed: the channel has no identifier and the message no positive
  type (as in a message that was just value-initialised).  The kernel refuses it, the process
  ends with status 1, and nothing has changed.
\<close>

theorem unaddressed_send_exits:
  assumes "cq_id ch = UNDEFINED_CHANNEL_ID" and "message_type m < 1" and "orientation ch \<noteq> None"
  shows "send_message ch m s = (Exit 1, s)"
proof -
  obtain orient where "orientation ch = Some orient" using assms(3) by auto
  with assms(1,2) show ?thesis
    by (simp add: send_message_def queue_send_def Let_def split: option.splits)
qed

theorem unaddressed_send_exits_witness:
  "send_message \<lparr>id_firstqueue = 1, id_secondqueue = 2, orientation = Some 0, cq_id = -1\<rparr> zero_message queue_example
     = (Exit 1, queue_example)"
  by (rule unaddressed_send_exits) (simp_all add: zero_message_def)

lemma create_commqueue_Ret:
  assumes "create_commqueue ftok file letter s = (Ret ch, s1)"
  shows "ftok file letter \<noteq> -1 \<and> ftok file (next_char letter) \<noteq> -1
     \<and> msg_ids s1 (ftok file letter) = Some (id_firstqueue ch)
     \<and> msg_ids s1 (ftok file (next_char letter)) = Some (id_secondqueue ch)
     \<and> orientation ch = None \<and> cq_id ch = -1"
  using assms
  by (fastforce simp: create_commqueue_def queue_create_def Let_def andThen_Ret_iff split: if_splits option.splits)

text \<open>Two processes that create the channel of the same file and letter get the same two
  queues: after a creation, any state in which the keys still find what they found gives the
  second process the same channel and is not changed by it.  The two queues exist and, when
  \<open>ftok\<close> tells the two letters apart, are different, so the directions do not mix.
\<close>

theorem commqueue_rendezvous:
  assumes "ipc_ok s" and "create_commqueue ftok file letter s = (Ret ch, s1)"
    and "msg_ids s2 = msg_ids s1"
  shows "create_commqueue ftok file letter s2 = (Ret ch, s2)
     \<and> msg_queues s1 (id_firstqueue ch) \<noteq> None \<and> msg_queues s1 (id_secondqueue ch) \<noteq> None
     \<and> (ftok file letter \<noteq> ftok file (next_char letter) \<longrightarrow> id_firstqueue ch \<noteq> id_secondqueue ch)"
proof -
  note ch = create_commqueue_Ret [OF assms(2)]
  have "ipc_ok s1"
    using keepsD [OF ipc_ok_channels(1) assms(1)] assms(2) by (metis snd_conv)
  then have t: "table_ok (msg_ids s1) (msg_queues s1) (next_id s1)" by (simp add: ipc_ok_def)
  have "create_commqueue ftok file letter s2 = (Ret ch, s2)"
    using ch assms(3) by (cases ch) (simp add: create_commqueue_def queue_create_def Let_def)
  moreover have "ftok file letter \<noteq> ftok file (next_char letter) \<longrightarrow> id_firstqueue ch \<noteq> id_secondqueue ch"
    using t ch unfolding table_ok_def inj_on_def by (metis domI)
  ultimately show ?thesis using t ch by (auto simp: table_ok_def)
qed

lemma next_char_letters:
  "next_char (CHR ''a'') = CHR ''b''" "next_char (CHR ''e'') = CHR ''f''" "next_char (CHR ''h'') = CHR ''i''"
  by (code_simp)+

theorem commqueue_rendezvous_witness:
  "\<exists>ch s1. create_commqueue (\<lambda>f c. of_char c) ''/bin/ls'' (CHR ''a'') empty_ipc = (Ret ch, s1)
     \<and> create_commqueue (\<lambda>f c. of_char c) ''/bin/ls'' (CHR ''a'') s1 = (Ret ch, s1)
     \<and> id_firstqueue ch \<noteq> id_secondqueue ch"
proof -
  obtain ch s1 where c: "create_commqueue (\<lambda>f c. of_char c) ''/bin/ls'' (CHR ''a'') empty_ipc = (Ret ch, s1)"
    by (simp add: create_commqueue_def queue_create_def Let_def empty_ipc_def next_char_letters)
  from commqueue_rendezvous [OF ipc_ok_empty this refl] c show ?thesis
    by (intro exI [of _ ch] exI [of _ s1]) (simp add: next_char_letters)
qed

end
