(* ===== verification/Sqlite_Engine.thy ===== *)
theory Sqlite_Engine
  imports Prelude "HOL-Library.Multiset"
begin

text \<open>
  The interface of the database.  The SQLite library is not in the repository: it is the
  parameter \<open>sqlite\<close> of the model, and the locale \<open>sqlite_engine\<close> states what the program
  relies on of it, as SQLite documents it.  The SQL the program sends, written as text in
  src/db/db_api.cpp, is the datatype \<open>sql\<close>, and the schema of its \<open>CREATE TABLE\<close> statements
  is \<open>primary_key\<close>, \<open>foreign_keys\<close> and \<open>default_values\<close>.

  \<^item> A statement that fails changes no table; one that succeeds has the effect SQL gives it
    (\<open>sql_effect\<close>) and, for a \<open>SELECT\<close>, answers the rows that match, in any order (there is
    no \<open>ORDER BY\<close> in the program).
  \<^item> A row identifier the engine chooses (\<open>AUTOINCREMENT\<close>) is positive and above those in the table.
  \<^item> A row whose primary key is taken is refused.  Foreign keys are checked only while
    \<open>PRAGMA foreign_keys\<close> is on, and an unknown pragma is ignored.
  \<^item> \<open>reliable_engine\<close> adds that nothing else fails (no full disk, no lock held by another
    process): a statement is refused only for a constraint, and a row whose only column is
    chosen by the engine never is.

  \<open>ref_engine\<close> executes this SQL on lists of rows; it interprets both locales.
\<close>

section \<open>SQL\<close>

datatype table = Users | Rooms | Seats | Reservations | Clients_rooms | Active_clients

datatype column = Col_id | Col_user_id | Col_room_id | Col_seat_id | Col_paid_flag

type_synonym row = "column \<Rightarrow> int option"
type_synonym tables = "table \<Rightarrow> row list"

text \<open>\<open>InsertInto\<close> lists columns and values, \<open>None\<close> for \<open>null\<close>; a condition is a conjunction
  of equations.\<close>

datatype sql =
    Pragma string string
  | CreateTableIfNotExists table
  | InsertInto table "(column \<times> int option) list"
  | DeleteFrom table "(column \<times> int) list"
  | UpdateSet table "(column \<times> int) list" "(column \<times> int) list"
  | SelectFrom column table "(column \<times> int) list"

definition SQLITE_OK :: int where "SQLITE_OK = 0"
definition SQLITE_CONSTRAINT :: int where "SQLITE_CONSTRAINT = 19"
definition SQLITE_MISUSE :: int where "SQLITE_MISUSE = 21"

lemmas sqlite_codes [simp] = SQLITE_OK_def SQLITE_CONSTRAINT_def SQLITE_MISUSE_def

fun primary_key :: "table \<Rightarrow> column list" where
  "primary_key Users = [Col_id]"
| "primary_key Rooms = [Col_id]"
| "primary_key Seats = [Col_room_id, Col_seat_id]"
| "primary_key Reservations = [Col_room_id, Col_seat_id]"
| "primary_key Clients_rooms = [Col_user_id, Col_room_id]"
| "primary_key Active_clients = [Col_user_id]"

text \<open>Columns, the table they refer to and its columns.\<close>

fun foreign_keys :: "table \<Rightarrow> (column list \<times> table \<times> column list) list" where
  "foreign_keys Seats = [([Col_room_id], Rooms, [Col_id])]"
| "foreign_keys Reservations =
     [([Col_user_id], Users, [Col_id]), ([Col_room_id, Col_seat_id], Seats, [Col_room_id, Col_seat_id])]"
| "foreign_keys Clients_rooms = [([Col_user_id], Users, [Col_id]), ([Col_room_id], Rooms, [Col_id])]"
| "foreign_keys Active_clients = [([Col_user_id], Users, [Col_id])]"
| "foreign_keys _ = []"

text \<open>The defaults of columns the program reads (\<open>reservation_date\<close> is never read).\<close>

fun default_values :: "table \<Rightarrow> row" where
  "default_values Reservations = [Col_paid_flag \<mapsto> 0]"
| "default_values _ = Map.empty"

definition matches :: "(column \<times> int) list \<Rightarrow> row \<Rightarrow> bool" where
  "matches w r \<longleftrightarrow> list_all (\<lambda>(c, v). r c = Some v) w"

text \<open>\<open>null\<close> in an integer primary key stands for the new row identifier.\<close>

definition new_row :: "table \<Rightarrow> (column \<times> int option) list \<Rightarrow> int \<Rightarrow> row" where
  "new_row t vals rowid =
     default_values t ++ map_of (map (\<lambda>(c, v). (c, case v of None \<Rightarrow> rowid | Some x \<Rightarrow> x)) vals)"

fun sql_effect :: "int \<Rightarrow> sql \<Rightarrow> tables \<Rightarrow> tables" where
  "sql_effect rowid (InsertInto t vals) T = T(t := T t @ [new_row t vals rowid])"
| "sql_effect rowid (DeleteFrom t w) T = T(t := filter (\<lambda>r. \<not> matches w r) (T t))"
| "sql_effect rowid (UpdateSet t new w) T =
     T(t := map (\<lambda>r. if matches w r then r ++ map_of new else r) (T t))"
| "sql_effect rowid _ T = T"

fun sql_answer :: "tables \<Rightarrow> sql \<Rightarrow> int list" where
  "sql_answer T (SelectFrom c t w) = map (\<lambda>r. the (r c)) (filter (matches w) (T t))"
| "sql_answer T _ = []"

definition key_of :: "table \<Rightarrow> row \<Rightarrow> int option list" where
  "key_of t r = map r (primary_key t)"

definition pk_clash :: "tables \<Rightarrow> table \<Rightarrow> row \<Rightarrow> bool" where
  "pk_clash T t r \<longleftrightarrow> key_of t r \<in> key_of t ` set (T t)"

definition parent_missing :: "tables \<Rightarrow> table \<Rightarrow> row \<Rightarrow> bool" where
  "parent_missing T t r \<longleftrightarrow>
     list_ex (\<lambda>(cs, p, pcs). \<not> list_ex (\<lambda>r'. map r' pcs = map r cs) (T p)) (foreign_keys t)"

text \<open>A statement with the values all given.\<close>

definition no_nulls :: "(column \<times> int option) list \<Rightarrow> bool" where
  "no_nulls vals \<longleftrightarrow> list_all (\<lambda>(c, v). v \<noteq> None) vals"

fun is_insert :: "sql \<Rightarrow> bool" where
  "is_insert (InsertInto _ _) = True"
| "is_insert _ = False"

section \<open>The engine\<close>

text \<open>
  \<open>sq_exec\<close> runs one statement: the result code, the first column of the rows given to the
  callback, and the database after it.  \<open>sq_prepare_insert\<close> is the result code of
  \<open>sqlite3_prepare\<close> on an \<open>INSERT\<close> with a placeholder for each of the columns; the statement
  handle is null exactly when it is not \<open>SQLITE_OK\<close>.
\<close>

record 'db sqlite =
  sq_exec :: "sql \<Rightarrow> 'db \<Rightarrow> (int \<times> int list) \<times> 'db"
  sq_prepare_insert :: "table \<Rightarrow> column list \<Rightarrow> 'db \<Rightarrow> int"
  sq_last_insert_rowid :: "'db \<Rightarrow> int"

locale sqlite_engine =
  fixes E :: "'db sqlite"
    and tab :: "'db \<Rightarrow> tables"
    and fk :: "'db \<Rightarrow> bool"
  assumes exec_failed: "sq_exec E q d = ((rc, rows), d') \<Longrightarrow> rc \<noteq> SQLITE_OK \<Longrightarrow> tab d' = tab d"
    and exec_ok: "sq_exec E q d = ((rc, rows), d') \<Longrightarrow> rc = SQLITE_OK \<Longrightarrow>
        tab d' = sql_effect (sq_last_insert_rowid E d') q (tab d)"
    and exec_answer: "sq_exec E q d = ((rc, rows), d') \<Longrightarrow> rc = SQLITE_OK \<Longrightarrow>
        mset rows = mset (sql_answer (tab d) q)"
    and exec_key: "sq_exec E (InsertInto t vals) d = ((rc, rows), d') \<Longrightarrow> rc = SQLITE_OK \<Longrightarrow>
        \<not> pk_clash (tab d) t (new_row t vals (sq_last_insert_rowid E d'))"
    and exec_constraint: "sq_exec E (InsertInto t vals) d = ((rc, rows), d') \<Longrightarrow> no_nulls vals \<Longrightarrow>
        rc = SQLITE_CONSTRAINT \<Longrightarrow>
        pk_clash (tab d) t (new_row t vals 0) \<or> (fk d \<and> parent_missing (tab d) t (new_row t vals 0))"
    and exec_rowid: "sq_exec E (InsertInto t [(Col_id, None)]) d = ((rc, rows), d') \<Longrightarrow> rc = SQLITE_OK \<Longrightarrow>
        0 < sq_last_insert_rowid E d'
        \<and> (\<forall>r \<in> set (tab d t). \<forall>i. r Col_id = Some i \<longrightarrow> i < sq_last_insert_rowid E d')"
    and exec_fk: "sq_exec E q d = ((rc, rows), d') \<Longrightarrow>
        (\<And>v. q \<noteq> Pragma ''foreign_keys'' v) \<Longrightarrow> fk d' = fk d"

locale reliable_engine = sqlite_engine +
  assumes exec_reliable: "sq_exec E q d = ((rc, rows), d') \<Longrightarrow>
        rc = SQLITE_OK \<or> (is_insert q \<and> rc = SQLITE_CONSTRAINT)"
    and prepare_reliable: "sq_prepare_insert E t cs d = SQLITE_OK"
    and exec_new_row: "sq_exec E (InsertInto t [(Col_id, None)]) d = ((rc, rows), d') \<Longrightarrow>
        primary_key t = [Col_id] \<Longrightarrow> foreign_keys t = [] \<Longrightarrow> rc = SQLITE_OK"

text \<open>Values without \<open>null\<close> do not depend on the row identifier.\<close>

lemma new_row_no_nulls: "no_nulls vals \<Longrightarrow> new_row t vals i = new_row t vals j"
proof -
  assume "no_nulls vals"
  then have "map (\<lambda>(c, v). (c, case v of None \<Rightarrow> i | Some x \<Rightarrow> x)) vals
      = map (\<lambda>(c, v). (c, case v of None \<Rightarrow> j | Some x \<Rightarrow> x)) vals"
    by (induction vals) (auto simp: no_nulls_def)
  then show ?thesis by (simp only: new_row_def)
qed

section \<open>Keys stay unique\<close>

definition keys_unique :: "tables \<Rightarrow> bool" where
  "keys_unique T \<longleftrightarrow> (\<forall>t. distinct (map (key_of t) (T t)))"

text \<open>An \<open>UPDATE\<close> of the program sets no key column.\<close>

fun keeps_keys :: "sql \<Rightarrow> bool" where
  "keeps_keys (UpdateSet t new w) = (set (map fst new) \<inter> set (primary_key t) = {})"
| "keeps_keys _ = True"

lemma key_of_update:
  assumes "set (map fst new) \<inter> set (primary_key t) = {}"
  shows "key_of t (r ++ map_of new) = key_of t r"
proof -
  have "(r ++ map_of new) c = r c" if "c \<in> set (primary_key t)" for c
  proof -
    from assms that have "c \<notin> dom (map_of new)" by (auto simp: dom_map_of_conv_image_fst)
    then show ?thesis by (rule map_add_dom_app_simps(3))
  qed
  then show ?thesis by (simp add: key_of_def)
qed

lemma keys_unique_effect:
  assumes "keys_unique T" and "keeps_keys q"
    and "\<And>t vals. q = InsertInto t vals \<Longrightarrow> \<not> pk_clash T t (new_row t vals rowid)"
  shows "keys_unique (sql_effect rowid q T)"
proof (cases q)
  case (InsertInto t vals)
  with assms show ?thesis
    by (auto simp: keys_unique_def pk_clash_def)
next
  case (DeleteFrom t w)
  with assms show ?thesis
    by (auto simp: keys_unique_def distinct_map intro: inj_on_subset)
next
  case (UpdateSet t new w)
  with assms(2) have "key_of t \<circ> (\<lambda>r. if matches w r then r ++ map_of new else r) = key_of t"
    by (auto simp: fun_eq_iff key_of_update)
  with assms UpdateSet show ?thesis
    by (simp add: keys_unique_def)
qed (use assms in simp_all)

context sqlite_engine
begin

lemma keys_unique_exec:
  assumes "keys_unique (tab d)" and "keeps_keys q" and "sq_exec E q d = ((rc, rows), d')"
  shows "keys_unique (tab d')"
proof (cases "rc = SQLITE_OK")
  case True
  have "keys_unique (sql_effect (sq_last_insert_rowid E d') q (tab d))"
    using assms True by (intro keys_unique_effect) (auto dest: exec_key)
  with exec_ok [OF assms(3) True] show ?thesis by simp
next
  case False
  with exec_failed [OF assms(3)] assms(1) show ?thesis by simp
qed

end

section \<open>A reference engine\<close>

record ref_db =
  rd_tab :: tables
  rd_seq :: "table \<Rightarrow> nat"
  rd_last :: int
  rd_fk :: bool

definition ref_empty :: ref_db where
  "ref_empty = \<lparr>rd_tab = \<lambda>_. [], rd_seq = \<lambda>_. 0, rd_last = 0, rd_fk = False\<rparr>"

fun next_rowid :: "row list \<Rightarrow> nat \<Rightarrow> int" where
  "next_rowid [] n = int n + 1"
| "next_rowid (r # rs) n = (case r Col_id of None \<Rightarrow> next_rowid rs n | Some i \<Rightarrow> max (i + 1) (next_rowid rs n))"

lemma next_rowid: "0 < next_rowid rs n \<and> (\<forall>r \<in> set rs. \<forall>i. r Col_id = Some i \<longrightarrow> i < next_rowid rs n)"
  by (induction rs) (auto split: option.splits)

fun ref_exec :: "sql \<Rightarrow> ref_db \<Rightarrow> (int \<times> int list) \<times> ref_db" where
  "ref_exec (Pragma n v) d = ((SQLITE_OK, []), if n = ''foreign_keys'' then d\<lparr>rd_fk := (v = ''ON'')\<rparr> else d)"
| "ref_exec (InsertInto t vals) d =
     (let rowid = next_rowid (rd_tab d t) (rd_seq d t); r = new_row t vals rowid in
      if pk_clash (rd_tab d) t r \<or> (rd_fk d \<and> parent_missing (rd_tab d) t r)
      then ((SQLITE_CONSTRAINT, []), d)
      else ((SQLITE_OK, []), d\<lparr>rd_tab := sql_effect rowid (InsertInto t vals) (rd_tab d),
              rd_seq := (rd_seq d)(t := nat rowid), rd_last := rowid\<rparr>))"
| "ref_exec (SelectFrom c t w) d = ((SQLITE_OK, sql_answer (rd_tab d) (SelectFrom c t w)), d)"
| "ref_exec q d = ((SQLITE_OK, []), d\<lparr>rd_tab := sql_effect 0 q (rd_tab d)\<rparr>)"

definition ref_engine :: "ref_db sqlite" where
  "ref_engine = \<lparr>sq_exec = ref_exec, sq_prepare_insert = (\<lambda>t cs d. SQLITE_OK), sq_last_insert_rowid = rd_last\<rparr>"

interpretation ref: reliable_engine ref_engine rd_tab rd_fk
proof unfold_locales
  fix q :: sql and d d' :: ref_db and rc rows
  assume e: "sq_exec ref_engine q d = ((rc, rows), d')"
  then have ex: "ref_exec q d = ((rc, rows), d')" by (simp add: ref_engine_def)
  show "rd_tab d' = rd_tab d" if "rc \<noteq> SQLITE_OK"
    using ex that by (cases q) (auto simp: Let_def split: if_splits)
  show "rd_tab d' = sql_effect (sq_last_insert_rowid ref_engine d') q (rd_tab d)" if "rc = SQLITE_OK"
    using ex that by (cases q) (auto simp: Let_def ref_engine_def split: if_splits)
  show "mset rows = mset (sql_answer (rd_tab d) q)" if "rc = SQLITE_OK"
    using ex that by (cases q) (auto simp: Let_def split: if_splits)
  show "rc = SQLITE_OK \<or> is_insert q \<and> rc = SQLITE_CONSTRAINT"
    using ex by (cases q) (auto simp: Let_def split: if_splits)
  show "rd_fk d' = rd_fk d" if "\<And>v. q \<noteq> Pragma ''foreign_keys'' v"
    using ex that by (cases q) (auto simp: Let_def split: if_splits)
next
  fix t vals and d d' :: ref_db and rc rows
  assume "sq_exec ref_engine (InsertInto t vals) d = ((rc, rows), d')"
  then have ex: "ref_exec (InsertInto t vals) d = ((rc, rows), d')" by (simp add: ref_engine_def)
  show "\<not> pk_clash (rd_tab d) t (new_row t vals (sq_last_insert_rowid ref_engine d'))" if "rc = SQLITE_OK"
    using ex that by (auto simp: Let_def ref_engine_def split: if_splits)
  show "pk_clash (rd_tab d) t (new_row t vals 0) \<or> rd_fk d \<and> parent_missing (rd_tab d) t (new_row t vals 0)"
    if "no_nulls vals" and "rc = SQLITE_CONSTRAINT"
    using ex that(2) new_row_no_nulls [OF that(1), of t "next_rowid (rd_tab d t) (rd_seq d t)" 0]
    by (auto simp: Let_def split: if_splits)
next
  fix t and d d' :: ref_db and rc rows
  assume "sq_exec ref_engine (InsertInto t [(Col_id, None)]) d = ((rc, rows), d')" and "rc = SQLITE_OK"
  then show "0 < sq_last_insert_rowid ref_engine d'
      \<and> (\<forall>r \<in> set (rd_tab d t). \<forall>i. r Col_id = Some i \<longrightarrow> i < sq_last_insert_rowid ref_engine d')"
    using next_rowid [of "rd_tab d t" "rd_seq d t"] by (auto simp: ref_engine_def Let_def split: if_splits)
next
  fix t and d d' :: ref_db and rc rows
  assume "sq_exec ref_engine (InsertInto t [(Col_id, None)]) d = ((rc, rows), d')"
    and t: "primary_key t = [Col_id]" "foreign_keys t = []"
  moreover have "\<not> pk_clash (rd_tab d) t (new_row t [(Col_id, None)] (next_rowid (rd_tab d t) (rd_seq d t)))"
    using next_rowid [of "rd_tab d t" "rd_seq d t"] t(1)
    by (auto simp: pk_clash_def key_of_def new_row_def) (metis less_irrefl)
  ultimately show "rc = SQLITE_OK"
    by (auto simp: ref_engine_def Let_def parent_missing_def split: if_splits)
qed (simp add: ref_engine_def)

end
