(* ===== verification/Sqlite_Codes.thy ===== *)
theory Sqlite_Codes
  imports Prelude "HOL-Library.Word"
begin

unbundle bit_operations_syntax

text \<open>
  The integer constants of include/db/sqlite3.h, in the groups and the order of the header: the
  result codes the program compares with, the extended codes, and the flags and codes of the
  rest of the interface.  A group is a list of names and values; an extended code is given as the
  header does, by the name of its result code and the number put above its eight bits.

  The properties: an extended code is decoded into its two parts, a combination of flags into the
  flags that were combined, and the codes of a group are told apart.
\<close>

section \<open>Result codes\<close>

definition result_codes :: "(string \<times> int) list" where
  "result_codes = [
    (''SQLITE_OK'', 0), (''SQLITE_ERROR'', 1), (''SQLITE_INTERNAL'', 2), (''SQLITE_PERM'', 3),
    (''SQLITE_ABORT'', 4), (''SQLITE_BUSY'', 5), (''SQLITE_LOCKED'', 6), (''SQLITE_NOMEM'', 7),
    (''SQLITE_READONLY'', 8), (''SQLITE_INTERRUPT'', 9), (''SQLITE_IOERR'', 10), (''SQLITE_CORRUPT'', 11),
    (''SQLITE_NOTFOUND'', 12), (''SQLITE_FULL'', 13), (''SQLITE_CANTOPEN'', 14), (''SQLITE_PROTOCOL'', 15),
    (''SQLITE_EMPTY'', 16), (''SQLITE_SCHEMA'', 17), (''SQLITE_TOOBIG'', 18), (''SQLITE_CONSTRAINT'', 19),
    (''SQLITE_MISMATCH'', 20), (''SQLITE_MISUSE'', 21), (''SQLITE_NOLFS'', 22), (''SQLITE_AUTH'', 23),
    (''SQLITE_FORMAT'', 24), (''SQLITE_RANGE'', 25), (''SQLITE_NOTADB'', 26), (''SQLITE_NOTICE'', 27),
    (''SQLITE_WARNING'', 28), (''SQLITE_ROW'', 100), (''SQLITE_DONE'', 101)]"

definition extended_codes :: "(string \<times> string \<times> nat) list" where
  "extended_codes = [
    (''SQLITE_IOERR_READ'', ''SQLITE_IOERR'', 1), (''SQLITE_IOERR_SHORT_READ'', ''SQLITE_IOERR'', 2),
    (''SQLITE_IOERR_WRITE'', ''SQLITE_IOERR'', 3), (''SQLITE_IOERR_FSYNC'', ''SQLITE_IOERR'', 4),
    (''SQLITE_IOERR_DIR_FSYNC'', ''SQLITE_IOERR'', 5), (''SQLITE_IOERR_TRUNCATE'', ''SQLITE_IOERR'', 6),
    (''SQLITE_IOERR_FSTAT'', ''SQLITE_IOERR'', 7), (''SQLITE_IOERR_UNLOCK'', ''SQLITE_IOERR'', 8),
    (''SQLITE_IOERR_RDLOCK'', ''SQLITE_IOERR'', 9), (''SQLITE_IOERR_DELETE'', ''SQLITE_IOERR'', 10),
    (''SQLITE_IOERR_BLOCKED'', ''SQLITE_IOERR'', 11), (''SQLITE_IOERR_NOMEM'', ''SQLITE_IOERR'', 12),
    (''SQLITE_IOERR_ACCESS'', ''SQLITE_IOERR'', 13),
    (''SQLITE_IOERR_CHECKRESERVEDLOCK'', ''SQLITE_IOERR'', 14),
    (''SQLITE_IOERR_LOCK'', ''SQLITE_IOERR'', 15), (''SQLITE_IOERR_CLOSE'', ''SQLITE_IOERR'', 16),
    (''SQLITE_IOERR_DIR_CLOSE'', ''SQLITE_IOERR'', 17), (''SQLITE_IOERR_SHMOPEN'', ''SQLITE_IOERR'', 18),
    (''SQLITE_IOERR_SHMSIZE'', ''SQLITE_IOERR'', 19), (''SQLITE_IOERR_SHMLOCK'', ''SQLITE_IOERR'', 20),
    (''SQLITE_IOERR_SHMMAP'', ''SQLITE_IOERR'', 21), (''SQLITE_IOERR_SEEK'', ''SQLITE_IOERR'', 22),
    (''SQLITE_IOERR_DELETE_NOENT'', ''SQLITE_IOERR'', 23), (''SQLITE_IOERR_MMAP'', ''SQLITE_IOERR'', 24),
    (''SQLITE_IOERR_GETTEMPPATH'', ''SQLITE_IOERR'', 25),
    (''SQLITE_IOERR_CONVPATH'', ''SQLITE_IOERR'', 26), (''SQLITE_IOERR_VNODE'', ''SQLITE_IOERR'', 27),
    (''SQLITE_IOERR_AUTH'', ''SQLITE_IOERR'', 28), (''SQLITE_LOCKED_SHAREDCACHE'', ''SQLITE_LOCKED'', 1),
    (''SQLITE_BUSY_RECOVERY'', ''SQLITE_BUSY'', 1), (''SQLITE_BUSY_SNAPSHOT'', ''SQLITE_BUSY'', 2),
    (''SQLITE_CANTOPEN_NOTEMPDIR'', ''SQLITE_CANTOPEN'', 1),
    (''SQLITE_CANTOPEN_ISDIR'', ''SQLITE_CANTOPEN'', 2),
    (''SQLITE_CANTOPEN_FULLPATH'', ''SQLITE_CANTOPEN'', 3),
    (''SQLITE_CANTOPEN_CONVPATH'', ''SQLITE_CANTOPEN'', 4),
    (''SQLITE_CORRUPT_VTAB'', ''SQLITE_CORRUPT'', 1),
    (''SQLITE_READONLY_RECOVERY'', ''SQLITE_READONLY'', 1),
    (''SQLITE_READONLY_CANTLOCK'', ''SQLITE_READONLY'', 2),
    (''SQLITE_READONLY_ROLLBACK'', ''SQLITE_READONLY'', 3),
    (''SQLITE_READONLY_DBMOVED'', ''SQLITE_READONLY'', 4),
    (''SQLITE_ABORT_ROLLBACK'', ''SQLITE_ABORT'', 2),
    (''SQLITE_CONSTRAINT_CHECK'', ''SQLITE_CONSTRAINT'', 1),
    (''SQLITE_CONSTRAINT_COMMITHOOK'', ''SQLITE_CONSTRAINT'', 2),
    (''SQLITE_CONSTRAINT_FOREIGNKEY'', ''SQLITE_CONSTRAINT'', 3),
    (''SQLITE_CONSTRAINT_FUNCTION'', ''SQLITE_CONSTRAINT'', 4),
    (''SQLITE_CONSTRAINT_NOTNULL'', ''SQLITE_CONSTRAINT'', 5),
    (''SQLITE_CONSTRAINT_PRIMARYKEY'', ''SQLITE_CONSTRAINT'', 6),
    (''SQLITE_CONSTRAINT_TRIGGER'', ''SQLITE_CONSTRAINT'', 7),
    (''SQLITE_CONSTRAINT_UNIQUE'', ''SQLITE_CONSTRAINT'', 8),
    (''SQLITE_CONSTRAINT_VTAB'', ''SQLITE_CONSTRAINT'', 9),
    (''SQLITE_CONSTRAINT_ROWID'', ''SQLITE_CONSTRAINT'', 10),
    (''SQLITE_NOTICE_RECOVER_WAL'', ''SQLITE_NOTICE'', 1),
    (''SQLITE_NOTICE_RECOVER_ROLLBACK'', ''SQLITE_NOTICE'', 2),
    (''SQLITE_WARNING_AUTOINDEX'', ''SQLITE_WARNING'', 1), (''SQLITE_AUTH_USER'', ''SQLITE_AUTH'', 1),
    (''SQLITE_OK_LOAD_PERMANENTLY'', ''SQLITE_OK'', 1)]"

section \<open>Flags of files\<close>

definition open_flags :: "(string \<times> int) list" where
  "open_flags = [
    (''SQLITE_OPEN_READONLY'', 0x00000001), (''SQLITE_OPEN_READWRITE'', 0x00000002),
    (''SQLITE_OPEN_CREATE'', 0x00000004), (''SQLITE_OPEN_DELETEONCLOSE'', 0x00000008),
    (''SQLITE_OPEN_EXCLUSIVE'', 0x00000010), (''SQLITE_OPEN_AUTOPROXY'', 0x00000020),
    (''SQLITE_OPEN_URI'', 0x00000040), (''SQLITE_OPEN_MEMORY'', 0x00000080),
    (''SQLITE_OPEN_MAIN_DB'', 0x00000100), (''SQLITE_OPEN_TEMP_DB'', 0x00000200),
    (''SQLITE_OPEN_TRANSIENT_DB'', 0x00000400), (''SQLITE_OPEN_MAIN_JOURNAL'', 0x00000800),
    (''SQLITE_OPEN_TEMP_JOURNAL'', 0x00001000), (''SQLITE_OPEN_SUBJOURNAL'', 0x00002000),
    (''SQLITE_OPEN_MASTER_JOURNAL'', 0x00004000), (''SQLITE_OPEN_NOMUTEX'', 0x00008000),
    (''SQLITE_OPEN_FULLMUTEX'', 0x00010000), (''SQLITE_OPEN_SHAREDCACHE'', 0x00020000),
    (''SQLITE_OPEN_PRIVATECACHE'', 0x00040000), (''SQLITE_OPEN_WAL'', 0x00080000)]"

definition iocap_flags :: "(string \<times> int) list" where
  "iocap_flags = [
    (''SQLITE_IOCAP_ATOMIC'', 0x00000001), (''SQLITE_IOCAP_ATOMIC512'', 0x00000002),
    (''SQLITE_IOCAP_ATOMIC1K'', 0x00000004), (''SQLITE_IOCAP_ATOMIC2K'', 0x00000008),
    (''SQLITE_IOCAP_ATOMIC4K'', 0x00000010), (''SQLITE_IOCAP_ATOMIC8K'', 0x00000020),
    (''SQLITE_IOCAP_ATOMIC16K'', 0x00000040), (''SQLITE_IOCAP_ATOMIC32K'', 0x00000080),
    (''SQLITE_IOCAP_ATOMIC64K'', 0x00000100), (''SQLITE_IOCAP_SAFE_APPEND'', 0x00000200),
    (''SQLITE_IOCAP_SEQUENTIAL'', 0x00000400), (''SQLITE_IOCAP_UNDELETABLE_WHEN_OPEN'', 0x00000800),
    (''SQLITE_IOCAP_POWERSAFE_OVERWRITE'', 0x00001000), (''SQLITE_IOCAP_IMMUTABLE'', 0x00002000)]"

definition lock_levels :: "(string \<times> int) list" where
  "lock_levels = [
    (''SQLITE_LOCK_NONE'', 0), (''SQLITE_LOCK_SHARED'', 1), (''SQLITE_LOCK_RESERVED'', 2),
    (''SQLITE_LOCK_PENDING'', 3), (''SQLITE_LOCK_EXCLUSIVE'', 4)]"

definition sync_flags :: "(string \<times> int) list" where
  "sync_flags = [
    (''SQLITE_SYNC_NORMAL'', 0x00002), (''SQLITE_SYNC_FULL'', 0x00003), (''SQLITE_SYNC_DATAONLY'', 0x00010)]"

section \<open>Operation codes and options\<close>

definition fcntl_opcodes :: "(string \<times> int) list" where
  "fcntl_opcodes = [
    (''SQLITE_FCNTL_LOCKSTATE'', 1), (''SQLITE_FCNTL_GET_LOCKPROXYFILE'', 2),
    (''SQLITE_FCNTL_SET_LOCKPROXYFILE'', 3), (''SQLITE_FCNTL_LAST_ERRNO'', 4),
    (''SQLITE_FCNTL_SIZE_HINT'', 5), (''SQLITE_FCNTL_CHUNK_SIZE'', 6), (''SQLITE_FCNTL_FILE_POINTER'', 7),
    (''SQLITE_FCNTL_SYNC_OMITTED'', 8), (''SQLITE_FCNTL_WIN32_AV_RETRY'', 9),
    (''SQLITE_FCNTL_PERSIST_WAL'', 10), (''SQLITE_FCNTL_OVERWRITE'', 11), (''SQLITE_FCNTL_VFSNAME'', 12),
    (''SQLITE_FCNTL_POWERSAFE_OVERWRITE'', 13), (''SQLITE_FCNTL_PRAGMA'', 14),
    (''SQLITE_FCNTL_BUSYHANDLER'', 15), (''SQLITE_FCNTL_TEMPFILENAME'', 16),
    (''SQLITE_FCNTL_MMAP_SIZE'', 18), (''SQLITE_FCNTL_TRACE'', 19), (''SQLITE_FCNTL_HAS_MOVED'', 20),
    (''SQLITE_FCNTL_SYNC'', 21), (''SQLITE_FCNTL_COMMIT_PHASETWO'', 22),
    (''SQLITE_FCNTL_WIN32_SET_HANDLE'', 23), (''SQLITE_FCNTL_WAL_BLOCK'', 24),
    (''SQLITE_FCNTL_ZIPVFS'', 25), (''SQLITE_FCNTL_RBU'', 26), (''SQLITE_FCNTL_VFS_POINTER'', 27),
    (''SQLITE_FCNTL_JOURNAL_POINTER'', 28), (''SQLITE_FCNTL_WIN32_GET_HANDLE'', 29),
    (''SQLITE_FCNTL_PDB'', 30)]"

definition fcntl_old_names :: "(string \<times> string) list" where
  "fcntl_old_names = [
    (''SQLITE_GET_LOCKPROXYFILE'', ''SQLITE_FCNTL_GET_LOCKPROXYFILE''),
    (''SQLITE_SET_LOCKPROXYFILE'', ''SQLITE_FCNTL_SET_LOCKPROXYFILE''),
    (''SQLITE_LAST_ERRNO'', ''SQLITE_FCNTL_LAST_ERRNO'')]"

definition access_flags :: "(string \<times> int) list" where
  "access_flags = [
    (''SQLITE_ACCESS_EXISTS'', 0), (''SQLITE_ACCESS_READWRITE'', 1), (''SQLITE_ACCESS_READ'', 2)]"

definition shm_flags :: "(string \<times> int) list" where
  "shm_flags = [
    (''SQLITE_SHM_UNLOCK'', 1), (''SQLITE_SHM_LOCK'', 2), (''SQLITE_SHM_SHARED'', 4),
    (''SQLITE_SHM_EXCLUSIVE'', 8)]"

definition shm_nlock :: "(string \<times> int) list" where
  "shm_nlock = [
    (''SQLITE_SHM_NLOCK'', 8)]"

definition config_options :: "(string \<times> int) list" where
  "config_options = [
    (''SQLITE_CONFIG_SINGLETHREAD'', 1), (''SQLITE_CONFIG_MULTITHREAD'', 2),
    (''SQLITE_CONFIG_SERIALIZED'', 3), (''SQLITE_CONFIG_MALLOC'', 4), (''SQLITE_CONFIG_GETMALLOC'', 5),
    (''SQLITE_CONFIG_SCRATCH'', 6), (''SQLITE_CONFIG_PAGECACHE'', 7), (''SQLITE_CONFIG_HEAP'', 8),
    (''SQLITE_CONFIG_MEMSTATUS'', 9), (''SQLITE_CONFIG_MUTEX'', 10), (''SQLITE_CONFIG_GETMUTEX'', 11),
    (''SQLITE_CONFIG_LOOKASIDE'', 13), (''SQLITE_CONFIG_PCACHE'', 14), (''SQLITE_CONFIG_GETPCACHE'', 15),
    (''SQLITE_CONFIG_LOG'', 16), (''SQLITE_CONFIG_URI'', 17), (''SQLITE_CONFIG_PCACHE2'', 18),
    (''SQLITE_CONFIG_GETPCACHE2'', 19), (''SQLITE_CONFIG_COVERING_INDEX_SCAN'', 20),
    (''SQLITE_CONFIG_SQLLOG'', 21), (''SQLITE_CONFIG_MMAP_SIZE'', 22),
    (''SQLITE_CONFIG_WIN32_HEAPSIZE'', 23), (''SQLITE_CONFIG_PCACHE_HDRSZ'', 24),
    (''SQLITE_CONFIG_PMASZ'', 25), (''SQLITE_CONFIG_STMTJRNL_SPILL'', 26)]"

definition dbconfig_options :: "(string \<times> int) list" where
  "dbconfig_options = [
    (''SQLITE_DBCONFIG_MAINDBNAME'', 1000), (''SQLITE_DBCONFIG_LOOKASIDE'', 1001),
    (''SQLITE_DBCONFIG_ENABLE_FKEY'', 1002), (''SQLITE_DBCONFIG_ENABLE_TRIGGER'', 1003),
    (''SQLITE_DBCONFIG_ENABLE_FTS3_TOKENIZER'', 1004), (''SQLITE_DBCONFIG_ENABLE_LOAD_EXTENSION'', 1005),
    (''SQLITE_DBCONFIG_NO_CKPT_ON_CLOSE'', 1006), (''SQLITE_DBCONFIG_ENABLE_QPSG'', 1007)]"

definition authorizer_results :: "(string \<times> int) list" where
  "authorizer_results = [
    (''SQLITE_DENY'', 1), (''SQLITE_IGNORE'', 2)]"

definition authorizer_actions :: "(string \<times> int) list" where
  "authorizer_actions = [
    (''SQLITE_CREATE_INDEX'', 1), (''SQLITE_CREATE_TABLE'', 2), (''SQLITE_CREATE_TEMP_INDEX'', 3),
    (''SQLITE_CREATE_TEMP_TABLE'', 4), (''SQLITE_CREATE_TEMP_TRIGGER'', 5),
    (''SQLITE_CREATE_TEMP_VIEW'', 6), (''SQLITE_CREATE_TRIGGER'', 7), (''SQLITE_CREATE_VIEW'', 8),
    (''SQLITE_DELETE'', 9), (''SQLITE_DROP_INDEX'', 10), (''SQLITE_DROP_TABLE'', 11),
    (''SQLITE_DROP_TEMP_INDEX'', 12), (''SQLITE_DROP_TEMP_TABLE'', 13), (''SQLITE_DROP_TEMP_TRIGGER'', 14),
    (''SQLITE_DROP_TEMP_VIEW'', 15), (''SQLITE_DROP_TRIGGER'', 16), (''SQLITE_DROP_VIEW'', 17),
    (''SQLITE_INSERT'', 18), (''SQLITE_PRAGMA'', 19), (''SQLITE_READ'', 20), (''SQLITE_SELECT'', 21),
    (''SQLITE_TRANSACTION'', 22), (''SQLITE_UPDATE'', 23), (''SQLITE_ATTACH'', 24),
    (''SQLITE_DETACH'', 25), (''SQLITE_ALTER_TABLE'', 26), (''SQLITE_REINDEX'', 27),
    (''SQLITE_ANALYZE'', 28), (''SQLITE_CREATE_VTABLE'', 29), (''SQLITE_DROP_VTABLE'', 30),
    (''SQLITE_FUNCTION'', 31), (''SQLITE_SAVEPOINT'', 32), (''SQLITE_COPY'', 0), (''SQLITE_RECURSIVE'', 33)]"

definition trace_codes :: "(string \<times> int) list" where
  "trace_codes = [
    (''SQLITE_TRACE_STMT'', 0x01), (''SQLITE_TRACE_PROFILE'', 0x02), (''SQLITE_TRACE_ROW'', 0x04),
    (''SQLITE_TRACE_CLOSE'', 0x08)]"

definition limit_categories :: "(string \<times> int) list" where
  "limit_categories = [
    (''SQLITE_LIMIT_LENGTH'', 0), (''SQLITE_LIMIT_SQL_LENGTH'', 1), (''SQLITE_LIMIT_COLUMN'', 2),
    (''SQLITE_LIMIT_EXPR_DEPTH'', 3), (''SQLITE_LIMIT_COMPOUND_SELECT'', 4), (''SQLITE_LIMIT_VDBE_OP'', 5),
    (''SQLITE_LIMIT_FUNCTION_ARG'', 6), (''SQLITE_LIMIT_ATTACHED'', 7),
    (''SQLITE_LIMIT_LIKE_PATTERN_LENGTH'', 8), (''SQLITE_LIMIT_VARIABLE_NUMBER'', 9),
    (''SQLITE_LIMIT_TRIGGER_DEPTH'', 10), (''SQLITE_LIMIT_WORKER_THREADS'', 11)]"

definition datatype_codes :: "(string \<times> int) list" where
  "datatype_codes = [
    (''SQLITE_INTEGER'', 1), (''SQLITE_FLOAT'', 2), (''SQLITE_BLOB'', 4), (''SQLITE_NULL'', 5),
    (''SQLITE_TEXT'', 3), (''SQLITE3_TEXT'', 3)]"

definition text_encodings :: "(string \<times> int) list" where
  "text_encodings = [
    (''SQLITE_UTF8'', 1), (''SQLITE_UTF16LE'', 2), (''SQLITE_UTF16BE'', 3), (''SQLITE_UTF16'', 4),
    (''SQLITE_ANY'', 5), (''SQLITE_UTF16_ALIGNED'', 8)]"

definition function_flags :: "(string \<times> int) list" where
  "function_flags = [
    (''SQLITE_DETERMINISTIC'', 0x800)]"

definition index_scan_flags :: "(string \<times> int) list" where
  "index_scan_flags = [
    (''SQLITE_INDEX_SCAN_UNIQUE'', 1)]"

definition index_constraints :: "(string \<times> int) list" where
  "index_constraints = [
    (''SQLITE_INDEX_CONSTRAINT_EQ'', 2), (''SQLITE_INDEX_CONSTRAINT_GT'', 4),
    (''SQLITE_INDEX_CONSTRAINT_LE'', 8), (''SQLITE_INDEX_CONSTRAINT_LT'', 16),
    (''SQLITE_INDEX_CONSTRAINT_GE'', 32), (''SQLITE_INDEX_CONSTRAINT_MATCH'', 64),
    (''SQLITE_INDEX_CONSTRAINT_LIKE'', 65), (''SQLITE_INDEX_CONSTRAINT_GLOB'', 66),
    (''SQLITE_INDEX_CONSTRAINT_REGEXP'', 67)]"

definition mutex_types :: "(string \<times> int) list" where
  "mutex_types = [
    (''SQLITE_MUTEX_FAST'', 0), (''SQLITE_MUTEX_RECURSIVE'', 1), (''SQLITE_MUTEX_STATIC_MASTER'', 2),
    (''SQLITE_MUTEX_STATIC_MEM'', 3), (''SQLITE_MUTEX_STATIC_MEM2'', 4), (''SQLITE_MUTEX_STATIC_OPEN'', 4),
    (''SQLITE_MUTEX_STATIC_PRNG'', 5), (''SQLITE_MUTEX_STATIC_LRU'', 6), (''SQLITE_MUTEX_STATIC_LRU2'', 7),
    (''SQLITE_MUTEX_STATIC_PMEM'', 7), (''SQLITE_MUTEX_STATIC_APP1'', 8),
    (''SQLITE_MUTEX_STATIC_APP2'', 9), (''SQLITE_MUTEX_STATIC_APP3'', 10),
    (''SQLITE_MUTEX_STATIC_VFS1'', 11), (''SQLITE_MUTEX_STATIC_VFS2'', 12),
    (''SQLITE_MUTEX_STATIC_VFS3'', 13)]"

definition testctrl_opcodes :: "(string \<times> int) list" where
  "testctrl_opcodes = [
    (''SQLITE_TESTCTRL_FIRST'', 5), (''SQLITE_TESTCTRL_PRNG_SAVE'', 5),
    (''SQLITE_TESTCTRL_PRNG_RESTORE'', 6), (''SQLITE_TESTCTRL_PRNG_RESET'', 7),
    (''SQLITE_TESTCTRL_BITVEC_TEST'', 8), (''SQLITE_TESTCTRL_FAULT_INSTALL'', 9),
    (''SQLITE_TESTCTRL_BENIGN_MALLOC_HOOKS'', 10), (''SQLITE_TESTCTRL_PENDING_BYTE'', 11),
    (''SQLITE_TESTCTRL_ASSERT'', 12), (''SQLITE_TESTCTRL_ALWAYS'', 13), (''SQLITE_TESTCTRL_RESERVE'', 14),
    (''SQLITE_TESTCTRL_OPTIMIZATIONS'', 15), (''SQLITE_TESTCTRL_ISKEYWORD'', 16),
    (''SQLITE_TESTCTRL_SCRATCHMALLOC'', 17), (''SQLITE_TESTCTRL_LOCALTIME_FAULT'', 18),
    (''SQLITE_TESTCTRL_EXPLAIN_STMT'', 19), (''SQLITE_TESTCTRL_ONCE_RESET_THRESHOLD'', 19),
    (''SQLITE_TESTCTRL_NEVER_CORRUPT'', 20), (''SQLITE_TESTCTRL_VDBE_COVERAGE'', 21),
    (''SQLITE_TESTCTRL_BYTEORDER'', 22), (''SQLITE_TESTCTRL_ISINIT'', 23),
    (''SQLITE_TESTCTRL_SORTER_MMAP'', 24), (''SQLITE_TESTCTRL_IMPOSTER'', 25),
    (''SQLITE_TESTCTRL_LAST'', 25)]"

definition status_parameters :: "(string \<times> int) list" where
  "status_parameters = [
    (''SQLITE_STATUS_MEMORY_USED'', 0), (''SQLITE_STATUS_PAGECACHE_USED'', 1),
    (''SQLITE_STATUS_PAGECACHE_OVERFLOW'', 2), (''SQLITE_STATUS_SCRATCH_USED'', 3),
    (''SQLITE_STATUS_SCRATCH_OVERFLOW'', 4), (''SQLITE_STATUS_MALLOC_SIZE'', 5),
    (''SQLITE_STATUS_PARSER_STACK'', 6), (''SQLITE_STATUS_PAGECACHE_SIZE'', 7),
    (''SQLITE_STATUS_SCRATCH_SIZE'', 8), (''SQLITE_STATUS_MALLOC_COUNT'', 9)]"

definition dbstatus_options :: "(string \<times> int) list" where
  "dbstatus_options = [
    (''SQLITE_DBSTATUS_LOOKASIDE_USED'', 0), (''SQLITE_DBSTATUS_CACHE_USED'', 1),
    (''SQLITE_DBSTATUS_SCHEMA_USED'', 2), (''SQLITE_DBSTATUS_STMT_USED'', 3),
    (''SQLITE_DBSTATUS_LOOKASIDE_HIT'', 4), (''SQLITE_DBSTATUS_LOOKASIDE_MISS_SIZE'', 5),
    (''SQLITE_DBSTATUS_LOOKASIDE_MISS_FULL'', 6), (''SQLITE_DBSTATUS_CACHE_HIT'', 7),
    (''SQLITE_DBSTATUS_CACHE_MISS'', 8), (''SQLITE_DBSTATUS_CACHE_WRITE'', 9),
    (''SQLITE_DBSTATUS_DEFERRED_FKS'', 10), (''SQLITE_DBSTATUS_CACHE_USED_SHARED'', 11),
    (''SQLITE_DBSTATUS_MAX'', 11)]"

definition stmtstatus_counters :: "(string \<times> int) list" where
  "stmtstatus_counters = [
    (''SQLITE_STMTSTATUS_FULLSCAN_STEP'', 1), (''SQLITE_STMTSTATUS_SORT'', 2),
    (''SQLITE_STMTSTATUS_AUTOINDEX'', 3), (''SQLITE_STMTSTATUS_VM_STEP'', 4),
    (''SQLITE_STMTSTATUS_REPREPARE'', 5), (''SQLITE_STMTSTATUS_RUN'', 6),
    (''SQLITE_STMTSTATUS_MEMUSED'', 99)]"

definition checkpoint_modes :: "(string \<times> int) list" where
  "checkpoint_modes = [
    (''SQLITE_CHECKPOINT_PASSIVE'', 0), (''SQLITE_CHECKPOINT_FULL'', 1),
    (''SQLITE_CHECKPOINT_RESTART'', 2), (''SQLITE_CHECKPOINT_TRUNCATE'', 3)]"

definition conflict_modes :: "(string \<times> int) list" where
  "conflict_modes = [
    (''SQLITE_ROLLBACK'', 1), (''SQLITE_FAIL'', 3), (''SQLITE_REPLACE'', 5)]"

definition scanstatus_opcodes :: "(string \<times> int) list" where
  "scanstatus_opcodes = [
    (''SQLITE_SCANSTAT_NLOOP'', 0), (''SQLITE_SCANSTAT_NVISIT'', 1), (''SQLITE_SCANSTAT_EST'', 2),
    (''SQLITE_SCANSTAT_NAME'', 3), (''SQLITE_SCANSTAT_EXPLAIN'', 4), (''SQLITE_SCANSTAT_SELECTID'', 5)]"

definition rtree_within :: "(string \<times> int) list" where
  "rtree_within = [
    (''NOT_WITHIN'', 0), (''PARTLY_WITHIN'', 1), (''FULLY_WITHIN'', 2)]"

definition changeset_conflicts :: "(string \<times> int) list" where
  "changeset_conflicts = [
    (''SQLITE_CHANGESET_DATA'', 1), (''SQLITE_CHANGESET_NOTFOUND'', 2), (''SQLITE_CHANGESET_CONFLICT'', 3),
    (''SQLITE_CHANGESET_CONSTRAINT'', 4), (''SQLITE_CHANGESET_FOREIGN_KEY'', 5)]"

definition changeset_resolutions :: "(string \<times> int) list" where
  "changeset_resolutions = [
    (''SQLITE_CHANGESET_OMIT'', 0), (''SQLITE_CHANGESET_REPLACE'', 1), (''SQLITE_CHANGESET_ABORT'', 2)]"

definition fts5_tokenize_flags :: "(string \<times> int) list" where
  "fts5_tokenize_flags = [
    (''FTS5_TOKENIZE_QUERY'', 0x0001), (''FTS5_TOKENIZE_PREFIX'', 0x0002),
    (''FTS5_TOKENIZE_DOCUMENT'', 0x0004), (''FTS5_TOKENIZE_AUX'', 0x0008)]"

text \<open>The value of \<open>(base | (n << 8))\<close>, and the part of a code that is a result code.\<close>

definition extended_value :: "string \<Rightarrow> nat \<Rightarrow> int" where
  "extended_value base n = the (map_of result_codes base) OR push_bit 8 (int n)"

definition primary_code :: "int \<Rightarrow> int" where
  "primary_code rc = rc AND 0xFF"

section \<open>Properties\<close>

text \<open>Extended codes decode: the low eight bits of each extended code are the result code it is built on, the bits
  above them the number it adds; no two codes, extended or not, are equal; and the one extended code whose result code
  is \<open>SQLITE_OK\<close> is \<open>SQLITE_OK_LOAD_PERMANENTLY\<close>, so that for all others comparing the code itself with \<open>SQLITE_OK\<close>, as
  the program does, agrees with comparing its result code.\<close>

theorem extended_codes_decode:
  "list_all (\<lambda>(name, base, n). base \<in> fst ` set result_codes
      \<and> Some (primary_code (extended_value base n)) = map_of result_codes base
      \<and> drop_bit 8 (extended_value base n) = int n) extended_codes
    \<and> distinct (map snd result_codes @ map (\<lambda>(name, base, n). extended_value base n) extended_codes)
    \<and> filter (\<lambda>(name, base, n). primary_code (extended_value base n) = the (map_of result_codes ''SQLITE_OK'')) extended_codes
        = [(''SQLITE_OK_LOAD_PERMANENTLY'', ''SQLITE_OK'', 1)]"
proof (intro conjI)
  show "list_all (\<lambda>(name, base, n). base \<in> fst ` set result_codes
      \<and> Some (primary_code (extended_value base n)) = map_of result_codes base
      \<and> drop_bit 8 (extended_value base n) = int n) extended_codes"
    by code_simp
  show "distinct (map snd result_codes @ map (\<lambda>(name, base, n). extended_value base n) extended_codes)"
    by code_simp
  show "filter (\<lambda>(name, base, n). primary_code (extended_value base n) = the (map_of result_codes ''SQLITE_OK'')) extended_codes
        = [(''SQLITE_OK_LOAD_PERMANENTLY'', ''SQLITE_OK'', 1)]"
    by code_simp
qed

text \<open>Combinations of flags.\<close>

definition flag_value :: "(string \<times> int) list \<Rightarrow> string \<Rightarrow> 32 word" where
  "flag_value grp name = word_of_int (the (map_of grp name))"

definition flag_word :: "(string \<times> int) list \<Rightarrow> string list \<Rightarrow> 32 word" where
  "flag_word grp names = foldr (\<lambda>name w. flag_value grp name OR w) names 0"

definition has_flag :: "(string \<times> int) list \<Rightarrow> 32 word \<Rightarrow> string \<Rightarrow> bool" where
  "has_flag grp w name \<longleftrightarrow> w AND flag_value grp name \<noteq> 0"

definition flag_groups :: "(string \<times> int) list list" where
  "flag_groups = [open_flags, iocap_flags, shm_flags, trace_codes, fts5_tokenize_flags]"

text \<open>The flags of a group are its single bits, from the lowest up.\<close>

definition single_bits :: "(string \<times> int) list \<Rightarrow> bool" where
  "single_bits grp \<longleftrightarrow> length grp \<le> 32 \<and> distinct (map fst grp) \<and> map snd grp = map (\<lambda>i. 2 ^ i) [0..<length grp]"

lemma flag_groups_single_bits: "list_all single_bits flag_groups"
  by code_simp

lemma flag_value_bit:
  assumes "single_bits grp" and "name \<in> fst ` set grp"
  shows "\<exists>i < length grp. fst (grp ! i) = name \<and> flag_value grp name = 2 ^ i"
proof -
  from assms(2) obtain i where i: "i < length grp" "fst (grp ! i) = name"
    by (metis imageE in_set_conv_nth)
  have "snd (grp ! i) = map snd grp ! i" using i(1) by simp
  also have "\<dots> = 2 ^ i" using assms(1) i(1) unfolding single_bits_def by (metis add_0 diff_zero length_upt nth_map nth_upt)
  finally have "map_of grp name = Some (2 ^ i)"
    using assms(1) i by (intro map_of_is_SomeI) (auto simp: single_bits_def in_set_conv_nth prod_eq_iff)
  with i show ?thesis by (intro exI [of _ i]) (simp add: flag_value_def)
qed

lemma flag_value_inj:
  assumes "single_bits grp" and "a \<in> fst ` set grp" and "b \<in> fst ` set grp"
  shows "flag_value grp a AND flag_value grp b \<noteq> 0 \<longleftrightarrow> a = b"
proof -
  obtain i where i: "i < length grp" "fst (grp ! i) = a" "flag_value grp a = 2 ^ i"
    using flag_value_bit [OF assms(1,2)] by blast
  obtain j where j: "j < length grp" "fst (grp ! j) = b" "flag_value grp b = 2 ^ j"
    using flag_value_bit [OF assms(1,3)] by blast
  have len: "length grp \<le> 32" and dist: "distinct (map fst grp)" using assms(1) by (simp_all add: single_bits_def)
  have "a = b \<longleftrightarrow> i = j"
    using i(1,2) j(1,2) dist by (metis length_map nth_eq_iff_index_eq nth_map)
  moreover have "(2 ^ i AND 2 ^ j :: 32 word) \<noteq> 0 \<longleftrightarrow> i = j"
  proof
    assume "(2 ^ i AND 2 ^ j :: 32 word) \<noteq> 0"
    then obtain n where "bit (2 ^ i AND 2 ^ j :: 32 word) n" by (metis bit_0_eq bit_eqI bot_apply bot_bool_def)
    then show "i = j" by (simp add: bit_and_iff bit_exp_iff)
  next
    assume "i = j"
    moreover have "bit (2 ^ j :: 32 word) j" using j(1) len by (simp add: bit_exp_iff)
    ultimately show "(2 ^ i AND 2 ^ j :: 32 word) \<noteq> 0" by (metis and.idem bit_0_eq bot_apply bot_bool_def)
  qed
  ultimately show ?thesis by (simp add: i(3) j(3))
qed

text \<open>Flags decode: a word of flags, made by combining any flags of one group (those of opening files, of devices, of
  shared memory locks, of traces, of tokenizing), has a flag exactly when the flag is one of those combined.\<close>

theorem flags_decode:
  assumes "grp \<in> set flag_groups" and "set names \<subseteq> fst ` set grp" and "name \<in> fst ` set grp"
  shows "has_flag grp (flag_word grp names) name \<longleftrightarrow> name \<in> set names"
proof -
  have single: "single_bits grp" using assms(1) flag_groups_single_bits by (simp add: list_all_iff)
  have "flag_word grp names AND flag_value grp name \<noteq> 0 \<longleftrightarrow> name \<in> set names"
    using assms(2)
  proof (induction names)
    case (Cons n names)
    have "flag_word grp (n # names) AND flag_value grp name =
        (flag_value grp n AND flag_value grp name) OR (flag_word grp names AND flag_value grp name)"
      by (simp add: flag_word_def and.commute bit.conj_disj_distrib)
    then have "flag_word grp (n # names) AND flag_value grp name \<noteq> 0 \<longleftrightarrow>
        flag_value grp n AND flag_value grp name \<noteq> 0 \<or> flag_word grp names AND flag_value grp name \<noteq> 0"
      by (simp add: or_eq_0_iff)
    with Cons flag_value_inj [OF single, of n name] assms(3) show ?case by auto
  qed (simp add: flag_word_def)
  then show ?thesis by (simp add: has_flag_def)
qed

theorem flags_decode_witness:
  "has_flag open_flags (flag_word open_flags [''SQLITE_OPEN_READWRITE'', ''SQLITE_OPEN_CREATE'']) ''SQLITE_OPEN_CREATE''
    \<and> \<not> has_flag open_flags (flag_word open_flags [''SQLITE_OPEN_READWRITE'', ''SQLITE_OPEN_CREATE'']) ''SQLITE_OPEN_URI''"
  using flags_decode [of open_flags "[''SQLITE_OPEN_READWRITE'', ''SQLITE_OPEN_CREATE'']" "''SQLITE_OPEN_CREATE''"]
    flags_decode [of open_flags "[''SQLITE_OPEN_READWRITE'', ''SQLITE_OPEN_CREATE'']" "''SQLITE_OPEN_URI''"]
  by (simp add: flag_groups_def open_flags_def)

end
