(* ===== verification/Sqlite_Interface.thy ===== *)
theory Sqlite_Interface
  imports Prelude
begin

text \<open>
  The C interface of include/db/sqlite3.h as data: the functions it declares and the members of its
  structures of methods, each with its type, in the groups and the order of the header; the calls the
  program makes of it (src/db/db_api.cpp, src/utils/database_data_init.cpp), and the conversions of
  C++ they need.  Functions whose declaration stands alone between two comments are left out unless
  the program calls them.

  The properties: every call of the program is well typed against the declaration of the function it
  calls, and the methods of a file, a VFS, a page cache or a mutex take the object they belong to.
\<close>

section \<open>C types\<close>

datatype c_type =
    Base string
  | Const c_type
  | Volatile c_type
  | Ptr c_type
  | Fun c_type "c_type list"
  | VarFun c_type "c_type list"

type_synonym members = "(string \<times> c_type) list"

abbreviation c_int :: c_type where "c_int \<equiv> Base ''int''"
abbreviation c_void :: c_type where "c_void \<equiv> Base ''void''"
abbreviation void_ptr :: c_type where "void_ptr \<equiv> Ptr c_void"
abbreviation const_void_ptr :: c_type where "const_void_ptr \<equiv> Ptr (Const c_void)"
abbreviation chars :: c_type where "chars \<equiv> Ptr (Const (Base ''char''))"
abbreviation db_ptr :: c_type where "db_ptr \<equiv> Ptr (Base ''sqlite3'')"
abbreviation stmt_ptr :: c_type where "stmt_ptr \<equiv> Ptr (Base ''sqlite3_stmt'')"
abbreviation value_ptr :: c_type where "value_ptr \<equiv> Ptr (Base ''sqlite3_value'')"
abbreviation context_ptr :: c_type where "context_ptr \<equiv> Ptr (Base ''sqlite3_context'')"

text \<open>The names of other types: the 64-bit integers (as for compilers other than Microsoft's and
  without \<open>SQLITE_INT64_TYPE\<close>), the callbacks and destructors, and the callback of db_api.h.\<close>

definition int64_typedefs :: members where
  "int64_typedefs = [
    (''sqlite_int64'', Base ''long long int''),
    (''sqlite_uint64'', Base ''unsigned long long int''),
    (''sqlite3_int64'', Base ''sqlite_int64''),
    (''sqlite3_uint64'', Base ''sqlite_uint64'')]"

definition sqlite3_callback :: members where
  "sqlite3_callback = [
    (''sqlite3_callback'', Ptr (Fun c_int [void_ptr, c_int, Ptr (Ptr (Base ''char'')), Ptr (Ptr (Base ''char''))]))]"

definition sqlite3_destructor_type :: members where
  "sqlite3_destructor_type = [(''sqlite3_destructor_type'', Ptr (Fun c_void [void_ptr]))]"

definition callback_func :: members where
  "callback_func = [
    (''callback_func'', Ptr (Fun c_int [void_ptr, c_int, Ptr (Ptr (Base ''char'')), Ptr (Ptr (Base ''char''))]))]"

definition typedefs :: members where
  "typedefs = int64_typedefs @ sqlite3_callback @ sqlite3_destructor_type @ callback_func"

text \<open>A type with the names of types replaced by what they stand for; a definition of a name can
  use the ones before it.\<close>

fun expand :: "members \<Rightarrow> c_type \<Rightarrow> c_type" where
  "expand env (Base name) = (case map_of env name of Some t \<Rightarrow> t | None \<Rightarrow> Base name)"
| "expand env (Const t) = Const (expand env t)"
| "expand env (Volatile t) = Volatile (expand env t)"
| "expand env (Ptr t) = Ptr (expand env t)"
| "expand env (Fun r args) = Fun (expand env r) (map (expand env) args)"
| "expand env (VarFun r args) = VarFun (expand env r) (map (expand env) args)"

definition type_names :: members where
  "type_names = foldl (\<lambda>env (name, t). (name, expand env t) # env) [] typedefs"

definition same_type :: "c_type \<Rightarrow> c_type \<Rightarrow> bool" where
  "same_type a b \<longleftrightarrow> (if a = b then True else expand type_names a = expand type_names b)"

lemma same_type_equivalence: "equivp same_type"
  by (rule equivpI) (auto simp: same_type_def reflp_def symp_def transp_def)

section \<open>Functions\<close>

definition version_functions :: members where
  "version_functions = [
    (''sqlite3_libversion'', Fun chars []),
    (''sqlite3_sourceid'', Fun chars []),
    (''sqlite3_libversion_number'', Fun c_int [])]"

definition compileoption_functions :: members where
  "compileoption_functions = [
    (''sqlite3_compileoption_used'', Fun c_int [chars]),
    (''sqlite3_compileoption_get'', Fun chars [c_int])]"

definition close_functions :: members where
  "close_functions = [
    (''sqlite3_close'', Fun c_int [db_ptr]),
    (''sqlite3_close_v2'', Fun c_int [db_ptr])]"

definition exec_functions :: members where
  "exec_functions = [
    (''sqlite3_exec'', Fun c_int [db_ptr, chars, Ptr (Fun c_int [void_ptr, c_int, Ptr (Ptr (Base ''char'')),
        Ptr (Ptr (Base ''char''))]), void_ptr, Ptr (Ptr (Base ''char''))])]"

definition last_insert_rowid_functions :: members where
  "last_insert_rowid_functions = [
    (''sqlite3_last_insert_rowid'', Fun (Base ''sqlite3_int64'') [db_ptr])]"

definition complete_functions :: members where
  "complete_functions = [
    (''sqlite3_complete'', Fun c_int [chars]),
    (''sqlite3_complete16'', Fun c_int [const_void_ptr])]"

definition get_table_functions :: members where
  "get_table_functions = [
    (''sqlite3_get_table'', Fun c_int [db_ptr, chars, Ptr (Ptr (Ptr (Base ''char''))), Ptr c_int, Ptr c_int,
        Ptr (Ptr (Base ''char''))]),
    (''sqlite3_free_table'', Fun c_void [Ptr (Ptr (Base ''char''))])]"

definition printf_functions :: members where
  "printf_functions = [
    (''sqlite3_mprintf'', VarFun (Ptr (Base ''char'')) [chars]),
    (''sqlite3_vmprintf'', Fun (Ptr (Base ''char'')) [chars, Base ''va_list'']),
    (''sqlite3_snprintf'', VarFun (Ptr (Base ''char'')) [c_int, Ptr (Base ''char''), chars]),
    (''sqlite3_vsnprintf'', Fun (Ptr (Base ''char'')) [c_int, Ptr (Base ''char''), chars, Base
        ''va_list''])]"

definition memory_functions :: members where
  "memory_functions = [
    (''sqlite3_malloc'', Fun void_ptr [c_int]),
    (''sqlite3_malloc64'', Fun void_ptr [Base ''sqlite3_uint64'']),
    (''sqlite3_realloc'', Fun void_ptr [void_ptr, c_int]),
    (''sqlite3_realloc64'', Fun void_ptr [void_ptr, Base ''sqlite3_uint64'']),
    (''sqlite3_free'', Fun c_void [void_ptr]),
    (''sqlite3_msize'', Fun (Base ''sqlite3_uint64'') [void_ptr])]"

definition memory_use_functions :: members where
  "memory_use_functions = [
    (''sqlite3_memory_used'', Fun (Base ''sqlite3_int64'') []),
    (''sqlite3_memory_highwater'', Fun (Base ''sqlite3_int64'') [c_int])]"

definition authorizer_functions :: members where
  "authorizer_functions = [
    (''sqlite3_set_authorizer'', Fun c_int [db_ptr, Ptr (Fun c_int [void_ptr, c_int, chars, chars, chars,
        chars]), void_ptr])]"

definition trace_functions :: members where
  "trace_functions = [
    (''sqlite3_trace'', Fun void_ptr [db_ptr, Ptr (Fun c_void [void_ptr, chars]), void_ptr]),
    (''sqlite3_profile'', Fun void_ptr [db_ptr, Ptr (Fun c_void [void_ptr, chars, Base ''sqlite3_uint64'']),
        void_ptr])]"

definition trace_v2_functions :: members where
  "trace_v2_functions = [
    (''sqlite3_trace_v2'', Fun c_int [db_ptr, Base ''unsigned'', Ptr (Fun c_int [Base ''unsigned'',
        void_ptr, void_ptr, void_ptr]), void_ptr])]"

definition open_functions :: members where
  "open_functions = [
    (''sqlite3_open'', Fun c_int [chars, Ptr db_ptr]),
    (''sqlite3_open16'', Fun c_int [const_void_ptr, Ptr db_ptr]),
    (''sqlite3_open_v2'', Fun c_int [chars, Ptr db_ptr, c_int, chars])]"

definition uri_functions :: members where
  "uri_functions = [
    (''sqlite3_uri_parameter'', Fun chars [chars, chars]),
    (''sqlite3_uri_boolean'', Fun c_int [chars, chars, c_int]),
    (''sqlite3_uri_int64'', Fun (Base ''sqlite3_int64'') [chars, chars, Base ''sqlite3_int64''])]"

definition error_functions :: members where
  "error_functions = [
    (''sqlite3_errcode'', Fun c_int [db_ptr]),
    (''sqlite3_extended_errcode'', Fun c_int [db_ptr]),
    (''sqlite3_errmsg'', Fun chars [db_ptr]),
    (''sqlite3_errmsg16'', Fun const_void_ptr [db_ptr]),
    (''sqlite3_errstr'', Fun chars [c_int])]"

definition prepare_functions :: members where
  "prepare_functions = [
    (''sqlite3_prepare'', Fun c_int [db_ptr, chars, c_int, Ptr stmt_ptr, Ptr chars]),
    (''sqlite3_prepare_v2'', Fun c_int [db_ptr, chars, c_int, Ptr stmt_ptr, Ptr chars]),
    (''sqlite3_prepare_v3'', Fun c_int [db_ptr, chars, c_int, Base ''unsigned int'', Ptr stmt_ptr, Ptr
        chars]),
    (''sqlite3_prepare16'', Fun c_int [db_ptr, const_void_ptr, c_int, Ptr stmt_ptr, Ptr const_void_ptr]),
    (''sqlite3_prepare16_v2'', Fun c_int [db_ptr, const_void_ptr, c_int, Ptr stmt_ptr, Ptr const_void_ptr]),
    (''sqlite3_prepare16_v3'', Fun c_int [db_ptr, const_void_ptr, c_int, Base ''unsigned int'', Ptr
        stmt_ptr, Ptr const_void_ptr])]"

definition sql_functions :: members where
  "sql_functions = [
    (''sqlite3_sql'', Fun chars [stmt_ptr]),
    (''sqlite3_expanded_sql'', Fun (Ptr (Base ''char'')) [stmt_ptr])]"

definition bind_functions :: members where
  "bind_functions = [
    (''sqlite3_bind_blob'', Fun c_int [stmt_ptr, c_int, const_void_ptr, c_int, Ptr (Fun c_void
        [void_ptr])]),
    (''sqlite3_bind_blob64'', Fun c_int [stmt_ptr, c_int, const_void_ptr, Base ''sqlite3_uint64'', Ptr (Fun
        c_void [void_ptr])]),
    (''sqlite3_bind_double'', Fun c_int [stmt_ptr, c_int, Base ''double'']),
    (''sqlite3_bind_int'', Fun c_int [stmt_ptr, c_int, c_int]),
    (''sqlite3_bind_int64'', Fun c_int [stmt_ptr, c_int, Base ''sqlite3_int64'']),
    (''sqlite3_bind_null'', Fun c_int [stmt_ptr, c_int]),
    (''sqlite3_bind_text'', Fun c_int [stmt_ptr, c_int, chars, c_int, Ptr (Fun c_void [void_ptr])]),
    (''sqlite3_bind_text16'', Fun c_int [stmt_ptr, c_int, const_void_ptr, c_int, Ptr (Fun c_void
        [void_ptr])]),
    (''sqlite3_bind_text64'', Fun c_int [stmt_ptr, c_int, chars, Base ''sqlite3_uint64'', Ptr (Fun c_void
        [void_ptr]), Base ''unsigned char'']),
    (''sqlite3_bind_value'', Fun c_int [stmt_ptr, c_int, Ptr (Const (Base ''sqlite3_value''))]),
    (''sqlite3_bind_pointer'', Fun c_int [stmt_ptr, c_int, void_ptr, chars, Ptr (Fun c_void [void_ptr])]),
    (''sqlite3_bind_zeroblob'', Fun c_int [stmt_ptr, c_int, c_int]),
    (''sqlite3_bind_zeroblob64'', Fun c_int [stmt_ptr, c_int, Base ''sqlite3_uint64''])]"

definition column_name_functions :: members where
  "column_name_functions = [
    (''sqlite3_column_name'', Fun chars [stmt_ptr, c_int]),
    (''sqlite3_column_name16'', Fun const_void_ptr [stmt_ptr, c_int])]"

definition column_origin_functions :: members where
  "column_origin_functions = [
    (''sqlite3_column_database_name'', Fun chars [stmt_ptr, c_int]),
    (''sqlite3_column_database_name16'', Fun const_void_ptr [stmt_ptr, c_int]),
    (''sqlite3_column_table_name'', Fun chars [stmt_ptr, c_int]),
    (''sqlite3_column_table_name16'', Fun const_void_ptr [stmt_ptr, c_int]),
    (''sqlite3_column_origin_name'', Fun chars [stmt_ptr, c_int]),
    (''sqlite3_column_origin_name16'', Fun const_void_ptr [stmt_ptr, c_int])]"

definition column_decltype_functions :: members where
  "column_decltype_functions = [
    (''sqlite3_column_decltype'', Fun chars [stmt_ptr, c_int]),
    (''sqlite3_column_decltype16'', Fun const_void_ptr [stmt_ptr, c_int])]"

definition step_functions :: members where
  "step_functions = [
    (''sqlite3_step'', Fun c_int [stmt_ptr])]"

definition column_functions :: members where
  "column_functions = [
    (''sqlite3_column_blob'', Fun const_void_ptr [stmt_ptr, c_int]),
    (''sqlite3_column_double'', Fun (Base ''double'') [stmt_ptr, c_int]),
    (''sqlite3_column_int'', Fun c_int [stmt_ptr, c_int]),
    (''sqlite3_column_int64'', Fun (Base ''sqlite3_int64'') [stmt_ptr, c_int]),
    (''sqlite3_column_text'', Fun (Ptr (Const (Base ''unsigned char''))) [stmt_ptr, c_int]),
    (''sqlite3_column_text16'', Fun const_void_ptr [stmt_ptr, c_int]),
    (''sqlite3_column_value'', Fun value_ptr [stmt_ptr, c_int]),
    (''sqlite3_column_bytes'', Fun c_int [stmt_ptr, c_int]),
    (''sqlite3_column_bytes16'', Fun c_int [stmt_ptr, c_int]),
    (''sqlite3_column_type'', Fun c_int [stmt_ptr, c_int])]"

definition finalize_functions :: members where
  "finalize_functions = [
    (''sqlite3_finalize'', Fun c_int [stmt_ptr])]"

definition create_function_functions :: members where
  "create_function_functions = [
    (''sqlite3_create_function'', Fun c_int [db_ptr, chars, c_int, c_int, void_ptr, Ptr (Fun c_void
        [context_ptr, c_int, Ptr value_ptr]), Ptr (Fun c_void [context_ptr, c_int, Ptr value_ptr]), Ptr (Fun
        c_void [context_ptr])]),
    (''sqlite3_create_function16'', Fun c_int [db_ptr, const_void_ptr, c_int, c_int, void_ptr, Ptr (Fun
        c_void [context_ptr, c_int, Ptr value_ptr]), Ptr (Fun c_void [context_ptr, c_int, Ptr value_ptr]),
        Ptr (Fun c_void [context_ptr])]),
    (''sqlite3_create_function_v2'', Fun c_int [db_ptr, chars, c_int, c_int, void_ptr, Ptr (Fun c_void
        [context_ptr, c_int, Ptr value_ptr]), Ptr (Fun c_void [context_ptr, c_int, Ptr value_ptr]), Ptr (Fun
        c_void [context_ptr]), Ptr (Fun c_void [void_ptr])])]"

definition deprecated_functions :: members where
  "deprecated_functions = [
    (''sqlite3_aggregate_count'', Fun c_int [context_ptr]),
    (''sqlite3_expired'', Fun c_int [stmt_ptr]),
    (''sqlite3_transfer_bindings'', Fun c_int [stmt_ptr, stmt_ptr]),
    (''sqlite3_global_recover'', Fun c_int []),
    (''sqlite3_thread_cleanup'', Fun c_void []),
    (''sqlite3_memory_alarm'', Fun c_int [Ptr (Fun c_void [void_ptr, Base ''sqlite3_int64'', c_int]),
        void_ptr, Base ''sqlite3_int64''])]"

definition value_functions :: members where
  "value_functions = [
    (''sqlite3_value_blob'', Fun const_void_ptr [value_ptr]),
    (''sqlite3_value_double'', Fun (Base ''double'') [value_ptr]),
    (''sqlite3_value_int'', Fun c_int [value_ptr]),
    (''sqlite3_value_int64'', Fun (Base ''sqlite3_int64'') [value_ptr]),
    (''sqlite3_value_pointer'', Fun void_ptr [value_ptr, chars]),
    (''sqlite3_value_text'', Fun (Ptr (Const (Base ''unsigned char''))) [value_ptr]),
    (''sqlite3_value_text16'', Fun const_void_ptr [value_ptr]),
    (''sqlite3_value_text16le'', Fun const_void_ptr [value_ptr]),
    (''sqlite3_value_text16be'', Fun const_void_ptr [value_ptr]),
    (''sqlite3_value_bytes'', Fun c_int [value_ptr]),
    (''sqlite3_value_bytes16'', Fun c_int [value_ptr]),
    (''sqlite3_value_type'', Fun c_int [value_ptr]),
    (''sqlite3_value_numeric_type'', Fun c_int [value_ptr])]"

definition value_object_functions :: members where
  "value_object_functions = [
    (''sqlite3_value_dup'', Fun value_ptr [Ptr (Const (Base ''sqlite3_value''))]),
    (''sqlite3_value_free'', Fun c_void [value_ptr])]"

definition auxdata_functions :: members where
  "auxdata_functions = [
    (''sqlite3_get_auxdata'', Fun void_ptr [context_ptr, c_int]),
    (''sqlite3_set_auxdata'', Fun c_void [context_ptr, c_int, void_ptr, Ptr (Fun c_void [void_ptr])])]"

definition result_functions :: members where
  "result_functions = [
    (''sqlite3_result_blob'', Fun c_void [context_ptr, const_void_ptr, c_int, Ptr (Fun c_void [void_ptr])]),
    (''sqlite3_result_blob64'', Fun c_void [context_ptr, const_void_ptr, Base ''sqlite3_uint64'', Ptr (Fun
        c_void [void_ptr])]),
    (''sqlite3_result_double'', Fun c_void [context_ptr, Base ''double'']),
    (''sqlite3_result_error'', Fun c_void [context_ptr, chars, c_int]),
    (''sqlite3_result_error16'', Fun c_void [context_ptr, const_void_ptr, c_int]),
    (''sqlite3_result_error_toobig'', Fun c_void [context_ptr]),
    (''sqlite3_result_error_nomem'', Fun c_void [context_ptr]),
    (''sqlite3_result_error_code'', Fun c_void [context_ptr, c_int]),
    (''sqlite3_result_int'', Fun c_void [context_ptr, c_int]),
    (''sqlite3_result_int64'', Fun c_void [context_ptr, Base ''sqlite3_int64'']),
    (''sqlite3_result_null'', Fun c_void [context_ptr]),
    (''sqlite3_result_text'', Fun c_void [context_ptr, chars, c_int, Ptr (Fun c_void [void_ptr])]),
    (''sqlite3_result_text64'', Fun c_void [context_ptr, chars, Base ''sqlite3_uint64'', Ptr (Fun c_void
        [void_ptr]), Base ''unsigned char'']),
    (''sqlite3_result_text16'', Fun c_void [context_ptr, const_void_ptr, c_int, Ptr (Fun c_void
        [void_ptr])]),
    (''sqlite3_result_text16le'', Fun c_void [context_ptr, const_void_ptr, c_int, Ptr (Fun c_void
        [void_ptr])]),
    (''sqlite3_result_text16be'', Fun c_void [context_ptr, const_void_ptr, c_int, Ptr (Fun c_void
        [void_ptr])]),
    (''sqlite3_result_value'', Fun c_void [context_ptr, value_ptr]),
    (''sqlite3_result_pointer'', Fun c_void [context_ptr, void_ptr, chars, Ptr (Fun c_void [void_ptr])]),
    (''sqlite3_result_zeroblob'', Fun c_void [context_ptr, c_int]),
    (''sqlite3_result_zeroblob64'', Fun c_int [context_ptr, Base ''sqlite3_uint64''])]"

definition collation_functions :: members where
  "collation_functions = [
    (''sqlite3_create_collation'', Fun c_int [db_ptr, chars, c_int, void_ptr, Ptr (Fun c_int [void_ptr,
        c_int, const_void_ptr, c_int, const_void_ptr])]),
    (''sqlite3_create_collation_v2'', Fun c_int [db_ptr, chars, c_int, void_ptr, Ptr (Fun c_int [void_ptr,
        c_int, const_void_ptr, c_int, const_void_ptr]), Ptr (Fun c_void [void_ptr])]),
    (''sqlite3_create_collation16'', Fun c_int [db_ptr, const_void_ptr, c_int, void_ptr, Ptr (Fun c_int
        [void_ptr, c_int, const_void_ptr, c_int, const_void_ptr])])]"

definition collation_needed_functions :: members where
  "collation_needed_functions = [
    (''sqlite3_collation_needed'', Fun c_int [db_ptr, void_ptr, Ptr (Fun c_void [void_ptr, db_ptr, c_int,
        chars])]),
    (''sqlite3_collation_needed16'', Fun c_int [db_ptr, void_ptr, Ptr (Fun c_void [void_ptr, db_ptr, c_int,
        const_void_ptr])])]"

definition commit_hook_functions :: members where
  "commit_hook_functions = [
    (''sqlite3_commit_hook'', Fun void_ptr [db_ptr, Ptr (Fun c_int [void_ptr]), void_ptr]),
    (''sqlite3_rollback_hook'', Fun void_ptr [db_ptr, Ptr (Fun c_void [void_ptr]), void_ptr])]"

definition update_hook_functions :: members where
  "update_hook_functions = [
    (''sqlite3_update_hook'', Fun void_ptr [db_ptr, Ptr (Fun c_void [void_ptr, c_int, chars, chars, Base
        ''sqlite3_int64'']), void_ptr])]"

definition metadata_functions :: members where
  "metadata_functions = [
    (''sqlite3_table_column_metadata'', Fun c_int [db_ptr, chars, chars, chars, Ptr chars, Ptr chars, Ptr
        c_int, Ptr c_int, Ptr c_int])]"

definition load_extension_functions :: members where
  "load_extension_functions = [
    (''sqlite3_load_extension'', Fun c_int [db_ptr, chars, chars, Ptr (Ptr (Base ''char''))])]"

definition create_module_functions :: members where
  "create_module_functions = [
    (''sqlite3_create_module'', Fun c_int [db_ptr, chars, Ptr (Const (Base ''sqlite3_module'')), void_ptr]),
    (''sqlite3_create_module_v2'', Fun c_int [db_ptr, chars, Ptr (Const (Base ''sqlite3_module'')),
        void_ptr, Ptr (Fun c_void [void_ptr])])]"

definition blob_open_functions :: members where
  "blob_open_functions = [
    (''sqlite3_blob_open'', Fun c_int [db_ptr, chars, chars, chars, Base ''sqlite3_int64'', c_int, Ptr (Ptr
        (Base ''sqlite3_blob''))])]"

definition vfs_functions :: members where
  "vfs_functions = [
    (''sqlite3_vfs_find'', Fun (Ptr (Base ''sqlite3_vfs'')) [chars]),
    (''sqlite3_vfs_register'', Fun c_int [Ptr (Base ''sqlite3_vfs''), c_int]),
    (''sqlite3_vfs_unregister'', Fun c_int [Ptr (Base ''sqlite3_vfs'')])]"

definition mutex_functions :: members where
  "mutex_functions = [
    (''sqlite3_mutex_alloc'', Fun (Ptr (Base ''sqlite3_mutex'')) [c_int]),
    (''sqlite3_mutex_free'', Fun c_void [Ptr (Base ''sqlite3_mutex'')]),
    (''sqlite3_mutex_enter'', Fun c_void [Ptr (Base ''sqlite3_mutex'')]),
    (''sqlite3_mutex_try'', Fun c_int [Ptr (Base ''sqlite3_mutex'')]),
    (''sqlite3_mutex_leave'', Fun c_void [Ptr (Base ''sqlite3_mutex'')])]"

definition status_functions :: members where
  "status_functions = [
    (''sqlite3_status'', Fun c_int [c_int, Ptr c_int, Ptr c_int, c_int]),
    (''sqlite3_status64'', Fun c_int [c_int, Ptr (Base ''sqlite3_int64''), Ptr (Base ''sqlite3_int64''),
        c_int])]"

definition backup_functions :: members where
  "backup_functions = [
    (''sqlite3_backup_init'', Fun (Ptr (Base ''sqlite3_backup'')) [db_ptr, chars, db_ptr, chars]),
    (''sqlite3_backup_step'', Fun c_int [Ptr (Base ''sqlite3_backup''), c_int]),
    (''sqlite3_backup_finish'', Fun c_int [Ptr (Base ''sqlite3_backup'')]),
    (''sqlite3_backup_remaining'', Fun c_int [Ptr (Base ''sqlite3_backup'')]),
    (''sqlite3_backup_pagecount'', Fun c_int [Ptr (Base ''sqlite3_backup'')])]"

definition unlock_notify_functions :: members where
  "unlock_notify_functions = [
    (''sqlite3_unlock_notify'', Fun c_int [db_ptr, Ptr (Fun c_void [Ptr void_ptr, c_int]), void_ptr])]"

definition compare_functions :: members where
  "compare_functions = [
    (''sqlite3_stricmp'', Fun c_int [chars, chars]),
    (''sqlite3_strnicmp'', Fun c_int [chars, chars, c_int])]"

definition wal_hook_functions :: members where
  "wal_hook_functions = [
    (''sqlite3_wal_hook'', Fun void_ptr [db_ptr, Ptr (Fun c_int [void_ptr, db_ptr, chars, c_int]),
        void_ptr])]"

definition wal_checkpoint_functions :: members where
  "wal_checkpoint_functions = [
    (''sqlite3_wal_checkpoint_v2'', Fun c_int [db_ptr, chars, c_int, Ptr c_int, Ptr c_int])]"

text \<open>The groups the program calls, and all of them.\<close>

definition called_groups :: members where
  "called_groups = close_functions @ exec_functions @ last_insert_rowid_functions @ memory_functions
    @ open_functions @ error_functions @ prepare_functions @ bind_functions @ step_functions
    @ finalize_functions"

definition function_groups :: "members list" where
  "function_groups = [
    version_functions, compileoption_functions, close_functions, exec_functions,
    last_insert_rowid_functions, complete_functions, get_table_functions, printf_functions,
    memory_functions, memory_use_functions, authorizer_functions, trace_functions,
    trace_v2_functions, open_functions, uri_functions, error_functions, prepare_functions,
    sql_functions, bind_functions, column_name_functions, column_origin_functions,
    column_decltype_functions, step_functions, column_functions, finalize_functions,
    create_function_functions, deprecated_functions, value_functions, value_object_functions,
    auxdata_functions, result_functions, collation_functions, collation_needed_functions,
    commit_hook_functions, update_hook_functions, metadata_functions, load_extension_functions,
    create_module_functions, blob_open_functions, vfs_functions, mutex_functions, status_functions,
    backup_functions, unlock_notify_functions, compare_functions, wal_hook_functions,
    wal_checkpoint_functions]"

section \<open>Structures of methods\<close>

definition file_members :: members where
  "file_members = [
    (''pMethods'', Ptr (Const (Base ''sqlite3_io_methods'')))]"

definition io_methods :: members where
  "io_methods = [
    (''iVersion'', c_int),
    (''xClose'', Ptr (Fun c_int [Ptr (Base ''sqlite3_file'')])),
    (''xRead'', Ptr (Fun c_int [Ptr (Base ''sqlite3_file''), void_ptr, c_int, Base ''sqlite3_int64''])),
    (''xWrite'', Ptr (Fun c_int [Ptr (Base ''sqlite3_file''), const_void_ptr, c_int, Base
        ''sqlite3_int64''])),
    (''xTruncate'', Ptr (Fun c_int [Ptr (Base ''sqlite3_file''), Base ''sqlite3_int64''])),
    (''xSync'', Ptr (Fun c_int [Ptr (Base ''sqlite3_file''), c_int])),
    (''xFileSize'', Ptr (Fun c_int [Ptr (Base ''sqlite3_file''), Ptr (Base ''sqlite3_int64'')])),
    (''xLock'', Ptr (Fun c_int [Ptr (Base ''sqlite3_file''), c_int])),
    (''xUnlock'', Ptr (Fun c_int [Ptr (Base ''sqlite3_file''), c_int])),
    (''xCheckReservedLock'', Ptr (Fun c_int [Ptr (Base ''sqlite3_file''), Ptr c_int])),
    (''xFileControl'', Ptr (Fun c_int [Ptr (Base ''sqlite3_file''), c_int, void_ptr])),
    (''xSectorSize'', Ptr (Fun c_int [Ptr (Base ''sqlite3_file'')])),
    (''xDeviceCharacteristics'', Ptr (Fun c_int [Ptr (Base ''sqlite3_file'')])),
    (''xShmMap'', Ptr (Fun c_int [Ptr (Base ''sqlite3_file''), c_int, c_int, c_int, Ptr (Ptr (Volatile
        c_void))])),
    (''xShmLock'', Ptr (Fun c_int [Ptr (Base ''sqlite3_file''), c_int, c_int, c_int])),
    (''xShmBarrier'', Ptr (Fun c_void [Ptr (Base ''sqlite3_file'')])),
    (''xShmUnmap'', Ptr (Fun c_int [Ptr (Base ''sqlite3_file''), c_int])),
    (''xFetch'', Ptr (Fun c_int [Ptr (Base ''sqlite3_file''), Base ''sqlite3_int64'', c_int, Ptr
        void_ptr])),
    (''xUnfetch'', Ptr (Fun c_int [Ptr (Base ''sqlite3_file''), Base ''sqlite3_int64'', void_ptr]))]"

definition vfs_members :: members where
  "vfs_members = [
    (''iVersion'', c_int),
    (''szOsFile'', c_int),
    (''mxPathname'', c_int),
    (''pNext'', Ptr (Base ''sqlite3_vfs'')),
    (''zName'', chars),
    (''pAppData'', void_ptr),
    (''xOpen'', Ptr (Fun c_int [Ptr (Base ''sqlite3_vfs''), chars, Ptr (Base ''sqlite3_file''), c_int, Ptr
        c_int])),
    (''xDelete'', Ptr (Fun c_int [Ptr (Base ''sqlite3_vfs''), chars, c_int])),
    (''xAccess'', Ptr (Fun c_int [Ptr (Base ''sqlite3_vfs''), chars, c_int, Ptr c_int])),
    (''xFullPathname'', Ptr (Fun c_int [Ptr (Base ''sqlite3_vfs''), chars, c_int, Ptr (Base ''char'')])),
    (''xDlOpen'', Ptr (Fun void_ptr [Ptr (Base ''sqlite3_vfs''), chars])),
    (''xDlError'', Ptr (Fun c_void [Ptr (Base ''sqlite3_vfs''), c_int, Ptr (Base ''char'')])),
    (''xDlSym'', Ptr (Fun (Ptr (Fun c_void [])) [Ptr (Base ''sqlite3_vfs''), void_ptr, chars])),
    (''xDlClose'', Ptr (Fun c_void [Ptr (Base ''sqlite3_vfs''), void_ptr])),
    (''xRandomness'', Ptr (Fun c_int [Ptr (Base ''sqlite3_vfs''), c_int, Ptr (Base ''char'')])),
    (''xSleep'', Ptr (Fun c_int [Ptr (Base ''sqlite3_vfs''), c_int])),
    (''xCurrentTime'', Ptr (Fun c_int [Ptr (Base ''sqlite3_vfs''), Ptr (Base ''double'')])),
    (''xGetLastError'', Ptr (Fun c_int [Ptr (Base ''sqlite3_vfs''), c_int, Ptr (Base ''char'')])),
    (''xCurrentTimeInt64'', Ptr (Fun c_int [Ptr (Base ''sqlite3_vfs''), Ptr (Base ''sqlite3_int64'')])),
    (''xSetSystemCall'', Ptr (Fun c_int [Ptr (Base ''sqlite3_vfs''), chars, Base ''sqlite3_syscall_ptr''])),
    (''xGetSystemCall'', Ptr (Fun (Base ''sqlite3_syscall_ptr'') [Ptr (Base ''sqlite3_vfs''), chars])),
    (''xNextSystemCall'', Ptr (Fun chars [Ptr (Base ''sqlite3_vfs''), chars]))]"

definition mem_methods :: members where
  "mem_methods = [
    (''xMalloc'', Ptr (Fun void_ptr [c_int])),
    (''xFree'', Ptr (Fun c_void [void_ptr])),
    (''xRealloc'', Ptr (Fun void_ptr [void_ptr, c_int])),
    (''xSize'', Ptr (Fun c_int [void_ptr])),
    (''xRoundup'', Ptr (Fun c_int [c_int])),
    (''xInit'', Ptr (Fun c_int [void_ptr])),
    (''xShutdown'', Ptr (Fun c_void [void_ptr])),
    (''pAppData'', void_ptr)]"

definition module_methods :: members where
  "module_methods = [
    (''iVersion'', c_int),
    (''xCreate'', Ptr (Fun c_int [db_ptr, void_ptr, c_int, Ptr (Const chars), Ptr (Ptr (Base
        ''sqlite3_vtab'')), Ptr (Ptr (Base ''char''))])),
    (''xConnect'', Ptr (Fun c_int [db_ptr, void_ptr, c_int, Ptr (Const chars), Ptr (Ptr (Base
        ''sqlite3_vtab'')), Ptr (Ptr (Base ''char''))])),
    (''xBestIndex'', Ptr (Fun c_int [Ptr (Base ''sqlite3_vtab''), Ptr (Base ''sqlite3_index_info'')])),
    (''xDisconnect'', Ptr (Fun c_int [Ptr (Base ''sqlite3_vtab'')])),
    (''xDestroy'', Ptr (Fun c_int [Ptr (Base ''sqlite3_vtab'')])),
    (''xOpen'', Ptr (Fun c_int [Ptr (Base ''sqlite3_vtab''), Ptr (Ptr (Base ''sqlite3_vtab_cursor''))])),
    (''xClose'', Ptr (Fun c_int [Ptr (Base ''sqlite3_vtab_cursor'')])),
    (''xFilter'', Ptr (Fun c_int [Ptr (Base ''sqlite3_vtab_cursor''), c_int, chars, c_int, Ptr value_ptr])),
    (''xNext'', Ptr (Fun c_int [Ptr (Base ''sqlite3_vtab_cursor'')])),
    (''xEof'', Ptr (Fun c_int [Ptr (Base ''sqlite3_vtab_cursor'')])),
    (''xColumn'', Ptr (Fun c_int [Ptr (Base ''sqlite3_vtab_cursor''), context_ptr, c_int])),
    (''xRowid'', Ptr (Fun c_int [Ptr (Base ''sqlite3_vtab_cursor''), Ptr (Base ''sqlite3_int64'')])),
    (''xUpdate'', Ptr (Fun c_int [Ptr (Base ''sqlite3_vtab''), c_int, Ptr value_ptr, Ptr (Base
        ''sqlite3_int64'')])),
    (''xBegin'', Ptr (Fun c_int [Ptr (Base ''sqlite3_vtab'')])),
    (''xSync'', Ptr (Fun c_int [Ptr (Base ''sqlite3_vtab'')])),
    (''xCommit'', Ptr (Fun c_int [Ptr (Base ''sqlite3_vtab'')])),
    (''xRollback'', Ptr (Fun c_int [Ptr (Base ''sqlite3_vtab'')])),
    (''xFindFunction'', Ptr (Fun c_int [Ptr (Base ''sqlite3_vtab''), c_int, chars, Ptr (Ptr (Fun c_void
        [context_ptr, c_int, Ptr value_ptr])), Ptr void_ptr])),
    (''xRename'', Ptr (Fun c_int [Ptr (Base ''sqlite3_vtab''), chars])),
    (''xSavepoint'', Ptr (Fun c_int [Ptr (Base ''sqlite3_vtab''), c_int])),
    (''xRelease'', Ptr (Fun c_int [Ptr (Base ''sqlite3_vtab''), c_int])),
    (''xRollbackTo'', Ptr (Fun c_int [Ptr (Base ''sqlite3_vtab''), c_int]))]"

definition vtab_members :: members where
  "vtab_members = [
    (''pModule'', Ptr (Const (Base ''sqlite3_module''))),
    (''nRef'', c_int),
    (''zErrMsg'', Ptr (Base ''char''))]"

definition vtab_cursor_members :: members where
  "vtab_cursor_members = [
    (''pVtab'', Ptr (Base ''sqlite3_vtab''))]"

definition mutex_methods :: members where
  "mutex_methods = [
    (''xMutexInit'', Ptr (Fun c_int [])),
    (''xMutexEnd'', Ptr (Fun c_int [])),
    (''xMutexAlloc'', Ptr (Fun (Ptr (Base ''sqlite3_mutex'')) [c_int])),
    (''xMutexFree'', Ptr (Fun c_void [Ptr (Base ''sqlite3_mutex'')])),
    (''xMutexEnter'', Ptr (Fun c_void [Ptr (Base ''sqlite3_mutex'')])),
    (''xMutexTry'', Ptr (Fun c_int [Ptr (Base ''sqlite3_mutex'')])),
    (''xMutexLeave'', Ptr (Fun c_void [Ptr (Base ''sqlite3_mutex'')])),
    (''xMutexHeld'', Ptr (Fun c_int [Ptr (Base ''sqlite3_mutex'')])),
    (''xMutexNotheld'', Ptr (Fun c_int [Ptr (Base ''sqlite3_mutex'')]))]"

definition pcache_page_members :: members where
  "pcache_page_members = [
    (''pBuf'', void_ptr),
    (''pExtra'', void_ptr)]"

definition pcache_methods2 :: members where
  "pcache_methods2 = [
    (''iVersion'', c_int),
    (''pArg'', void_ptr),
    (''xInit'', Ptr (Fun c_int [void_ptr])),
    (''xShutdown'', Ptr (Fun c_void [void_ptr])),
    (''xCreate'', Ptr (Fun (Ptr (Base ''sqlite3_pcache'')) [c_int, c_int, c_int])),
    (''xCachesize'', Ptr (Fun c_void [Ptr (Base ''sqlite3_pcache''), c_int])),
    (''xPagecount'', Ptr (Fun c_int [Ptr (Base ''sqlite3_pcache'')])),
    (''xFetch'', Ptr (Fun (Ptr (Base ''sqlite3_pcache_page'')) [Ptr (Base ''sqlite3_pcache''), Base
        ''unsigned'', c_int])),
    (''xUnpin'', Ptr (Fun c_void [Ptr (Base ''sqlite3_pcache''), Ptr (Base ''sqlite3_pcache_page''),
        c_int])),
    (''xRekey'', Ptr (Fun c_void [Ptr (Base ''sqlite3_pcache''), Ptr (Base ''sqlite3_pcache_page''), Base
        ''unsigned'', Base ''unsigned''])),
    (''xTruncate'', Ptr (Fun c_void [Ptr (Base ''sqlite3_pcache''), Base ''unsigned''])),
    (''xDestroy'', Ptr (Fun c_void [Ptr (Base ''sqlite3_pcache'')])),
    (''xShrink'', Ptr (Fun c_void [Ptr (Base ''sqlite3_pcache'')]))]"

definition pcache_methods :: members where
  "pcache_methods = [
    (''pArg'', void_ptr),
    (''xInit'', Ptr (Fun c_int [void_ptr])),
    (''xShutdown'', Ptr (Fun c_void [void_ptr])),
    (''xCreate'', Ptr (Fun (Ptr (Base ''sqlite3_pcache'')) [c_int, c_int])),
    (''xCachesize'', Ptr (Fun c_void [Ptr (Base ''sqlite3_pcache''), c_int])),
    (''xPagecount'', Ptr (Fun c_int [Ptr (Base ''sqlite3_pcache'')])),
    (''xFetch'', Ptr (Fun void_ptr [Ptr (Base ''sqlite3_pcache''), Base ''unsigned'', c_int])),
    (''xUnpin'', Ptr (Fun c_void [Ptr (Base ''sqlite3_pcache''), void_ptr, c_int])),
    (''xRekey'', Ptr (Fun c_void [Ptr (Base ''sqlite3_pcache''), void_ptr, Base ''unsigned'', Base
        ''unsigned''])),
    (''xTruncate'', Ptr (Fun c_void [Ptr (Base ''sqlite3_pcache''), Base ''unsigned''])),
    (''xDestroy'', Ptr (Fun c_void [Ptr (Base ''sqlite3_pcache'')]))]"

definition rtree_geometry_members :: members where
  "rtree_geometry_members = [
    (''pContext'', void_ptr),
    (''nParam'', c_int),
    (''aParam'', Ptr (Base ''sqlite3_rtree_dbl'')),
    (''pUser'', void_ptr),
    (''xDelUser'', Ptr (Fun c_void [void_ptr]))]"

definition rtree_query_members :: members where
  "rtree_query_members = [
    (''pContext'', void_ptr),
    (''nParam'', c_int),
    (''aParam'', Ptr (Base ''sqlite3_rtree_dbl'')),
    (''pUser'', void_ptr),
    (''xDelUser'', Ptr (Fun c_void [void_ptr])),
    (''aCoord'', Ptr (Base ''sqlite3_rtree_dbl'')),
    (''anQueue'', Ptr (Base ''unsigned int'')),
    (''nCoord'', c_int),
    (''iLevel'', c_int),
    (''mxLevel'', c_int),
    (''iRowid'', Base ''sqlite3_int64''),
    (''rParentScore'', Base ''sqlite3_rtree_dbl''),
    (''eParentWithin'', c_int),
    (''eWithin'', c_int),
    (''rScore'', Base ''sqlite3_rtree_dbl''),
    (''apSqlParam'', Ptr value_ptr)]"

definition fts5_phrase_iter_members :: members where
  "fts5_phrase_iter_members = [
    (''a'', Ptr (Const (Base ''unsigned char''))),
    (''b'', Ptr (Const (Base ''unsigned char'')))]"

definition fts5_extension_methods :: members where
  "fts5_extension_methods = [
    (''iVersion'', c_int),
    (''xUserData'', Ptr (Fun void_ptr [Ptr (Base ''Fts5Context'')])),
    (''xColumnCount'', Ptr (Fun c_int [Ptr (Base ''Fts5Context'')])),
    (''xRowCount'', Ptr (Fun c_int [Ptr (Base ''Fts5Context''), Ptr (Base ''sqlite3_int64'')])),
    (''xColumnTotalSize'', Ptr (Fun c_int [Ptr (Base ''Fts5Context''), c_int, Ptr (Base
        ''sqlite3_int64'')])),
    (''xTokenize'', Ptr (Fun c_int [Ptr (Base ''Fts5Context''), chars, c_int, void_ptr, Ptr (Fun c_int
        [void_ptr, c_int, chars, c_int, c_int, c_int])])),
    (''xPhraseCount'', Ptr (Fun c_int [Ptr (Base ''Fts5Context'')])),
    (''xPhraseSize'', Ptr (Fun c_int [Ptr (Base ''Fts5Context''), c_int])),
    (''xInstCount'', Ptr (Fun c_int [Ptr (Base ''Fts5Context''), Ptr c_int])),
    (''xInst'', Ptr (Fun c_int [Ptr (Base ''Fts5Context''), c_int, Ptr c_int, Ptr c_int, Ptr c_int])),
    (''xRowid'', Ptr (Fun (Base ''sqlite3_int64'') [Ptr (Base ''Fts5Context'')])),
    (''xColumnText'', Ptr (Fun c_int [Ptr (Base ''Fts5Context''), c_int, Ptr chars, Ptr c_int])),
    (''xColumnSize'', Ptr (Fun c_int [Ptr (Base ''Fts5Context''), c_int, Ptr c_int])),
    (''xQueryPhrase'', Ptr (Fun c_int [Ptr (Base ''Fts5Context''), c_int, void_ptr, Ptr (Fun c_int [Ptr
        (Const (Base ''Fts5ExtensionApi'')), Ptr (Base ''Fts5Context''), void_ptr])])),
    (''xSetAuxdata'', Ptr (Fun c_int [Ptr (Base ''Fts5Context''), void_ptr, Ptr (Fun c_void [void_ptr])])),
    (''xGetAuxdata'', Ptr (Fun void_ptr [Ptr (Base ''Fts5Context''), c_int])),
    (''xPhraseFirst'', Ptr (Fun c_int [Ptr (Base ''Fts5Context''), c_int, Ptr (Base ''Fts5PhraseIter''), Ptr
        c_int, Ptr c_int])),
    (''xPhraseNext'', Ptr (Fun c_void [Ptr (Base ''Fts5Context''), Ptr (Base ''Fts5PhraseIter''), Ptr c_int,
        Ptr c_int])),
    (''xPhraseFirstColumn'', Ptr (Fun c_int [Ptr (Base ''Fts5Context''), c_int, Ptr (Base
        ''Fts5PhraseIter''), Ptr c_int])),
    (''xPhraseNextColumn'', Ptr (Fun c_void [Ptr (Base ''Fts5Context''), Ptr (Base ''Fts5PhraseIter''), Ptr
        c_int]))]"

section \<open>Calls\<close>

text \<open>An argument of a call: an expression of a type, or a null pointer constant.\<close>

datatype argument = Expr c_type | Null

text \<open>The implicit conversions of C++ between the types of expressions that the calls use: a null
  pointer constant to any pointer, between arithmetic types, from \<open>T *\<close> to \<open>const T *\<close>, and from a
  pointer to an object to \<open>void *\<close>, which keeps \<open>const\<close>.\<close>

definition arithmetic_types :: "string list" where
  "arithmetic_types = [''char'', ''int'', ''unsigned'', ''unsigned int'', ''unsigned char'', ''double'',
    ''size_t'', ''long long int'', ''unsigned long long int'']"

fun arithmetic :: "c_type \<Rightarrow> bool" where
  "arithmetic (Base name) \<longleftrightarrow> name \<in> set arithmetic_types"
| "arithmetic t \<longleftrightarrow> False"

fun is_function :: "c_type \<Rightarrow> bool" where
  "is_function (Fun r args) \<longleftrightarrow> True"
| "is_function (VarFun r args) \<longleftrightarrow> True"
| "is_function t \<longleftrightarrow> False"

fun is_pointer :: "c_type \<Rightarrow> bool" where
  "is_pointer (Ptr t) \<longleftrightarrow> True"
| "is_pointer t \<longleftrightarrow> False"

fun pointee_converts :: "c_type \<Rightarrow> c_type \<Rightarrow> bool" where
  "pointee_converts (Const a) (Const b) \<longleftrightarrow> a = b \<or> b = c_void \<and> \<not> is_function a"
| "pointee_converts (Const a) b \<longleftrightarrow> False"
| "pointee_converts a (Const b) \<longleftrightarrow> a = b \<or> b = c_void \<and> \<not> is_function a"
| "pointee_converts a b \<longleftrightarrow> a = b \<or> b = c_void \<and> \<not> is_function a"

fun converts :: "c_type \<Rightarrow> c_type \<Rightarrow> bool" where
  "converts (Ptr a) (Ptr b) \<longleftrightarrow> pointee_converts a b"
| "converts a b \<longleftrightarrow> a = b \<or> arithmetic a \<and> arithmetic b"

fun accepts :: "argument \<Rightarrow> c_type \<Rightarrow> bool" where
  "accepts Null t \<longleftrightarrow> is_pointer (expand type_names t)"
| "accepts (Expr a) t \<longleftrightarrow> converts (expand type_names a) (expand type_names t)"

text \<open>A call: the function, its arguments, and the type the program uses its result at, if it does.\<close>

record call =
  callee :: string
  arguments :: "argument list"
  used_as :: "c_type option"

fun well_typed_at :: "c_type \<Rightarrow> argument list \<Rightarrow> c_type option \<Rightarrow> bool" where
  "well_typed_at (Fun r params) args use \<longleftrightarrow> list_all2 accepts args params
    \<and> (case use of None \<Rightarrow> True | Some t \<Rightarrow> converts (expand type_names r) (expand type_names t))"
| "well_typed_at t args use \<longleftrightarrow> False"

definition well_typed :: "members \<Rightarrow> call \<Rightarrow> bool" where
  "well_typed decls c \<longleftrightarrow>
    (case map_of decls (callee c) of None \<Rightarrow> False | Some t \<Rightarrow> well_typed_at t (arguments c) (used_as c))"

text \<open>The calls of each function of the program, in their order in the text, with the types of the
  expressions they pass.\<close>

definition Call :: "string \<Rightarrow> argument list \<Rightarrow> c_type option \<Rightarrow> call" where
  "Call f args use = \<lparr>callee = f, arguments = args, used_as = use\<rparr>"

abbreviation database :: argument where "database \<equiv> Expr db_ptr"
abbreviation query_text :: argument where "query_text \<equiv> Expr chars"
abbreviation int_vector :: argument where "int_vector \<equiv> Expr (Ptr (Base ''std::vector<int>''))"
abbreviation error_text :: argument where "error_text \<equiv> Expr (Ptr (Ptr (Base ''char'')))"

definition execute_query_calls :: "call list" where
  "execute_query_calls = [
    Call ''sqlite3_exec'' [database, query_text, Expr (Base ''callback_func''), Expr void_ptr, error_text] (Some c_int),
    Call ''sqlite3_free'' [Expr (Ptr (Base ''char''))] None]"

definition db_create_calls :: "call list" where
  "db_create_calls = [
    Call ''sqlite3_open'' [query_text, Expr (Ptr db_ptr)] (Some c_int),
    Call ''sqlite3_errmsg'' [database] (Some chars),
    Call ''sqlite3_close'' [database] None]"

definition db_close_calls :: "call list" where
  "db_close_calls = [Call ''sqlite3_close'' [database] (Some c_int)]"

definition db_initialize_calls :: "call list" where
  "db_initialize_calls = [
    Call ''sqlite3_exec'' [database, query_text, Null, Null, error_text] (Some c_int),
    Call ''sqlite3_free'' [Expr (Ptr (Base ''char''))] None]"

definition db_insert_user_calls :: "call list" where
  "db_insert_user_calls = [Call ''sqlite3_last_insert_rowid'' [database] (Some c_int)]"

definition prepare_call :: call where
  "prepare_call = Call ''sqlite3_prepare''
    [database, query_text, Expr (Base ''size_t''), Expr (Ptr stmt_ptr), Expr (Ptr chars)] (Some c_int)"

definition bind_call :: call where
  "bind_call = Call ''sqlite3_bind_int'' [Expr stmt_ptr, Expr c_int, Expr c_int] None"

definition run_calls :: "call list" where
  "run_calls = [
    Call ''sqlite3_step'' [Expr stmt_ptr] None,
    Call ''sqlite3_finalize'' [Expr stmt_ptr] (Some c_int)]"

definition db_insert_reservation_calls :: "call list" where
  "db_insert_reservation_calls = [prepare_call, bind_call, bind_call, bind_call] @ run_calls"

definition db_insert_seats_calls :: "call list" where
  "db_insert_seats_calls = [prepare_call, bind_call, bind_call] @ run_calls"

definition db_select_calls :: "call list" where
  "db_select_calls = [
    Call ''sqlite3_exec'' [database, query_text, Expr (Base ''callback_func''), int_vector, error_text] None]"

definition data_init_calls :: "call list" where
  "data_init_calls = [
    Call ''sqlite3_open'' [query_text, Expr (Ptr db_ptr)] None,
    Call ''sqlite3_close'' [database] None]"

definition program_calls :: "call list" where
  "program_calls = execute_query_calls @ db_create_calls @ db_close_calls @ db_initialize_calls
    @ db_insert_user_calls @ db_insert_reservation_calls @ db_insert_seats_calls @ db_select_calls
    @ data_init_calls"

section \<open>Properties\<close>

text \<open>A conversion that can lose part of the value: between different arithmetic types.\<close>

fun loses :: "argument \<Rightarrow> c_type \<Rightarrow> bool" where
  "loses Null t \<longleftrightarrow> False"
| "loses (Expr a) t \<longleftrightarrow> expand type_names a \<noteq> expand type_names t \<and> arithmetic (expand type_names t)"

fun lossy_at :: "c_type \<Rightarrow> argument list \<Rightarrow> c_type option \<Rightarrow> bool" where
  "lossy_at (Fun r params) args use \<longleftrightarrow> list_ex (\<lambda>(a, t). loses a t) (zip args params)
    \<or> (case use of None \<Rightarrow> False | Some t \<Rightarrow> loses (Expr r) t)"
| "lossy_at t args use \<longleftrightarrow> False"

definition lossy :: "members \<Rightarrow> call \<Rightarrow> bool" where
  "lossy decls c \<longleftrightarrow>
    (case map_of decls (callee c) of None \<Rightarrow> False | Some t \<Rightarrow> lossy_at t (arguments c) (used_as c))"

text \<open>Every call the program makes of SQLite is well typed: the function is declared in the header, once, the
  call passes as many arguments as it has parameters, each converts implicitly to the type of its parameter (the
  callback of db_api.h is the type sqlite3_exec asks for, a vector of the program is passed as \<open>void *\<close>), and so does
  the result to the type it is used at.  Three calls convert between arithmetic types of different widths: the row
  number db_insert_user returns, and the lengths of the two texts that are prepared.\<close>

theorem program_calls_well_typed:
  "list_all (well_typed called_groups) program_calls
    \<and> distinct (map fst called_groups)
    \<and> map callee (filter (lossy called_groups) program_calls)
        = [''sqlite3_last_insert_rowid'', ''sqlite3_prepare'', ''sqlite3_prepare'']"
proof (intro conjI)
  show "list_all (well_typed called_groups) program_calls"
    by code_simp
  show "distinct (map fst called_groups)"
    by code_simp
  show "map callee (filter (lossy called_groups) program_calls)
      = [''sqlite3_last_insert_rowid'', ''sqlite3_prepare'', ''sqlite3_prepare'']"
    by code_simp
qed

text \<open>The members that are methods, and those whose first parameter points to a given object.\<close>

fun first_parameter :: "c_type \<Rightarrow> c_type option" where
  "first_parameter (Ptr (Fun r (t # ts))) = Some t"
| "first_parameter t = None"

fun is_method :: "c_type \<Rightarrow> bool" where
  "is_method (Ptr t) \<longleftrightarrow> is_function t"
| "is_method t \<longleftrightarrow> False"

definition methods :: "members \<Rightarrow> string list" where
  "methods ms = map fst (filter (\<lambda>(name, t). is_method t) ms)"

definition methods_on :: "string list \<Rightarrow> members \<Rightarrow> string list" where
  "methods_on objects ms =
    map fst (filter (\<lambda>(name, t). first_parameter t \<in> (\<lambda>obj. Some (Ptr (Base obj))) ` set objects) ms)"

definition other_methods :: "string list \<Rightarrow> members \<Rightarrow> string list" where
  "other_methods objects ms = filter (\<lambda>name. name \<notin> set (methods_on objects ms)) (methods ms)"

text \<open>The functions that are implemented by the methods of a replaceable component.\<close>

definition backing :: "(string \<times> string) list" where
  "backing = [
    (''sqlite3_malloc'', ''xMalloc''), (''sqlite3_free'', ''xFree''), (''sqlite3_realloc'', ''xRealloc''),
    (''sqlite3_mutex_alloc'', ''xMutexAlloc''), (''sqlite3_mutex_free'', ''xMutexFree''),
    (''sqlite3_mutex_enter'', ''xMutexEnter''), (''sqlite3_mutex_try'', ''xMutexTry''),
    (''sqlite3_mutex_leave'', ''xMutexLeave'')]"

definition backed :: "string \<times> string \<Rightarrow> bool" where
  "backed = (\<lambda>(f, meth). map_of (mem_methods @ mutex_methods) meth
      = map_option Ptr (map_of (memory_functions @ mutex_functions) f)
    \<and> map_of (memory_functions @ mutex_functions) f \<noteq> None)"

text \<open>The structures of methods are interfaces of objects: every method of an open file, of a VFS, of an auxiliary
  function of full-text search takes the object first, so do all methods of a virtual table, a page cache and a mutex but
  the ones that make the object or set up the component, and the page cache of the second version has the methods of
  the first and xShrink; the functions on memory and mutexes have
  the types of the methods they are implemented by.\<close>

theorem methods_take_their_object:
  "other_methods [''sqlite3_file''] io_methods = []
    \<and> other_methods [''sqlite3_vfs''] vfs_members = []
    \<and> other_methods [''Fts5Context''] fts5_extension_methods = []
    \<and> other_methods [''sqlite3_vtab'', ''sqlite3_vtab_cursor''] module_methods = [''xCreate'', ''xConnect'']
    \<and> other_methods [''sqlite3_pcache''] pcache_methods2 = [''xInit'', ''xShutdown'', ''xCreate'']
    \<and> other_methods [''sqlite3_mutex''] mutex_methods = [''xMutexInit'', ''xMutexEnd'', ''xMutexAlloc'']
    \<and> methods pcache_methods2 = methods pcache_methods @ [''xShrink'']
    \<and> list_all backed backing"
  by (intro conjI) code_simp+

end
