(* ===== verification/Sqlite_Extension.thy ===== *)
theory Sqlite_Extension
  imports Sqlite_Interface
begin

text \<open>
  include/db/sqlite3ext.h: the structure of pointers to the functions of SQLite through which a
  loadable extension calls them, and the macros that redirect the names of the functions to its
  members.  An extension is compiled with both: its calls are checked against the members, those of
  the program against the declarations.

  The property: the two agree.
\<close>

section \<open>The structure of pointers\<close>

definition routines_3_0 :: members where
  "routines_3_0 = [
    (''aggregate_context'', Ptr (Fun void_ptr [context_ptr, c_int])),
    (''aggregate_count'', Ptr (Fun c_int [context_ptr])),
    (''bind_blob'', Ptr (Fun c_int [stmt_ptr, c_int, const_void_ptr, c_int, Ptr (Fun c_void [void_ptr])])),
    (''bind_double'', Ptr (Fun c_int [stmt_ptr, c_int, Base ''double''])),
    (''bind_int'', Ptr (Fun c_int [stmt_ptr, c_int, c_int])),
    (''bind_int64'', Ptr (Fun c_int [stmt_ptr, c_int, Base ''sqlite_int64''])),
    (''bind_null'', Ptr (Fun c_int [stmt_ptr, c_int])),
    (''bind_parameter_count'', Ptr (Fun c_int [stmt_ptr])),
    (''bind_parameter_index'', Ptr (Fun c_int [stmt_ptr, chars])),
    (''bind_parameter_name'', Ptr (Fun chars [stmt_ptr, c_int])),
    (''bind_text'', Ptr (Fun c_int [stmt_ptr, c_int, chars, c_int, Ptr (Fun c_void [void_ptr])])),
    (''bind_text16'', Ptr (Fun c_int [stmt_ptr, c_int, const_void_ptr, c_int, Ptr (Fun c_void
        [void_ptr])])),
    (''bind_value'', Ptr (Fun c_int [stmt_ptr, c_int, Ptr (Const (Base ''sqlite3_value''))])),
    (''busy_handler'', Ptr (Fun c_int [db_ptr, Ptr (Fun c_int [void_ptr, c_int]), void_ptr])),
    (''busy_timeout'', Ptr (Fun c_int [db_ptr, c_int])),
    (''changes'', Ptr (Fun c_int [db_ptr])),
    (''close'', Ptr (Fun c_int [db_ptr])),
    (''collation_needed'', Ptr (Fun c_int [db_ptr, void_ptr, Ptr (Fun c_void [void_ptr, db_ptr, c_int,
        chars])])),
    (''collation_needed16'', Ptr (Fun c_int [db_ptr, void_ptr, Ptr (Fun c_void [void_ptr, db_ptr, c_int,
        const_void_ptr])]))]"

definition routines_3_1 :: members where
  "routines_3_1 = [
    (''column_blob'', Ptr (Fun const_void_ptr [stmt_ptr, c_int])),
    (''column_bytes'', Ptr (Fun c_int [stmt_ptr, c_int])),
    (''column_bytes16'', Ptr (Fun c_int [stmt_ptr, c_int])),
    (''column_count'', Ptr (Fun c_int [stmt_ptr])),
    (''column_database_name'', Ptr (Fun chars [stmt_ptr, c_int])),
    (''column_database_name16'', Ptr (Fun const_void_ptr [stmt_ptr, c_int])),
    (''column_decltype'', Ptr (Fun chars [stmt_ptr, c_int])),
    (''column_decltype16'', Ptr (Fun const_void_ptr [stmt_ptr, c_int])),
    (''column_double'', Ptr (Fun (Base ''double'') [stmt_ptr, c_int])),
    (''column_int'', Ptr (Fun c_int [stmt_ptr, c_int])),
    (''column_int64'', Ptr (Fun (Base ''sqlite_int64'') [stmt_ptr, c_int])),
    (''column_name'', Ptr (Fun chars [stmt_ptr, c_int])),
    (''column_name16'', Ptr (Fun const_void_ptr [stmt_ptr, c_int])),
    (''column_origin_name'', Ptr (Fun chars [stmt_ptr, c_int])),
    (''column_origin_name16'', Ptr (Fun const_void_ptr [stmt_ptr, c_int])),
    (''column_table_name'', Ptr (Fun chars [stmt_ptr, c_int])),
    (''column_table_name16'', Ptr (Fun const_void_ptr [stmt_ptr, c_int])),
    (''column_text'', Ptr (Fun (Ptr (Const (Base ''unsigned char''))) [stmt_ptr, c_int])),
    (''column_text16'', Ptr (Fun const_void_ptr [stmt_ptr, c_int])),
    (''column_type'', Ptr (Fun c_int [stmt_ptr, c_int])),
    (''column_value'', Ptr (Fun value_ptr [stmt_ptr, c_int]))]"

definition routines_3_2 :: members where
  "routines_3_2 = [
    (''commit_hook'', Ptr (Fun void_ptr [db_ptr, Ptr (Fun c_int [void_ptr]), void_ptr])),
    (''complete'', Ptr (Fun c_int [chars])),
    (''complete16'', Ptr (Fun c_int [const_void_ptr])),
    (''create_collation'', Ptr (Fun c_int [db_ptr, chars, c_int, void_ptr, Ptr (Fun c_int [void_ptr, c_int,
        const_void_ptr, c_int, const_void_ptr])])),
    (''create_collation16'', Ptr (Fun c_int [db_ptr, const_void_ptr, c_int, void_ptr, Ptr (Fun c_int
        [void_ptr, c_int, const_void_ptr, c_int, const_void_ptr])])),
    (''create_function'', Ptr (Fun c_int [db_ptr, chars, c_int, c_int, void_ptr, Ptr (Fun c_void
        [context_ptr, c_int, Ptr value_ptr]), Ptr (Fun c_void [context_ptr, c_int, Ptr value_ptr]), Ptr (Fun
        c_void [context_ptr])])),
    (''create_function16'', Ptr (Fun c_int [db_ptr, const_void_ptr, c_int, c_int, void_ptr, Ptr (Fun c_void
        [context_ptr, c_int, Ptr value_ptr]), Ptr (Fun c_void [context_ptr, c_int, Ptr value_ptr]), Ptr (Fun
        c_void [context_ptr])])),
    (''create_module'', Ptr (Fun c_int [db_ptr, chars, Ptr (Const (Base ''sqlite3_module'')), void_ptr])),
    (''data_count'', Ptr (Fun c_int [stmt_ptr])),
    (''db_handle'', Ptr (Fun db_ptr [stmt_ptr])),
    (''declare_vtab'', Ptr (Fun c_int [db_ptr, chars])),
    (''enable_shared_cache'', Ptr (Fun c_int [c_int])),
    (''errcode'', Ptr (Fun c_int [db_ptr])),
    (''errmsg'', Ptr (Fun chars [db_ptr])),
    (''errmsg16'', Ptr (Fun const_void_ptr [db_ptr])),
    (''exec'', Ptr (Fun c_int [db_ptr, chars, Base ''sqlite3_callback'', void_ptr, Ptr (Ptr (Base
        ''char''))]))]"

definition routines_3_3 :: members where
  "routines_3_3 = [
    (''expired'', Ptr (Fun c_int [stmt_ptr])),
    (''finalize'', Ptr (Fun c_int [stmt_ptr])),
    (''free'', Ptr (Fun c_void [void_ptr])),
    (''free_table'', Ptr (Fun c_void [Ptr (Ptr (Base ''char''))])),
    (''get_autocommit'', Ptr (Fun c_int [db_ptr])),
    (''get_auxdata'', Ptr (Fun void_ptr [context_ptr, c_int])),
    (''get_table'', Ptr (Fun c_int [db_ptr, chars, Ptr (Ptr (Ptr (Base ''char''))), Ptr c_int, Ptr c_int,
        Ptr (Ptr (Base ''char''))])),
    (''global_recover'', Ptr (Fun c_int [])),
    (''interruptx'', Ptr (Fun c_void [db_ptr])),
    (''last_insert_rowid'', Ptr (Fun (Base ''sqlite_int64'') [db_ptr])),
    (''libversion'', Ptr (Fun chars [])),
    (''libversion_number'', Ptr (Fun c_int [])),
    (''malloc'', Ptr (Fun void_ptr [c_int])),
    (''mprintf'', Ptr (VarFun (Ptr (Base ''char'')) [chars])),
    (''open'', Ptr (Fun c_int [chars, Ptr db_ptr])),
    (''open16'', Ptr (Fun c_int [const_void_ptr, Ptr db_ptr])),
    (''prepare'', Ptr (Fun c_int [db_ptr, chars, c_int, Ptr stmt_ptr, Ptr chars])),
    (''prepare16'', Ptr (Fun c_int [db_ptr, const_void_ptr, c_int, Ptr stmt_ptr, Ptr const_void_ptr])),
    (''profile'', Ptr (Fun void_ptr [db_ptr, Ptr (Fun c_void [void_ptr, chars, Base ''sqlite_uint64'']),
        void_ptr])),
    (''progress_handler'', Ptr (Fun c_void [db_ptr, c_int, Ptr (Fun c_int [void_ptr]), void_ptr])),
    (''realloc'', Ptr (Fun void_ptr [void_ptr, c_int]))]"

definition routines_3_4 :: members where
  "routines_3_4 = [
    (''reset'', Ptr (Fun c_int [stmt_ptr])),
    (''result_blob'', Ptr (Fun c_void [context_ptr, const_void_ptr, c_int, Ptr (Fun c_void [void_ptr])])),
    (''result_double'', Ptr (Fun c_void [context_ptr, Base ''double''])),
    (''result_error'', Ptr (Fun c_void [context_ptr, chars, c_int])),
    (''result_error16'', Ptr (Fun c_void [context_ptr, const_void_ptr, c_int])),
    (''result_int'', Ptr (Fun c_void [context_ptr, c_int])),
    (''result_int64'', Ptr (Fun c_void [context_ptr, Base ''sqlite_int64''])),
    (''result_null'', Ptr (Fun c_void [context_ptr])),
    (''result_text'', Ptr (Fun c_void [context_ptr, chars, c_int, Ptr (Fun c_void [void_ptr])])),
    (''result_text16'', Ptr (Fun c_void [context_ptr, const_void_ptr, c_int, Ptr (Fun c_void [void_ptr])])),
    (''result_text16be'', Ptr (Fun c_void [context_ptr, const_void_ptr, c_int, Ptr (Fun c_void
        [void_ptr])])),
    (''result_text16le'', Ptr (Fun c_void [context_ptr, const_void_ptr, c_int, Ptr (Fun c_void
        [void_ptr])])),
    (''result_value'', Ptr (Fun c_void [context_ptr, value_ptr])),
    (''rollback_hook'', Ptr (Fun void_ptr [db_ptr, Ptr (Fun c_void [void_ptr]), void_ptr])),
    (''set_authorizer'', Ptr (Fun c_int [db_ptr, Ptr (Fun c_int [void_ptr, c_int, chars, chars, chars,
        chars]), void_ptr])),
    (''set_auxdata'', Ptr (Fun c_void [context_ptr, c_int, void_ptr, Ptr (Fun c_void [void_ptr])])),
    (''snprintf'', Ptr (VarFun (Ptr (Base ''char'')) [c_int, Ptr (Base ''char''), chars])),
    (''step'', Ptr (Fun c_int [stmt_ptr])),
    (''table_column_metadata'', Ptr (Fun c_int [db_ptr, chars, chars, chars, Ptr chars, Ptr chars, Ptr
        c_int, Ptr c_int, Ptr c_int])),
    (''thread_cleanup'', Ptr (Fun c_void [])),
    (''total_changes'', Ptr (Fun c_int [db_ptr])),
    (''trace'', Ptr (Fun void_ptr [db_ptr, Ptr (Fun c_void [void_ptr, chars]), void_ptr])),
    (''transfer_bindings'', Ptr (Fun c_int [stmt_ptr, stmt_ptr])),
    (''update_hook'', Ptr (Fun void_ptr [db_ptr, Ptr (Fun c_void [void_ptr, c_int, chars, chars, Base
        ''sqlite_int64'']), void_ptr])),
    (''user_data'', Ptr (Fun void_ptr [context_ptr]))]"

definition routines_3_5 :: members where
  "routines_3_5 = [
    (''value_blob'', Ptr (Fun const_void_ptr [value_ptr])),
    (''value_bytes'', Ptr (Fun c_int [value_ptr])),
    (''value_bytes16'', Ptr (Fun c_int [value_ptr])),
    (''value_double'', Ptr (Fun (Base ''double'') [value_ptr])),
    (''value_int'', Ptr (Fun c_int [value_ptr])),
    (''value_int64'', Ptr (Fun (Base ''sqlite_int64'') [value_ptr])),
    (''value_numeric_type'', Ptr (Fun c_int [value_ptr])),
    (''value_text'', Ptr (Fun (Ptr (Const (Base ''unsigned char''))) [value_ptr])),
    (''value_text16'', Ptr (Fun const_void_ptr [value_ptr])),
    (''value_text16be'', Ptr (Fun const_void_ptr [value_ptr])),
    (''value_text16le'', Ptr (Fun const_void_ptr [value_ptr])),
    (''value_type'', Ptr (Fun c_int [value_ptr])),
    (''vmprintf'', Ptr (Fun (Ptr (Base ''char'')) [chars, Base ''va_list'']))]"

definition routines_prepare :: members where
  "routines_prepare = [
    (''overload_function'', Ptr (Fun c_int [db_ptr, chars, c_int])),
    (''prepare_v2'', Ptr (Fun c_int [db_ptr, chars, c_int, Ptr stmt_ptr, Ptr chars])),
    (''prepare16_v2'', Ptr (Fun c_int [db_ptr, const_void_ptr, c_int, Ptr stmt_ptr, Ptr const_void_ptr])),
    (''clear_bindings'', Ptr (Fun c_int [stmt_ptr])),
    (''create_module_v2'', Ptr (Fun c_int [db_ptr, chars, Ptr (Const (Base ''sqlite3_module'')), void_ptr,
        Ptr (Fun c_void [void_ptr])]))]"

definition routines_3_6 :: members where
  "routines_3_6 = [
    (''bind_zeroblob'', Ptr (Fun c_int [stmt_ptr, c_int, c_int])),
    (''blob_bytes'', Ptr (Fun c_int [Ptr (Base ''sqlite3_blob'')])),
    (''blob_close'', Ptr (Fun c_int [Ptr (Base ''sqlite3_blob'')])),
    (''blob_open'', Ptr (Fun c_int [db_ptr, chars, chars, chars, Base ''sqlite3_int64'', c_int, Ptr (Ptr
        (Base ''sqlite3_blob''))])),
    (''blob_read'', Ptr (Fun c_int [Ptr (Base ''sqlite3_blob''), void_ptr, c_int, c_int])),
    (''blob_write'', Ptr (Fun c_int [Ptr (Base ''sqlite3_blob''), const_void_ptr, c_int, c_int])),
    (''create_collation_v2'', Ptr (Fun c_int [db_ptr, chars, c_int, void_ptr, Ptr (Fun c_int [void_ptr,
        c_int, const_void_ptr, c_int, const_void_ptr]), Ptr (Fun c_void [void_ptr])])),
    (''file_control'', Ptr (Fun c_int [db_ptr, chars, c_int, void_ptr])),
    (''memory_highwater'', Ptr (Fun (Base ''sqlite3_int64'') [c_int])),
    (''memory_used'', Ptr (Fun (Base ''sqlite3_int64'') [])),
    (''mutex_alloc'', Ptr (Fun (Ptr (Base ''sqlite3_mutex'')) [c_int])),
    (''mutex_enter'', Ptr (Fun c_void [Ptr (Base ''sqlite3_mutex'')])),
    (''mutex_free'', Ptr (Fun c_void [Ptr (Base ''sqlite3_mutex'')])),
    (''mutex_leave'', Ptr (Fun c_void [Ptr (Base ''sqlite3_mutex'')])),
    (''mutex_try'', Ptr (Fun c_int [Ptr (Base ''sqlite3_mutex'')])),
    (''open_v2'', Ptr (Fun c_int [chars, Ptr db_ptr, c_int, chars])),
    (''release_memory'', Ptr (Fun c_int [c_int])),
    (''result_error_nomem'', Ptr (Fun c_void [context_ptr])),
    (''result_error_toobig'', Ptr (Fun c_void [context_ptr])),
    (''sleep'', Ptr (Fun c_int [c_int])),
    (''soft_heap_limit'', Ptr (Fun c_void [c_int])),
    (''vfs_find'', Ptr (Fun (Ptr (Base ''sqlite3_vfs'')) [chars])),
    (''vfs_register'', Ptr (Fun c_int [Ptr (Base ''sqlite3_vfs''), c_int])),
    (''vfs_unregister'', Ptr (Fun c_int [Ptr (Base ''sqlite3_vfs'')])),
    (''xthreadsafe'', Ptr (Fun c_int [])),
    (''result_zeroblob'', Ptr (Fun c_void [context_ptr, c_int])),
    (''result_error_code'', Ptr (Fun c_void [context_ptr, c_int]))]"

definition routines_3_7 :: members where
  "routines_3_7 = [
    (''test_control'', Ptr (VarFun c_int [c_int])),
    (''randomness'', Ptr (Fun c_void [c_int, void_ptr])),
    (''context_db_handle'', Ptr (Fun db_ptr [context_ptr])),
    (''extended_result_codes'', Ptr (Fun c_int [db_ptr, c_int])),
    (''limit'', Ptr (Fun c_int [db_ptr, c_int, c_int])),
    (''next_stmt'', Ptr (Fun stmt_ptr [db_ptr, stmt_ptr])),
    (''sql'', Ptr (Fun chars [stmt_ptr])),
    (''status'', Ptr (Fun c_int [c_int, Ptr c_int, Ptr c_int, c_int])),
    (''backup_finish'', Ptr (Fun c_int [Ptr (Base ''sqlite3_backup'')])),
    (''backup_init'', Ptr (Fun (Ptr (Base ''sqlite3_backup'')) [db_ptr, chars, db_ptr, chars])),
    (''backup_pagecount'', Ptr (Fun c_int [Ptr (Base ''sqlite3_backup'')])),
    (''backup_remaining'', Ptr (Fun c_int [Ptr (Base ''sqlite3_backup'')])),
    (''backup_step'', Ptr (Fun c_int [Ptr (Base ''sqlite3_backup''), c_int])),
    (''compileoption_get'', Ptr (Fun chars [c_int])),
    (''compileoption_used'', Ptr (Fun c_int [chars])),
    (''create_function_v2'', Ptr (Fun c_int [db_ptr, chars, c_int, c_int, void_ptr, Ptr (Fun c_void
        [context_ptr, c_int, Ptr value_ptr]), Ptr (Fun c_void [context_ptr, c_int, Ptr value_ptr]), Ptr (Fun
        c_void [context_ptr]), Ptr (Fun c_void [void_ptr])])),
    (''db_config'', Ptr (VarFun c_int [db_ptr, c_int])),
    (''db_mutex'', Ptr (Fun (Ptr (Base ''sqlite3_mutex'')) [db_ptr])),
    (''db_status'', Ptr (Fun c_int [db_ptr, c_int, Ptr c_int, Ptr c_int, c_int])),
    (''extended_errcode'', Ptr (Fun c_int [db_ptr])),
    (''log'', Ptr (VarFun c_void [c_int, chars])),
    (''soft_heap_limit64'', Ptr (Fun (Base ''sqlite3_int64'') [Base ''sqlite3_int64''])),
    (''sourceid'', Ptr (Fun chars [])),
    (''stmt_status'', Ptr (Fun c_int [stmt_ptr, c_int, c_int])),
    (''strnicmp'', Ptr (Fun c_int [chars, chars, c_int])),
    (''unlock_notify'', Ptr (Fun c_int [db_ptr, Ptr (Fun c_void [Ptr void_ptr, c_int]), void_ptr])),
    (''wal_autocheckpoint'', Ptr (Fun c_int [db_ptr, c_int])),
    (''wal_checkpoint'', Ptr (Fun c_int [db_ptr, chars])),
    (''wal_hook'', Ptr (Fun void_ptr [db_ptr, Ptr (Fun c_int [void_ptr, db_ptr, chars, c_int]), void_ptr])),
    (''blob_reopen'', Ptr (Fun c_int [Ptr (Base ''sqlite3_blob''), Base ''sqlite3_int64''])),
    (''vtab_config'', Ptr (VarFun c_int [db_ptr, c_int])),
    (''vtab_on_conflict'', Ptr (Fun c_int [db_ptr]))]"

definition routines_3_7_16 :: members where
  "routines_3_7_16 = [
    (''close_v2'', Ptr (Fun c_int [db_ptr])),
    (''db_filename'', Ptr (Fun chars [db_ptr, chars])),
    (''db_readonly'', Ptr (Fun c_int [db_ptr, chars])),
    (''db_release_memory'', Ptr (Fun c_int [db_ptr])),
    (''errstr'', Ptr (Fun chars [c_int])),
    (''stmt_busy'', Ptr (Fun c_int [stmt_ptr])),
    (''stmt_readonly'', Ptr (Fun c_int [stmt_ptr])),
    (''stricmp'', Ptr (Fun c_int [chars, chars])),
    (''uri_boolean'', Ptr (Fun c_int [chars, chars, c_int])),
    (''uri_int64'', Ptr (Fun (Base ''sqlite3_int64'') [chars, chars, Base ''sqlite3_int64''])),
    (''uri_parameter'', Ptr (Fun chars [chars, chars])),
    (''vsnprintf'', Ptr (Fun (Ptr (Base ''char'')) [c_int, Ptr (Base ''char''), chars, Base ''va_list''])),
    (''wal_checkpoint_v2'', Ptr (Fun c_int [db_ptr, chars, c_int, Ptr c_int, Ptr c_int]))]"

definition routines_later :: members where
  "routines_later = [
    (''auto_extension'', Ptr (Fun c_int [Ptr (Fun c_void [])])),
    (''bind_blob64'', Ptr (Fun c_int [stmt_ptr, c_int, const_void_ptr, Base ''sqlite3_uint64'', Ptr (Fun
        c_void [void_ptr])])),
    (''bind_text64'', Ptr (Fun c_int [stmt_ptr, c_int, chars, Base ''sqlite3_uint64'', Ptr (Fun c_void
        [void_ptr]), Base ''unsigned char''])),
    (''cancel_auto_extension'', Ptr (Fun c_int [Ptr (Fun c_void [])])),
    (''load_extension'', Ptr (Fun c_int [db_ptr, chars, chars, Ptr (Ptr (Base ''char''))])),
    (''malloc64'', Ptr (Fun void_ptr [Base ''sqlite3_uint64''])),
    (''msize'', Ptr (Fun (Base ''sqlite3_uint64'') [void_ptr])),
    (''realloc64'', Ptr (Fun void_ptr [void_ptr, Base ''sqlite3_uint64''])),
    (''reset_auto_extension'', Ptr (Fun c_void [])),
    (''result_blob64'', Ptr (Fun c_void [context_ptr, const_void_ptr, Base ''sqlite3_uint64'', Ptr (Fun
        c_void [void_ptr])])),
    (''result_text64'', Ptr (Fun c_void [context_ptr, chars, Base ''sqlite3_uint64'', Ptr (Fun c_void
        [void_ptr]), Base ''unsigned char''])),
    (''strglob'', Ptr (Fun c_int [chars, chars])),
    (''value_dup'', Ptr (Fun value_ptr [Ptr (Const (Base ''sqlite3_value''))])),
    (''value_free'', Ptr (Fun c_void [value_ptr])),
    (''result_zeroblob64'', Ptr (Fun c_int [context_ptr, Base ''sqlite3_uint64''])),
    (''bind_zeroblob64'', Ptr (Fun c_int [stmt_ptr, c_int, Base ''sqlite3_uint64''])),
    (''value_subtype'', Ptr (Fun (Base ''unsigned int'') [value_ptr])),
    (''result_subtype'', Ptr (Fun c_void [context_ptr, Base ''unsigned int''])),
    (''status64'', Ptr (Fun c_int [c_int, Ptr (Base ''sqlite3_int64''), Ptr (Base ''sqlite3_int64''),
        c_int])),
    (''strlike'', Ptr (Fun c_int [chars, chars, Base ''unsigned int''])),
    (''db_cacheflush'', Ptr (Fun c_int [db_ptr])),
    (''system_errno'', Ptr (Fun c_int [db_ptr])),
    (''trace_v2'', Ptr (Fun c_int [db_ptr, Base ''unsigned'', Ptr (Fun c_int [Base ''unsigned'', void_ptr,
        void_ptr, void_ptr]), void_ptr])),
    (''expanded_sql'', Ptr (Fun (Ptr (Base ''char'')) [stmt_ptr])),
    (''set_last_insert_rowid'', Ptr (Fun c_void [db_ptr, Base ''sqlite3_int64''])),
    (''prepare_v3'', Ptr (Fun c_int [db_ptr, chars, c_int, Base ''unsigned int'', Ptr stmt_ptr, Ptr
        chars])),
    (''prepare16_v3'', Ptr (Fun c_int [db_ptr, const_void_ptr, c_int, Base ''unsigned int'', Ptr stmt_ptr,
        Ptr const_void_ptr])),
    (''bind_pointer'', Ptr (Fun c_int [stmt_ptr, c_int, void_ptr, chars, Ptr (Fun c_void [void_ptr])])),
    (''result_pointer'', Ptr (Fun c_void [context_ptr, void_ptr, chars, Ptr (Fun c_void [void_ptr])])),
    (''value_pointer'', Ptr (Fun void_ptr [value_ptr, chars]))]"

definition api_routines :: members where
  "api_routines = routines_3_0 @ routines_3_1 @ routines_3_2 @ routines_3_3 @ routines_3_4 @ routines_3_5 @ routines_prepare @ routines_3_6 @ routines_3_7 @ routines_3_7_16 @ routines_later"

section \<open>The macros\<close>

definition redirections_1 :: "(string \<times> string) list" where
  "redirections_1 = [
    (''sqlite3_aggregate_context'', ''aggregate_context''), (''sqlite3_aggregate_count'', ''aggregate_count''),
    (''sqlite3_bind_blob'', ''bind_blob''), (''sqlite3_bind_double'', ''bind_double''),
    (''sqlite3_bind_int'', ''bind_int''), (''sqlite3_bind_int64'', ''bind_int64''),
    (''sqlite3_bind_null'', ''bind_null''), (''sqlite3_bind_parameter_count'', ''bind_parameter_count''),
    (''sqlite3_bind_parameter_index'', ''bind_parameter_index''),
    (''sqlite3_bind_parameter_name'', ''bind_parameter_name''), (''sqlite3_bind_text'', ''bind_text''),
    (''sqlite3_bind_text16'', ''bind_text16''), (''sqlite3_bind_value'', ''bind_value''),
    (''sqlite3_busy_handler'', ''busy_handler''), (''sqlite3_busy_timeout'', ''busy_timeout''),
    (''sqlite3_changes'', ''changes''), (''sqlite3_close'', ''close''),
    (''sqlite3_collation_needed'', ''collation_needed''),
    (''sqlite3_collation_needed16'', ''collation_needed16''), (''sqlite3_column_blob'', ''column_blob''),
    (''sqlite3_column_bytes'', ''column_bytes''), (''sqlite3_column_bytes16'', ''column_bytes16''),
    (''sqlite3_column_count'', ''column_count''), (''sqlite3_column_database_name'', ''column_database_name''),
    (''sqlite3_column_database_name16'', ''column_database_name16''),
    (''sqlite3_column_decltype'', ''column_decltype''), (''sqlite3_column_decltype16'', ''column_decltype16''),
    (''sqlite3_column_double'', ''column_double''), (''sqlite3_column_int'', ''column_int''),
    (''sqlite3_column_int64'', ''column_int64''), (''sqlite3_column_name'', ''column_name''),
    (''sqlite3_column_name16'', ''column_name16''), (''sqlite3_column_origin_name'', ''column_origin_name''),
    (''sqlite3_column_origin_name16'', ''column_origin_name16''),
    (''sqlite3_column_table_name'', ''column_table_name''),
    (''sqlite3_column_table_name16'', ''column_table_name16''), (''sqlite3_column_text'', ''column_text''),
    (''sqlite3_column_text16'', ''column_text16''), (''sqlite3_column_type'', ''column_type''),
    (''sqlite3_column_value'', ''column_value''), (''sqlite3_commit_hook'', ''commit_hook''),
    (''sqlite3_complete'', ''complete''), (''sqlite3_complete16'', ''complete16''),
    (''sqlite3_create_collation'', ''create_collation''),
    (''sqlite3_create_collation16'', ''create_collation16''),
    (''sqlite3_create_function'', ''create_function''), (''sqlite3_create_function16'', ''create_function16''),
    (''sqlite3_create_module'', ''create_module''), (''sqlite3_create_module_v2'', ''create_module_v2''),
    (''sqlite3_data_count'', ''data_count''), (''sqlite3_db_handle'', ''db_handle''),
    (''sqlite3_declare_vtab'', ''declare_vtab''), (''sqlite3_enable_shared_cache'', ''enable_shared_cache''),
    (''sqlite3_errcode'', ''errcode''), (''sqlite3_errmsg'', ''errmsg''), (''sqlite3_errmsg16'', ''errmsg16''),
    (''sqlite3_exec'', ''exec''), (''sqlite3_expired'', ''expired''), (''sqlite3_finalize'', ''finalize''),
    (''sqlite3_free'', ''free''), (''sqlite3_free_table'', ''free_table''),
    (''sqlite3_get_autocommit'', ''get_autocommit''), (''sqlite3_get_auxdata'', ''get_auxdata''),
    (''sqlite3_get_table'', ''get_table''), (''sqlite3_global_recover'', ''global_recover''),
    (''sqlite3_interrupt'', ''interruptx''), (''sqlite3_last_insert_rowid'', ''last_insert_rowid''),
    (''sqlite3_libversion'', ''libversion''), (''sqlite3_libversion_number'', ''libversion_number''),
    (''sqlite3_malloc'', ''malloc''), (''sqlite3_mprintf'', ''mprintf''), (''sqlite3_open'', ''open''),
    (''sqlite3_open16'', ''open16''), (''sqlite3_prepare'', ''prepare''),
    (''sqlite3_prepare16'', ''prepare16''), (''sqlite3_prepare_v2'', ''prepare_v2''),
    (''sqlite3_prepare16_v2'', ''prepare16_v2''), (''sqlite3_profile'', ''profile''),
    (''sqlite3_progress_handler'', ''progress_handler''), (''sqlite3_realloc'', ''realloc''),
    (''sqlite3_reset'', ''reset''), (''sqlite3_result_blob'', ''result_blob''),
    (''sqlite3_result_double'', ''result_double''), (''sqlite3_result_error'', ''result_error''),
    (''sqlite3_result_error16'', ''result_error16''), (''sqlite3_result_int'', ''result_int''),
    (''sqlite3_result_int64'', ''result_int64''), (''sqlite3_result_null'', ''result_null''),
    (''sqlite3_result_text'', ''result_text'')]"

definition redirections_2 :: "(string \<times> string) list" where
  "redirections_2 = [
    (''sqlite3_result_text16'', ''result_text16''), (''sqlite3_result_text16be'', ''result_text16be''),
    (''sqlite3_result_text16le'', ''result_text16le''), (''sqlite3_result_value'', ''result_value''),
    (''sqlite3_rollback_hook'', ''rollback_hook''), (''sqlite3_set_authorizer'', ''set_authorizer''),
    (''sqlite3_set_auxdata'', ''set_auxdata''), (''sqlite3_snprintf'', ''snprintf''),
    (''sqlite3_step'', ''step''), (''sqlite3_table_column_metadata'', ''table_column_metadata''),
    (''sqlite3_thread_cleanup'', ''thread_cleanup''), (''sqlite3_total_changes'', ''total_changes''),
    (''sqlite3_trace'', ''trace''), (''sqlite3_transfer_bindings'', ''transfer_bindings''),
    (''sqlite3_update_hook'', ''update_hook''), (''sqlite3_user_data'', ''user_data''),
    (''sqlite3_value_blob'', ''value_blob''), (''sqlite3_value_bytes'', ''value_bytes''),
    (''sqlite3_value_bytes16'', ''value_bytes16''), (''sqlite3_value_double'', ''value_double''),
    (''sqlite3_value_int'', ''value_int''), (''sqlite3_value_int64'', ''value_int64''),
    (''sqlite3_value_numeric_type'', ''value_numeric_type''), (''sqlite3_value_text'', ''value_text''),
    (''sqlite3_value_text16'', ''value_text16''), (''sqlite3_value_text16be'', ''value_text16be''),
    (''sqlite3_value_text16le'', ''value_text16le''), (''sqlite3_value_type'', ''value_type''),
    (''sqlite3_vmprintf'', ''vmprintf''), (''sqlite3_vsnprintf'', ''vsnprintf''),
    (''sqlite3_overload_function'', ''overload_function''), (''sqlite3_prepare_v2'', ''prepare_v2''),
    (''sqlite3_prepare16_v2'', ''prepare16_v2''), (''sqlite3_clear_bindings'', ''clear_bindings''),
    (''sqlite3_bind_zeroblob'', ''bind_zeroblob''), (''sqlite3_blob_bytes'', ''blob_bytes''),
    (''sqlite3_blob_close'', ''blob_close''), (''sqlite3_blob_open'', ''blob_open''),
    (''sqlite3_blob_read'', ''blob_read''), (''sqlite3_blob_write'', ''blob_write''),
    (''sqlite3_create_collation_v2'', ''create_collation_v2''), (''sqlite3_file_control'', ''file_control''),
    (''sqlite3_memory_highwater'', ''memory_highwater''), (''sqlite3_memory_used'', ''memory_used''),
    (''sqlite3_mutex_alloc'', ''mutex_alloc''), (''sqlite3_mutex_enter'', ''mutex_enter''),
    (''sqlite3_mutex_free'', ''mutex_free''), (''sqlite3_mutex_leave'', ''mutex_leave''),
    (''sqlite3_mutex_try'', ''mutex_try''), (''sqlite3_open_v2'', ''open_v2''),
    (''sqlite3_release_memory'', ''release_memory''), (''sqlite3_result_error_nomem'', ''result_error_nomem''),
    (''sqlite3_result_error_toobig'', ''result_error_toobig''), (''sqlite3_sleep'', ''sleep''),
    (''sqlite3_soft_heap_limit'', ''soft_heap_limit''), (''sqlite3_vfs_find'', ''vfs_find''),
    (''sqlite3_vfs_register'', ''vfs_register''), (''sqlite3_vfs_unregister'', ''vfs_unregister''),
    (''sqlite3_threadsafe'', ''xthreadsafe''), (''sqlite3_result_zeroblob'', ''result_zeroblob''),
    (''sqlite3_result_error_code'', ''result_error_code''), (''sqlite3_test_control'', ''test_control''),
    (''sqlite3_randomness'', ''randomness''), (''sqlite3_context_db_handle'', ''context_db_handle''),
    (''sqlite3_extended_result_codes'', ''extended_result_codes''), (''sqlite3_limit'', ''limit''),
    (''sqlite3_next_stmt'', ''next_stmt''), (''sqlite3_sql'', ''sql''), (''sqlite3_status'', ''status''),
    (''sqlite3_backup_finish'', ''backup_finish''), (''sqlite3_backup_init'', ''backup_init''),
    (''sqlite3_backup_pagecount'', ''backup_pagecount''), (''sqlite3_backup_remaining'', ''backup_remaining''),
    (''sqlite3_backup_step'', ''backup_step''), (''sqlite3_compileoption_get'', ''compileoption_get''),
    (''sqlite3_compileoption_used'', ''compileoption_used''),
    (''sqlite3_create_function_v2'', ''create_function_v2''), (''sqlite3_db_config'', ''db_config''),
    (''sqlite3_db_mutex'', ''db_mutex''), (''sqlite3_db_status'', ''db_status''),
    (''sqlite3_extended_errcode'', ''extended_errcode''), (''sqlite3_log'', ''log''),
    (''sqlite3_soft_heap_limit64'', ''soft_heap_limit64''), (''sqlite3_sourceid'', ''sourceid''),
    (''sqlite3_stmt_status'', ''stmt_status''), (''sqlite3_strnicmp'', ''strnicmp''),
    (''sqlite3_unlock_notify'', ''unlock_notify''), (''sqlite3_wal_autocheckpoint'', ''wal_autocheckpoint''),
    (''sqlite3_wal_checkpoint'', ''wal_checkpoint''), (''sqlite3_wal_hook'', ''wal_hook''),
    (''sqlite3_blob_reopen'', ''blob_reopen''), (''sqlite3_vtab_config'', ''vtab_config''),
    (''sqlite3_vtab_on_conflict'', ''vtab_on_conflict'')]"

definition redirections_3 :: "(string \<times> string) list" where
  "redirections_3 = [
    (''sqlite3_close_v2'', ''close_v2''), (''sqlite3_db_filename'', ''db_filename''),
    (''sqlite3_db_readonly'', ''db_readonly''), (''sqlite3_db_release_memory'', ''db_release_memory''),
    (''sqlite3_errstr'', ''errstr''), (''sqlite3_stmt_busy'', ''stmt_busy''),
    (''sqlite3_stmt_readonly'', ''stmt_readonly''), (''sqlite3_stricmp'', ''stricmp''),
    (''sqlite3_uri_boolean'', ''uri_boolean''), (''sqlite3_uri_int64'', ''uri_int64''),
    (''sqlite3_uri_parameter'', ''uri_parameter''), (''sqlite3_uri_vsnprintf'', ''vsnprintf''),
    (''sqlite3_wal_checkpoint_v2'', ''wal_checkpoint_v2''), (''sqlite3_auto_extension'', ''auto_extension''),
    (''sqlite3_bind_blob64'', ''bind_blob64''), (''sqlite3_bind_text64'', ''bind_text64''),
    (''sqlite3_cancel_auto_extension'', ''cancel_auto_extension''),
    (''sqlite3_load_extension'', ''load_extension''), (''sqlite3_malloc64'', ''malloc64''),
    (''sqlite3_msize'', ''msize''), (''sqlite3_realloc64'', ''realloc64''),
    (''sqlite3_reset_auto_extension'', ''reset_auto_extension''),
    (''sqlite3_result_blob64'', ''result_blob64''), (''sqlite3_result_text64'', ''result_text64''),
    (''sqlite3_strglob'', ''strglob''), (''sqlite3_value_dup'', ''value_dup''),
    (''sqlite3_value_free'', ''value_free''), (''sqlite3_result_zeroblob64'', ''result_zeroblob64''),
    (''sqlite3_bind_zeroblob64'', ''bind_zeroblob64''), (''sqlite3_value_subtype'', ''value_subtype''),
    (''sqlite3_result_subtype'', ''result_subtype''), (''sqlite3_status64'', ''status64''),
    (''sqlite3_strlike'', ''strlike''), (''sqlite3_db_cacheflush'', ''db_cacheflush''),
    (''sqlite3_system_errno'', ''system_errno''), (''sqlite3_trace_v2'', ''trace_v2''),
    (''sqlite3_expanded_sql'', ''expanded_sql''),
    (''sqlite3_set_last_insert_rowid'', ''set_last_insert_rowid''), (''sqlite3_prepare_v3'', ''prepare_v3''),
    (''sqlite3_prepare16_v3'', ''prepare16_v3''), (''sqlite3_bind_pointer'', ''bind_pointer''),
    (''sqlite3_result_pointer'', ''result_pointer''), (''sqlite3_value_pointer'', ''value_pointer'')]"

definition redirections :: "(string \<times> string) list" where
  "redirections = redirections_1 @ redirections_2 @ redirections_3"

section \<open>Properties\<close>

fun without_prefix :: "string \<Rightarrow> string \<Rightarrow> string option" where
  "without_prefix [] name = Some name"
| "without_prefix (p # pre) [] = None"
| "without_prefix (p # pre) (c # name) = (if p = c then without_prefix pre name else None)"

lemma without_prefix_Some: "without_prefix pre name = Some m \<longleftrightarrow> name = pre @ m"
  by (induction pre name rule: without_prefix.induct) auto

text \<open>A declared function has a member of its own name and of its type in a part of the structure; where the
  members of the functions of each group are.\<close>

definition has_member :: "members \<Rightarrow> string \<times> c_type \<Rightarrow> bool" where
  "has_member api = (\<lambda>(name, t). case without_prefix ''sqlite3_'' name of
      None \<Rightarrow> False
    | Some m \<Rightarrow> m \<noteq> ''interruptx'' \<and> m \<noteq> ''xthreadsafe'' \<and>
        (case map_of api m of Some (Ptr u) \<Rightarrow> same_type t u | _ \<Rightarrow> False))"

definition in_parts :: "members \<times> members list \<Rightarrow> bool" where
  "in_parts = (\<lambda>(grp, parts).
    list_all (\<lambda>f. fst f = ''sqlite3_memory_alarm'' \<or> list_ex (\<lambda>part. has_member part f) parts) grp)"

definition routing_1 :: "(members \<times> members list) list" where
  "routing_1 = [
    (version_functions, [routines_3_3, routines_3_7]),
    (compileoption_functions, [routines_3_7]),
    (close_functions, [routines_3_0, routines_3_7_16]),
    (exec_functions, [routines_3_2]),
    (last_insert_rowid_functions, [routines_3_3]),
    (complete_functions, [routines_3_2]),
    (get_table_functions, [routines_3_3]),
    (printf_functions, [routines_3_3, routines_3_5, routines_3_4, routines_3_7_16]),
    (memory_functions, [routines_3_3, routines_later]),
    (memory_use_functions, [routines_3_6]),
    (authorizer_functions, [routines_3_4]),
    (trace_functions, [routines_3_4, routines_3_3]),
    (trace_v2_functions, [routines_later]),
    (open_functions, [routines_3_3, routines_3_6]),
    (uri_functions, [routines_3_7_16]),
    (error_functions, [routines_3_2, routines_3_7, routines_3_7_16])]"

definition routing_2 :: "(members \<times> members list) list" where
  "routing_2 = [
    (prepare_functions, [routines_3_3, routines_prepare, routines_later]),
    (sql_functions, [routines_3_7, routines_later]),
    (bind_functions, [routines_3_0, routines_later, routines_3_6]),
    (column_name_functions, [routines_3_1]),
    (column_origin_functions, [routines_3_1]),
    (column_decltype_functions, [routines_3_1]),
    (step_functions, [routines_3_4]),
    (column_functions, [routines_3_1]),
    (finalize_functions, [routines_3_3]),
    (create_function_functions, [routines_3_2, routines_3_7]),
    (deprecated_functions, [routines_3_0, routines_3_3, routines_3_4])]"

definition routing_3 :: "(members \<times> members list) list" where
  "routing_3 = [
    (value_functions, [routines_3_5, routines_later]),
    (value_object_functions, [routines_later]),
    (auxdata_functions, [routines_3_3, routines_3_4]),
    (result_functions, [routines_3_4, routines_later, routines_3_6]),
    (collation_functions, [routines_3_2, routines_3_6]),
    (collation_needed_functions, [routines_3_0]),
    (commit_hook_functions, [routines_3_2, routines_3_4]),
    (update_hook_functions, [routines_3_4]),
    (metadata_functions, [routines_3_4]),
    (load_extension_functions, [routines_later]),
    (create_module_functions, [routines_3_2, routines_prepare]),
    (blob_open_functions, [routines_3_6]),
    (vfs_functions, [routines_3_6]),
    (mutex_functions, [routines_3_6]),
    (status_functions, [routines_3_7, routines_later]),
    (backup_functions, [routines_3_7]),
    (unlock_notify_functions, [routines_3_7]),
    (compare_functions, [routines_3_7_16, routines_3_7]),
    (wal_hook_functions, [routines_3_7]),
    (wal_checkpoint_functions, [routines_3_7_16])]"

lemma routing_1_in_parts: "list_all in_parts routing_1" by code_simp

lemma routing_2_in_parts: "list_all in_parts routing_2" by code_simp

lemma routing_3_in_parts: "list_all in_parts routing_3" by code_simp

text \<open>The macros follow the members in order, but for these.\<close>

fun aligned_but :: "string list \<Rightarrow> string list \<Rightarrow> string list \<Rightarrow> bool" where
  "aligned_but ex [] [] \<longleftrightarrow> True"
| "aligned_but ex (a # as) [] \<longleftrightarrow> a \<in> set ex \<and> aligned_but ex as []"
| "aligned_but ex [] (b # bs) \<longleftrightarrow> b \<in> set ex \<and> aligned_but ex [] bs"
| "aligned_but ex (a # as) (b # bs) \<longleftrightarrow> (if a = b then aligned_but ex as bs
    else if a \<in> set ex then aligned_but ex as (b # bs) else b \<in> set ex \<and> aligned_but ex (a # as) bs)"

definition out_of_order :: "string list" where
  "out_of_order = [''create_module_v2'', ''prepare_v2'', ''prepare16_v2'', ''vsnprintf'']"

lemma aligned_but_sets:
  "aligned_but ex as bs \<Longrightarrow> set ex \<subseteq> set as0 \<Longrightarrow> set ex \<subseteq> set bs0 \<Longrightarrow>
    set as \<union> set as0 \<subseteq> set bs \<union> set bs0 \<union> set as0 \<and> set bs \<subseteq> set as \<union> set ex \<and> set as \<subseteq> set bs \<union> set ex"
  by (induction ex as bs rule: aligned_but.induct) (auto split: if_splits)

lemma redirections_aligned: "aligned_but out_of_order (map snd redirections) (map fst api_routines)"
  by code_simp

lemma out_of_order_in_both: "set out_of_order \<subseteq> set (map snd redirections) \<and> set out_of_order \<subseteq> set (map fst api_routines)"
  by code_simp

lemma redirections_onto_members: "set (map snd redirections) = set (map fst api_routines)"
  using aligned_but_sets [OF redirections_aligned] out_of_order_in_both by blast

lemma key_has_value: "k \<in> set (map fst xs) \<Longrightarrow> \<exists>v. (k, v) \<in> set xs"
  by auto

lemma value_has_key: "v \<in> set (map snd xs) \<Longrightarrow> \<exists>k. (k, v) \<in> set xs"
  by auto

definition own_name :: "string \<times> string \<Rightarrow> bool" where
  "own_name = (\<lambda>(name, m). name = ''sqlite3_'' @ m)"

lemma own_name_1: "filter (\<lambda>r. \<not> own_name r) redirections_1 = [(''sqlite3_interrupt'', ''interruptx'')]"
  by code_simp

lemma own_name_2: "filter (\<lambda>r. \<not> own_name r) redirections_2 = [(''sqlite3_threadsafe'', ''xthreadsafe'')]"
  by code_simp

lemma own_name_3: "filter (\<lambda>r. \<not> own_name r) redirections_3 = [(''sqlite3_uri_vsnprintf'', ''vsnprintf'')]"
  by code_simp

lemma renamed: "filter (\<lambda>r. \<not> own_name r) redirections =
    [(''sqlite3_interrupt'', ''interruptx''), (''sqlite3_threadsafe'', ''xthreadsafe''),
     (''sqlite3_uri_vsnprintf'', ''vsnprintf'')]"
  by (simp add: redirections_def own_name_1 own_name_2 own_name_3)

lemma vsnprintf_redirected: "(''sqlite3_vsnprintf'', ''vsnprintf'') \<in> set redirections"
  by code_simp

lemma member_redirected:
  assumes "m \<in> set (map fst api_routines)" and "m \<noteq> ''interruptx''" and "m \<noteq> ''xthreadsafe''"
  shows "(''sqlite3_'' @ m, m) \<in> set redirections"
proof -
  have m: "m \<in> set (map snd redirections)" unfolding redirections_onto_members by (rule assms(1))
  obtain n where n: "(n, m) \<in> set redirections" using value_has_key [OF m] by (elim exE)
  show ?thesis
  proof (cases "own_name (n, m)")
    case True then show ?thesis using n by (simp add: own_name_def)
  next
    case False
    then have "(n, m) \<in> set (filter (\<lambda>r. \<not> own_name r) redirections)" using n by simp
    then have "m = ''vsnprintf''" using assms(2,3) by (auto simp: renamed)
    then show ?thesis using vsnprintf_redirected by simp
  qed
qed

text \<open>A function reaches a member of its type through the macro of its name.\<close>

definition reaches_member :: "string \<times> c_type \<Rightarrow> bool" where
  "reaches_member = (\<lambda>(name, t).
    \<exists>m u. (name, m) \<in> set redirections \<and> (m, Ptr u) \<in> set api_routines \<and> same_type t u)"

lemma has_member_reaches:
  assumes "has_member api f" and "set api \<subseteq> set api_routines"
  shows "reaches_member f"
proof -
  obtain name t where f: "f = (name, t)" by force
  obtain m u where m: "name = ''sqlite3_'' @ m" "m \<noteq> ''interruptx''" "m \<noteq> ''xthreadsafe''"
      "map_of api m = Some (Ptr u)" "same_type t u"
    using assms(1) by (auto simp: f has_member_def without_prefix_Some split: option.splits c_type.splits)
  have mem: "(m, Ptr u) \<in> set api_routines" using map_of_SomeD [OF m(4)] assms(2) by blast
  then have "m \<in> set (map fst api_routines)" by force
  with member_redirected m(1-3) have "(name, m) \<in> set redirections" by simp
  with mem m(5) show ?thesis by (auto simp: f reaches_member_def)
qed

lemma parts_of_routines:
  "list_all (\<lambda>(grp, parts). list_all (\<lambda>part. set part \<subseteq> set api_routines) parts) (routing_1 @ routing_2 @ routing_3)"
  by (auto simp: routing_1_def routing_2_def routing_3_def api_routines_def)

lemma routing_groups: "map fst (routing_1 @ routing_2 @ routing_3) = function_groups"
  by (simp add: routing_1_def routing_2_def routing_3_def function_groups_def)

text \<open>A call means the same in an extension as in a program: every function declared in the groups of the header,
  but for the deprecated sqlite3_memory_alarm, is redirected by the macro of its name to a member of the structure of
  pointers that has its type; the macros reach every member and nothing else; and a macro bears the name of its member
  but for three, the last of which redirects a name that is no function's.\<close>

theorem redirected_functions_agree:
  "list_all (list_all (\<lambda>f. fst f = ''sqlite3_memory_alarm'' \<or> reaches_member f)) function_groups
    \<and> set (map snd redirections) = set (map fst api_routines)
    \<and> filter (\<lambda>r. \<not> own_name r) redirections =
        [(''sqlite3_interrupt'', ''interruptx''), (''sqlite3_threadsafe'', ''xthreadsafe''),
         (''sqlite3_uri_vsnprintf'', ''vsnprintf'')]"
proof (intro conjI)
  have "list_all in_parts (routing_1 @ routing_2 @ routing_3)"
    by (simp add: routing_1_in_parts routing_2_in_parts routing_3_in_parts)
  then have reached: "fst f = ''sqlite3_memory_alarm'' \<or> reaches_member f"
    if "(grp, parts) \<in> set (routing_1 @ routing_2 @ routing_3)" "f \<in> set grp" for grp parts f
    using that parts_of_routines has_member_reaches
    unfolding list_all_iff list_ex_iff in_parts_def by fast
  show "list_all (list_all (\<lambda>f. fst f = ''sqlite3_memory_alarm'' \<or> reaches_member f)) function_groups"
    unfolding routing_groups [symmetric] list_all_iff
  proof (intro ballI)
    fix grp f
    assume grp: "grp \<in> set (map fst (routing_1 @ routing_2 @ routing_3))" and f: "f \<in> set grp"
    obtain parts where "(grp, parts) \<in> set (routing_1 @ routing_2 @ routing_3)"
      using key_has_value [OF grp] by (elim exE)
    from reached [OF this f] show "fst f = ''sqlite3_memory_alarm'' \<or> reaches_member f" .
  qed
qed (rule redirections_onto_members renamed)+

end
