(* ===== verification/Db_Api.thy ===== *)
theory Db_Api
  imports Messages Sqlite_Engine
begin

text \<open>
  src/db/db_api.cpp: the queries of the cinema's database.

  \<^item> Each function takes the engine (the SQLite library) and the database, and gives what the
    C++ function returns with the database after it.  The int returned by the C functions is
    1 or 0, as \<open>res == SQLITE_OK\<close> is.
  \<^item> \<open>seat_map\<close> is the abstract state: who holds each seat of each room, and whether it is paid.
    \<open>db_ok\<close> is the invariant of the tables under which it is one.
  \<^item> The locale \<open>seat_store\<close> is the contract the administrator relies on whatever fails in the
    database, and \<open>exact_seat_store\<close> adds what it may rely on when only constraints fail.
  \<^item> \<open>db_call\<close> is one call of any of the functions.  The administrator forks a handler for
    each request, so its handlers interleave; every interleaving is a sequence of such calls.
\<close>

section \<open>The functions\<close>

type_synonym ('a, 'db) query = "'db \<Rightarrow> 'a \<times> 'db"

text \<open>\<open>push_back(atoi(argv[0]))\<close>.\<close>

definition db_select_singlevalue_callback :: "int list \<Rightarrow> int \<Rightarrow> int list" where
  "db_select_singlevalue_callback data value = data @ [int32 value]"

text \<open>The result code, and what the callback leaves in the vector (which starts empty).\<close>

definition execute_query :: "'db sqlite \<Rightarrow> sql \<Rightarrow> (int \<times> int list, 'db) query" where
  "execute_query E sql_query d =
     (case sq_exec E sql_query d of
        ((res, rows), d') \<Rightarrow> ((res, foldl db_select_singlevalue_callback [] rows), d'))"

text \<open>\<open>execute_query(...) == SQLITE_OK\<close>.\<close>

definition query_succeeds :: "'db sqlite \<Rightarrow> sql \<Rightarrow> (int, 'db) query" where
  "query_succeeds E q d = (case execute_query E q d of ((res, _), d') \<Rightarrow> (of_bool (res = SQLITE_OK), d'))"

definition query_rows :: "'db sqlite \<Rightarrow> sql \<Rightarrow> (int list, 'db) query" where
  "query_rows E q d = (case execute_query E q d of ((_, rows), d') \<Rightarrow> (rows, d'))"

text \<open>A text of several statements: run in order until one fails.\<close>

primrec exec_script :: "'db sqlite \<Rightarrow> sql list \<Rightarrow> (int, 'db) query" where
  "exec_script E [] d = (SQLITE_OK, d)"
| "exec_script E (q # qs) d =
     (case sq_exec E q d of ((res, _), d') \<Rightarrow>
        if res = SQLITE_OK then exec_script E qs d' else (res, d'))"

text \<open>The pragma is the one the source names, \<open>foreign_key\<close>.\<close>

definition initial_script :: "sql list" where
  "initial_script = Pragma ''foreign_key'' ''ON'' #
     map CreateTableIfNotExists [Users, Rooms, Seats, Reservations, Clients_rooms, Active_clients]"

definition db_initialize :: "'db sqlite \<Rightarrow> (unit, 'db) query" where
  "db_initialize E d = (case exec_script E initial_script d of (res, d') \<Rightarrow> ((), d'))"

definition db_remove_user_unpaid_reservations :: "'db sqlite \<Rightarrow> int \<Rightarrow> (int, 'db) query" where
  "db_remove_user_unpaid_reservations E userid =
     query_succeeds E (DeleteFrom Reservations [(Col_user_id, userid), (Col_paid_flag, 0)])"

definition db_remove_unpaid_reservations :: "'db sqlite \<Rightarrow> (int, 'db) query" where
  "db_remove_unpaid_reservations E = query_succeeds E (DeleteFrom Reservations [(Col_paid_flag, 0)])"

definition db_update_paid_reservation :: "'db sqlite \<Rightarrow> int \<Rightarrow> Reservation \<Rightarrow> (int, 'db) query" where
  "db_update_paid_reservation E user_id user_reservation =
     (let room_id = res_room user_reservation; seat_id = res_seat_num user_reservation in
      query_succeeds E (UpdateSet Reservations [(Col_paid_flag, 1)]
        [(Col_user_id, user_id), (Col_room_id, room_id), (Col_seat_id, seat_id)]))"

definition db_logout_user :: "'db sqlite \<Rightarrow> int \<Rightarrow> (int, 'db) query" where
  "db_logout_user E user_id = query_succeeds E (DeleteFrom Active_clients [(Col_user_id, user_id)])"

definition db_login_user :: "'db sqlite \<Rightarrow> int \<Rightarrow> (int, 'db) query" where
  "db_login_user E user_id = query_succeeds E (InsertInto Active_clients [(Col_user_id, Some user_id)])"

text \<open>The identifier of the last row inserted, whether this insertion succeeded or not.\<close>

definition db_insert_user :: "'db sqlite \<Rightarrow> (int, 'db) query" where
  "db_insert_user E d =
     (case execute_query E (InsertInto Users [(Col_id, None)]) d of
        (_, d') \<Rightarrow> (int32 (sq_last_insert_rowid E d'), d'))"

text \<open>
  \<open>sqlite3_prepare\<close>, \<open>sqlite3_step\<close> and \<open>sqlite3_finalize\<close> of an insertion: \<open>sqlite3_finalize\<close>
  gives the code of the step.  After a failed preparation the statement is null, the step is
  refused and \<open>sqlite3_finalize(NULL)\<close> is \<open>SQLITE_OK\<close>.
\<close>

definition step_and_finalize :: "'db sqlite \<Rightarrow> table \<Rightarrow> (column \<times> int option) list \<Rightarrow> (int, 'db) query" where
  "step_and_finalize E t vals d =
     (if sq_prepare_insert E t (map fst vals) d = SQLITE_OK
      then (case sq_exec E (InsertInto t vals) d of ((rc, _), d') \<Rightarrow> (rc, d'))
      else (SQLITE_OK, d))"

definition db_insert_reservation :: "'db sqlite \<Rightarrow> int \<Rightarrow> int \<Rightarrow> int \<Rightarrow> (int, 'db) query" where
  "db_insert_reservation E userid roomid seatid d =
     (case (if 0 < seatid
            then step_and_finalize E Reservations
              [(Col_user_id, Some userid), (Col_room_id, Some roomid), (Col_seat_id, Some seatid)] d
            else (- 1, d)) of
        (rc, d') \<Rightarrow> (of_bool (rc = SQLITE_OK), d'))"

definition db_insert_room :: "'db sqlite \<Rightarrow> (int, 'db) query" where
  "db_insert_room E = query_succeeds E (InsertInto Rooms [(Col_id, None)])"

definition db_insert_seats :: "'db sqlite \<Rightarrow> int \<Rightarrow> int \<Rightarrow> (int, 'db) query" where
  "db_insert_seats E roomid seatid d =
     (case step_and_finalize E Seats [(Col_room_id, Some roomid), (Col_seat_id, Some seatid)] d of
        (rc, d') \<Rightarrow> (of_bool (rc = SQLITE_OK), d'))"

definition db_select_room :: "'db sqlite \<Rightarrow> (int list, 'db) query" where
  "db_select_room E = query_rows E (SelectFrom Col_id Rooms [])"

definition db_insert_user_in_room :: "'db sqlite \<Rightarrow> int \<Rightarrow> int \<Rightarrow> (int, 'db) query" where
  "db_insert_user_in_room E userid roomid =
     query_succeeds E (InsertInto Clients_rooms [(Col_user_id, Some userid), (Col_room_id, Some roomid)])"

definition db_remove_user_in_room :: "'db sqlite \<Rightarrow> int \<Rightarrow> (int, 'db) query" where
  "db_remove_user_in_room E userid = query_succeeds E (DeleteFrom Clients_rooms [(Col_user_id, userid)])"

definition db_remove_users_in_room :: "'db sqlite \<Rightarrow> (int, 'db) query" where
  "db_remove_users_in_room E = query_succeeds E (DeleteFrom Clients_rooms [])"

text \<open>\<open>res.front()\<close> of an empty vector is undefined (\<open>None\<close>).\<close>

definition db_select_user_current_room :: "'db sqlite \<Rightarrow> int \<Rightarrow> (int option, 'db) query" where
  "db_select_user_current_room E userid d =
     (case query_rows E (SelectFrom Col_room_id Clients_rooms [(Col_user_id, userid)]) d of
        ([], d') \<Rightarrow> (None, d')
      | (r # _, d') \<Rightarrow> (Some r, d'))"

definition db_select_users_in_room :: "'db sqlite \<Rightarrow> int \<Rightarrow> (int list, 'db) query" where
  "db_select_users_in_room E roomid = query_rows E (SelectFrom Col_user_id Clients_rooms [(Col_room_id, roomid)])"

definition db_select_room_seats :: "'db sqlite \<Rightarrow> int \<Rightarrow> (int list, 'db) query" where
  "db_select_room_seats E roomid = query_rows E (SelectFrom Col_seat_id Seats [(Col_room_id, roomid)])"

definition db_select_reservations :: "'db sqlite \<Rightarrow> int \<Rightarrow> (int list, 'db) query" where
  "db_select_reservations E roomid = query_rows E (SelectFrom Col_seat_id Reservations [(Col_room_id, roomid)])"

lemma callback_foldl: "foldl db_select_singlevalue_callback xs ys = xs @ map int32 ys"
  by (induction ys arbitrary: xs) (simp_all add: db_select_singlevalue_callback_def)

lemma query_succeeds_run:
  "sq_exec E q d = ((rc, rows), d') \<Longrightarrow> query_succeeds E q d = (of_bool (rc = SQLITE_OK), d')"
  by (simp add: query_succeeds_def execute_query_def)

lemma query_rows_run:
  "sq_exec E q d = ((rc, rows), d') \<Longrightarrow> query_rows E q d = (map int32 rows, d')"
  by (simp add: query_rows_def execute_query_def callback_foldl)

section \<open>Who holds each seat\<close>

text \<open>A room and a seat, to the user who holds it and its \<open>paid_flag\<close>.\<close>

type_synonym seat_map = "(int \<times> int) \<rightharpoonup> (int \<times> int)"

definition seat_entry :: "row \<Rightarrow> (int \<times> int) \<times> (int \<times> int)" where
  "seat_entry r = ((the (r Col_room_id), the (r Col_seat_id)), (the (r Col_user_id), the (r Col_paid_flag)))"

definition seat_map :: "tables \<Rightarrow> seat_map" where
  "seat_map T = map_of (map seat_entry (T Reservations))"

definition complete_row :: "row \<Rightarrow> bool" where
  "complete_row r \<longleftrightarrow> r Col_user_id \<noteq> None \<and> r Col_room_id \<noteq> None \<and> r Col_seat_id \<noteq> None
     \<and> r Col_paid_flag \<noteq> None"

definition db_ok :: "tables \<Rightarrow> bool" where
  "db_ok T \<longleftrightarrow> keys_unique T \<and> list_all complete_row (T Reservations)"

text \<open>The abstract operations.\<close>

definition drop_unpaid :: "int \<Rightarrow> seat_map \<Rightarrow> seat_map" where
  "drop_unpaid u m = (\<lambda>p. if m p = Some (u, 0) then None else m p)"

definition drop_all_unpaid :: "seat_map \<Rightarrow> seat_map" where
  "drop_all_unpaid m = (\<lambda>p. case m p of Some (u, f) \<Rightarrow> if f = 0 then None else m p | None \<Rightarrow> None)"

definition mark_paid :: "int \<Rightarrow> int \<Rightarrow> int \<Rightarrow> seat_map \<Rightarrow> seat_map" where
  "mark_paid u r s m = (\<lambda>p. case m p of
     Some (u', f) \<Rightarrow> if p = (r, s) \<and> u' = u then Some (u, 1) else m p | None \<Rightarrow> None)"

lemma key_of_reservation:
  "complete_row r \<Longrightarrow> complete_row r' \<Longrightarrow>
     key_of Reservations r = key_of Reservations r' \<longleftrightarrow> fst (seat_entry r) = fst (seat_entry r')"
  by (auto simp: complete_row_def key_of_def seat_entry_def)

lemma seat_keys_distinct:
  assumes "db_ok T"
  shows "distinct (map fst (map seat_entry (T Reservations)))"
proof -
  have c: "\<And>r. r \<in> set (T Reservations) \<Longrightarrow> complete_row r"
    using assms by (simp add: db_ok_def list_all_iff)
  have d: "distinct (T Reservations)" "inj_on (key_of Reservations) (set (T Reservations))"
    using assms by (simp_all add: db_ok_def keys_unique_def distinct_map)
  have "inj_on (fst \<circ> seat_entry) (set (T Reservations))"
    using d(2) c key_of_reservation unfolding inj_on_def comp_def by blast
  with d(1) show ?thesis by (simp add: distinct_map comp_def)
qed

lemma seat_map_row:
  assumes "db_ok T"
  shows "seat_map T p = Some x \<longleftrightarrow> (\<exists>r \<in> set (T Reservations). seat_entry r = (p, x))"
proof -
  have "seat_map T p = Some x \<longleftrightarrow> (p, x) \<in> set (map seat_entry (T Reservations))"
    unfolding seat_map_def by (rule map_of_eq_Some_iff [OF seat_keys_distinct [OF assms]])
  then show ?thesis by (metis imageE imageI list.set_map)
qed

definition reservation_values :: "int \<Rightarrow> int \<Rightarrow> int \<Rightarrow> (column \<times> int option) list" where
  "reservation_values u r s = [(Col_user_id, Some u), (Col_room_id, Some r), (Col_seat_id, Some s)]"

lemma seat_map_free:
  assumes "db_ok T"
  shows "seat_map T (r, s) = None \<longleftrightarrow> \<not> pk_clash T Reservations (new_row Reservations (reservation_values u r s) i)"
proof -
  have c: "\<And>x. x \<in> set (T Reservations) \<Longrightarrow>
      fst (seat_entry x) = (r, s) \<longleftrightarrow> x Col_room_id = Some r \<and> x Col_seat_id = Some s"
    using assms by (auto simp: db_ok_def list_all_iff complete_row_def seat_entry_def)
  have "seat_map T (r, s) = None \<longleftrightarrow> (\<forall>x \<in> set (T Reservations). fst (seat_entry x) \<noteq> (r, s))"
    by (auto simp: seat_map_def map_of_eq_None_iff image_iff)
  also have "\<dots> \<longleftrightarrow> (\<forall>x \<in> set (T Reservations). \<not> (x Col_room_id = Some r \<and> x Col_seat_id = Some s))"
    using c by blast
  finally show ?thesis
    by (auto simp: pk_clash_def key_of_def new_row_def reservation_values_def image_iff)
qed

text \<open>What the statements of the program do to the seat map.\<close>

lemma seat_entry_new:
  "seat_entry (new_row Reservations (reservation_values u r s) i) = ((r, s), (u, 0))"
  "complete_row (new_row Reservations (reservation_values u r s) i)"
  by (simp_all add: new_row_def reservation_values_def seat_entry_def complete_row_def)

lemma seat_map_insert:
  assumes "seat_map T (r, s) = None"
  shows "seat_map (sql_effect i (InsertInto Reservations (reservation_values u r s)) T)
    = (seat_map T)((r, s) \<mapsto> (u, 0))"
proof
  fix p
  show "seat_map (sql_effect i (InsertInto Reservations (reservation_values u r s)) T) p
      = ((seat_map T)((r, s) \<mapsto> (u, 0))) p"
    using assms by (auto simp: seat_map_def seat_entry_new map_add_def split: option.splits)
qed

lemma seat_map_delete:
  assumes "db_ok T" and "\<And>x. x \<in> set (T Reservations) \<Longrightarrow> matches w x \<longleftrightarrow> P (snd (seat_entry x))"
  shows "seat_map (sql_effect i (DeleteFrom Reservations w) T)
    = (\<lambda>p. case seat_map T p of Some y \<Rightarrow> if P y then None else Some y | None \<Rightarrow> None)"
proof
  fix p
  have dis: "distinct (map fst (map seat_entry (filter (\<lambda>x. \<not> matches w x) (T Reservations))))"
    using seat_keys_distinct [OF assms(1)] by (auto simp: distinct_map intro: inj_on_subset)
  have iff: "seat_map (sql_effect i (DeleteFrom Reservations w) T) p = Some y
      \<longleftrightarrow> seat_map T p = Some y \<and> \<not> P y" for y
  proof -
    have "seat_map (sql_effect i (DeleteFrom Reservations w) T) p = Some y
        \<longleftrightarrow> (p, y) \<in> set (map seat_entry (filter (\<lambda>x. \<not> matches w x) (T Reservations)))"
      unfolding seat_map_def using map_of_eq_Some_iff [OF dis] by simp
    also have "\<dots> \<longleftrightarrow> (\<exists>x \<in> set (T Reservations). seat_entry x = (p, y) \<and> \<not> matches w x)"
      by (auto simp: image_iff)
    also have "\<dots> \<longleftrightarrow> (\<exists>x \<in> set (T Reservations). seat_entry x = (p, y)) \<and> \<not> P y"
      using assms(2) by (metis snd_conv)
    finally show ?thesis by (simp only: seat_map_row [OF assms(1)])
  qed
  show "seat_map (sql_effect i (DeleteFrom Reservations w) T) p
      = (case seat_map T p of Some y \<Rightarrow> if P y then None else Some y | None \<Rightarrow> None)"
    using iff by (cases "seat_map (sql_effect i (DeleteFrom Reservations w) T) p")
      (auto split: option.splits if_splits)
qed

definition set_paid :: "int \<Rightarrow> int \<Rightarrow> int \<Rightarrow> row \<Rightarrow> row" where
  "set_paid u r s x = (if matches [(Col_user_id, u), (Col_room_id, r), (Col_seat_id, s)] x
     then x ++ map_of [(Col_paid_flag, 1)] else x)"

lemma seat_entry_set_paid:
  assumes "complete_row x"
  shows "seat_entry (set_paid u r s x) = (fst (seat_entry x),
    if seat_entry x = ((r, s), (u, snd (snd (seat_entry x)))) then (u, 1) else snd (seat_entry x))"
  using assms by (auto simp: set_paid_def seat_entry_def matches_def complete_row_def)

lemma map_of_set_paid:
  "list_all complete_row rs \<Longrightarrow>
    map_of (map seat_entry (map (set_paid u r s) rs)) = mark_paid u r s (map_of (map seat_entry rs))"
proof (induction rs)
  case (Cons x rs)
  then have c: "complete_row x" by simp
  obtain p u' f where e: "seat_entry x = (p, (u', f))" by (metis prod.exhaust)
  show ?case
    using Cons by (auto simp: seat_entry_set_paid [OF c] e mark_paid_def fun_eq_iff)
qed (simp add: mark_paid_def fun_eq_iff)

lemma seat_map_pay:
  assumes "db_ok T"
  shows "seat_map (sql_effect i (UpdateSet Reservations [(Col_paid_flag, 1)]
      [(Col_user_id, u), (Col_room_id, r), (Col_seat_id, s)]) T) = mark_paid u r s (seat_map T)"
  using map_of_set_paid [of "T Reservations" u r s] assms
  by (simp add: seat_map_def db_ok_def set_paid_def [abs_def])


section \<open>Calls of the functions\<close>

datatype db_call =
    Call_initialize
  | Call_remove_user_unpaid int
  | Call_remove_unpaid
  | Call_pay int Reservation
  | Call_logout int
  | Call_login int
  | Call_insert_user
  | Call_insert_reservation int int int
  | Call_insert_room
  | Call_insert_seats int int
  | Call_select_room
  | Call_insert_user_in_room int int
  | Call_remove_user_in_room int
  | Call_remove_users_in_room
  | Call_select_current_room int
  | Call_select_users int
  | Call_select_seats int
  | Call_select_reservations int

text \<open>The database after a call.\<close>

fun db_perform :: "'db sqlite \<Rightarrow> db_call \<Rightarrow> 'db \<Rightarrow> 'db" where
  "db_perform E Call_initialize d = snd (db_initialize E d)"
| "db_perform E (Call_remove_user_unpaid u) d = snd (db_remove_user_unpaid_reservations E u d)"
| "db_perform E Call_remove_unpaid d = snd (db_remove_unpaid_reservations E d)"
| "db_perform E (Call_pay u rv) d = snd (db_update_paid_reservation E u rv d)"
| "db_perform E (Call_logout u) d = snd (db_logout_user E u d)"
| "db_perform E (Call_login u) d = snd (db_login_user E u d)"
| "db_perform E Call_insert_user d = snd (db_insert_user E d)"
| "db_perform E (Call_insert_reservation u r s) d = snd (db_insert_reservation E u r s d)"
| "db_perform E Call_insert_room d = snd (db_insert_room E d)"
| "db_perform E (Call_insert_seats r s) d = snd (db_insert_seats E r s d)"
| "db_perform E Call_select_room d = snd (db_select_room E d)"
| "db_perform E (Call_insert_user_in_room u r) d = snd (db_insert_user_in_room E u r d)"
| "db_perform E (Call_remove_user_in_room u) d = snd (db_remove_user_in_room E u d)"
| "db_perform E Call_remove_users_in_room d = snd (db_remove_users_in_room E d)"
| "db_perform E (Call_select_current_room u) d = snd (db_select_user_current_room E u d)"
| "db_perform E (Call_select_users r) d = snd (db_select_users_in_room E r d)"
| "db_perform E (Call_select_seats r) d = snd (db_select_room_seats E r d)"
| "db_perform E (Call_select_reservations r) d = snd (db_select_reservations E r d)"

definition db_run :: "'db sqlite \<Rightarrow> db_call list \<Rightarrow> 'db \<Rightarrow> 'db" where
  "db_run E cs d = fold (db_perform E) cs d"

section \<open>The contract of the store of seats\<close>

text \<open>
  What a call may do to the seat map.  Any call may leave it as it is (its statement failed or
  is about other tables); the others are the only changes there are.
\<close>

inductive seat_step :: "db_call \<Rightarrow> seat_map \<Rightarrow> seat_map \<Rightarrow> bool" where
  seat_same: "seat_step c m m"
| seat_book: "0 < s \<Longrightarrow> m (r, s) = None \<Longrightarrow> seat_step (Call_insert_reservation u r s) m (m((r, s) \<mapsto> (u, 0)))"
| seat_pay: "seat_step (Call_pay u rv) m (mark_paid u (res_room rv) (res_seat_num rv) m)"
| seat_drop: "seat_step (Call_remove_user_unpaid u) m (drop_unpaid u m)"
| seat_drop_all: "seat_step Call_remove_unpaid m (drop_all_unpaid m)"

inductive_cases seat_stepE: "seat_step c m m'"

text \<open>A call that frees a seat of this user, or pays it.\<close>

fun frees :: "int \<Rightarrow> db_call \<Rightarrow> bool" where
  "frees u (Call_remove_user_unpaid v) = (v = u)"
| "frees u Call_remove_unpaid = True"
| "frees u _ = False"

fun pays :: "int \<times> int \<Rightarrow> db_call \<Rightarrow> bool" where
  "pays p (Call_pay u rv) = (p = (res_room rv, res_seat_num rv))"
| "pays p _ = False"

fun books :: "int \<times> int \<Rightarrow> db_call \<Rightarrow> bool" where
  "books p (Call_insert_reservation u r s) = (p = (r, s))"
| "books p _ = False"

lemma seat_step_paid: "seat_step c m m' \<Longrightarrow> m p = Some (u, 1) \<Longrightarrow> m' p = Some (u, 1)"
  by (erule seat_stepE) (auto simp: mark_paid_def drop_unpaid_def drop_all_unpaid_def)

lemma seat_step_owner:
  "seat_step c m m' \<Longrightarrow> \<not> frees u c \<Longrightarrow> m p = Some (u, f) \<Longrightarrow> \<exists>f'. m' p = Some (u, f')"
  by (erule seat_stepE) (auto simp: mark_paid_def drop_unpaid_def)

lemma seat_step_unpaid:
  "seat_step c m m' \<Longrightarrow> \<not> pays p c \<Longrightarrow> \<forall>u f. m p = Some (u, f) \<longrightarrow> f = 0 \<Longrightarrow>
     \<forall>u f. m' p = Some (u, f) \<longrightarrow> f = 0"
  by (erule seat_stepE)
    (auto simp: mark_paid_def drop_unpaid_def drop_all_unpaid_def split: if_splits option.splits)

lemma seat_step_free:
  "seat_step c m m' \<Longrightarrow> \<not> books p c \<Longrightarrow> m p = None \<Longrightarrow> m' p = None"
  by (erule seat_stepE) (auto simp: mark_paid_def drop_unpaid_def drop_all_unpaid_def)

locale seat_store =
  fixes perform :: "db_call \<Rightarrow> 's \<Rightarrow> 's"
    and holders :: "'s \<Rightarrow> seat_map"
    and ok :: "'s \<Rightarrow> bool"
  assumes ok_perform: "ok d \<Longrightarrow> ok (perform c d)"
    and step_perform: "ok d \<Longrightarrow> seat_step c (holders d) (holders (perform c d))"
begin

lemma ok_run: "ok d \<Longrightarrow> ok (fold perform cs d)"
  by (induction cs arbitrary: d) (simp_all add: ok_perform)

text \<open>A fact about one seat that every step of an admitted call keeps, a run keeps.\<close>

lemma run_keeps:
  assumes "ok d" and "list_all A cs" and "P (holders d p)"
    and "\<And>c m m'. A c \<Longrightarrow> seat_step c m m' \<Longrightarrow> P (m p) \<Longrightarrow> P (m' p)"
  shows "P (holders (fold perform cs d) p)"
  using assms(1-3)
proof (induction cs arbitrary: d)
  case (Cons c cs)
  then have "P (holders (perform c d) p)"
    using assms(4) [of c "holders d" "holders (perform c d)"] step_perform by simp
  with Cons show ?case by (simp add: ok_perform)
qed simp

lemma paid_stays: "ok d \<Longrightarrow> holders d p = Some (u, 1) \<Longrightarrow> holders (fold perform cs d) p = Some (u, 1)"
  by (rule run_keeps [where A = "\<lambda>_. True"]) (auto simp: list_all_iff seat_step_paid)

lemma owner_stays:
  "ok d \<Longrightarrow> holders d p = Some (u, f) \<Longrightarrow> list_all (\<lambda>c. \<not> frees u c) cs \<Longrightarrow>
     \<exists>f'. holders (fold perform cs d) p = Some (u, f')"
  by (rule run_keeps [where A = "\<lambda>c. \<not> frees u c"]) (auto dest: seat_step_owner)

lemma not_paid_for:
  assumes "ok d" and "holders d p = None \<or> (\<exists>u. holders d p = Some (u, 0))"
    and "list_all (\<lambda>c. \<not> pays p c) cs" and "holders (fold perform cs d) p = Some (u, f)"
  shows "f = 0"
proof -
  let ?P = "\<lambda>x. \<forall>u f. x = Some (u, f) \<longrightarrow> f = (0 :: int)"
  have P: "?P (holders d p)" using assms(2) by auto
  have step: "?P (m' p)" if "\<not> pays p c" "seat_step c m m'" "?P (m p)" for c m m'
    using that(2,1,3) by (rule seat_step_unpaid)
  have "?P (holders (fold perform cs d) p)"
    using assms(1,3) P
    by (rule run_keeps [where P = ?P and A = "\<lambda>c. \<not> pays p c"]) (rule step)
  with assms(4) show ?thesis by simp
qed

lemma free_stays:
  "ok d \<Longrightarrow> holders d p = None \<Longrightarrow> list_all (\<lambda>c. \<not> books p c) cs \<Longrightarrow> holders (fold perform cs d) p = None"
  by (rule run_keeps [where A = "\<lambda>c. \<not> books p c"]) (auto dest: seat_step_free)

end

text \<open>When only constraints fail, the calls do what they are for.\<close>

locale exact_seat_store = seat_store +
  assumes book_exact: "ok d \<Longrightarrow> holders (perform (Call_insert_reservation u r s) d) =
        (if 0 < s \<and> holders d (r, s) = None then (holders d)((r, s) \<mapsto> (u, 0)) else holders d)"
    and pay_exact: "ok d \<Longrightarrow> holders (perform (Call_pay u rv) d) =
        mark_paid u (res_room rv) (res_seat_num rv) (holders d)"
    and drop_exact: "ok d \<Longrightarrow> holders (perform (Call_remove_user_unpaid u) d) = drop_unpaid u (holders d)"
    and drop_all_exact: "ok d \<Longrightarrow> holders (perform Call_remove_unpaid d) = drop_all_unpaid (holders d)"
begin

lemma book_and_pay:
  assumes "ok d" and "0 < s" and "holders d (r, s) = None"
    and "list_all (\<lambda>c. \<not> frees u c) between"
  shows "holders (fold perform (Call_insert_reservation u r s # between @
      Call_pay u \<lparr>res_room = r, res_seat_num = s\<rparr> # after) d) (r, s) = Some (u, 1)"
proof -
  let ?d1 = "perform (Call_insert_reservation u r s) d"
  let ?d2 = "fold perform between ?d1"
  let ?d3 = "perform (Call_pay u \<lparr>res_room = r, res_seat_num = s\<rparr>) ?d2"
  have ok: "ok ?d1" "ok ?d2" "ok ?d3" using assms(1) by (simp_all add: ok_perform ok_run)
  have "holders ?d1 (r, s) = Some (u, 0)" using assms by (simp add: book_exact)
  from owner_stays [OF ok(1) this assms(4)] obtain f where "holders ?d2 (r, s) = Some (u, f)" by blast
  then have "holders ?d3 (r, s) = Some (u, 1)" by (simp add: pay_exact [OF ok(2)] mark_paid_def)
  from paid_stays [OF ok(3) this] show ?thesis by simp
qed

lemma exit_frees:
  assumes "ok d" and "holders d p = Some (u, 0)"
  shows "holders (perform (Call_remove_user_unpaid u) d) p = None"
  using assms by (simp add: drop_exact drop_unpaid_def)

lemma second_booking_refused:
  assumes "ok d" and "holders d (r, s) = Some x"
  shows "holders (perform (Call_insert_reservation u r s) d) = holders d"
  using assms by (simp add: book_exact)

end


section \<open>The functions meet the contract\<close>

text \<open>The statement a call sends (\<open>db_initialize\<close> sends a script instead).\<close>

fun statement_of :: "db_call \<Rightarrow> sql" where
  "statement_of Call_initialize = Pragma ''foreign_key'' ''ON''"
| "statement_of (Call_remove_user_unpaid u) = DeleteFrom Reservations [(Col_user_id, u), (Col_paid_flag, 0)]"
| "statement_of Call_remove_unpaid = DeleteFrom Reservations [(Col_paid_flag, 0)]"
| "statement_of (Call_pay u rv) = UpdateSet Reservations [(Col_paid_flag, 1)]
     [(Col_user_id, u), (Col_room_id, res_room rv), (Col_seat_id, res_seat_num rv)]"
| "statement_of (Call_logout u) = DeleteFrom Active_clients [(Col_user_id, u)]"
| "statement_of (Call_login u) = InsertInto Active_clients [(Col_user_id, Some u)]"
| "statement_of Call_insert_user = InsertInto Users [(Col_id, None)]"
| "statement_of (Call_insert_reservation u r s) = InsertInto Reservations (reservation_values u r s)"
| "statement_of Call_insert_room = InsertInto Rooms [(Col_id, None)]"
| "statement_of (Call_insert_seats r s) = InsertInto Seats [(Col_room_id, Some r), (Col_seat_id, Some s)]"
| "statement_of Call_select_room = SelectFrom Col_id Rooms []"
| "statement_of (Call_insert_user_in_room u r) =
     InsertInto Clients_rooms [(Col_user_id, Some u), (Col_room_id, Some r)]"
| "statement_of (Call_remove_user_in_room u) = DeleteFrom Clients_rooms [(Col_user_id, u)]"
| "statement_of Call_remove_users_in_room = DeleteFrom Clients_rooms []"
| "statement_of (Call_select_current_room u) = SelectFrom Col_room_id Clients_rooms [(Col_user_id, u)]"
| "statement_of (Call_select_users r) = SelectFrom Col_user_id Clients_rooms [(Col_room_id, r)]"
| "statement_of (Call_select_seats r) = SelectFrom Col_seat_id Seats [(Col_room_id, r)]"
| "statement_of (Call_select_reservations r) = SelectFrom Col_seat_id Reservations [(Col_room_id, r)]"

lemma snd_query_succeeds: "snd (query_succeeds E q d) = snd (sq_exec E q d)"
  by (simp add: query_succeeds_def execute_query_def split: prod.splits)

lemma snd_query_rows: "snd (query_rows E q d) = snd (sq_exec E q d)"
  by (simp add: query_rows_def execute_query_def split: prod.splits)

lemma snd_step_and_finalize:
  "snd (step_and_finalize E t vals d) =
     (if sq_prepare_insert E t (map fst vals) d = SQLITE_OK then snd (sq_exec E (InsertInto t vals) d) else d)"
  by (simp add: step_and_finalize_def split: prod.splits)

lemma snd_current_room:
  "snd (db_select_user_current_room E u d) =
     snd (sq_exec E (SelectFrom Col_room_id Clients_rooms [(Col_user_id, u)]) d)"
  by (cases "query_rows E (SelectFrom Col_room_id Clients_rooms [(Col_user_id, u)]) d")
    (simp add: db_select_user_current_room_def snd_query_rows [symmetric] split: list.splits)

lemma snd_insert_user:
  "snd (db_insert_user E d) = snd (sq_exec E (InsertInto Users [(Col_id, None)]) d)"
  by (simp add: db_insert_user_def execute_query_def split: prod.splits)

lemma snd_insert_reservation:
  "snd (db_insert_reservation E u r s d) =
     (if 0 < s \<and> sq_prepare_insert E Reservations [Col_user_id, Col_room_id, Col_seat_id] d = SQLITE_OK
      then snd (sq_exec E (InsertInto Reservations (reservation_values u r s)) d) else d)"
  by (cases "step_and_finalize E Reservations (reservation_values u r s) d")
    (use snd_step_and_finalize [of E Reservations "reservation_values u r s" d] in
      \<open>simp add: db_insert_reservation_def reservation_values_def\<close>)

lemma snd_insert_seats:
  "snd (db_insert_seats E r s d) =
     snd (step_and_finalize E Seats [(Col_room_id, Some r), (Col_seat_id, Some s)] d)"
  by (simp add: db_insert_seats_def split: prod.splits)

lemmas db_functions = db_initialize_def db_remove_user_unpaid_reservations_def
  db_remove_unpaid_reservations_def db_update_paid_reservation_def db_logout_user_def db_login_user_def
  db_insert_room_def db_select_room_def db_insert_user_in_room_def db_remove_user_in_room_def
  db_remove_users_in_room_def db_select_users_in_room_def db_select_room_seats_def
  db_select_reservations_def

lemmas snd_functions = snd_query_succeeds snd_query_rows snd_step_and_finalize snd_current_room
  snd_insert_user snd_insert_reservation snd_insert_seats

lemma db_perform_statement:
  assumes "c \<noteq> Call_initialize"
  shows "db_perform E c d = d \<or> db_perform E c d = snd (sq_exec E (statement_of c) d)"
  using assms by (cases c) (simp_all add: db_functions snd_functions Let_def)

lemma db_perform_exact:
  assumes "c \<noteq> Call_initialize" and "\<And>t cs. sq_prepare_insert E t cs d = SQLITE_OK"
    and "\<And>u r s. c = Call_insert_reservation u r s \<Longrightarrow> 0 < s"
  shows "db_perform E c d = snd (sq_exec E (statement_of c) d)"
  using assms by (cases c) (simp_all add: db_functions snd_functions Let_def)

lemma keeps_keys_statement: "keeps_keys (statement_of c)"
  by (cases c) simp_all

lemma seat_map_other:
  "t \<noteq> Reservations \<Longrightarrow> seat_map (sql_effect i (InsertInto t vals) T) = seat_map T"
  "t \<noteq> Reservations \<Longrightarrow> seat_map (sql_effect i (DeleteFrom t w) T) = seat_map T"
  "seat_map (sql_effect i (SelectFrom c t w) T) = seat_map T"
  "seat_map (sql_effect i (Pragma n v) T) = seat_map T"
  by (simp_all add: seat_map_def)

lemma complete_rows_effect:
  assumes "list_all complete_row (T Reservations)"
  shows "list_all complete_row (sql_effect i (statement_of c) T Reservations)"
  using assms by (cases c) (auto simp: list_all_iff complete_row_def new_row_def reservation_values_def)

lemma matches_unpaid:
  "complete_row x \<Longrightarrow> matches [(Col_user_id, u), (Col_paid_flag, 0)] x \<longleftrightarrow> snd (seat_entry x) = (u, 0)"
  "complete_row x \<Longrightarrow> matches [(Col_paid_flag, 0)] x \<longleftrightarrow> snd (snd (seat_entry x)) = 0"
  by (auto simp: matches_def seat_entry_def complete_row_def)

lemma db_ok_complete: "db_ok T \<Longrightarrow> x \<in> set (T Reservations) \<Longrightarrow> complete_row x"
  by (simp add: db_ok_def list_all_iff)

lemma seat_map_drop:
  "db_ok T \<Longrightarrow> seat_map (sql_effect i (DeleteFrom Reservations [(Col_user_id, u), (Col_paid_flag, 0)]) T)
     = drop_unpaid u (seat_map T)"
  by (subst seat_map_delete [where P = "\<lambda>y. y = (u, 0)"])
    (auto simp: matches_unpaid db_ok_complete drop_unpaid_def fun_eq_iff split: option.splits)

lemma seat_map_drop_all:
  "db_ok T \<Longrightarrow> seat_map (sql_effect i (DeleteFrom Reservations [(Col_paid_flag, 0)]) T)
     = drop_all_unpaid (seat_map T)"
  by (subst seat_map_delete [where P = "\<lambda>y. snd y = 0"])
    (auto simp: matches_unpaid db_ok_complete drop_all_unpaid_def fun_eq_iff split: option.splits)

text \<open>What a statement that succeeds does to the seat map.\<close>

fun seat_effect :: "db_call \<Rightarrow> seat_map \<Rightarrow> seat_map" where
  "seat_effect (Call_insert_reservation u r s) m = m((r, s) \<mapsto> (u, 0))"
| "seat_effect (Call_pay u rv) m = mark_paid u (res_room rv) (res_seat_num rv) m"
| "seat_effect (Call_remove_user_unpaid u) m = drop_unpaid u m"
| "seat_effect Call_remove_unpaid m = drop_all_unpaid m"
| "seat_effect _ m = m"

lemma seat_map_effect:
  assumes "db_ok T"
    and "\<And>u r s. c = Call_insert_reservation u r s \<Longrightarrow> seat_map T (r, s) = None"
  shows "seat_map (sql_effect i (statement_of c) T) = seat_effect c (seat_map T)"
proof (cases "\<exists>u r s. c = Call_insert_reservation u r s")
  case True
  with assms show ?thesis by (auto simp del: sql_effect.simps simp: seat_map_insert)
next
  case False
  with assms(1) show ?thesis
    by (cases c) (simp_all del: sql_effect.simps
        add: seat_map_other seat_map_pay seat_map_drop seat_map_drop_all)
qed


context sqlite_engine
begin

lemma exec_db_ok:
  assumes "db_ok (tab d)" and "sq_exec E (statement_of c) d = ((rc, rows), d')"
  shows "db_ok (tab d')"
proof -
  have "keys_unique (tab d')"
    using assms(1) by (intro keys_unique_exec [OF _ keeps_keys_statement assms(2)]) (simp add: db_ok_def)
  moreover have "list_all complete_row (tab d' Reservations)"
    using assms(1) complete_rows_effect exec_ok [OF assms(2)] exec_failed [OF assms(2)]
    by (cases "rc = SQLITE_OK") (simp_all add: db_ok_def)
  ultimately show ?thesis by (simp add: db_ok_def)
qed

lemma exec_seat_map:
  assumes "db_ok (tab d)" and "sq_exec E (statement_of c) d = ((rc, rows), d')"
  shows "rc = SQLITE_OK \<Longrightarrow> seat_map (tab d') = seat_effect c (seat_map (tab d))"
    and "rc \<noteq> SQLITE_OK \<Longrightarrow> seat_map (tab d') = seat_map (tab d)"
    and "rc = SQLITE_OK \<Longrightarrow> c = Call_insert_reservation u r s \<Longrightarrow> seat_map (tab d) (r, s) = None"
proof -
  show free: "seat_map (tab d) (r, s) = None"
    if "rc = SQLITE_OK" "c = Call_insert_reservation u r s" for u r s
    using exec_key [of Reservations "reservation_values u r s" d rc rows d'] assms(2) that
      seat_map_free [OF assms(1), of r s u "sq_last_insert_rowid E d'"]
    by simp
  show "seat_map (tab d') = seat_effect c (seat_map (tab d))" if "rc = SQLITE_OK"
    using seat_map_effect [OF assms(1)] free that exec_ok [OF assms(2) that] by metis
  show "seat_map (tab d') = seat_map (tab d)" if "rc \<noteq> SQLITE_OK"
    using exec_failed [OF assms(2) that] by simp
qed

lemma exec_seat_step:
  assumes "db_ok (tab d)" and "sq_exec E (statement_of c) d = ((rc, rows), d')"
    and "\<And>u r s. c = Call_insert_reservation u r s \<Longrightarrow> 0 < s"
  shows "seat_step c (seat_map (tab d)) (seat_map (tab d'))"
proof (cases "rc = SQLITE_OK")
  case True
  note eff = exec_seat_map(1) [OF assms(1,2) True] and free = exec_seat_map(3) [OF assms(1,2) True]
  show ?thesis
    using assms(3) eff free by (cases c) (simp_all add: seat_step.intros)
next
  case False
  then show ?thesis using exec_seat_map(2) [OF assms(1,2)] by (simp add: seat_same)
qed

text \<open>The script of \<open>db_initialize\<close> touches no row, and no pragma the engine knows.\<close>

lemma exec_script_tab:
  assumes "\<And>q. q \<in> set qs \<Longrightarrow> (\<exists>t. q = CreateTableIfNotExists t) \<or> (\<exists>v. q = Pragma ''foreign_key'' v)"
  shows "tab (snd (exec_script E qs d)) = tab d \<and> fk (snd (exec_script E qs d)) = fk d"
  using assms
proof (induction qs arbitrary: d)
  case (Cons q qs)
  obtain rc rows d' where e: "sq_exec E q d = ((rc, rows), d')" by (metis prod.exhaust)
  have q: "sql_effect i q (tab d) = tab d" "q \<noteq> Pragma ''foreign_keys'' v" for i v
    using Cons.prems [of q] by auto
  have "tab d' = tab d" using exec_ok [OF e] exec_failed [OF e] q(1) by metis
  moreover have "fk d' = fk d" using exec_fk [OF e] q(2) by blast
  ultimately show ?case using Cons e by simp
qed simp

lemma db_initialize_tables:
  "tab (snd (db_initialize E d)) = tab d" "fk (snd (db_initialize E d)) = fk d"
proof -
  have script: "\<And>q. q \<in> set initial_script \<Longrightarrow>
      (\<exists>t. q = CreateTableIfNotExists t) \<or> (\<exists>v. q = Pragma ''foreign_key'' v)"
    by (auto simp: initial_script_def)
  have "snd (db_initialize E d) = snd (exec_script E initial_script d)"
    by (simp add: db_initialize_def split: prod.splits)
  with exec_script_tab [of initial_script d, OF script]
  show "tab (snd (db_initialize E d)) = tab d" "fk (snd (db_initialize E d)) = fk d"
    by simp_all
qed

lemma perform_contract:
  assumes "db_ok (tab d)"
  shows "db_ok (tab (db_perform E c d)) \<and> seat_step c (seat_map (tab d)) (seat_map (tab (db_perform E c d)))"
proof (cases "db_perform E c d = d")
  case True
  with assms show ?thesis by (simp add: seat_same)
next
  case False
  show ?thesis
  proof (cases "c = Call_initialize")
    case True
    with assms show ?thesis by (simp add: db_initialize_tables seat_same)
  next
    case c: False
    with False have p: "db_perform E c d = snd (sq_exec E (statement_of c) d)"
      using db_perform_statement by metis
    have pos: "0 < s" if "c = Call_insert_reservation u r s" for u r s
      using False that by (cases "0 < s") (simp_all add: snd_functions)
    obtain rc rows d' where e: "sq_exec E (statement_of c) d = ((rc, rows), d')"
      by (metis prod.exhaust)
    with exec_db_ok [OF assms e] exec_seat_step [OF assms e pos] p show ?thesis by simp
  qed
qed

lemma fk_perform: "fk (db_perform E c d) = fk d"
proof (cases "db_perform E c d = d \<or> c = Call_initialize")
  case False
  then have p: "db_perform E c d = snd (sq_exec E (statement_of c) d)"
    using db_perform_statement by metis
  obtain rc rows d' where e: "sq_exec E (statement_of c) d = ((rc, rows), d')"
    by (metis prod.exhaust)
  have "statement_of c \<noteq> Pragma ''foreign_keys'' v" for v by (cases c) simp_all
  with exec_fk [OF e] p e show ?thesis by simp
qed (auto simp: db_initialize_tables)

end

sublocale sqlite_engine < store: seat_store "db_perform E" "\<lambda>d. seat_map (tab d)" "\<lambda>d. db_ok (tab d)"
  by unfold_locales (simp_all add: perform_contract)

context reliable_engine
begin

lemma perform_reliable:
  assumes "db_ok (tab d)" and "c \<noteq> Call_initialize" and "\<not> is_insert (statement_of c)"
  shows "seat_map (tab (db_perform E c d)) = seat_effect c (seat_map (tab d))"
proof -
  obtain rc rows d' where e: "sq_exec E (statement_of c) d = ((rc, rows), d')"
    by (metis prod.exhaust)
  have pos: "0 < s" if "c = Call_insert_reservation u r s" for u r s
    using assms(3) that by simp
  have "db_perform E c d = d'"
    using db_perform_exact [OF assms(2), of E d] prepare_reliable pos e by simp
  moreover have "rc = SQLITE_OK" using exec_reliable [OF e] assms(3) by auto
  ultimately show ?thesis using exec_seat_map(1) [OF assms(1) e] by simp
qed

lemma insert_reservation_reliable:
  assumes "db_ok (tab d)" and "\<not> fk d"
  shows "fst (db_insert_reservation E u r s d) = of_bool (0 < s \<and> seat_map (tab d) (r, s) = None)"
    and "seat_map (tab (snd (db_insert_reservation E u r s d))) =
      (if 0 < s \<and> seat_map (tab d) (r, s) = None then (seat_map (tab d))((r, s) \<mapsto> (u, 0)) else seat_map (tab d))"
proof -
  let ?c = "Call_insert_reservation u r s"
  obtain rc rows d' where e: "sq_exec E (statement_of ?c) d = ((rc, rows), d')"
    by (metis prod.exhaust)
  have run: "db_insert_reservation E u r s d = (if 0 < s then (of_bool (rc = SQLITE_OK), d') else (0, d))"
    using e by (simp add: db_insert_reservation_def step_and_finalize_def prepare_reliable reservation_values_def)
  have rc: "rc = SQLITE_OK \<longleftrightarrow> seat_map (tab d) (r, s) = None"
  proof
    show "rc = SQLITE_OK \<Longrightarrow> seat_map (tab d) (r, s) = None"
      using exec_seat_map(3) [OF assms(1) e] by blast
    show "rc = SQLITE_OK" if "seat_map (tab d) (r, s) = None"
    proof (rule ccontr)
      assume "rc \<noteq> SQLITE_OK"
      then have "rc = SQLITE_CONSTRAINT" using exec_reliable [OF e] by auto
      with e exec_constraint [of Reservations "reservation_values u r s" d rc rows d'] assms(2)
      have "pk_clash (tab d) Reservations (new_row Reservations (reservation_values u r s) 0)"
        by (simp add: no_nulls_def reservation_values_def)
      with that show False using seat_map_free [OF assms(1), of r s u 0] by simp
    qed
  qed
  show "fst (db_insert_reservation E u r s d) = of_bool (0 < s \<and> seat_map (tab d) (r, s) = None)"
    by (simp add: run rc del: sqlite_codes)
  show "seat_map (tab (snd (db_insert_reservation E u r s d))) =
      (if 0 < s \<and> seat_map (tab d) (r, s) = None then (seat_map (tab d))((r, s) \<mapsto> (u, 0)) else seat_map (tab d))"
    using exec_seat_map(1,2) [OF assms(1) e] by (simp add: run rc [symmetric] del: sqlite_codes)
qed

end

sublocale reliable_engine < exact: exact_seat_store "db_perform E" "\<lambda>d. seat_map (tab d)"
    "\<lambda>d. db_ok (tab d) \<and> \<not> fk d"
  by unfold_locales
    (simp_all add: perform_contract fk_perform insert_reservation_reliable perform_reliable del: db_perform.simps
      | simp add: insert_reservation_reliable)+

interpretation ref_store: exact_seat_store "db_perform ref_engine" "\<lambda>d. seat_map (rd_tab d)"
    "\<lambda>d. db_ok (rd_tab d) \<and> \<not> rd_fk d"
  by unfold_locales


context sqlite_engine
begin

lemma is_seat_store: "seat_store (db_perform E) (\<lambda>d. seat_map (tab d)) (\<lambda>d. db_ok (tab d))"
  by (rule store.seat_store_axioms)

end

context reliable_engine
begin

lemma is_exact_seat_store:
  "exact_seat_store (db_perform E) (\<lambda>d. seat_map (tab d)) (\<lambda>d. db_ok (tab d) \<and> \<not> fk d)"
  by (rule exact.exact_seat_store_axioms)

end

section \<open>Properties of the database's functions\<close>

text \<open>A small cinema: two rooms, three seats, and user 7 holding the first, unpaid.\<close>

definition small_db :: ref_db where
  "small_db = db_run ref_engine
     [Call_initialize, Call_insert_room, Call_insert_room, Call_insert_seats 1 1, Call_insert_seats 1 2,
      Call_insert_seats 2 1, Call_insert_reservation 7 1 1] ref_empty"

lemma db_ok_empty: "db_ok (rd_tab ref_empty)"
  by (simp add: db_ok_def keys_unique_def ref_empty_def)

lemma db_ok_small: "db_ok (rd_tab small_db)"
  unfolding small_db_def db_run_def by (rule ref.store.ok_run [OF db_ok_empty])

lemma fk_small: "\<not> rd_fk small_db"
  unfolding small_db_def db_run_def by (simp add: ref.fk_perform ref_empty_def del: db_perform.simps)

lemma seat_map_small: "seat_map (rd_tab small_db) = [(1, 1) \<mapsto> (7, 0)]"
proof -
  have "map seat_entry (rd_tab small_db Reservations) = [((1, 1), (7, 0))]"
    by code_simp
  then show ?thesis by (simp add: seat_map_def)
qed

lemma one_row_per_seat:
  assumes "db_ok T"
  shows "length (filter (matches [(Col_room_id, r), (Col_seat_id, s)]) (T Reservations)) \<le> 1"
proof -
  let ?f = "filter (matches [(Col_room_id, r), (Col_seat_id, s)]) (T Reservations)"
  have "distinct (map (key_of Reservations) ?f)"
    using assms by (auto simp: db_ok_def keys_unique_def distinct_map intro: inj_on_subset)
  moreover have "map (key_of Reservations) ?f = replicate (length ?f) [Some r, Some s]"
    by (rule replicate_eqI) (auto simp: key_of_def matches_def)
  ultimately have "distinct (replicate (length ?f) [Some r, Some s])" by simp
  then show ?thesis by (cases "length ?f"; cases "length ?f - 1") auto
qed

text \<open>C1. No double booking.  From tables that satisfy the invariant (empty ones do), whatever calls of
  the database's functions follow, in any order and interleaving and with any of their statements failing,
  there is never more than one reservation of a seat of a room.\<close>

theorem no_double_booking:
  assumes "sqlite_engine E tab fk" and "db_ok (tab d)"
  shows "length (filter (matches [(Col_room_id, r), (Col_seat_id, s)]) (tab (db_run E calls d) Reservations)) \<le> 1"
  unfolding db_run_def
  by (rule one_row_per_seat [OF seat_store.ok_run [OF sqlite_engine.is_seat_store [OF assms(1)] assms(2)]])

theorem no_double_booking_witness:
  "length (filter (matches [(Col_room_id, 1), (Col_seat_id, 1)])
     (rd_tab (db_run ref_engine [Call_insert_reservation 8 1 1] small_db) Reservations)) \<le> 1
   \<and> length (rd_tab small_db Reservations) = 1"
proof
  show "length (rd_tab small_db Reservations) = 1" by code_simp
qed (rule no_double_booking [where E = ref_engine and tab = rd_tab and fk = rd_fk,
      OF ref.sqlite_engine_axioms db_ok_small])

text \<open>A paid reservation is for ever: once a user holds a seat with \<open>paid_flag\<close> 1, no later calls, in
  any order and with any failures, free the seat, give it to another user or mark it unpaid.\<close>

theorem paid_reservation_stays:
  assumes "sqlite_engine E tab fk" and "db_ok (tab d)" and "seat_map (tab d) (r, s) = Some (u, 1)"
  shows "seat_map (tab (db_run E calls d)) (r, s) = Some (u, 1)"
  unfolding db_run_def by (rule seat_store.paid_stays [OF sqlite_engine.is_seat_store [OF assms(1)] assms(2-)])

lemma seat_map_small_paid:
  "seat_map (rd_tab (db_run ref_engine [Call_pay 7 \<lparr>res_room = 1, res_seat_num = 1\<rparr>] small_db)) (1, 1) = Some (7, 1)"
  using ref.exact.pay_exact [of small_db 7 "\<lparr>res_room = 1, res_seat_num = 1\<rparr>"] db_ok_small fk_small
  by (simp add: db_run_def seat_map_small mark_paid_def del: db_perform.simps)

theorem paid_reservation_stays_witness:
  "seat_map (rd_tab (db_run ref_engine [Call_remove_user_unpaid 7, Call_remove_unpaid, Call_insert_reservation 8 1 1]
     (db_run ref_engine [Call_pay 7 \<lparr>res_room = 1, res_seat_num = 1\<rparr>] small_db))) (1, 1) = Some (7, 1)"
  by (rule paid_reservation_stays [where tab = rd_tab and fk = rd_fk, OF ref.sqlite_engine_axioms _ seat_map_small_paid])
    (unfold db_run_def [of _ "[Call_pay _ _]"], rule ref.store.ok_run [OF db_ok_small])

text \<open>A reservation belongs to its user until it is freed: as long as no call removes the unpaid
  reservations of that user (or of everybody), the seat stays his, whatever else happens, so no other user can
  take it or pay it away.\<close>

theorem holder_keeps_seat:
  assumes "sqlite_engine E tab fk" and "db_ok (tab d)" and "seat_map (tab d) (r, s) = Some (u, f)"
    and "list_all (\<lambda>c. \<not> frees u c) calls"
  shows "\<exists>f'. seat_map (tab (db_run E calls d)) (r, s) = Some (u, f')"
  unfolding db_run_def by (rule seat_store.owner_stays [OF sqlite_engine.is_seat_store [OF assms(1)] assms(2-)])

theorem holder_keeps_seat_witness:
  "\<exists>f'. seat_map (rd_tab (db_run ref_engine [Call_insert_reservation 8 1 1, Call_remove_user_unpaid 8,
      Call_pay 8 \<lparr>res_room = 1, res_seat_num = 1\<rparr>] small_db)) (1, 1) = Some (7, f')"
  by (rule holder_keeps_seat [where tab = rd_tab and fk = rd_fk and f = 0, OF ref.sqlite_engine_axioms db_ok_small])
    (simp_all add: seat_map_small)

text \<open>Reserving and paying works: when only constraints fail and foreign keys are off (as they are), a user
  who reserves a free seat and later pays it holds it paid, whatever calls come in between, short of his own exit
  or a restart, and whatever comes after.\<close>

theorem reserve_then_pay:
  assumes "reliable_engine E tab fk" and "db_ok (tab d) \<and> \<not> fk d" and "0 < s"
    and "seat_map (tab d) (r, s) = None" and "list_all (\<lambda>c. \<not> frees u c) between"
  shows "seat_map (tab (db_run E (Call_insert_reservation u r s # between @
      Call_pay u \<lparr>res_room = r, res_seat_num = s\<rparr> # after) d)) (r, s) = Some (u, 1)"
  unfolding db_run_def by (rule exact_seat_store.book_and_pay [OF reliable_engine.is_exact_seat_store [OF assms(1)] assms(2-)])

theorem reserve_then_pay_witness:
  "seat_map (rd_tab (db_run ref_engine (Call_insert_reservation 8 2 1 #
      [Call_remove_user_unpaid 7, Call_insert_reservation 7 2 1] @
      Call_pay 8 \<lparr>res_room = 2, res_seat_num = 1\<rparr> # [Call_remove_unpaid]) small_db)) (2, 1) = Some (8, 1)"
  by (rule reserve_then_pay [where tab = rd_tab and fk = rd_fk, OF ref.reliable_engine_axioms])
    (simp_all add: db_ok_small fk_small seat_map_small)

text \<open>\<open>db_insert_reservation\<close>: with a reliable engine and foreign keys off it returns 1 exactly when the seat
  number is positive and nobody holds the seat; then the seat is the user's, unpaid, and otherwise no seat changes
  hands.  Whether the seat exists in \<open>Seats\<close> plays no part: the script of \<open>db_initialize\<close> names the pragma
  \<open>foreign_key\<close>, which is not one, so it leaves the checking of foreign keys off.\<close>

theorem db_insert_reservation_result:
  assumes "reliable_engine E tab fk" and "db_ok (tab d)" and "\<not> fk d"
  shows "case db_insert_reservation E u r s (snd (db_initialize E d)) of (res, d') \<Rightarrow>
     res = of_bool (0 < s \<and> seat_map (tab d) (r, s) = None)
     \<and> seat_map (tab d') = (if res = 1 then (seat_map (tab d))((r, s) \<mapsto> (u, 0)) else seat_map (tab d))"
proof -
  have engine: "sqlite_engine E tab fk" using assms(1) by (rule reliable_engine.axioms(1))
  let ?d = "snd (db_initialize E d)"
  have same: "tab ?d = tab d" "fk ?d = fk d"
    using sqlite_engine.db_initialize_tables [OF engine] by blast+
  have "db_ok (tab ?d)" "\<not> fk ?d" using assms same by simp_all
  from reliable_engine.insert_reservation_reliable [OF assms(1) this, of u r s]
  show ?thesis by (cases "db_insert_reservation E u r s ?d") (simp add: same)
qed

theorem db_insert_reservation_result_witness:
  "fst (db_insert_reservation ref_engine 8 2 99 (snd (db_initialize ref_engine small_db))) = 1
   \<and> fst (db_insert_reservation ref_engine 8 1 1 (snd (db_initialize ref_engine small_db))) = 0"
  using db_insert_reservation_result [OF ref.reliable_engine_axioms db_ok_small fk_small, where u = 8 and r = 2 and s = 99]
    db_insert_reservation_result [OF ref.reliable_engine_axioms db_ok_small fk_small, where u = 8 and r = 1 and s = 1]
  by (simp add: seat_map_small split: prod.splits)

text \<open>A statement that could not be prepared is reported as a reservation made: \<open>db_insert_reservation\<close>
  returns 1 and the database is as it was (the null statement finalises with \<open>SQLITE_OK\<close>).\<close>

theorem unprepared_reservation_reported:
  assumes "sq_prepare_insert E Reservations [Col_user_id, Col_room_id, Col_seat_id] d \<noteq> SQLITE_OK" and "0 < s"
  shows "db_insert_reservation E u r s d = (1, d)"
  using assms by (simp add: db_insert_reservation_def step_and_finalize_def)

theorem unprepared_reservation_reported_witness:
  "db_insert_reservation (ref_engine\<lparr>sq_prepare_insert := \<lambda>_ _ _. 5\<rparr>) 7 1 2 small_db = (1, small_db)"
  by (rule unprepared_reservation_reported) (simp_all add: ref_engine_def)


section \<open>Opening and closing the database\<close>

text \<open>
  The rest of db\_api.cpp: the connection and its file, as a world \<open>'w\<close> whose operations
  (\<open>sqlite3_open\<close>, \<open>sqlite3_close\<close>, \<open>remove\<close>) are parameters: a code, and the world after it.
\<close>

record 'w db_files =
  sq_open :: "string \<Rightarrow> 'w \<Rightarrow> int \<times> 'w"
  sq_close :: "'w \<Rightarrow> int \<times> 'w"
  c_remove :: "string \<Rightarrow> 'w \<Rightarrow> int \<times> 'w"

definition db_create :: "'w db_files \<Rightarrow> string \<Rightarrow> (unit, 'w) prog" where
  "db_create F filename w =
     (case sq_open F filename w of (res, w') \<Rightarrow>
        if res \<noteq> SQLITE_OK then (case sq_close F w' of (_, w'') \<Rightarrow> exit_with 1 w'') else (Ret (), w'))"

definition db_close :: "'w db_files \<Rightarrow> (unit, 'w) prog" where
  "db_close F w = (case sq_close F w of (res, w') \<Rightarrow> if res \<noteq> 0 then exit_with 1 w' else (Ret (), w'))"

text \<open>\<open>database\<close> is whether the pointer is not \<open>NULL\<close>.\<close>

definition db_delete :: "'w db_files \<Rightarrow> bool \<Rightarrow> string \<Rightarrow> (unit, 'w) prog" where
  "db_delete F database filename w =
     (if \<not> database then (Ret (), w)
      else case c_remove F filename w of (res, w') \<Rightarrow> if res \<noteq> 0 then exit_with 1 w' else db_close F w')"

end
