(* ===== verification/Hosts.thy ===== *)
theory Hosts
  imports Sockets Sysv_Ipc Db_Api
begin

text \<open>
  The two kinds of host.  Every host has its System V objects and its sockets (\<open>host\<close>); the
  cinema's host has the database as well (\<open>cinema_host\<close>).  A C++ function of a process of a
  host is a \<open>prog\<close> on it; the liftings below run a call of one of the libraries inside it.

  A child that \<open>fork\<close> starts works on the same host.  \<open>fork_child\<close> runs it to its end before
  the parent goes on; what it must not depend on this order is stated of sequences of calls
  (\<open>db_run\<close>) or with the other processes as an environment \<open>env\<close>.
\<close>

record 'k host = ipc +
  net :: 'k

record ('k, 'db) cinema_host = "'k host" +
  db :: 'db

definition db_op :: "('a, 'db) query \<Rightarrow> ('a, ('k, 'db) cinema_host) prog" where
  "db_op q = (\<lambda>s. case q (db s) of (x, d') \<Rightarrow> (Ret x, s\<lparr>db := d'\<rparr>))"

definition net_op :: "('a, 'k) prog \<Rightarrow> ('a, ('k, 'b) host_scheme) prog" where
  "net_op m = (\<lambda>s. case m (net s) of (x, k') \<Rightarrow> (x, s\<lparr>net := k'\<rparr>))"

text \<open>A transfer that never ends is a call that is never woken.\<close>

definition packet_op :: "('k \<Rightarrow> ('a outcome \<times> 'k) option) \<Rightarrow> ('a, ('k, 'b) host_scheme) prog" where
  "packet_op m = (\<lambda>s. case m (net s) of None \<Rightarrow> (Blocked, s) | Some (x, k') \<Rightarrow> (x, s\<lparr>net := k'\<rparr>))"

definition fork_child :: "('a, 's) prog \<Rightarrow> (unit, 's) prog" where
  "fork_child child = (\<lambda>s. (Ret (), snd (child s)))"

lemma fork_child_run [simp, prog_simps]: "fork_child m s = (Ret (), snd (m s))"
  by (simp add: fork_child_def)

lemma db_op_run [prog_simps]: "q (db s) = (x, d') \<Longrightarrow> db_op q s = (Ret x, s\<lparr>db := d'\<rparr>)"
  by (simp add: db_op_def)

lemma db_op_pair: "db_op q s = (Ret (fst (q (db s))), s\<lparr>db := snd (q (db s))\<rparr>)"
  by (simp add: db_op_def split: prod.splits)

section \<open>What a computation does to the database\<close>

text \<open>
  \<open>db_calls E A m\<close>: the computation changes the database by calls of the functions of
  db_api.cpp only, all of them admitted by \<open>A\<close>; however it ends, it has made a run of them.
\<close>

definition db_calls :: "'db sqlite \<Rightarrow> (db_call \<Rightarrow> bool) \<Rightarrow> ('a, ('k, 'db) cinema_host) prog \<Rightarrow> bool" where
  "db_calls E A m \<longleftrightarrow> (\<forall>s. \<exists>cs. list_all A cs \<and> db (snd (m s)) = db_run E cs (db s))"

named_theorems db_calls_intros "which database calls a computation makes"

lemma db_callsD: "db_calls E A m \<Longrightarrow> \<exists>cs. list_all A cs \<and> db (snd (m s)) = db_run E cs (db s)"
  by (simp add: db_calls_def)

lemma db_calls_none: "(\<And>s. db (snd (m s)) = db s) \<Longrightarrow> db_calls E A m"
  unfolding db_calls_def by (intro allI exI [of _ "[]"]) (simp add: db_run_def)

lemma db_calls_basic [db_calls_intros]:
  "db_calls E A (ret x)" "db_calls E A undef_behaviour" "db_calls E A (exit_with c)" "db_calls E A throw_util"
  by (rule db_calls_none, simp)+

lemma db_calls_defined [db_calls_intros]: "db_calls E A (defined x)"
  by (rule db_calls_none) (cases x, simp_all)

lemma db_run_append: "db_run E (xs @ ys) d = db_run E ys (db_run E xs d)"
  by (simp add: db_run_def)

lemma db_calls_andThen [db_calls_intros]:
  assumes "db_calls E A m" and "\<And>x. db_calls E A (f x)"
  shows "db_calls E A (andThen m f)"
  unfolding db_calls_def
proof
  fix s
  obtain out s' where m: "m s = (out, s')" by (metis prod.exhaust)
  obtain cs where cs: "list_all A cs" "db s' = db_run E cs (db s)"
    using db_callsD [OF assms(1), of s] m by auto
  show "\<exists>cs. list_all A cs \<and> db (snd (andThen m f s)) = db_run E cs (db s)"
  proof (cases out)
    case (Ret x)
    obtain cs' where "list_all A cs'" "db (snd (f x s')) = db_run E cs' (db s')"
      using db_callsD [OF assms(2), of x s'] by auto
    with m cs Ret show ?thesis
      by (intro exI [of _ "cs @ cs'"]) (simp add: db_run_append)
  qed (use m cs in \<open>auto simp: andThen_def\<close>)
qed

lemma db_calls_if [db_calls_intros]:
  "(b \<Longrightarrow> db_calls E A m) \<Longrightarrow> (\<not> b \<Longrightarrow> db_calls E A m') \<Longrightarrow> db_calls E A (if b then m else m')"
  by simp

lemma db_calls_for_each [db_calls_intros]: "(\<And>x. db_calls E A (f x)) \<Longrightarrow> db_calls E A (for_each xs f)"
  by (induction xs) (simp_all add: db_calls_intros)

lemma db_calls_fork [db_calls_intros]: "db_calls E A m \<Longrightarrow> db_calls E A (fork_child m)"
  by (simp add: db_calls_def)

lemma db_calls_op:
  assumes "A c" and "\<And>d. snd (q d) = db_perform E c d"
  shows "db_calls E A (db_op q)"
  unfolding db_calls_def
  by (intro allI exI [of _ "[c]"]) (simp add: assms db_op_pair db_run_def)

text \<open>The operations on the System V objects do not touch the database.\<close>

lemma db_keeps_sends:
  fixes s :: "('k, 'db) cinema_host"
  shows "db (snd (send_message ch m s)) = db s"
    and "db (snd (queue_create ftok file letter s)) = db s"
  by (auto simp: send_message_def queue_send_def queue_create_def set_queue_def Let_def defined_def
      andThen_def split: option.splits)

lemma keeps_db:
  "keeps (\<lambda>s :: ('k, 'db) cinema_host. db s = d) (send_message ch m)"
  "keeps (\<lambda>s :: ('k, 'db) cinema_host. db s = d) (create_commqueue ftok file letter)"
proof -
  have create: "keeps (\<lambda>s :: ('k, 'db) cinema_host. db s = d) (queue_create ftok f l)" for f l
    by (simp add: keeps_def db_keeps_sends)
  show "keeps (\<lambda>s :: ('k, 'db) cinema_host. db s = d) (send_message ch m)"
    by (simp add: keeps_def db_keeps_sends)
  show "keeps (\<lambda>s :: ('k, 'db) cinema_host. db s = d) (create_commqueue ftok file letter)"
    unfolding create_commqueue_def by (intro keeps_intros create)
qed

lemma db_calls_channels [db_calls_intros]:
  "db_calls E A (send_message ch m)" "db_calls E A (create_commqueue ftok file letter)"
  unfolding create_commqueue_def
  by (intro db_calls_none db_keeps_sends db_calls_andThen db_calls_basic)+

end
