(* ===== verification/Admin.thy ===== *)
theory Admin
  imports Hosts
begin

text \<open>
  src/admin/admin.cpp: the administrator, which owns the database.  It receives requests from
  the channel it shares with the cinema and forks a handler for each.

  \<^item> One definition per case of \<open>admin_handle_request\<close>; each gives the response to send, or
    \<open>None\<close> where the case returns without one.
  \<^item> An access out of the bounds of a vector or an array, and \<open>front()\<close> of an empty vector, are
    undefined behaviour (\<open>Undef\<close>).  The text printed is left out.
\<close>

section \<open>The queues and files of constants.h\<close>

definition QUEUE_COMMUNICATION_FILE :: string where "QUEUE_COMMUNICATION_FILE = ''/bin/bash''"
definition QUEUE_COMMUNICATION_CHAR :: char where "QUEUE_COMMUNICATION_CHAR = CHR ''a''"
definition QUEUE_CINEMA_ADMIN_FILE :: string where "QUEUE_CINEMA_ADMIN_FILE = ''/bin/bash''"
definition QUEUE_CINEMA_ADMIN_CHAR :: char where "QUEUE_CINEMA_ADMIN_CHAR = CHR ''e''"
definition QUEUE_ACTIVITY_FILE :: string where "QUEUE_ACTIVITY_FILE = ''/bin/bash''"
definition QUEUE_ACTIVITY_CHAR :: char where "QUEUE_ACTIVITY_CHAR = CHR ''h''"

section \<open>The cases of admin\_handle\_request\<close>

text \<open>\<open>q_message response{}; response.client_id = request.client_id;\<close>\<close>

definition new_response :: "q_message \<Rightarrow> q_message" where
  "new_response request = zero_message\<lparr>client_id := client_id request\<rparr>"

text \<open>The payments: they stop at the first that fails, whose choice number is then overwritten.\<close>

function pay_all ::
  "'db sqlite \<Rightarrow> int \<Rightarrow> m7_seat_payments \<Rightarrow> int \<Rightarrow> q_message \<Rightarrow> (q_message, ('k, 'db) cinema_host) prog" where
  "pay_all E client m7 executed_transactions response =
     (if executed_transactions < m7_count m7 then
        if length (m7_list m7) \<le> nat executed_transactions then undef_behaviour
        else andThen (db_op (db_update_paid_reservation E client (m7_list m7 ! nat executed_transactions))) (\<lambda>res.
          if res \<noteq> 1 then ret (response\<lparr>message_choice_number := CHOICE_INVALID_REQUEST\<rparr>)
          else pay_all E client m7 (executed_transactions + 1) response)
      else ret response)"
  by pat_completeness auto
termination
  by (relation "measure (\<lambda>(E, client, m7, i, response). nat (m7_count m7 - i))") auto

declare pay_all.simps [simp del]

definition admin_pay :: "'db sqlite \<Rightarrow> q_message \<Rightarrow> (q_message option, ('k, 'db) cinema_host) prog" where
  "admin_pay E request =
     andThen (pay_all E (client_id request) (as_m7 (msg_choice request)) 0 (new_response request)) (\<lambda>response.
       ret (Some (response\<lparr>message_choice_number := CHOICE_PAY_RESERVATION_RESPONSE,
         msg_choice := M6 ((as_m6 (msg_choice response))\<lparr>m6_success := SUCCESS\<rparr>)\<rparr>)))"

definition admin_exit :: "'db sqlite \<Rightarrow> q_message \<Rightarrow> (q_message option, ('k, 'db) cinema_host) prog" where
  "admin_exit E request =
     andThen (db_op (db_logout_user E (client_id request))) (\<lambda>_.
     andThen (db_op (db_remove_user_unpaid_reservations E (client_id request))) (\<lambda>_. ret None))"

definition admin_connect :: "'db sqlite \<Rightarrow> q_message \<Rightarrow> (q_message option, ('k, 'db) cinema_host) prog" where
  "admin_connect E request =
     andThen (db_op (db_insert_user E)) (\<lambda>new_id.
     andThen (db_op (db_login_user E new_id)) (\<lambda>_.
       ret (Some ((new_response request)\<lparr>message_choice_number := CHOICE_CONNECTION_ACCEPTED,
         msg_choice := M1 new_id\<rparr>))))"

definition admin_rooms :: "'db sqlite \<Rightarrow> q_message \<Rightarrow> (q_message option, ('k, 'db) cinema_host) prog" where
  "admin_rooms E request =
     andThen (db_op (db_select_room E)) (\<lambda>room_ids.
       let m2 = as_m2 (msg_choice (new_response request)) in
       andThen (defined (std_copy room_ids (m2_ids m2))) (\<lambda>ids.
         ret (Some ((new_response request)\<lparr>message_choice_number := CHOICE_ROOMS_RESPONSE,
           msg_choice := M2 (m2\<lparr>m2_count := int32 (int (length room_ids)), m2_ids := ids\<rparr>)\<rparr>))))"

text \<open>\<open>seat_status[index-1] = SEAT_STATUS_OCCUPED\<close> for each taken seat.\<close>

primrec mark_taken :: "int list \<Rightarrow> int list \<Rightarrow> int list option" where
  "mark_taken [] status = Some status"
| "mark_taken (index # taken_seats) status =
     (if 0 < index \<and> index \<le> int (length status)
      then mark_taken taken_seats (status[nat (index - 1) := SEAT_STATUS_OCCUPED])
      else None)"

text \<open>The seats and their status, copied into the arrays of an \<open>m4_seats\<close>.\<close>

definition fill_seats :: "int list \<Rightarrow> int list \<Rightarrow> m4_seats \<Rightarrow> m4_seats option" where
  "fill_seats seats status m4 =
     (case (std_copy seats (m4_seats_id m4), std_copy (map int8 status) (m4_seats_status m4)) of
        (Some ids, Some sts) \<Rightarrow>
          Some (m4\<lparr>m4_count := int32 (int (length seats)), m4_seats_id := ids, m4_seats_status := sts\<rparr>)
      | _ \<Rightarrow> None)"

definition admin_seats :: "'db sqlite \<Rightarrow> q_message \<Rightarrow> (q_message option, ('k, 'db) cinema_host) prog" where
  "admin_seats E request =
     (let room_id = as_m3 (msg_choice request); response = new_response request in
      andThen (db_op (db_select_room_seats E room_id)) (\<lambda>seat_ids.
        if seat_ids = [] then ret (Some (response\<lparr>message_choice_number := CHOICE_INVALID_REQUEST\<rparr>))
        else andThen (db_op (db_select_reservations E room_id)) (\<lambda>taken_seats.
          andThen (defined (mark_taken taken_seats (replicate (length seat_ids) SEAT_STATUS_FREE))) (\<lambda>status.
          andThen (defined (fill_seats seat_ids status (as_m4 (msg_choice response)))) (\<lambda>m4.
          andThen (db_op (db_insert_user_in_room E (client_id request) room_id)) (\<lambda>_.
            ret (Some (response\<lparr>message_choice_number := CHOICE_SEATS_RESPONSE, msg_choice := M4 m4\<rparr>))))))))"

text \<open>The response of a seat selection: \<open>m6.success\<close>, then \<open>strcpy\<close> of the text.\<close>

definition select_response :: "q_message \<Rightarrow> int \<Rightarrow> string \<Rightarrow> (q_message, 's) prog" where
  "select_response response success text =
     (let m6 = (as_m6 (msg_choice response))\<lparr>m6_success := success\<rparr> in
      andThen (defined (strcpy (m6_information m6) text)) (\<lambda>information.
        ret (response\<lparr>message_choice_number := CHOICE_SEAT_SELECT_RESPONSE,
          msg_choice := M6 (m6\<lparr>m6_information := information\<rparr>)\<rparr>)))"

text \<open>The update sent to one user in the room.\<close>

definition update_user ::
  "commqueue \<Rightarrow> int list \<Rightarrow> int list \<Rightarrow> int \<Rightarrow> (unit, ('k, 'db) cinema_host) prog" where
  "update_user client_channel seats status userid =
     (let m4 = (as_m4 (msg_choice zero_message))\<lparr>m4_success := SUCCESS\<rparr> in
      andThen (defined (fill_seats seats status m4)) (\<lambda>m4.
        send_message (client_channel\<lparr>cq_id := userid\<rparr>)
          (zero_message\<lparr>client_id := userid, message_choice_number := CHOICE_SEATS_RESPONSE, msg_choice := M4 m4\<rparr>)))"

text \<open>Lines 110 to 134: every user still in the room gets the new state of its seats.\<close>

definition update_users :: "ftok \<Rightarrow> 'db sqlite \<Rightarrow> int \<Rightarrow> (unit, ('k, 'db) cinema_host) prog" where
  "update_users ftok E current_room =
     andThen (db_op (db_select_users_in_room E current_room)) (\<lambda>users_to_update.
       if users_to_update = [] then ret ()
       else andThen (create_commqueue ftok QUEUE_ACTIVITY_FILE QUEUE_ACTIVITY_CHAR) (\<lambda>channel.
         let client_channel = channel\<lparr>orientation := Some COMMQUEUE_AS_SERVER\<rparr> in
         andThen (db_op (db_select_room_seats E current_room)) (\<lambda>seats.
         andThen (db_op (db_select_reservations E current_room)) (\<lambda>taken_seats.
         andThen (defined (mark_taken taken_seats (replicate (length seats) SEAT_STATUS_FREE))) (\<lambda>status.
           for_each users_to_update (update_user client_channel seats status))))))"

definition admin_select ::
  "ftok \<Rightarrow> 'db sqlite \<Rightarrow> q_message \<Rightarrow> (q_message option, ('k, 'db) cinema_host) prog" where
  "admin_select ftok E request =
     (let response = new_response request in
      andThen (db_op (db_select_user_current_room E (client_id request))) (\<lambda>front.
      andThen (defined front) (\<lambda>current_room.
        if current_room = 0 then ret (Some (response\<lparr>message_choice_number := CHOICE_INVALID_REQUEST\<rparr>))
        else andThen (db_op (db_insert_reservation E (client_id request) current_room (as_m5 (msg_choice request)))) (\<lambda>res.
          if res = 0
          then andThen (select_response response NOT_SUCCESS ''You have entered an invalid seat. '') (\<lambda>r. ret (Some r))
          else andThen (db_op (db_remove_user_in_room E (client_id request))) (\<lambda>_.
            andThen (update_users ftok E current_room) (\<lambda>_.
            andThen (db_op (db_remove_user_in_room E (client_id request))) (\<lambda>_.
            andThen (select_response (response\<lparr>client_id := client_id request\<rparr>) SUCCESS
                ''Succesfully made seat reservation'') (\<lambda>r. ret (Some r)))))))))"

section \<open>admin\_handle\_request and the daemon\<close>

definition admin_answer ::
  "ftok \<Rightarrow> 'db sqlite \<Rightarrow> q_message \<Rightarrow> (q_message option, ('k, 'db) cinema_host) prog" where
  "admin_answer ftok E request =
     (let choice = message_choice_number request in
      if choice = CHOICE_PAY_RESERVATION_REQUEST then admin_pay E request
      else if choice = CHOICE_EXIT then admin_exit E request
      else if choice = CHOICE_CONNECTION_ACCEPTED then admin_connect E request
      else if choice = CHOICE_ROOMS_REQUEST then admin_rooms E request
      else if choice = CHOICE_SEATS_REQUEST then admin_seats E request
      else if choice = CHOICE_SEAT_SELECT_REQUEST then admin_select ftok E request
      else ret (Some ((new_response request)\<lparr>message_choice_number := CHOICE_INVALID_REQUEST\<rparr>)))"

definition admin_handle_request ::
  "ftok \<Rightarrow> 'db sqlite \<Rightarrow> commqueue \<Rightarrow> q_message \<Rightarrow> (unit, ('k, 'db) cinema_host) prog" where
  "admin_handle_request ftok E channel request =
     (let channel = channel\<lparr>cq_id := client_id (new_response request)\<rparr> in
      andThen (admin_answer ftok E request) (\<lambda>reply.
        case reply of None \<Rightarrow> ret () | Some response \<Rightarrow> send_message channel response))"

definition admin_listen_requests ::
  "ftok \<Rightarrow> (('k, 'db) cinema_host \<Rightarrow> ('k, 'db) cinema_host) \<Rightarrow> 'db sqlite \<Rightarrow> commqueue \<Rightarrow> (unit, ('k, 'db) cinema_host) prog" where
  "admin_listen_requests ftok env E channel =
     andThen (receive_message_type env channel ADMIN_REQUEST) (\<lambda>client_req.
       fork_child (andThen (admin_handle_request ftok E channel client_req) (\<lambda>_. exit_with 0 :: (unit, _) prog)))"

definition clean_db_tables :: "'db sqlite \<Rightarrow> (unit, ('k, 'db) cinema_host) prog" where
  "clean_db_tables E = andThen (db_op (db_remove_unpaid_reservations E)) (\<lambda>_.
     andThen (db_op (db_remove_users_in_room E)) (\<lambda>_. ret ()))"

text \<open>The child of \<open>init_update_network\<close>: its start, and one turn of its loop.\<close>

definition update_network_start ::
  "ftok \<Rightarrow> 'k sock_api \<Rightarrow> (network_comm \<times> commqueue, ('k, 'b) host_scheme) prog" where
  "update_network_start ftok K =
     andThen (net_op (network_newconn K CINEMA_IP_ADDR ADMIN_PORT)) (\<lambda>net_info.
     andThen (net_op (network_prepare_accept K net_info)) (\<lambda>_.
     andThen (net_op (network_accept_connection K net_info)) (\<lambda>accept_fd.
     andThen (create_commqueue ftok QUEUE_ACTIVITY_FILE QUEUE_ACTIVITY_CHAR) (\<lambda>client_channel.
       ret (accept_fd, client_channel\<lparr>orientation := Some COMMQUEUE_AS_CLIENT, cq_id := - 1\<rparr>)))))"

definition update_network_turn ::
  "(('k, 'b) host_scheme \<Rightarrow> ('k, 'b) host_scheme) \<Rightarrow> 'k sock_api \<Rightarrow> byte list \<Rightarrow> network_comm \<Rightarrow> commqueue \<Rightarrow>
     (unit, ('k, 'b) host_scheme) prog" where
  "update_network_turn env K junk accept_fd client_channel =
     andThen (receive_message_type env client_channel 0) (\<lambda>msg_to_sent.
     andThen (packet_op (send_packet K junk (nc_sock_fd accept_fd) msg_to_sent)) (\<lambda>_. ret ()))"

text \<open>The daemon up to its loop; the database is open.  \<open>init_update_network\<close> is the child above.\<close>

definition admin_daemon_start ::
  "ftok \<Rightarrow> 'db sqlite \<Rightarrow> (commqueue, ('k, 'db) cinema_host) prog" where
  "admin_daemon_start ftok E =
     andThen (db_op (db_initialize E)) (\<lambda>_.
     andThen (clean_db_tables E) (\<lambda>_.
     andThen (create_commqueue ftok QUEUE_CINEMA_ADMIN_FILE QUEUE_CINEMA_ADMIN_CHAR) (\<lambda>admin_channel.
       ret (admin_channel\<lparr>orientation := Some COMMQUEUE_AS_SERVER\<rparr>))))"

text \<open>Its loop, for a number of turns.\<close>

primrec admin_daemon_loop ::
  "nat \<Rightarrow> ftok \<Rightarrow> (('k, 'db) cinema_host \<Rightarrow> ('k, 'db) cinema_host) \<Rightarrow> 'db sqlite \<Rightarrow> commqueue \<Rightarrow>
     (unit, ('k, 'db) cinema_host) prog" where
  "admin_daemon_loop 0 ftok env E admin_channel = ret ()"
| "admin_daemon_loop (Suc n) ftok env E admin_channel =
     andThen (admin_listen_requests ftok env E admin_channel) (\<lambda>_. admin_daemon_loop n ftok env E admin_channel)"


section \<open>What a handler may do to the database\<close>

text \<open>The calls a handler of client \<open>c\<close> makes: about \<open>c\<close> only, and no change of rooms and seats.\<close>

fun confined :: "int \<Rightarrow> db_call \<Rightarrow> bool" where
  "confined c Call_initialize = False"
| "confined c (Call_remove_user_unpaid u) = (u = c)"
| "confined c Call_remove_unpaid = False"
| "confined c (Call_pay u rv) = (u = c)"
| "confined c (Call_logout u) = (u = c)"
| "confined c (Call_insert_reservation u r s) = (u = c)"
| "confined c Call_insert_room = False"
| "confined c (Call_insert_seats r s) = False"
| "confined c (Call_insert_user_in_room u r) = (u = c)"
| "confined c (Call_remove_user_in_room u) = (u = c)"
| "confined c Call_remove_users_in_room = False"
| "confined c _ = True"

text \<open>The calls that are not about reservations.\<close>

fun seat_neutral :: "db_call \<Rightarrow> bool" where
  "seat_neutral (Call_remove_user_unpaid u) = False"
| "seat_neutral Call_remove_unpaid = False"
| "seat_neutral (Call_pay u rv) = False"
| "seat_neutral (Call_insert_reservation u r s) = False"
| "seat_neutral c = True"

lemma seat_step_neutral: "seat_step c m m' \<Longrightarrow> seat_neutral c \<Longrightarrow> m' = m"
  by (erule seat_stepE) auto

lemma seat_step_confined:
  "seat_step c m m' \<Longrightarrow> confined u c \<Longrightarrow> v \<noteq> u \<Longrightarrow> m p = Some (v, f) \<Longrightarrow> m' p = Some (v, f)"
  by (erule seat_stepE) (auto simp: mark_paid_def drop_unpaid_def)

lemma run_neutral:
  assumes "sqlite_engine E tab fk" and "db_ok (tab d)" and "list_all seat_neutral cs"
  shows "seat_map (tab (db_run E cs d)) = seat_map (tab d)"
proof
  fix p
  show "seat_map (tab (db_run E cs d)) p = seat_map (tab d) p"
    unfolding db_run_def
    by (rule seat_store.run_keeps [OF sqlite_engine.is_seat_store [OF assms(1)] assms(2,3),
          where P = "\<lambda>x. x = seat_map (tab d) p"])
      (auto dest: seat_step_neutral)
qed

text \<open>Each function makes its call.\<close>

lemma db_calls_functions:
  "A (Call_remove_user_unpaid u) \<Longrightarrow> db_calls E A (db_op (db_remove_user_unpaid_reservations E u))"
  "A Call_remove_unpaid \<Longrightarrow> db_calls E A (db_op (db_remove_unpaid_reservations E))"
  "A (Call_pay u rv) \<Longrightarrow> db_calls E A (db_op (db_update_paid_reservation E u rv))"
  "A (Call_logout u) \<Longrightarrow> db_calls E A (db_op (db_logout_user E u))"
  "A (Call_login u) \<Longrightarrow> db_calls E A (db_op (db_login_user E u))"
  "A Call_insert_user \<Longrightarrow> db_calls E A (db_op (db_insert_user E))"
  "A (Call_insert_reservation u r st) \<Longrightarrow> db_calls E A (db_op (db_insert_reservation E u r st))"
  "A Call_select_room \<Longrightarrow> db_calls E A (db_op (db_select_room E))"
  "A (Call_insert_user_in_room u r) \<Longrightarrow> db_calls E A (db_op (db_insert_user_in_room E u r))"
  "A (Call_remove_user_in_room u) \<Longrightarrow> db_calls E A (db_op (db_remove_user_in_room E u))"
  "A Call_remove_users_in_room \<Longrightarrow> db_calls E A (db_op (db_remove_users_in_room E))"
  "A (Call_select_current_room u) \<Longrightarrow> db_calls E A (db_op (db_select_user_current_room E u))"
  "A (Call_select_users r) \<Longrightarrow> db_calls E A (db_op (db_select_users_in_room E r))"
  "A (Call_select_seats r) \<Longrightarrow> db_calls E A (db_op (db_select_room_seats E r))"
  "A (Call_select_reservations r) \<Longrightarrow> db_calls E A (db_op (db_select_reservations E r))"
  "A Call_initialize \<Longrightarrow> db_calls E A (db_op (db_initialize E))"
  by (erule db_calls_op, simp)+

lemma db_calls_pay_all:
  fixes response :: q_message
  shows "(\<And>rv. A (Call_pay c rv)) \<Longrightarrow>
    db_calls E A (pay_all E c m7 i response :: (q_message, ('k, 'db) cinema_host) prog)"
proof (induction E c m7 i response rule: pay_all.induct)
  case (1 E c m7 i response)
  show ?case
    unfolding pay_all.simps [of E c m7 i response]
    by (intro db_calls_intros db_calls_functions) (simp_all add: 1)
qed

lemma db_calls_update_users:
  assumes "\<And>r. A (Call_select_users r)" "\<And>r. A (Call_select_seats r)" "\<And>r. A (Call_select_reservations r)"
  shows "db_calls E A (update_users ftok E room)"
  unfolding update_users_def update_user_def Let_def
  by (intro db_calls_intros db_calls_functions assms)

lemma db_calls_select_response: "db_calls E A (select_response response v text)"
  unfolding select_response_def Let_def by (intro db_calls_intros)

lemma db_calls_handlers:
  "db_calls E (confined (client_id request)) (admin_pay E request)"
  "db_calls E (confined (client_id request)) (admin_exit E request)"
  "db_calls E (confined (client_id request)) (admin_connect E request)"
  "db_calls E (confined (client_id request)) (admin_rooms E request)"
  "db_calls E (confined (client_id request)) (admin_seats E request)"
  "db_calls E (confined (client_id request)) (admin_select ftok E request)"
  unfolding admin_pay_def admin_exit_def admin_connect_def admin_rooms_def admin_seats_def admin_select_def Let_def
  by (intro db_calls_intros db_calls_functions db_calls_pay_all db_calls_update_users db_calls_select_response; simp)+

lemma db_calls_handle_request:
  "db_calls E (confined (client_id request)) (admin_handle_request ftok E channel request)"
  unfolding admin_handle_request_def admin_answer_def Let_def
  by (intro db_calls_intros db_calls_handlers) (auto intro: db_calls_intros split: option.split)

text \<open>C13. A handler is confined to its client.  However it ends, what \<open>admin_handle_request\<close> has done to the
  database is a run of calls of the functions of db_api.cpp that are about the client of the request: it reserves
  and pays for that client only, removes the unpaid reservations of that client only, moves only that client
  between rooms, and never touches the rooms and seats.\<close>

theorem admin_handler_confined:
  "\<exists>cs. list_all (confined (client_id request)) cs
     \<and> db (snd (admin_handle_request ftok E channel request s)) = db_run E cs (db s)"
  by (rule db_callsD [OF db_calls_handle_request])

text \<open>C23. Nobody else's request can touch a reservation: handling a request of another client, whatever it asks
  and however it ends, leaves a user's seat his, and paid or unpaid as it was.\<close>

theorem other_clients_request_harmless:
  assumes "sqlite_engine E tab fk" and "db_ok (tab (db s))"
    and "seat_map (tab (db s)) (r, n) = Some (u, f)" and "client_id request \<noteq> u"
  shows "seat_map (tab (db (snd (admin_handle_request ftok E channel request s)))) (r, n) = Some (u, f)"
proof -
  obtain cs where cs: "list_all (confined (client_id request)) cs"
    "db (snd (admin_handle_request ftok E channel request s)) = db_run E cs (db s)"
    using db_callsD [OF db_calls_handle_request] by blast
  show ?thesis
    unfolding cs(2) db_run_def
    by (rule seat_store.run_keeps [OF sqlite_engine.is_seat_store [OF assms(1)] assms(2) cs(1),
          where P = "\<lambda>x. x = Some (u, f)"])
      (use assms(3,4) seat_step_confined in \<open>auto simp del: confined.simps\<close>)
qed


text \<open>The cinema's host of the examples: the small database and the three channels.\<close>

definition small_ftok :: ftok where
  "small_ftok file letter = of_char letter"

definition small_host :: "(unit, ref_db) cinema_host" where
  "small_host = \<lparr>msg_ids = [97 \<mapsto> 1, 98 \<mapsto> 2, 101 \<mapsto> 3, 102 \<mapsto> 4, 104 \<mapsto> 5, 105 \<mapsto> 6],
     msg_queues = [1 \<mapsto> [], 2 \<mapsto> [], 3 \<mapsto> [], 4 \<mapsto> [], 5 \<mapsto> [], 6 \<mapsto> []],
     sem_ids = Map.empty, sem_vals = Map.empty, shm_ids = Map.empty, shm_segs = Map.empty, next_id = 7,
     net = (), db = small_db\<rparr>"

definition admin_channel :: commqueue where
  "admin_channel = \<lparr>id_firstqueue = 3, id_secondqueue = 4, orientation = Some 0, cq_id = - 1\<rparr>"

theorem other_clients_request_harmless_witness:
  "seat_map (rd_tab (db (snd (admin_handle_request small_ftok ref_engine admin_channel
     (zero_message\<lparr>client_id := 8, message_choice_number := CHOICE_EXIT\<rparr>) small_host)))) (1, 1) = Some (7, 0)"
  by (rule other_clients_request_harmless [where tab = rd_tab and fk = rd_fk, OF ref.sqlite_engine_axioms])
    (simp_all add: small_host_def db_ok_small seat_map_small zero_message_def)


section \<open>Paying and leaving\<close>

context reliable_engine
begin

lemma succeeds_reliable:
  "\<not> is_insert q \<Longrightarrow> fst (query_succeeds E q d) = 1"
proof -
  assume q: "\<not> is_insert q"
  obtain rc rows d' where e: "sq_exec E q d = ((rc, rows), d')" by (metis prod.exhaust)
  with exec_reliable [OF e] q show ?thesis by (simp add: query_succeeds_run)
qed

lemma call_reliable:
  assumes "db_ok (tab d)" and "c \<noteq> Call_initialize" and "\<not> is_insert (statement_of c)"
  shows "db_ok (tab (db_perform E c d)) \<and> seat_map (tab (db_perform E c d)) = seat_effect c (seat_map (tab d))"
  using perform_contract [OF assms(1), of c] perform_reliable [OF assms] by blast

lemma pay_reliable:
  assumes "db_ok (tab d)"
  shows "fst (db_update_paid_reservation E u rv d) = 1"
    and "db_ok (tab (snd (db_update_paid_reservation E u rv d)))"
    and "seat_map (tab (snd (db_update_paid_reservation E u rv d)))
      = mark_paid u (res_room rv) (res_seat_num rv) (seat_map (tab d))"
  using call_reliable [OF assms, of "Call_pay u rv"]
  by (simp_all add: db_update_paid_reservation_def succeeds_reliable Let_def)

lemma drop_reliable:
  assumes "db_ok (tab d)"
  shows "seat_map (tab (snd (db_remove_user_unpaid_reservations E u d))) = drop_unpaid u (seat_map (tab d))"
  using call_reliable [OF assms, of "Call_remove_user_unpaid u"] by simp

lemma logout_reliable:
  assumes "db_ok (tab d)"
  shows "db_ok (tab (snd (db_logout_user E u d)))"
    and "seat_map (tab (snd (db_logout_user E u d))) = seat_map (tab d)"
  using call_reliable [OF assms, of "Call_logout u"] by simp_all

end

text \<open>The reservations a payment request asks to pay.\<close>

definition to_pay :: "m7_seat_payments \<Rightarrow> Reservation list" where
  "to_pay m7 = take (nat (m7_count m7)) (m7_list m7)"

definition mark_all_paid :: "int \<Rightarrow> Reservation list \<Rightarrow> seat_map \<Rightarrow> seat_map" where
  "mark_all_paid u rvs m = fold (\<lambda>rv. mark_paid u (res_room rv) (res_seat_num rv)) rvs m"

lemma mark_all_paid:
  "mark_all_paid u rvs m p = (case m p of
     Some (v, f) \<Rightarrow> if v = u \<and> p \<in> (\<lambda>rv. (res_room rv, res_seat_num rv)) ` set rvs then Some (v, 1) else Some (v, f)
   | None \<Rightarrow> None)"
proof (induction rvs arbitrary: m)
  case (Cons rv rvs)
  have "mark_all_paid u (rv # rvs) m = mark_all_paid u rvs (mark_paid u (res_room rv) (res_seat_num rv) m)"
    by (simp add: mark_all_paid_def)
  then show ?case by (auto simp: Cons mark_paid_def split: option.splits)
qed (simp add: mark_all_paid_def split: option.splits)

lemma pay_all_returns:
  assumes "m7_count m7 \<le> int (length (m7_list m7))" and "0 \<le> i"
  shows "\<exists>choice s'. pay_all E c m7 i response s = (Ret (response\<lparr>message_choice_number := choice\<rparr>), s')"
  using assms
proof (induction E c m7 i response arbitrary: s rule: pay_all.induct)
  case (1 E c m7 i response)
  show ?case
  proof (cases "i < m7_count m7")
    case True
    then have "nat i < length (m7_list m7)" using 1(2,3) by linarith
    moreover obtain res d' where
      "db_update_paid_reservation E c (m7_list m7 ! nat i) (db s) = (res, d')" by (metis prod.exhaust)
    ultimately show ?thesis
      using 1 True by (cases "res = 1") (auto simp: pay_all.simps [of E c m7 i] db_op_run)
  next
    case False
    then show ?thesis
      by (intro exI [of _ "message_choice_number response"] exI [of _ s]) (simp add: pay_all.simps)
  qed
qed

lemma pay_all_reliable:
  assumes "reliable_engine E tab fk" and "db_ok (tab (db s))" and "0 \<le> i"
    and "m7_count m7 \<le> int (length (m7_list m7))"
  shows "\<exists>s'. pay_all E c m7 i response s = (Ret response, s')
    \<and> seat_map (tab (db s')) = mark_all_paid c (drop (nat i) (to_pay m7)) (seat_map (tab (db s)))"
  using assms
proof (induction E c m7 i response arbitrary: s rule: pay_all.induct)
  case (1 E c m7 i response)
  note engine = "1.prems"(1)
  show ?case
  proof (cases "i < m7_count m7")
    case True
    let ?rv = "m7_list m7 ! nat i"
    obtain d' where d': "db_update_paid_reservation E c ?rv (db s) = (1, d')"
      using reliable_engine.pay_reliable(1) [OF engine "1.prems"(2)] by (metis prod.collapse)
    let ?s1 = "s\<lparr>db := d'\<rparr>"
    have ok: "db_ok (tab (db ?s1))"
      and m: "seat_map (tab (db ?s1)) = mark_paid c (res_room ?rv) (res_seat_num ?rv) (seat_map (tab (db s)))"
      using reliable_engine.pay_reliable(2,3) [OF engine "1.prems"(2), of c ?rv] d' by simp_all
    have len: "nat i < length (m7_list m7)" using True "1.prems"(3,4) by linarith
    have "to_pay m7 ! nat i = ?rv" "nat i < length (to_pay m7)"
      using True "1.prems"(3,4) by (simp_all add: to_pay_def)
    then have drop: "drop (nat i) (to_pay m7) = ?rv # drop (nat (i + 1)) (to_pay m7)"
      using "1.prems"(3) by (metis Cons_nth_drop_Suc Suc_nat_eq_nat_zadd1 add.commute)
    have "pay_all E c m7 i response s = pay_all E c m7 (i + 1) response ?s1"
      using True len by (simp add: pay_all.simps [of E c m7 i] db_op_run d')
    moreover obtain s' where "pay_all E c m7 (i + 1) response ?s1 = (Ret response, s')"
      "seat_map (tab (db s')) = mark_all_paid c (drop (nat (i + 1)) (to_pay m7)) (seat_map (tab (db ?s1)))"
      using "1.IH" [of 1 ?s1] True len engine ok "1.prems"(3,4) by fastforce
    ultimately show ?thesis
      using drop m by (simp add: mark_all_paid_def)
  next
    case False
    then have "drop (nat i) (to_pay m7) = []" by (simp add: to_pay_def)
    with False show ?thesis by (simp add: pay_all.simps mark_all_paid_def)
  qed
qed

text \<open>C14. Paying: with a reliable engine the request pays exactly the listed reservations that the client holds,
  the ones of other users and the free seats are as they were, and the response says \<open>SUCCESS\<close>.\<close>

theorem payment_request:
  assumes "reliable_engine E tab fk" and "db_ok (tab (db s))"
    and "msg_choice request = M7 m7" and "m7_count m7 \<le> int (length (m7_list m7))"
  shows "\<exists>response s'. admin_pay E request s = (Ret (Some response), s')
     \<and> message_choice_number response = CHOICE_PAY_RESERVATION_RESPONSE
     \<and> m6_success (as_m6 (msg_choice response)) = SUCCESS
     \<and> (\<forall>p. seat_map (tab (db s')) p = (case seat_map (tab (db s)) p of
          Some (v, f) \<Rightarrow> if v = client_id request \<and> p \<in> (\<lambda>rv. (res_room rv, res_seat_num rv)) ` set (to_pay m7)
                         then Some (v, 1) else Some (v, f)
        | None \<Rightarrow> None))"
  using pay_all_reliable [OF assms(1,2) order.refl assms(4), of "client_id request" "new_response request"]
    mark_all_paid [of "client_id request" "to_pay m7"] assms(3)
  by (auto simp: admin_pay_def)

definition pay_example :: q_message where
  "pay_example = zero_message\<lparr>client_id := 7, message_choice_number := CHOICE_PAY_RESERVATION_REQUEST,
     msg_choice := M7 \<lparr>m7_count = 1, m7_list = \<lparr>res_room = 1, res_seat_num = 1\<rparr> # replicate 499 zero_Reservation\<rparr>\<rparr>"

theorem payment_request_witness:
  "\<exists>response s'. admin_pay ref_engine pay_example small_host = (Ret (Some response), s')
     \<and> seat_map (rd_tab (db s')) (1, 1) = Some (7, 1)"
proof -
  have "db_ok (rd_tab (db small_host))" by (simp add: small_host_def db_ok_small)
  from payment_request [OF ref.reliable_engine_axioms this, of pay_example
      "\<lparr>m7_count = 1, m7_list = \<lparr>res_room = 1, res_seat_num = 1\<rparr> # replicate 499 zero_Reservation\<rparr>"]
  show ?thesis
    by (auto simp: pay_example_def to_pay_def small_host_def seat_map_small zero_message_def)
qed

text \<open>Payments that fail are reported as made.  When no statement succeeds (the database file is locked, say)
  nothing is paid, the database is as it was, and the client is told \<open>SUCCESS\<close> all the same: the choice number
  \<open>CHOICE_INVALID_REQUEST\<close> set on the failure is overwritten after the loop.\<close>

theorem failed_payment_reported_paid:
  assumes "\<forall>q d. snd (sq_exec E q d) = d \<and> fst (fst (sq_exec E q d)) \<noteq> SQLITE_OK"
    and "m7_count (as_m7 (msg_choice request)) \<le> int (length (m7_list (as_m7 (msg_choice request))))"
  shows "\<exists>response. admin_pay E request s = (Ret (Some response), s)
     \<and> message_choice_number response = CHOICE_PAY_RESERVATION_RESPONSE
     \<and> m6_success (as_m6 (msg_choice response)) = SUCCESS"
proof -
  let ?m7 = "as_m7 (msg_choice request)"
  obtain choice s' where r: "pay_all E (client_id request) ?m7 0 (new_response request) s
      = (Ret ((new_response request)\<lparr>message_choice_number := choice\<rparr>), s')"
    using pay_all_returns [OF assms(2) order.refl] by blast
  have fails: "db_update_paid_reservation E c rv d = (0, d)" for c rv d
    using assms(1) by (simp add: db_update_paid_reservation_def query_succeeds_def execute_query_def Let_def
        split: prod.splits) (metis fst_conv snd_conv)
  have "s' = s"
    using r assms(2) by (auto simp: pay_all.simps db_op_run fails split: if_splits)
  with r show ?thesis by (simp add: admin_pay_def new_response_def)
qed

theorem failed_payment_reported_paid_witness:
  "\<exists>response. admin_pay (ref_engine\<lparr>sq_exec := \<lambda>q d. ((5, []), d)\<rparr>) pay_example small_host = (Ret (Some response), small_host)
     \<and> m6_success (as_m6 (msg_choice response)) = SUCCESS"
  using failed_payment_reported_paid [of "ref_engine\<lparr>sq_exec := \<lambda>q d. ((5, []), d)\<rparr>" pay_example small_host]
  by (auto simp: pay_example_def)

text \<open>C26. Leaving: the exit request frees the client's unpaid seats and keeps his paid ones and everybody else's;
  no response is sent.\<close>

theorem exit_request:
  assumes "reliable_engine E tab fk" and "db_ok (tab (db s))" and "message_choice_number request = CHOICE_EXIT"
  shows "\<exists>d'. admin_handle_request ftok E channel request s = (Ret (), s\<lparr>db := d'\<rparr>)
     \<and> seat_map (tab d') = drop_unpaid (client_id request) (seat_map (tab (db s)))"
proof -
  let ?d1 = "snd (db_logout_user E (client_id request) (db s))"
  let ?d2 = "snd (db_remove_user_unpaid_reservations E (client_id request) ?d1)"
  have "admin_handle_request ftok E channel request s = (Ret (), s\<lparr>db := ?d2\<rparr>)"
    using assms(3) by (simp add: admin_handle_request_def admin_answer_def admin_exit_def db_op_pair Let_def)
  moreover have "seat_map (tab ?d2) = drop_unpaid (client_id request) (seat_map (tab (db s)))"
    using reliable_engine.logout_reliable [OF assms(1,2)] by (simp add: reliable_engine.drop_reliable [OF assms(1)])
  ultimately show ?thesis by blast
qed

theorem exit_request_witness:
  "\<exists>d'. admin_handle_request small_ftok ref_engine admin_channel
       (zero_message\<lparr>client_id := 7, message_choice_number := CHOICE_EXIT\<rparr>) small_host = (Ret (), small_host\<lparr>db := d'\<rparr>)
     \<and> seat_map (rd_tab d') (1, 1) = None"
proof -
  have "db_ok (rd_tab (db small_host))" by (simp add: small_host_def db_ok_small)
  from exit_request [OF ref.reliable_engine_axioms this, of "zero_message\<lparr>client_id := 7, message_choice_number := CHOICE_EXIT\<rparr>"
      small_ftok admin_channel]
  show ?thesis by (auto simp: zero_message_def small_host_def seat_map_small drop_unpaid_def)
qed


section \<open>Asking for the seats of a room\<close>

lemma new_response_simps [simp]:
  "client_id (new_response request) = client_id request" "message_type (new_response request) = 0"
  "as_m2 (msg_choice (new_response request)) = zero_m2" "as_m4 (msg_choice (new_response request)) = zero_m4"
  "as_m6 (msg_choice (new_response request)) = zero_m6"
  by (simp_all add: new_response_def zero_message_def del: as_m2.simps as_m4.simps as_m6.simps)

context reliable_engine
begin

lemma select_reliable:
  assumes "query_rows E (SelectFrom c t w) d = (xs, d')"
  shows "mset xs = mset (map int32 (map (\<lambda>r. the (r c)) (filter (matches w) (tab d t))))"
    and "tab d' = tab d" and "fk d' = fk d"
proof -
  obtain rc rows d1 where e: "sq_exec E (SelectFrom c t w) d = ((rc, rows), d1)" by (metis prod.exhaust)
  with assms have xs: "xs = map int32 rows" "d' = d1" by (simp_all add: query_rows_run)
  have rc: "rc = SQLITE_OK" using exec_reliable [OF e] by simp
  have "mset (map int32 rows) = image_mset int32 (mset (sql_answer (tab d) (SelectFrom c t w)))"
    using exec_answer [OF e rc] by (simp only: mset_map)
  then show "mset xs = mset (map int32 (map (\<lambda>r. the (r c)) (filter (matches w) (tab d t))))"
    by (simp only: xs mset_map [symmetric] sql_answer.simps)
  from exec_ok [OF e rc] show "tab d' = tab d" by (simp add: xs)
  from exec_fk [OF e] show "fk d' = fk d" by (simp add: xs)
qed

lemma select_set:
  assumes "query_rows E (SelectFrom c t w) d = (xs, d')"
  shows "set xs = int32 ` (\<lambda>r. the (r c)) ` set (filter (matches w) (tab d t))"
    and "length xs = length (filter (matches w) (tab d t))"
proof -
  note m = select_reliable(1) [OF assms]
  from mset_eq_setD [OF m] show "set xs = int32 ` (\<lambda>r. the (r c)) ` set (filter (matches w) (tab d t))"
    by (simp add: image_image)
  from mset_eq_length [OF m] show "length xs = length (filter (matches w) (tab d t))" by simp
qed

lemma reservations_selected:
  assumes "db_ok (tab d)" and "db_select_reservations E room d = (taken, d')"
  shows "set taken = int32 ` {n. seat_map (tab d) (room, n) \<noteq> None}"
proof -
  have "(\<lambda>r. the (r Col_seat_id)) ` set (filter (matches [(Col_room_id, room)]) (tab d Reservations))
      = {n. seat_map (tab d) (room, n) \<noteq> None}" (is "?L = ?R")
  proof (intro set_eqI)
    fix n
    have "n \<in> ?R \<longleftrightarrow> (\<exists>x. seat_map (tab d) (room, n) = Some x)" by auto
    also have "\<dots> \<longleftrightarrow> (\<exists>r \<in> set (tab d Reservations). fst (seat_entry r) = (room, n))"
      by (metis (no_types, lifting) seat_map_row [OF assms(1)] prod.collapse fst_conv)
    also have "\<dots> \<longleftrightarrow> (\<exists>r \<in> set (tab d Reservations). r Col_room_id = Some room \<and> the (r Col_seat_id) = n)"
      using db_ok_complete [OF assms(1)] by (force simp: seat_entry_def complete_row_def)
    also have "\<dots> \<longleftrightarrow> n \<in> ?L" by (auto simp: matches_def)
    finally show "n \<in> ?L \<longleftrightarrow> n \<in> ?R" by simp
  qed
  with select_set(1) assms(2) show ?thesis by (simp add: db_select_reservations_def)
qed

end

lemma mark_taken_None:
  "mark_taken taken st = None \<longleftrightarrow> (\<exists>i \<in> set taken. i \<le> 0 \<or> int (length st) < i)"
  by (induction taken arbitrary: st) auto

lemma mark_taken_Some:
  "mark_taken taken st = Some st' \<Longrightarrow> length st' = length st
    \<and> (\<forall>k < length st. st' ! k = (if int k + 1 \<in> set taken then SEAT_STATUS_OCCUPED else st ! k))"
  by (induction taken arbitrary: st) (auto simp: nth_list_update split: if_splits)

lemma fill_seats_Some:
  assumes "length seats \<le> MAX_SEATS" and "length st = length seats"
    and "length (m4_seats_id m4) = MAX_SEATS" and "length (m4_seats_status m4) = MAX_SEATS"
  shows "\<exists>m. fill_seats seats st m4 = Some m \<and> m4_count m = int (length seats)
    \<and> take (length seats) (m4_seats_id m) = seats \<and> take (length seats) (m4_seats_status m) = map int8 st
    \<and> m4_success m = m4_success m4"
  using assms by (auto simp: fill_seats_def std_copy_def int32_id)

lemma seats_request_run:
  assumes "reliable_engine E tab fk" and "db_ok (tab (db s))"
    and "room = as_m3 (msg_choice request)"
    and "fst (db_select_room_seats E room (db s)) = xs" and "0 < length xs" and "length xs \<le> MAX_SEATS"
    and "\<forall>k. seat_map (tab (db s)) (room, k) \<noteq> None \<longrightarrow> 1 \<le> k \<and> k \<le> int (length xs)"
  shows "\<exists>response m4 s'. admin_seats E request s = (Ret (Some response), s')
     \<and> message_choice_number response = CHOICE_SEATS_RESPONSE \<and> client_id response = client_id request
     \<and> msg_choice response = M4 m4 \<and> m4_count m4 = int (length xs) \<and> m4_success m4 = SUCCESS
     \<and> take (length xs) (m4_seats_id m4) = xs
     \<and> (\<forall>k < length xs. m4_seats_status m4 ! k = (if seat_map (tab (db s)) (room, int k + 1) = None
          then SEAT_STATUS_FREE else SEAT_STATUS_OCCUPED))"
proof -
  obtain d1 where d1: "db_select_room_seats E room (db s) = (xs, d1)"
    using assms(4) by (metis prod.collapse)
  have tab1: "tab d1 = tab (db s)"
    using reliable_engine.select_reliable(2) [OF assms(1)] d1 by (simp add: db_select_room_seats_def)
  obtain taken d2 where d2: "db_select_reservations E room d1 = (taken, d2)" by (metis prod.exhaust)
  have taken: "set taken = int32 ` {k. seat_map (tab (db s)) (room, k) \<noteq> None}"
    using reliable_engine.reservations_selected [OF assms(1) _ d2] tab1 assms(2) by simp
  have id: "int32 k = k" if "seat_map (tab (db s)) (room, k) \<noteq> None" for k
    using assms(6,7) that by (intro int32_id) fastforce
  with taken have taken: "set taken = {k. seat_map (tab (db s)) (room, k) \<noteq> None}" by force
  let ?free = "replicate (length xs) SEAT_STATUS_FREE"
  have "mark_taken taken ?free \<noteq> None"
  proof -
    have "1 \<le> i \<and> i \<le> int (length xs)" if "i \<in> set taken" for i using that assms(7) taken by blast
    then have "\<not> (i \<le> 0 \<or> int (length xs) < i)" if "i \<in> set taken" for i using that by force
    then show ?thesis unfolding mark_taken_None by simp
  qed
  then obtain st where st: "mark_taken taken ?free = Some st" by blast
  note st' = mark_taken_Some [OF st]
  obtain m4 where m4: "fill_seats xs st zero_m4 = Some m4" "m4_count m4 = int (length xs)"
    "take (length xs) (m4_seats_id m4) = xs" "take (length xs) (m4_seats_status m4) = map int8 st" "m4_success m4 = SUCCESS"
    using fill_seats_Some [of xs st zero_m4] assms(6) st' by (auto simp: zero_m4_def)
  have status: "m4_seats_status m4 ! k = (if seat_map (tab (db s)) (room, int k + 1) = None
      then SEAT_STATUS_FREE else SEAT_STATUS_OCCUPED)" if "k < length xs" for k
  proof -
    have "m4_seats_status m4 ! k = map int8 st ! k"
      using m4(4) that by (metis nth_take)
    also have "\<dots> = int8 (st ! k)" using st' that by simp
    finally show ?thesis using st' that taken by (simp add: int8_id)
  qed
  obtain res d3 where "db_insert_user_in_room E (client_id request) room d2 = (res, d3)" by (metis prod.exhaust)
  with d1 d2 st m4(1) assms(3,5) have "admin_seats E request s = (Ret (Some ((new_response request)
      \<lparr>message_choice_number := CHOICE_SEATS_RESPONSE, msg_choice := M4 m4\<rparr>)), s\<lparr>db := d3\<rparr>)"
    by (simp add: admin_seats_def Let_def db_op_run)
  with m4 status show ?thesis by simp
qed

text \<open>C15. The seats of a room: on a reliable engine that gives the seats of the room as 1 to n, in this order, as data_init
  makes them, with n positive and at most \<open>MAX_SEATS\<close>, and when no other seat of that room is reserved, the response
  lists them all and the status of each is occupied exactly when somebody holds it.  (What happens without these
  conditions: \<open>missing_seat_breaks_room\<close>, and \<open>seats_out_of_order\<close> of theory Views.)\<close>

theorem seats_request:
  assumes "reliable_engine E tab fk" and "db_ok (tab (db s))"
    and "room = as_m3 (msg_choice request)"
    and "fst (db_select_room_seats E room (db s)) = map int [1..<Suc n]" and "0 < n" and "n \<le> MAX_SEATS"
    and "\<forall>k. seat_map (tab (db s)) (room, k) \<noteq> None \<longrightarrow> 1 \<le> k \<and> k \<le> int n"
  shows "\<exists>response m4 s'. admin_seats E request s = (Ret (Some response), s')
     \<and> message_choice_number response = CHOICE_SEATS_RESPONSE \<and> client_id response = client_id request
     \<and> msg_choice response = M4 m4 \<and> m4_count m4 = int n
     \<and> take n (m4_seats_id m4) = map int [1..<Suc n]
     \<and> (\<forall>k < n. m4_seats_status m4 ! k = (if seat_map (tab (db s)) (room, int k + 1) = None
          then SEAT_STATUS_FREE else SEAT_STATUS_OCCUPED))"
  using seats_request_run [OF assms(1-4)] assms(5-7) by (fastforce simp del: upt_Suc)

definition seats_example :: q_message where
  "seats_example = zero_message\<lparr>client_id := 8, message_choice_number := CHOICE_SEATS_REQUEST, msg_choice := M3 1\<rparr>"

theorem seats_request_witness:
  "\<exists>response m4 s'. admin_seats ref_engine seats_example small_host = (Ret (Some response), s')
     \<and> msg_choice response = M4 m4 \<and> m4_seats_status m4 ! 0 = SEAT_STATUS_OCCUPED \<and> m4_seats_status m4 ! 1 = SEAT_STATUS_FREE"
proof -
  have room: "as_m3 (msg_choice seats_example) = 1" by (simp add: seats_example_def as_m3_def)
  have "fst (db_select_room_seats ref_engine 1 small_db) = [1, 2]" by code_simp
  moreover have "[1, 2] = map int [1..<Suc 2]" by code_simp
  ultimately have sel: "fst (db_select_room_seats ref_engine 1 (db small_host)) = map int [1..<Suc 2]"
    by (simp only: small_host_def cinema_host.select_convs)
  have ok: "db_ok (rd_tab (db small_host))" by (simp add: small_host_def db_ok_small)
  have m: "seat_map (rd_tab (db small_host)) = [(1, 1) \<mapsto> (7, 0)]" by (simp add: small_host_def seat_map_small)
  have "(0::nat) < 2" "(2::nat) \<le> MAX_SEATS"
    "\<forall>k. seat_map (rd_tab (db small_host)) (1, k) \<noteq> None \<longrightarrow> 1 \<le> k \<and> k \<le> int 2"
    by (auto simp: m)
  from seats_request [OF ref.reliable_engine_axioms ok room [symmetric] sel this]
  obtain response m4 s' where r: "admin_seats ref_engine seats_example small_host = (Ret (Some response), s')"
    "msg_choice response = M4 m4"
    and st: "\<forall>k < 2. m4_seats_status m4 ! k = (if seat_map (rd_tab (db small_host)) (1, int k + 1) = None
          then SEAT_STATUS_FREE else SEAT_STATUS_OCCUPED)"
    by blast
  from st [rule_format, of 0] st [rule_format, of 1] r show ?thesis by (simp add: m)
qed

text \<open>C29. A room that has seats, but fewer than the number of some seat reserved in it, cannot be shown: the status
  vector has one entry per seat of the room and is written at \<open>index-1\<close>, so in every state in which the database holds
  such a reservation (which is made for any number that is positive and free: theory Db\_Api), on a reliable engine, a
  request for the seats of that room makes the handler write out of bounds.\<close>

theorem missing_seat_breaks_room:
  assumes "reliable_engine E tab fk" and "db_ok (tab (db s))"
    and "room = as_m3 (msg_choice request)"
    and "seat_map (tab (db s)) (room, k) \<noteq> None" and "in_int32 k"
    and "filter (matches [(Col_room_id, room)]) (tab (db s) Seats) = rows" and "rows \<noteq> []" and "int (length rows) < k"
  shows "fst (admin_seats E request s) = Undef"
proof -
  obtain seats d1 where d1: "db_select_room_seats E room (db s) = (seats, d1)" by (metis prod.exhaust)
  then have q: "query_rows E (SelectFrom Col_seat_id Seats [(Col_room_id, room)]) (db s) = (seats, d1)"
    by (simp add: db_select_room_seats_def)
  have len: "length seats = length rows" and tab1: "tab d1 = tab (db s)"
    using reliable_engine.select_set(2) [OF assms(1) q] reliable_engine.select_reliable(2) [OF assms(1) q] assms(6)
    by simp_all
  obtain taken d2 where d2: "db_select_reservations E room d1 = (taken, d2)" by (metis prod.exhaust)
  have "int32 k = k" using assms(5) by (simp add: int32_id)
  then have "k \<in> set taken"
    using reliable_engine.reservations_selected [OF assms(1) _ d2] tab1 assms(2,4) by (auto simp: image_iff) metis
  then have "mark_taken taken (replicate (length seats) SEAT_STATUS_FREE) = None"
    using assms(8) len by (auto simp: mark_taken_None)
  moreover have "seats \<noteq> []" using assms(7) len by auto
  ultimately show ?thesis
    using d1 d2 assms(3) by (simp add: admin_seats_def Let_def db_op_run)
qed


theorem missing_seat_breaks_room_witness:
  "fst (admin_seats ref_engine (zero_message\<lparr>client_id := 7, message_choice_number := CHOICE_SEATS_REQUEST, msg_choice := M3 2\<rparr>)
     (small_host\<lparr>db := snd (db_insert_reservation ref_engine 8 2 99 small_db)\<rparr>)) = Undef"
proof -
  let ?d = "snd (db_insert_reservation ref_engine 8 2 99 small_db)"
  let ?s = "small_host\<lparr>db := ?d\<rparr>"
  have m: "seat_map (rd_tab ?d) (2, 99) \<noteq> None"
    using ref.insert_reservation_reliable(2) [OF db_ok_small fk_small, of 8 2 99] by (simp add: seat_map_small)
  have ok: "db_ok (rd_tab (db ?s))"
    using ref.perform_contract [OF db_ok_small, of "Call_insert_reservation 8 2 99"] by simp
  have "length (filter (matches [(Col_room_id, 2)]) (rd_tab ?d Seats)) = 1" by code_simp
  then obtain row where rows: "filter (matches [(Col_room_id, 2)]) (rd_tab (db ?s) Seats) = [row]"
    by (auto simp: length_Suc_conv)
  show ?thesis
    by (rule missing_seat_breaks_room [OF ref.reliable_engine_axioms ok refl _ _ _ _ , where k = 99 and rows = "[row]"])
      (use m rows in \<open>simp_all add: as_m3_def\<close>)
qed

section \<open>Selecting a seat\<close>

definition rooms_of :: "int \<Rightarrow> tables \<Rightarrow> int option list" where
  "rooms_of user T = map (\<lambda>r. r Col_room_id) (filter (matches [(Col_user_id, user)]) (T Clients_rooms))"

definition users_in :: "int \<Rightarrow> tables \<Rightarrow> int option list" where
  "users_in room T = map (\<lambda>r. r Col_user_id) (filter (matches [(Col_room_id, room)]) (T Clients_rooms))"

context reliable_engine
begin

lemma current_room:
  assumes "db_select_user_current_room E user d = (front, d')"
  shows "tab d' = tab d" and "fk d' = fk d"
    and "rooms_of user (tab d) = [] \<Longrightarrow> front = None"
    and "rooms_of user (tab d) = [Some room] \<Longrightarrow> in_int32 room \<Longrightarrow> front = Some room"
proof -
  obtain xs d1 where q: "query_rows E (SelectFrom Col_room_id Clients_rooms [(Col_user_id, user)]) d = (xs, d1)"
    by (metis prod.exhaust)
  then have r: "d' = d1" "front = (case xs of [] \<Rightarrow> None | x # _ \<Rightarrow> Some x)"
    using assms by (auto simp: db_select_user_current_room_def split: list.splits)
  show "tab d' = tab d" "fk d' = fk d" using select_reliable(2,3) [OF q] r by simp_all
  have m: "mset xs = mset (map (int32 \<circ> the) (rooms_of user (tab d)))"
    using select_reliable(1) [OF q] by (simp only: rooms_of_def map_map comp_def)
  show "front = None" if "rooms_of user (tab d) = []" using m that r by simp
  show "front = Some room" if "rooms_of user (tab d) = [Some room]" "in_int32 room"
    using m that r by (simp add: int32_id)
qed

lemma users_selected:
  assumes "db_select_users_in_room E room d = (users, d')"
  shows "tab d' = tab d" and "users_in room (tab d) = [] \<Longrightarrow> users = []"
proof -
  have q: "query_rows E (SelectFrom Col_user_id Clients_rooms [(Col_room_id, room)]) d = (users, d')"
    using assms by (simp add: db_select_users_in_room_def)
  show "tab d' = tab d" by (rule select_reliable(2) [OF q])
  show "users = []" if "users_in room (tab d) = []"
    using select_set(2) [OF q] that by (simp add: users_in_def)
qed

lemma insert_reservation_tables:
  assumes "db_insert_reservation E u r s d = (res, d')"
  shows "res = 0 \<Longrightarrow> tab d' = tab d" and "t \<noteq> Reservations \<Longrightarrow> tab d' t = tab d t" and "fk d' = fk d"
proof -
  obtain rc rows d1 where e: "sq_exec E (InsertInto Reservations (reservation_values u r s)) d = ((rc, rows), d1)"
    by (metis prod.exhaust)
  have run: "(res, d') = (if 0 < s then (of_bool (rc = SQLITE_OK), d1) else (0, d))"
    using assms e by (auto simp: db_insert_reservation_def step_and_finalize_def prepare_reliable reservation_values_def)
  show "res = 0 \<Longrightarrow> tab d' = tab d"
    using run exec_failed [OF e] by (auto split: if_splits)
  show "t \<noteq> Reservations \<Longrightarrow> tab d' t = tab d t"
    using run exec_failed [OF e] exec_ok [OF e] by (cases "rc = SQLITE_OK") (auto split: if_splits)
  show "fk d' = fk d" using run exec_fk [OF e] by (auto split: if_splits)
qed

lemma leave_room:
  assumes "db_remove_user_in_room E user d = (res, d')"
  shows "tab d' = (tab d)(Clients_rooms := filter (\<lambda>r. \<not> matches [(Col_user_id, user)] r) (tab d Clients_rooms))"
proof -
  let ?q = "DeleteFrom Clients_rooms [(Col_user_id, user)]"
  obtain rc rows d1 where e: "sq_exec E ?q d = ((rc, rows), d1)" by (metis prod.exhaust)
  then have d': "d' = d1" using assms by (simp add: db_remove_user_in_room_def query_succeeds_run)
  have "rc = SQLITE_OK" using exec_reliable [OF e] by simp
  from exec_ok [OF e this] show ?thesis by (simp add: d')
qed

end

lemma strcpy_fits:
  assumes "length info < length dst"
  shows "\<exists>d. strcpy dst info = Some d \<and> length d = length dst \<and> take (Suc (length info)) d = info @ [NUL]"
  using assms by (auto simp: strcpy_def std_copy_def)

lemma select_response_returns:
  assumes "length info < MAX_LENGTH_STRING" and "as_m6 (msg_choice response) = zero_m6" and "NUL \<notin> set info"
  shows "\<exists>r m6. select_response response v info s = (Ret r, s) \<and> client_id r = client_id response
     \<and> message_choice_number r = CHOICE_SEAT_SELECT_RESPONSE \<and> msg_choice r = M6 m6
     \<and> m6_success m6 = v \<and> c_string (m6_information m6) = info"
proof -
  obtain d where d: "strcpy zero_chars info = Some d"
    using strcpy_fits [of info zero_chars] assms(1) by auto
  then show ?thesis
    using c_string_strcpy [OF d assms(3)] assms(2)
    by (simp add: select_response_def Let_def zero_m6_def)
qed

lemma admin_select_refusal:
  assumes "reliable_engine E tab fk" and "db_ok (tab (db s))" and "\<not> fk (db s)"
    and "rooms_of (client_id request) (tab (db s)) = [Some room]" and "in_int32 room" and "room \<noteq> 0"
    and "n = as_m5 (msg_choice request)" and "n \<le> 0 \<or> seat_map (tab (db s)) (room, n) \<noteq> None"
  shows "\<exists>response m6 d'. admin_select ftok E request s = (Ret (Some response), s\<lparr>db := d'\<rparr>)
     \<and> message_choice_number response = CHOICE_SEAT_SELECT_RESPONSE \<and> msg_choice response = M6 m6
     \<and> m6_success m6 = NOT_SUCCESS \<and> c_string (m6_information m6) = ''You have entered an invalid seat. ''
     \<and> seat_map (tab d') = seat_map (tab (db s))
     \<and> rooms_of (client_id request) (tab d') = [Some room]
     \<and> client_id response = client_id request"
proof -
  obtain front d1 where d1: "db_select_user_current_room E (client_id request) (db s) = (front, d1)"
    by (metis prod.exhaust)
  note cur = reliable_engine.current_room [OF assms(1) d1]
  have front: "front = Some room" using cur(4) assms(4,5) by blast
  obtain res d2 where d2: "db_insert_reservation E (client_id request) room n d1 = (res, d2)" by (metis prod.exhaust)
  have ok: "db_ok (tab d1)" "\<not> fk d1" using cur(1,2) assms(2,3) by simp_all
  have res: "res = 0" and same: "seat_map (tab d2) = seat_map (tab (db s))"
    using reliable_engine.insert_reservation_reliable [OF assms(1) ok, of "client_id request" room n] d2 assms(8) cur(1)
    by auto
  obtain r m6 where "select_response (new_response request) NOT_SUCCESS ''You have entered an invalid seat. '' (s\<lparr>db := d2\<rparr>)
        = (Ret r, s\<lparr>db := d2\<rparr>)"
      "client_id r = client_id request" "message_choice_number r = CHOICE_SEAT_SELECT_RESPONSE" "msg_choice r = M6 m6" "m6_success m6 = NOT_SUCCESS"
      "c_string (m6_information m6) = ''You have entered an invalid seat. ''"
    using select_response_returns [of "''You have entered an invalid seat. ''" "new_response request" NOT_SUCCESS "s\<lparr>db := d2\<rparr>"]
    by auto
  moreover have "rooms_of (client_id request) (tab d2) = [Some room]"
    using reliable_engine.insert_reservation_tables(1) [OF assms(1) d2 res] cur(1) assms(4) by simp
  ultimately show ?thesis
    using d1 front assms(6,7) d2 res same
    by (simp add: admin_select_def Let_def db_op_run) (rule exI [of _ d2], simp)
qed

text \<open>Selecting a seat that is taken, or has a number that is not positive: the client, who is in one room, is
  told \<open>NOT_SUCCESS\<close> and why, and nothing changes in the database, so he is still in the room.\<close>

theorem select_refused:
  assumes "reliable_engine E tab fk" and "db_ok (tab (db s))" and "\<not> fk (db s)"
    and "rooms_of (client_id request) (tab (db s)) = [Some room]" and "in_int32 room" and "room \<noteq> 0"
    and "n = as_m5 (msg_choice request)" and "n \<le> 0 \<or> seat_map (tab (db s)) (room, n) \<noteq> None"
  shows "\<exists>response m6 s'. admin_select ftok E request s = (Ret (Some response), s')
     \<and> message_choice_number response = CHOICE_SEAT_SELECT_RESPONSE \<and> msg_choice response = M6 m6
     \<and> m6_success m6 = NOT_SUCCESS \<and> c_string (m6_information m6) = ''You have entered an invalid seat. ''
     \<and> seat_map (tab (db s')) = seat_map (tab (db s))
     \<and> rooms_of (client_id request) (tab (db s')) = [Some room]"
  using admin_select_refusal [OF assms] by fastforce

text \<open>The small cinema with user 8 in room 1.\<close>

definition room_db :: ref_db where
  "room_db = snd (db_insert_user_in_room ref_engine 8 1 small_db)"

definition room_host :: "(unit, ref_db) cinema_host" where
  "room_host = small_host\<lparr>db := room_db\<rparr>"

definition select_example :: "int \<Rightarrow> q_message" where
  "select_example n = zero_message\<lparr>client_id := 8, message_choice_number := CHOICE_SEAT_SELECT_REQUEST, msg_choice := M5 n\<rparr>"

lemma select_example_simps [simp]:
  "client_id (select_example n) = 8" "as_m5 (msg_choice (select_example n)) = n"
  by (simp_all add: select_example_def as_m5_def)

lemma room_db_facts:
  "db_ok (rd_tab room_db)" "\<not> rd_fk room_db" "seat_map (rd_tab room_db) = [(1, 1) \<mapsto> (7, 0)]"
proof -
  have p: "room_db = db_perform ref_engine (Call_insert_user_in_room 8 1) small_db" by (simp add: room_db_def)
  show "db_ok (rd_tab room_db)" unfolding p using ref.perform_contract [OF db_ok_small] by blast
  show "\<not> rd_fk room_db" unfolding p by (simp add: ref.fk_perform fk_small del: db_perform.simps)
  have "map seat_entry (rd_tab room_db Reservations) = [((1, 1), (7, 0))]" by code_simp
  then show "seat_map (rd_tab room_db) = [(1, 1) \<mapsto> (7, 0)]" by (simp add: seat_map_def)
qed

lemma room_db_rooms: "rooms_of 8 (rd_tab room_db) = [Some 1]" "users_in 1 (rd_tab room_db) = [Some 8]"
  by code_simp+

theorem select_refused_witness:
  "\<exists>response m6 s'. admin_select small_ftok ref_engine (select_example 1) room_host = (Ret (Some response), s')
     \<and> msg_choice response = M6 m6 \<and> m6_success m6 = NOT_SUCCESS"
proof -
  have "db room_host = room_db" by (simp add: room_host_def)
  then show ?thesis
    using select_refused [OF ref.reliable_engine_axioms, of room_host "select_example 1" 1 1 small_ftok]
    by (auto simp: room_db_facts room_db_rooms)
qed

lemma db_calls_after_booking:
  "db_calls E seat_neutral (andThen (db_op (db_remove_user_in_room E u)) (\<lambda>_.
      andThen (update_users ftok E room) (\<lambda>_.
      andThen (db_op (db_remove_user_in_room E u)) (\<lambda>_.
      andThen (select_response response v info) (\<lambda>r. ret (Some r))))))"
  by (intro db_calls_intros db_calls_functions db_calls_update_users db_calls_select_response) simp_all

text \<open>What is left of \<open>admin_select\<close> when the reservation is made.\<close>

lemma admin_select_booked:
  assumes "reliable_engine E tab fk" and "db_ok (tab (db s))" and "\<not> fk (db s)"
    and "rooms_of (client_id request) (tab (db s)) = [Some room]" and "in_int32 room" and "room \<noteq> 0"
    and "n = as_m5 (msg_choice request)" and "0 < n" and "seat_map (tab (db s)) (room, n) = None"
  shows "\<exists>d2. db_ok (tab d2) \<and> seat_map (tab d2) = (seat_map (tab (db s)))((room, n) \<mapsto> (client_id request, 0))
    \<and> tab d2 Clients_rooms = tab (db s) Clients_rooms
    \<and> admin_select ftok E request s = andThen (db_op (db_remove_user_in_room E (client_id request))) (\<lambda>_.
        andThen (update_users ftok E room) (\<lambda>_.
        andThen (db_op (db_remove_user_in_room E (client_id request))) (\<lambda>_.
        andThen (select_response ((new_response request)\<lparr>client_id := client_id request\<rparr>) SUCCESS
          ''Succesfully made seat reservation'') (\<lambda>r. ret (Some r))))) (s\<lparr>db := d2\<rparr>)"
proof -
  obtain front d1 where d1: "db_select_user_current_room E (client_id request) (db s) = (front, d1)"
    by (metis prod.exhaust)
  note cur = reliable_engine.current_room [OF assms(1) d1]
  have front: "front = Some room" using cur(4) assms(4,5) by blast
  obtain res d2 where d2: "db_insert_reservation E (client_id request) room n d1 = (res, d2)" by (metis prod.exhaust)
  have ok: "db_ok (tab d1)" "\<not> fk d1" using cur(1,2) assms(2,3) by simp_all
  have res: "res = 1" and m: "seat_map (tab d2) = (seat_map (tab (db s)))((room, n) \<mapsto> (client_id request, 0))"
    using reliable_engine.insert_reservation_reliable [OF assms(1) ok, of "client_id request" room n] d2 assms(8,9) cur(1)
    by auto
  have "db_ok (tab d2)"
    using sqlite_engine.perform_contract [OF reliable_engine.axioms(1) [OF assms(1)] ok(1),
        of "Call_insert_reservation (client_id request) room n"] d2 by simp
  moreover have "tab d2 Clients_rooms = tab (db s) Clients_rooms"
    using reliable_engine.insert_reservation_tables(2) [OF assms(1) d2] cur(1) by simp
  moreover have "admin_select ftok E request s = andThen (db_op (db_remove_user_in_room E (client_id request))) (\<lambda>_.
        andThen (update_users ftok E room) (\<lambda>_.
        andThen (db_op (db_remove_user_in_room E (client_id request))) (\<lambda>_.
        andThen (select_response ((new_response request)\<lparr>client_id := client_id request\<rparr>) SUCCESS
          ''Succesfully made seat reservation'') (\<lambda>r. ret (Some r))))) (s\<lparr>db := d2\<rparr>)"
    using d1 front assms(6,7) d2 res by (simp add: admin_select_def Let_def db_op_run)
  ultimately show ?thesis using m by blast
qed

lemma update_users_nobody:
  assumes "reliable_engine E tab fk" and "users_in room (tab (db s)) = []"
  shows "\<exists>d'. update_users ftok E room s = (Ret (), s\<lparr>db := d'\<rparr>) \<and> tab d' = tab (db s)"
proof -
  obtain users d' where u: "db_select_users_in_room E room (db s) = (users, d')" by (metis prod.exhaust)
  with reliable_engine.users_selected [OF assms(1) u] assms(2) show ?thesis
    by (intro exI [of _ d']) (simp add: update_users_def db_op_run)
qed

lemma admin_select_books:
  assumes "reliable_engine E tab fk" and "db_ok (tab (db s))" and "\<not> fk (db s)"
    and "rooms_of (client_id request) (tab (db s)) = [Some room]" and "in_int32 room" and "room \<noteq> 0"
    and "n = as_m5 (msg_choice request)" and "0 < n" and "seat_map (tab (db s)) (room, n) = None"
  shows "seat_map (tab (db (snd (admin_select ftok E request s))))
      = (seat_map (tab (db s)))((room, n) \<mapsto> (client_id request, 0))"
proof -
  let ?u = "client_id request"
  obtain d2 where d2: "db_ok (tab d2)" "seat_map (tab d2) = (seat_map (tab (db s)))((room, n) \<mapsto> (?u, 0))"
    and run: "admin_select ftok E request s = andThen (db_op (db_remove_user_in_room E ?u)) (\<lambda>_.
        andThen (update_users ftok E room) (\<lambda>_.
        andThen (db_op (db_remove_user_in_room E ?u)) (\<lambda>_.
        andThen (select_response ((new_response request)\<lparr>client_id := ?u\<rparr>) SUCCESS
          ''Succesfully made seat reservation'') (\<lambda>r. ret (Some r))))) (s\<lparr>db := d2\<rparr>)"
    using admin_select_booked [OF assms] by blast
  have engine: "sqlite_engine E tab fk" using assms(1) by (rule reliable_engine.axioms(1))
  obtain cs where cs: "list_all seat_neutral cs"
    "db (snd (admin_select ftok E request s)) = db_run E cs (db (s\<lparr>db := d2\<rparr>))"
    using db_callsD [OF db_calls_after_booking, of E ?u ftok room _ _ _ "s\<lparr>db := d2\<rparr>"] unfolding run by blast
  show ?thesis
    using run_neutral [OF engine d2(1) cs(1)] cs(2) d2(2) by simp
qed

lemma admin_select_alone:
  assumes "reliable_engine E tab fk" and "db_ok (tab (db s))" and "\<not> fk (db s)"
    and "rooms_of (client_id request) (tab (db s)) = [Some room]" and "in_int32 room" and "room \<noteq> 0"
    and "n = as_m5 (msg_choice request)" and "0 < n" and "seat_map (tab (db s)) (room, n) = None"
    and alone: "set (users_in room (tab (db s))) \<subseteq> {Some (client_id request)}"
  shows "\<exists>response m6 d'. admin_select ftok E request s = (Ret (Some response), s\<lparr>db := d'\<rparr>)
         \<and> message_choice_number response = CHOICE_SEAT_SELECT_RESPONSE \<and> client_id response = client_id request
         \<and> msg_choice response = M6 m6 \<and> m6_success m6 = SUCCESS
         \<and> rooms_of (client_id request) (tab d') = []"
proof -
  let ?u = "client_id request"
  obtain d2 where d2: "tab d2 Clients_rooms = tab (db s) Clients_rooms"
    and run: "admin_select ftok E request s = andThen (db_op (db_remove_user_in_room E ?u)) (\<lambda>_.
        andThen (update_users ftok E room) (\<lambda>_.
        andThen (db_op (db_remove_user_in_room E ?u)) (\<lambda>_.
        andThen (select_response ((new_response request)\<lparr>client_id := ?u\<rparr>) SUCCESS
          ''Succesfully made seat reservation'') (\<lambda>r. ret (Some r))))) (s\<lparr>db := d2\<rparr>)"
    using admin_select_booked [OF assms(1-9)] by blast
  obtain res3 d3 where d3: "db_remove_user_in_room E ?u d2 = (res3, d3)" by (metis prod.exhaust)
  note tab3 = reliable_engine.leave_room [OF assms(1) d3]
  have "users_in room (tab d3) = []"
    using alone by (auto simp: users_in_def tab3 d2 filter_empty_conv matches_def)
  then obtain d4 where d4: "update_users ftok E room (s\<lparr>db := d3\<rparr>) = (Ret (), s\<lparr>db := d4\<rparr>)" "tab d4 = tab d3"
    using update_users_nobody [OF assms(1), of room "s\<lparr>db := d3\<rparr>" ftok] by auto
  obtain res5 d5 where d5: "db_remove_user_in_room E ?u d4 = (res5, d5)" by (metis prod.exhaust)
  have "rooms_of ?u (tab d5) = []"
    by (simp add: rooms_of_def reliable_engine.leave_room [OF assms(1) d5])
  moreover obtain r m6 where "select_response ((new_response request)\<lparr>client_id := ?u\<rparr>) SUCCESS
      ''Succesfully made seat reservation'' (s\<lparr>db := d5\<rparr>) = (Ret r, s\<lparr>db := d5\<rparr>)"
      "client_id r = ?u" "message_choice_number r = CHOICE_SEAT_SELECT_RESPONSE" "msg_choice r = M6 m6" "m6_success m6 = SUCCESS"
    using select_response_returns [of "''Succesfully made seat reservation''" "(new_response request)\<lparr>client_id := ?u\<rparr>" SUCCESS "s\<lparr>db := d5\<rparr>"]
    by auto
  ultimately show "\<exists>response m6 d'. admin_select ftok E request s = (Ret (Some response), s\<lparr>db := d'\<rparr>)
         \<and> message_choice_number response = CHOICE_SEAT_SELECT_RESPONSE \<and> client_id response = ?u
         \<and> msg_choice response = M6 m6 \<and> m6_success m6 = SUCCESS \<and> rooms_of ?u (tab d') = []"
    using d3 d4 d5 unfolding run by (simp add: db_op_run) (rule exI [of _ d5], simp)
qed

text \<open>Selecting a free seat with a positive number: it becomes the client's, unpaid, and no other seat changes
  hands, even when the handler fails afterwards, while it updates the other users.  When nobody else is in the room
  the client gets \<open>SUCCESS\<close> and has left the room.\<close>

theorem select_granted:
  assumes "reliable_engine E tab fk" and "db_ok (tab (db s))" and "\<not> fk (db s)"
    and "rooms_of (client_id request) (tab (db s)) = [Some room]" and "in_int32 room" and "room \<noteq> 0"
    and "n = as_m5 (msg_choice request)" and "0 < n" and "seat_map (tab (db s)) (room, n) = None"
  shows "seat_map (tab (db (snd (admin_select ftok E request s))))
      = (seat_map (tab (db s)))((room, n) \<mapsto> (client_id request, 0))
    \<and> (set (users_in room (tab (db s))) \<subseteq> {Some (client_id request)} \<longrightarrow>
       (\<exists>response m6 s'. admin_select ftok E request s = (Ret (Some response), s')
         \<and> message_choice_number response = CHOICE_SEAT_SELECT_RESPONSE \<and> client_id response = client_id request
         \<and> msg_choice response = M6 m6 \<and> m6_success m6 = SUCCESS
         \<and> rooms_of (client_id request) (tab (db s')) = []))"
  using admin_select_books [OF assms] admin_select_alone [OF assms] by fastforce

theorem select_granted_witness:
  "\<exists>response m6 s'. admin_select small_ftok ref_engine (select_example 2) room_host = (Ret (Some response), s')
     \<and> msg_choice response = M6 m6 \<and> m6_success m6 = SUCCESS
     \<and> seat_map (rd_tab (db s')) (1, 2) = Some (8, 0)"
proof -
  have d: "db room_host = room_db" by (simp add: room_host_def)
  have "rooms_of (client_id (select_example 2)) (rd_tab (db room_host)) = [Some 1]"
    "set (users_in 1 (rd_tab (db room_host))) \<subseteq> {Some (client_id (select_example 2))}"
    by (simp_all add: d room_db_rooms)
  with select_granted [OF ref.reliable_engine_axioms, of room_host "select_example 2" 1 2 small_ftok]
  show ?thesis by (fastforce simp: d room_db_facts)
qed

text \<open>A client who is in no room cannot be answered: \<open>db_select_user_current_room\<close> takes the \<open>front()\<close> of an
  empty vector, which is undefined, and the test for 0 that the caller makes comes too late.\<close>

theorem select_outside_rooms_undefined:
  assumes "reliable_engine E tab fk" and "rooms_of (client_id request) (tab (db s)) = []"
  shows "fst (admin_select ftok E request s) = Undef"
proof -
  obtain front d1 where d1: "db_select_user_current_room E (client_id request) (db s) = (front, d1)"
    by (metis prod.exhaust)
  with reliable_engine.current_room(3) [OF assms(1) d1 assms(2)] show ?thesis
    by (simp add: admin_select_def Let_def db_op_run)
qed

theorem select_outside_rooms_undefined_witness:
  "fst (admin_select small_ftok ref_engine (select_example 2) small_host) = Undef"
proof -
  have "rooms_of 8 (rd_tab small_db) = []" by code_simp
  then show ?thesis
    by (intro select_outside_rooms_undefined [OF ref.reliable_engine_axioms]) (simp add: small_host_def)
qed


section \<open>New users, restarts, updates\<close>

text \<open>Registering a client: the response carries a new identifier, above those of all users there were, which is
  in \<open>Users\<close> afterwards, together with all the others, and nobody's seat is touched.\<close>

theorem connect_request:
  assumes "reliable_engine E tab fk" and "db_ok (tab (db s))"
  shows "\<exists>response s' i. admin_connect E request s = (Ret (Some response), s')
     \<and> message_choice_number response = CHOICE_CONNECTION_ACCEPTED \<and> client_id response = client_id request
     \<and> as_m1 (msg_choice response) = int32 i \<and> 0 < i
     \<and> (\<forall>r \<in> set (tab (db s) Users). \<forall>j. r Col_id = Some j \<longrightarrow> j < i)
     \<and> tab (db s') Users = tab (db s) Users @ [[Col_id \<mapsto> i]]
     \<and> seat_map (tab (db s')) = seat_map (tab (db s))"
proof -
  have engine: "sqlite_engine E tab fk" using assms(1) by (rule reliable_engine.axioms(1))
  obtain rc rows d1 where e: "sq_exec E (InsertInto Users [(Col_id, None)]) (db s) = ((rc, rows), d1)"
    by (metis prod.exhaust)
  have rc: "rc = SQLITE_OK" using reliable_engine.exec_new_row [OF assms(1) e] by simp
  let ?i = "sq_last_insert_rowid E d1"
  have i: "0 < ?i" "\<forall>r \<in> set (tab (db s) Users). \<forall>j. r Col_id = Some j \<longrightarrow> j < ?i"
    using sqlite_engine.exec_rowid [OF engine e rc] by blast+
  have users: "tab d1 Users = tab (db s) Users @ [[Col_id \<mapsto> ?i]]"
    using sqlite_engine.exec_ok [OF engine e rc] by (simp add: new_row_def)
  have insert: "db_insert_user E (db s) = (int32 ?i, d1)" by (simp add: db_insert_user_def execute_query_def e)
  let ?q = "InsertInto Active_clients [(Col_user_id, Some (int32 ?i))]"
  obtain rc2 rows2 d2 where e2: "sq_exec E ?q d1 = ((rc2, rows2), d2)" by (metis prod.exhaust)
  then have login: "db_login_user E (int32 ?i) d1 = (of_bool (rc2 = SQLITE_OK), d2)"
    by (simp add: db_login_user_def query_succeeds_run)
  have users2: "tab d2 Users = tab d1 Users"
    using sqlite_engine.exec_ok [OF engine e2] sqlite_engine.exec_failed [OF engine e2]
    by (cases "rc2 = SQLITE_OK") simp_all
  have "d2 = db_run E [Call_insert_user, Call_login (int32 ?i)] (db s)"
    by (simp add: db_run_def insert login)
  then have "seat_map (tab d2) = seat_map (tab (db s))"
    using run_neutral [OF engine assms(2), of "[Call_insert_user, Call_login (int32 ?i)]"] by simp
  then show ?thesis
    using insert login i users users2 by (simp add: admin_connect_def db_op_run as_m1_def) metis
qed

theorem connect_request_witness:
  "\<exists>response s'. admin_connect ref_engine zero_message small_host = (Ret (Some response), s')
     \<and> length (rd_tab (db s') Users) = Suc (length (rd_tab (db small_host) Users))"
proof -
  have "db_ok (rd_tab (db small_host))" by (simp add: small_host_def db_ok_small)
  from connect_request [OF ref.reliable_engine_axioms this, of zero_message] show ?thesis by auto
qed

text \<open>C39. A restart of the administrator, on a reliable engine and with well-formed tables, keeps the paid reservations,
  and only them, and leaves nobody in a room.\<close>

theorem restart_keeps_paid:
  fixes s :: "('c, 'a) cinema_host"
  assumes "reliable_engine E tab fk" and "db_ok (tab (db s))"
  shows "seat_map (tab (db (snd (admin_daemon_start ftok E s)))) = drop_all_unpaid (seat_map (tab (db s)))
     \<and> tab (db (snd (admin_daemon_start ftok E s))) Clients_rooms = []"
proof -
  have engine: "sqlite_engine E tab fk" using assms(1) by (rule reliable_engine.axioms(1))
  let ?d1 = "snd (db_initialize E (db s))"
  let ?d2 = "snd (db_remove_unpaid_reservations E ?d1)"
  obtain rc rows d3 where e: "sq_exec E (DeleteFrom Clients_rooms []) ?d2 = ((rc, rows), d3)" by (metis prod.exhaust)
  then have d3: "db_remove_users_in_room E ?d2 = (of_bool (rc = SQLITE_OK), d3)"
    by (simp add: db_remove_users_in_room_def query_succeeds_run)
  have "rc = SQLITE_OK" using reliable_engine.exec_reliable [OF assms(1) e] by simp
  from sqlite_engine.exec_ok [OF engine e this]
  have tab3: "tab d3 = (tab ?d2)(Clients_rooms := [])" by (simp add: matches_def)
  let ?rest = "andThen (create_commqueue ftok QUEUE_CINEMA_ADMIN_FILE QUEUE_CINEMA_ADMIN_CHAR) (\<lambda>ch.
      ret (ch\<lparr>orientation := Some COMMQUEUE_AS_SERVER\<rparr>))"
  have "keeps (\<lambda>s :: ('c, 'a) cinema_host. db s = d3) ?rest" by (intro keeps_intros keeps_db)
  then have "db (snd (?rest (s\<lparr>db := d3\<rparr>))) = d3" by (rule keepsD) simp
  then have "db (snd (admin_daemon_start ftok E s)) = d3"
    using d3 by (simp add: admin_daemon_start_def clean_db_tables_def db_op_pair)
  moreover have "seat_map (tab d3) = drop_all_unpaid (seat_map (tab (db s)))"
  proof -
    have ok: "db_ok (tab ?d1)" and same: "seat_map (tab ?d1) = seat_map (tab (db s))"
      using sqlite_engine.db_initialize_tables(1) [OF engine, of "db s"] assms(2) by simp_all
    from reliable_engine.call_reliable [OF assms(1) ok, of Call_remove_unpaid]
    have "seat_map (tab ?d2) = drop_all_unpaid (seat_map (tab (db s)))" by (simp add: same)
    then show ?thesis by (simp add: tab3 seat_map_def)
  qed
  ultimately show ?thesis by (simp add: tab3)
qed

theorem restart_keeps_paid_witness:
  "seat_map (rd_tab (db (snd (admin_daemon_start small_ftok ref_engine small_host)))) (1, 1) = None"
proof -
  have "db_ok (rd_tab (db small_host))" by (simp add: small_host_def db_ok_small)
  from restart_keeps_paid [OF ref.reliable_engine_axioms this, of small_ftok] show ?thesis
    by (simp add: small_host_def seat_map_small drop_all_unpaid_def)
qed


text \<open>The update a user of the room is sent.\<close>

definition seats_update_message :: "int \<Rightarrow> m4_seats \<Rightarrow> q_message" where
  "seats_update_message userid m4 = zero_message\<lparr>message_type := userid, client_id := userid,
     message_choice_number := CHOICE_SEATS_RESPONSE, msg_choice := M4 m4\<rparr>"

lemma update_user_run:
  assumes "fill_seats seats st zero_m4 = Some m4" and "orientation ch = Some COMMQUEUE_AS_SERVER"
    and "0 < u" and "msg_queues s (id_firstqueue ch) = Some q"
  shows "update_user ch seats st u s
    = (Ret (), set_queue (id_firstqueue ch) (q_put u (seats_update_message u m4) q) s)"
proof -
  have z: "(as_m4 (msg_choice zero_message))\<lparr>m4_success := SUCCESS\<rparr> = zero_m4"
    by (simp add: zero_message_def zero_m4_def del: as_m4.simps)
  show ?thesis
    unfolding update_user_def Let_def z
    using assms send_message_run [of "ch\<lparr>cq_id := u\<rparr>" u s q]
    by (simp add: out_queue_def stamp_def seats_update_message_def zero_message_def)
qed

lemma update_all_run:
  assumes "fill_seats seats st zero_m4 = Some m4" and "orientation ch = Some COMMQUEUE_AS_SERVER"
    and "list_all (\<lambda>u. 0 < u) users" and "msg_queues s (id_firstqueue ch) = Some q"
  shows "\<exists>q'. for_each users (update_user ch seats st) s = (Ret (), set_queue (id_firstqueue ch) q' s)
    \<and> (\<forall>t. q_inbox q' t = q_inbox q t @ map (\<lambda>u. seats_update_message u m4) (filter (\<lambda>u. u = t) users))"
  using assms(3,4)
proof (induction users arbitrary: s q)
  case Nil
  then show ?case by (intro exI [of _ q]) (simp add: set_queue_same)
next
  case (Cons u users)
  let ?q1 = "q_put u (seats_update_message u m4) q"
  let ?s1 = "set_queue (id_firstqueue ch) ?q1 s"
  have "update_user ch seats st u s = (Ret (), ?s1)"
    using update_user_run [OF assms(1,2) _ Cons.prems(2), of u] Cons.prems(1) by simp
  moreover obtain q' where "for_each users (update_user ch seats st) ?s1 = (Ret (), set_queue (id_firstqueue ch) q' ?s1)"
    "\<forall>t. q_inbox q' t = q_inbox ?q1 t @ map (\<lambda>u. seats_update_message u m4) (filter (\<lambda>u. u = t) users)"
    using Cons.IH [of ?s1 ?q1] Cons.prems(1) by auto
  ultimately show ?case by (intro exI [of _ q']) (auto simp: sysv.inbox_put)
qed

lemma filter_eq_distinct: "distinct xs \<Longrightarrow> filter (\<lambda>u. u = t) xs = (if t \<in> set xs then [t] else [])"
  by (induction xs) auto



end
