(* ===== verification/Cinema.thy ===== *)
theory Cinema
  imports Admin
begin

text \<open>
  src/cinema/cinema.cpp and src/cinema/cinema_handler.cpp: the process that takes the clients'
  connections and forks a listener for each, with its inactivity timer.

  \<^item> \<open>env\<close> is what the other processes do to the host while a call waits.  The clock
    (\<open>time(nullptr)\<close>) is an argument: one reading per turn of a loop.
  \<^item> A forked child is a definition of its own, and an endless loop is given by one turn and by
    its run over a list of clock readings.
  \<^item> \<open>update_timestamp\<close> is declared \<open>int\<close> and returns nothing; its result is never used, and
    it is modelled as the procedure it is meant to be.
\<close>

section \<open>Constants\<close>

definition TIMER_CLOSE :: int where "TIMER_CLOSE = - 134"
definition MAX_TIME_TO_WAIT_SECONDS :: int where "MAX_TIME_TO_WAIT_SECONDS = 100"
definition CONNECTION_TIMEDOUT :: int where "CONNECTION_TIMEDOUT = - 1"
definition CINEMA_LISTENER_EXIT :: int where "CINEMA_LISTENER_EXIT = 1"

lemmas timer_constants [simp] = TIMER_CLOSE_def MAX_TIME_TO_WAIT_SECONDS_def CONNECTION_TIMEDOUT_def
  CINEMA_LISTENER_EXIT_def

definition SHM_CINEMA_TIMER_FILE :: string where "SHM_CINEMA_TIMER_FILE = ''/bin/bash''"
definition SHM_CINEMA_TIMER_CHAR :: char where "SHM_CINEMA_TIMER_CHAR = CHR ''t''"
definition SHM_CINEMA_TIMER_SIZE :: nat where "SHM_CINEMA_TIMER_SIZE = SIZEOF_int * nat MAX_CLIENTS"
definition MUTEX_CINEMA_FILE :: string where "MUTEX_CINEMA_FILE = ''/bin/bash''"
definition MUTEX_CINEMA_CHAR :: char where "MUTEX_CINEMA_CHAR = CHR ''x''"

record Cinema =
  client_comm :: commqueue
  admin_comm :: commqueue
  cinema_net_info :: network_comm
  cinema_client_id :: int          \<comment> \<open>\<open>Cinema.client_id\<close>\<close>

section \<open>cinema\_handler.cpp\<close>

text \<open>The response and the new value of \<open>*exit\<close>.\<close>

definition cinema_handle ::
  "('a ipc_scheme \<Rightarrow> 'a ipc_scheme) \<Rightarrow> commqueue \<Rightarrow> q_message \<Rightarrow> int \<Rightarrow> (q_message \<times> int, 'a ipc_scheme) prog" where
  "cinema_handle env admin_comunication message exit =
     (let choice = message_choice_number message in
      if choice \<in> {CHOICE_SEATS_REQUEST, CHOICE_ROOMS_REQUEST, CHOICE_PAY_RESERVATION_REQUEST, CHOICE_SEAT_SELECT_REQUEST}
      then andThen (send_message admin_comunication message) (\<lambda>_.
           andThen (receive_message env (admin_comunication\<lparr>cq_id := client_id message\<rparr>)) (\<lambda>response.
             ret (response, exit)))
      else if choice = CHOICE_EXIT
      then andThen (send_message admin_comunication message) (\<lambda>_.
             ret (zero_message\<lparr>message_choice_number := CHOICE_EXIT\<rparr>, CINEMA_LISTENER_EXIT))
      else ret (zero_message\<lparr>message_choice_number := CHOICE_INVALID_REQUEST\<rparr>, exit))"

section \<open>Taking a client\<close>

definition send_confirmation :: "Cinema \<Rightarrow> (unit, 'a ipc_scheme) prog" where
  "send_confirmation cinema = send_message (client_comm cinema)
     (zero_message\<lparr>message_choice_number := CHOICE_CONNECTION_ACCEPTED, msg_choice := M1 (cinema_client_id cinema)\<rparr>)"

definition cinema_take_client :: "('a ipc_scheme \<Rightarrow> 'a ipc_scheme) \<Rightarrow> Cinema \<Rightarrow> (int, 'a ipc_scheme) prog" where
  "cinema_take_client env cinema =
     andThen (receive_message_type env (client_comm cinema) TYPE_CONNECTION_CINEMA_REQUEST) (\<lambda>message.
       let client = as_m1 (msg_choice message);
           cinema = cinema\<lparr>client_comm := (client_comm cinema)\<lparr>cq_id := client\<rparr>\<rparr>;
           register_client = zero_message\<lparr>client_id := client, message_choice_number := CHOICE_CONNECTION_ACCEPTED\<rparr>
       in andThen (send_message (admin_comm cinema) register_client) (\<lambda>_.
         let cinema = cinema\<lparr>admin_comm := (admin_comm cinema)\<lparr>cq_id := client\<rparr>\<rparr> in
         andThen (receive_message env (admin_comm cinema)) (\<lambda>register_response.
           if message_choice_number register_response \<noteq> CHOICE_CONNECTION_ACCEPTED then throw_util
           else let cinema = cinema\<lparr>cinema_client_id := as_m1 (msg_choice register_response)\<rparr> in
             andThen (send_confirmation cinema) (\<lambda>_. ret (cinema_client_id cinema)))))"

section \<open>The timers\<close>

text \<open>The ints a pointer into shared memory leads to.\<close>

definition shm_read_int :: "int \<Rightarrow> int \<Rightarrow> (int, 'a ipc_scheme) prog" where
  "shm_read_int ptr i = (\<lambda>s. case shm_segs s ptr of
       None \<Rightarrow> undef_behaviour s
     | Some g \<Rightarrow> if 0 \<le> i \<and> i < int (length (seg_ints g)) then (Ret (seg_ints g ! nat i), s) else undef_behaviour s)"

definition shm_write_int :: "int \<Rightarrow> int \<Rightarrow> int \<Rightarrow> (unit, 'a ipc_scheme) prog" where
  "shm_write_int ptr i v = (\<lambda>s. case shm_segs s ptr of
       None \<Rightarrow> undef_behaviour s
     | Some g \<Rightarrow> if 0 \<le> i \<and> i < int (length (seg_ints g))
         then (Ret (), s\<lparr>shm_segs := (shm_segs s)(ptr \<mapsto> g\<lparr>seg_ints := (seg_ints g)[nat i := v]\<rparr>)\<rparr>)
         else undef_behaviour s)"

definition update_timestamp ::
  "('a ipc_scheme \<Rightarrow> 'a ipc_scheme) \<Rightarrow> int \<Rightarrow> int \<Rightarrow> int \<Rightarrow> int \<Rightarrow> (unit, 'a ipc_scheme) prog" where
  "update_timestamp env timer client_position mutex_id new_value =
     andThen (semaphore_wait env mutex_id) (\<lambda>_.
     andThen (shm_write_int timer client_position new_value) (\<lambda>_.
       semaphore_signal env mutex_id))"

definition get_timestamp ::
  "('a ipc_scheme \<Rightarrow> 'a ipc_scheme) \<Rightarrow> int \<Rightarrow> int \<Rightarrow> int \<Rightarrow> (int, 'a ipc_scheme) prog" where
  "get_timestamp env timer client_position mutex_id =
     andThen (semaphore_wait env mutex_id) (\<lambda>_.
     andThen (shm_read_int timer client_position) (\<lambda>timestamp.
     andThen (semaphore_signal env mutex_id) (\<lambda>_. ret timestamp)))"

text \<open>The slot of a client, \<open>id % MAX_CLIENTS\<close> as C computes it.\<close>

definition client_slot :: "int \<Rightarrow> int" where
  "client_slot c = c smod MAX_CLIENTS"

definition start_timer ::
  "ftok \<Rightarrow> ('a ipc_scheme \<Rightarrow> 'a ipc_scheme) \<Rightarrow> commqueue \<Rightarrow> int \<Rightarrow> int \<Rightarrow> (int, 'a ipc_scheme) prog" where
  "start_timer ftok env communication mutex_id now =
     andThen (shm_get_data ftok SHM_CINEMA_TIMER_FILE SHM_CINEMA_TIMER_CHAR SHM_CINEMA_TIMER_SIZE) (\<lambda>timer.
     andThen (update_timestamp env timer (client_slot (cq_id communication)) mutex_id now) (\<lambda>_.
       ret timer))"

text \<open>One turn of the timer's child, after the \<open>sleep\<close>: whether it stops.\<close>

definition timer_turn ::
  "('a ipc_scheme \<Rightarrow> 'a ipc_scheme) \<Rightarrow> int \<Rightarrow> commqueue \<Rightarrow> int \<Rightarrow> int \<Rightarrow> (bool, 'a ipc_scheme) prog" where
  "timer_turn env timer communication mutex_id now =
     (let client_position = client_slot (cq_id communication);
          communication = communication\<lparr>orientation := Some COMMQUEUE_AS_CLIENT\<rparr> in
      andThen (get_timestamp env timer client_position mutex_id) (\<lambda>last_time_stamp.
        let timestamp = now in
        if timestamp = TIMER_CLOSE then ret True
        else let difference = timestamp - last_time_stamp in
          if difference > MAX_TIME_TO_WAIT_SECONDS
          then andThen (send_message communication (zero_message\<lparr>message_choice_number := CHOICE_EXIT\<rparr>)) (\<lambda>_.
               andThen (update_timestamp env timer client_position mutex_id CONNECTION_TIMEDOUT) (\<lambda>_. ret True))
          else ret False))"

text \<open>The child over the readings of its clock: whether it has ended.\<close>

primrec timer_child ::
  "int list \<Rightarrow> ('a ipc_scheme \<Rightarrow> 'a ipc_scheme) \<Rightarrow> int \<Rightarrow> commqueue \<Rightarrow> int \<Rightarrow> (bool, 'a ipc_scheme) prog" where
  "timer_child [] env timer communication mutex_id = ret False"
| "timer_child (now # nows) env timer communication mutex_id =
     andThen (timer_turn env timer communication mutex_id now) (\<lambda>stop.
       if stop then andThen (shm_dettach timer) (\<lambda>_. ret True)
       else timer_child nows env timer communication mutex_id)"

section \<open>The listener of a client\<close>

text \<open>One turn of its loop: the value of \<open>exit\<close> after it.\<close>

definition listen_turn ::
  "('a ipc_scheme \<Rightarrow> 'a ipc_scheme) \<Rightarrow> Cinema \<Rightarrow> int \<Rightarrow> int \<Rightarrow> int \<Rightarrow> (int, 'a ipc_scheme) prog" where
  "listen_turn env cinema timer mutex now =
     (let clien_position = client_slot (cinema_client_id cinema) in
      andThen (receive_message env (client_comm cinema)) (\<lambda>request.
      andThen (get_timestamp env timer clien_position mutex) (\<lambda>stamp_now.
      andThen (if stamp_now \<noteq> CONNECTION_TIMEDOUT then update_timestamp env timer clien_position mutex now else ret ()) (\<lambda>_.
      andThen (cinema_handle env (admin_comm cinema) (request\<lparr>client_id := cinema_client_id cinema\<rparr>) 0) (\<lambda>(response, exit).
      andThen (send_message (client_comm cinema) response) (\<lambda>_. ret exit))))))"

text \<open>The end of the listener, when the loop is left (the timer's child is killed first).\<close>

definition listen_end :: "('a ipc_scheme \<Rightarrow> 'a ipc_scheme) \<Rightarrow> Cinema \<Rightarrow> int \<Rightarrow> int \<Rightarrow> (unit, 'a ipc_scheme) prog" where
  "listen_end env cinema timer mutex =
     (let clien_position = client_slot (cinema_client_id cinema) in
      andThen (get_timestamp env timer clien_position mutex) (\<lambda>stamp_now.
      andThen (if stamp_now = CONNECTION_TIMEDOUT
               then andThen (receive_message env (client_comm cinema)) (\<lambda>_. ret ())
               else update_timestamp env timer clien_position mutex TIMER_CLOSE) (\<lambda>_.
        shm_dettach timer)))"

primrec listen_loop ::
  "int list \<Rightarrow> ('a ipc_scheme \<Rightarrow> 'a ipc_scheme) \<Rightarrow> Cinema \<Rightarrow> int \<Rightarrow> int \<Rightarrow> (bool, 'a ipc_scheme) prog" where
  "listen_loop [] env cinema timer mutex = ret False"
| "listen_loop (now # nows) env cinema timer mutex =
     andThen (listen_turn env cinema timer mutex now) (\<lambda>exit.
       if exit = 0 then listen_loop nows env cinema timer mutex
       else andThen (listen_end env cinema timer mutex) (\<lambda>_. ret True))"

text \<open>\<open>cinema_listen_client\<close>, started at \<open>now\<close>: whether it has ended after a turn per reading.\<close>

definition cinema_listen_client ::
  "ftok \<Rightarrow> ('a ipc_scheme \<Rightarrow> 'a ipc_scheme) \<Rightarrow> Cinema \<Rightarrow> int \<Rightarrow> int list \<Rightarrow> (bool, 'a ipc_scheme) prog" where
  "cinema_listen_client ftok env cinema now nows =
     (let cinema = cinema\<lparr>client_comm := (client_comm cinema)\<lparr>cq_id := cinema_client_id cinema\<rparr>\<rparr> in
      andThen (semaphore_get ftok MUTEX_CINEMA_FILE MUTEX_CINEMA_CHAR) (\<lambda>mutex_shared_memory.
      andThen (start_timer ftok env (client_comm cinema) mutex_shared_memory now) (\<lambda>timer.
        listen_loop nows env cinema timer mutex_shared_memory)))"

section \<open>The network\<close>

text \<open>The child of \<open>network_listen\<close> for one connection: a request in, its answer out.\<close>

definition cinema_network_turn ::
  "(('k, 'b) host_scheme \<Rightarrow> ('k, 'b) host_scheme) \<Rightarrow> 'k sock_api \<Rightarrow> byte list \<Rightarrow> network_comm \<Rightarrow> Cinema \<Rightarrow>
     (unit, ('k, 'b) host_scheme) prog" where
  "cinema_network_turn env K junk accept_fd cinema =
     (let comm = (client_comm cinema)\<lparr>orientation := Some COMMQUEUE_AS_CLIENT, cq_id := - 1\<rparr> in
      andThen (packet_op (receive_packet K (nc_sock_fd accept_fd) zero_message)) (\<lambda>msg_to_receive.
      andThen (send_message comm msg_to_receive) (\<lambda>_.
        let type = (if message_type msg_to_receive = TYPE_CONNECTION_CINEMA_REQUEST
                    then as_m1 (msg_choice msg_to_receive) else message_type msg_to_receive) in
        andThen (receive_message_type env comm type) (\<lambda>msg_to_send.
        andThen (packet_op (send_packet K junk (nc_sock_fd accept_fd) msg_to_send)) (\<lambda>_. ret ())))))"

definition network_listen_accept :: "'k sock_api \<Rightarrow> Cinema \<Rightarrow> (network_comm, ('k, 'b) host_scheme) prog" where
  "network_listen_accept K cinema = net_op (network_accept_connection K (cinema_net_info cinema))"

text \<open>\<open>cinema_start\<close> up to its loop, and one turn of it: the client taken, whose listener is forked.\<close>

definition cinema_setup :: "ftok \<Rightarrow> 'k sock_api \<Rightarrow> (Cinema, ('k, 'b) host_scheme) prog" where
  "cinema_setup ftok K =
     andThen (create_commqueue ftok QUEUE_COMMUNICATION_FILE QUEUE_COMMUNICATION_CHAR) (\<lambda>cc.
     andThen (create_commqueue ftok QUEUE_CINEMA_ADMIN_FILE QUEUE_CINEMA_ADMIN_CHAR) (\<lambda>ac.
     andThen (net_op (network_newconn K CINEMA_IP_ADDR CINEMA_PORT)) (\<lambda>net_info.
     andThen (net_op (network_prepare_accept K net_info)) (\<lambda>_.
       ret \<lparr>client_comm = cc\<lparr>orientation := Some COMMQUEUE_AS_SERVER\<rparr>,
            admin_comm = ac\<lparr>orientation := Some COMMQUEUE_AS_CLIENT, cq_id := ADMIN_REQUEST\<rparr>,
            cinema_net_info = net_info, cinema_client_id = 0\<rparr>))))"

definition cinema_start_turn ::
  "ftok \<Rightarrow> ('a ipc_scheme \<Rightarrow> 'a ipc_scheme) \<Rightarrow> Cinema \<Rightarrow> int \<Rightarrow> int list \<Rightarrow> (unit, 'a ipc_scheme) prog" where
  "cinema_start_turn ftok env cinema now nows =
     andThen (cinema_take_client env cinema) (\<lambda>client.
       fork_child (cinema_listen_client ftok env (cinema\<lparr>cinema_client_id := client\<rparr>) now nows))"


section \<open>Reading and writing a timer\<close>

definition set_sem :: "int \<Rightarrow> int \<Rightarrow> 'a ipc_scheme \<Rightarrow> 'a ipc_scheme" where
  "set_sem i v s = s\<lparr>sem_vals := (sem_vals s)(i \<mapsto> v)\<rparr>"

definition set_slot :: "int \<Rightarrow> int \<Rightarrow> int \<Rightarrow> 'a ipc_scheme \<Rightarrow> 'a ipc_scheme" where
  "set_slot ptr i v s = s\<lparr>shm_segs := (shm_segs s)(ptr \<mapsto>
     (the (shm_segs s ptr))\<lparr>seg_ints := (seg_ints (the (shm_segs s ptr)))[nat i := v]\<rparr>)\<rparr>"

lemma sem_vals_set_sem [simp]: "sem_vals (set_sem i v s) j = (if j = i then Some v else sem_vals s j)"
  by (simp add: set_sem_def)

lemma set_sem_other [simp]:
  "shm_segs (set_sem i v s) = shm_segs s" "msg_queues (set_sem i v s) = msg_queues s"
  by (simp_all add: set_sem_def)

lemma set_slot_other [simp]:
  "sem_vals (set_slot p i v s) = sem_vals s" "msg_queues (set_slot p i v s) = msg_queues s"
  by (simp_all add: set_slot_def)

lemma shm_segs_set_slot [simp]:
  "shm_segs (set_slot p i v s) j = (if j = p then Some ((the (shm_segs s p))
     \<lparr>seg_ints := (seg_ints (the (shm_segs s p)))[nat i := v]\<rparr>) else shm_segs s j)"
  by (simp add: set_slot_def)

lemma shm_segs_set_queue [simp]: "shm_segs (set_queue i q s) = shm_segs s"
  by (simp add: set_queue_def)

lemma set_sem_set_sem [simp]: "set_sem i w (set_sem i v s) = set_sem i w s"
  by (simp add: set_sem_def del: fun_upd_apply)

lemma set_sem_same: "sem_vals s i = Some v \<Longrightarrow> set_sem i v s = s"
  by (simp add: set_sem_def fun_upd_idem del: fun_upd_apply)

lemma set_sem_set_slot: "set_sem m w (set_slot p i v s) = set_slot p i v (set_sem m w s)"
  by (simp add: set_sem_def set_slot_def del: fun_upd_apply)

lemma int16_one: "int16 1 = 1" "int16 (- 1) = - 1"
  by (simp_all add: int16_def)

lemma semaphore_run:
  "sem_vals s m = Some 1 \<Longrightarrow> semaphore_wait env m s = (Ret (), set_sem m 0 s)"
  "sem_vals s m = Some 0 \<Longrightarrow> semaphore_signal env m s = (Ret (), set_sem m 1 s)"
  by (simp_all add: semaphore_wait_def semaphore_signal_def sem_op_def semop_operation Let_def int16_one set_sem_def
      del: fun_upd_apply)

text \<open>A slot of a segment of timers, and a free mutex.\<close>

definition timer_ready :: "int \<Rightarrow> int \<Rightarrow> int \<Rightarrow> 'a ipc_scheme \<Rightarrow> bool" where
  "timer_ready timer i mutex s \<longleftrightarrow> sem_vals s mutex = Some 1
     \<and> (\<exists>g. shm_segs s timer = Some g \<and> 0 \<le> i \<and> i < int (length (seg_ints g)))"

definition slot_value :: "int \<Rightarrow> int \<Rightarrow> 'a ipc_scheme \<Rightarrow> int" where
  "slot_value timer i s = seg_ints (the (shm_segs s timer)) ! nat i"

lemma get_timestamp_run:
  assumes "timer_ready timer i mutex s"
  shows "get_timestamp env timer i mutex s = (Ret (slot_value timer i s), s)"
proof -
  obtain g where g: "sem_vals s mutex = Some 1" "shm_segs s timer = Some g" "0 \<le> i" "i < int (length (seg_ints g))"
    using assms by (auto simp: timer_ready_def)
  then show ?thesis
    by (simp add: get_timestamp_def shm_read_int_def semaphore_run slot_value_def set_sem_same)
qed

lemma update_timestamp_run:
  assumes "timer_ready timer i mutex s"
  shows "update_timestamp env timer i mutex v s = (Ret (), set_slot timer i v s)"
proof -
  obtain g where g: "sem_vals s mutex = Some 1" "shm_segs s timer = Some g" "0 \<le> i" "i < int (length (seg_ints g))"
    using assms by (auto simp: timer_ready_def)
  have "shm_write_int timer i v (set_sem mutex 0 s) = (Ret (), set_slot timer i v (set_sem mutex 0 s))"
    using g by (simp add: shm_write_int_def set_slot_def set_sem_def)
  moreover have "sem_vals (set_slot timer i v (set_sem mutex 0 s)) mutex = Some 0" by simp
  ultimately show ?thesis
    using g by (simp add: update_timestamp_def semaphore_run set_sem_set_slot set_sem_same)
qed

lemma slot_value_set_slot [simp]:
  "timer_ready timer i mutex s \<Longrightarrow> slot_value timer i (set_slot timer i v s) = v"
  by (auto simp: timer_ready_def slot_value_def nat_less_iff)

lemma timer_ready_set [simp]:
  "timer_ready timer i mutex (set_slot timer j v s) \<longleftrightarrow>
     timer_ready timer i mutex s" if "shm_segs s timer \<noteq> None"
  using that by (auto simp: timer_ready_def)

lemma timer_ready_set_queue [simp]:
  "timer_ready timer i mutex (set_queue q c s) = timer_ready timer i mutex s"
  "slot_value timer i (set_queue q c s) = slot_value timer i s"
  by (simp_all add: timer_ready_def slot_value_def)

lemma client_slot_range: "0 \<le> c \<Longrightarrow> 0 \<le> client_slot c \<and> client_slot c < 100"
  by (simp add: client_slot_def signed_modulo_int_def sgn_if)

section \<open>The timer\<close>

lemma timer_turn_quiet:
  assumes "timer_ready timer (client_slot (cq_id comm)) mutex s" and "now \<noteq> TIMER_CLOSE"
    and "now - slot_value timer (client_slot (cq_id comm)) s \<le> MAX_TIME_TO_WAIT_SECONDS"
  shows "timer_turn env timer comm mutex now s = (Ret False, s)"
  using assms by (simp add: timer_turn_def Let_def get_timestamp_run)

lemma timer_turn_close:
  assumes "timer_ready timer (client_slot (cq_id comm)) mutex s" and "now \<noteq> TIMER_CLOSE"
    and "now - slot_value timer (client_slot (cq_id comm)) s > MAX_TIME_TO_WAIT_SECONDS"
    and "0 < cq_id comm" and "msg_queues s (id_secondqueue comm) = Some q"
  shows "timer_turn env timer comm mutex now s = (Ret True,
     set_slot timer (client_slot (cq_id comm)) CONNECTION_TIMEDOUT
       (set_queue (id_secondqueue comm) (q_put (cq_id comm)
         (zero_message\<lparr>message_choice_number := CHOICE_EXIT, message_type := cq_id comm\<rparr>) q) s))"
proof -
  let ?m = "zero_message\<lparr>message_choice_number := CHOICE_EXIT\<rparr>"
  let ?comm = "comm\<lparr>orientation := Some COMMQUEUE_AS_CLIENT\<rparr>"
  let ?s1 = "set_queue (id_secondqueue comm) (q_put (cq_id comm) (stamp (cq_id comm) ?m) q) s"
  have "send_message ?comm ?m s = (Ret (), ?s1)"
    using send_message_run [of ?comm "cq_id comm" s q ?m] assms(4,5) by (simp add: out_queue_def)
  moreover have "stamp (cq_id comm) ?m = ?m\<lparr>message_type := cq_id comm\<rparr>"
    by (simp add: stamp_def zero_message_def)
  moreover have "update_timestamp env timer (client_slot (cq_id comm)) mutex CONNECTION_TIMEDOUT ?s1
      = (Ret (), set_slot timer (client_slot (cq_id comm)) CONNECTION_TIMEDOUT ?s1)"
    by (rule update_timestamp_run) (simp add: assms(1))
  ultimately show ?thesis
    using assms(1-3) by (simp add: timer_turn_def Let_def get_timestamp_run)
qed

text \<open>C30. The inactivity timer: as long as the client was heard of within \<open>MAX_TIME_TO_WAIT_SECONDS\<close> at each of
  its readings the timer goes on and has changed nothing; at the first later reading it sends the cinema, as if it were
  the client, one exit message under his identifier, marks the slot \<open>CONNECTION_TIMEDOUT\<close> and ends, whatever readings
  follow.  (The time stamp of the client does not change meanwhile, and the mutex is free.)\<close>

theorem timer_closes_inactive_client:
  assumes "timer_ready timer (client_slot (cq_id comm)) mutex s" and "0 < cq_id comm"
    and "msg_queues s (id_secondqueue comm) = Some q"
    and "last_seen = slot_value timer (client_slot (cq_id comm)) s"
    and "list_all (\<lambda>now. 0 \<le> now \<and> now - last_seen \<le> MAX_TIME_TO_WAIT_SECONDS) quiet"
    and "0 \<le> now" and "now - last_seen > MAX_TIME_TO_WAIT_SECONDS"
    and "seg_nattch (the (shm_segs s timer)) \<noteq> 0"
  shows "timer_child quiet env timer comm mutex s = (Ret False, s)
     \<and> (\<exists>s' q'. timer_child (quiet @ now # later) env timer comm mutex s = (Ret True, s')
     \<and> slot_value timer (client_slot (cq_id comm)) s' = CONNECTION_TIMEDOUT
     \<and> sem_vals s' = sem_vals s \<and> msg_queues s' (id_secondqueue comm) = Some q'
     \<and> (\<forall>t. q_inbox q' t = q_inbox q t @ (if t = cq_id comm
          then [zero_message\<lparr>message_choice_number := CHOICE_EXIT, message_type := cq_id comm\<rparr>] else [])))"
  using assms(5)
proof (induction quiet)
  case Nil
  let ?i = "client_slot (cq_id comm)"
  let ?q1 = "q_put (cq_id comm) (zero_message\<lparr>message_choice_number := CHOICE_EXIT, message_type := cq_id comm\<rparr>) q"
  let ?s1 = "set_slot timer ?i CONNECTION_TIMEDOUT (set_queue (id_secondqueue comm) ?q1 s)"
  obtain g where g: "shm_segs s timer = Some g" "0 \<le> ?i" "?i < int (length (seg_ints g))"
    using assms(1) by (auto simp: timer_ready_def)
  have "now \<noteq> TIMER_CLOSE" using assms(6) by simp
  then have "timer_turn env timer comm mutex now s = (Ret True, ?s1)"
    using timer_turn_close [OF assms(1) _ _ assms(2,3)] assms(4,7) by simp
  then have run: "timer_child ([] @ now # later) env timer comm mutex s
      = andThen (shm_dettach timer) (\<lambda>_. ret True) ?s1" by simp
  obtain s' where s': "shm_dettach timer ?s1 = (Ret (), s')" "seg_ints (the (shm_segs s' timer)) = (seg_ints g)[nat ?i := CONNECTION_TIMEDOUT]"
    "sem_vals s' = sem_vals s" "msg_queues s' = msg_queues ?s1"
    using assms(8) g(1) by (auto simp: shm_dettach_def)
  have "slot_value timer ?i s' = CONNECTION_TIMEDOUT"
    using s'(2) g(2,3) by (simp add: slot_value_def nat_less_iff)
  then show ?case
    using run s' by (intro conjI exI [of _ s'] exI [of _ ?q1]) (simp_all add: sysv.inbox_put)
next
  case (Cons n quiet)
  then have "timer_turn env timer comm mutex n s = (Ret False, s)"
    using timer_turn_quiet [OF assms(1), of n env] assms(4) by simp
  then have "timer_child ((n # quiet) @ now # later) env timer comm mutex s
      = timer_child (quiet @ now # later) env timer comm mutex s"
    "timer_child (n # quiet) env timer comm mutex s = timer_child quiet env timer comm mutex s"
    by (simp_all add: andThen_def)
  with Cons show ?case by (simp only: list.pred_inject)
qed

definition timer_host :: ipc where
  "timer_host = empty_ipc\<lparr>msg_queues := [1 \<mapsto> [], 2 \<mapsto> []], sem_vals := [9 \<mapsto> 1],
     shm_segs := [8 \<mapsto> \<lparr>seg_size = 400, seg_nattch = 1, seg_ints = replicate 100 1000, seg_updates = []\<rparr>]\<rparr>"

definition client_7_channel :: commqueue where
  "client_7_channel = \<lparr>id_firstqueue = 1, id_secondqueue = 2, orientation = Some 0, cq_id = 7\<rparr>"

theorem timer_closes_inactive_client_witness:
  "timer_child [1002, 1050] (\<lambda>s. s) 8 client_7_channel 9 timer_host = (Ret False, timer_host)
     \<and> (\<exists>s' q'. timer_child [1002, 1050, 1102] (\<lambda>s. s) 8 client_7_channel 9 timer_host = (Ret True, s')
     \<and> msg_queues s' 2 = Some q' \<and> length (q_inbox q' 7) = 1)"
proof -
  have slot: "client_slot 7 = 7" by (simp add: client_slot_def signed_modulo_int_def)
  have "timer_ready 8 (client_slot (cq_id client_7_channel)) 9 timer_host"
    by (simp add: timer_ready_def timer_host_def client_7_channel_def slot)
  moreover have "slot_value 8 7 timer_host = 1000"
    by (simp add: slot_value_def timer_host_def)
  moreover have "msg_queues timer_host 2 = Some []" "seg_nattch (the (shm_segs timer_host 8)) \<noteq> 0"
    by (simp_all add: timer_host_def)
  ultimately obtain s' q' where quiet: "timer_child [1002, 1050] (\<lambda>s. s) 8 client_7_channel 9 timer_host = (Ret False, timer_host)"
    and r: "timer_child ([1002, 1050] @ 1102 # []) (\<lambda>s. s) 8 client_7_channel 9 timer_host = (Ret True, s')"
      "msg_queues s' (id_secondqueue client_7_channel) = Some q'"
    and q: "\<forall>t. q_inbox q' t = q_inbox [] t @ (if t = cq_id client_7_channel
          then [zero_message\<lparr>message_choice_number := CHOICE_EXIT, message_type := cq_id client_7_channel\<rparr>] else [])"
    using timer_closes_inactive_client [of 8 client_7_channel 9 timer_host "[]" 1000 "[1002, 1050]" 1102 "\<lambda>s. s" "[]"]
    by (auto simp: client_7_channel_def slot simp del: timer_child.simps)
  have "q_inbox [] 7 = ([] :: q_message list)" by (simp add: q_inbox_def)
  with q [rule_format, of 7] have "length (q_inbox q' 7) = 1" by (simp add: client_7_channel_def)
  with quiet r show ?thesis by (auto simp: client_7_channel_def simp del: timer_child.simps)
qed


section \<open>The cinema and the administrator\<close>

lemma take_first_append:
  "filter P q = [] \<Longrightarrow> P m \<Longrightarrow> take_first P (q @ [m]) = Some (m, q)"
  by (induction q) (auto split: if_splits)

text \<open>A queue without messages of a type gives back the one that was put there, and is as it was.\<close>

lemma q_get_put:
  assumes "0 < t" and "q_inbox q t = []"
  shows "q_get t (q_put t m q) = Some (m, q)"
  using assms take_first_append [of "\<lambda>x. fst x = t" q "(t, m)"]
  by (simp add: q_get_def q_put_def msgrcv_def q_inbox_def)

text \<open>The two ends of the channel between the cinema and the administrator.\<close>

definition channel_pair :: "commqueue \<Rightarrow> commqueue \<Rightarrow> bool" where
  "channel_pair client server \<longleftrightarrow> orientation client = Some COMMQUEUE_AS_CLIENT
     \<and> orientation server = Some COMMQUEUE_AS_SERVER
     \<and> id_firstqueue client = id_firstqueue server \<and> id_secondqueue client = id_secondqueue server
     \<and> id_firstqueue client \<noteq> id_secondqueue client"

text \<open>The administrator as the environment of a waiting cinema: it serves one request.\<close>

definition admin_serves ::
  "ftok \<Rightarrow> (('k, 'db) cinema_host \<Rightarrow> ('k, 'db) cinema_host) \<Rightarrow> 'db sqlite \<Rightarrow> commqueue \<Rightarrow>
     ('k, 'db) cinema_host \<Rightarrow> ('k, 'db) cinema_host" where
  "admin_serves ftok env E channel s = snd (admin_listen_requests ftok env E channel s)"

lemma request_run:
  assumes "channel_pair a adm" and "cq_id a = ADMIN_REQUEST" and "msg_queues s (id_secondqueue a) = Some q"
  shows "send_message a m s = (Ret (), set_queue (id_secondqueue a) (q_put ADMIN_REQUEST (stamp ADMIN_REQUEST m) q) s)"
  using send_message_run [of a ADMIN_REQUEST s q m] assms by (simp add: channel_pair_def out_queue_def)

text \<open>The administrator takes the request just put in its queue and runs the handler on the state before.\<close>

lemma admin_serves_run:
  assumes "channel_pair a adm" and "msg_queues s (id_secondqueue a) = Some q" and "q_inbox q ADMIN_REQUEST = []"
  shows "admin_serves ftok env E adm (set_queue (id_secondqueue a) (q_put ADMIN_REQUEST m q) s)
     = snd (admin_handle_request ftok E adm m s)"
proof -
  let ?s1 = "set_queue (id_secondqueue a) (q_put ADMIN_REQUEST m q) s"
  have "receive_message_type env adm ADMIN_REQUEST ?s1 = (Ret m, set_queue (id_secondqueue a) q ?s1)"
    using assms queue_receive_run [of ?s1 "id_secondqueue a" "q_put ADMIN_REQUEST m q" ADMIN_REQUEST m q env]
      q_get_put [OF _ assms(3), of m]
    by (simp add: receive_message_type_def channel_pair_def)
  then have "admin_listen_requests ftok env E adm ?s1
      = (Ret (), snd (andThen (admin_handle_request ftok E adm m) (\<lambda>_. exit_with 0 :: (unit, _) prog) s))"
    using set_queue_same [OF assms(2)] by (simp add: admin_listen_requests_def)
  moreover have "snd (andThen (admin_handle_request ftok E adm m) (\<lambda>_. exit_with 0 :: (unit, _) prog) s)
      = snd (admin_handle_request ftok E adm m s)"
    by (simp add: andThen_def split: prod.splits outcome.splits)
  ultimately show ?thesis by (simp add: admin_serves_def)
qed

text \<open>The whole exchange, seen from the waiting side.\<close>

lemma exchange_run:
  assumes "channel_pair a adm" and "cq_id a = ADMIN_REQUEST" and "0 < c" and "c \<noteq> - 1"
    and "msg_queues s (id_secondqueue a) = Some qreq" and "q_inbox qreq ADMIN_REQUEST = []"
    and "msg_queues s (id_firstqueue a) = Some qresp" and "q_inbox qresp c = []"
    and "admin_answer ftok E m s = (Ret (Some r), s1)" and "client_id m = c"
    and "msg_queues s1 (id_firstqueue a) = Some qresp"
  shows "receive_message (admin_serves ftok env E adm) (a\<lparr>cq_id := c\<rparr>)
       (set_queue (id_secondqueue a) (q_put ADMIN_REQUEST m qreq) s) = (Ret (stamp c r), s1)"
proof -
  let ?s0 = "set_queue (id_secondqueue a) (q_put ADMIN_REQUEST m qreq) s"
  let ?s2 = "set_queue (id_firstqueue a) (q_put c (stamp c r) qresp) s1"
  have "send_message (adm\<lparr>cq_id := c\<rparr>) r s1 = (Ret (), ?s2)"
    using send_message_run [of "adm\<lparr>cq_id := c\<rparr>" c s1 qresp r] assms(1,3,11) by (simp add: channel_pair_def out_queue_def)
  then have "admin_handle_request ftok E adm m s = (Ret (), ?s2)"
    using assms(9,10) by (simp add: admin_handle_request_def)
  then have serves: "admin_serves ftok env E adm ?s0 = ?s2"
    using admin_serves_run [OF assms(1,5,6)] by simp
  have none: "msgrcv c qresp = None"
    using assms(3,8) by (simp add: msgrcv_def q_inbox_def take_first_None)
  have "try_receive (id_firstqueue a) c ?s0 = (Blocked, ?s0)"
    using assms(1,7) none by (simp add: try_receive_def channel_pair_def)
  moreover have "try_receive (id_firstqueue a) c ?s2 = (Ret (stamp c r), s1)"
    using try_receive_run [of ?s2 "id_firstqueue a" "q_put c (stamp c r) qresp" c "stamp c r" qresp]
      q_get_put [OF assms(3,8)] set_queue_same [OF assms(11)] by simp
  ultimately show ?thesis
    using assms(1,4) serves
    by (simp add: receive_message_def receive_message_type_def queue_receive_def channel_pair_def Let_def)
qed

lemma relay_run:
  assumes "channel_pair a adm" and "cq_id a = ADMIN_REQUEST" and "0 < client_id message"
    and "msg_queues s (id_secondqueue a) = Some qreq" and "q_inbox qreq ADMIN_REQUEST = []"
    and "msg_queues s (id_firstqueue a) = Some qresp" and "q_inbox qresp (client_id message) = []"
    and "message_choice_number message \<in> {CHOICE_ROOMS_REQUEST, CHOICE_SEATS_REQUEST,
           CHOICE_SEAT_SELECT_REQUEST, CHOICE_PAY_RESERVATION_REQUEST}"
    and "admin_answer ftok E (stamp ADMIN_REQUEST message) s = (Ret (Some r), s1)"
    and "msg_queues s1 (id_firstqueue a) = Some qresp"
  shows "cinema_handle (admin_serves ftok env E adm) a message exit s = (Ret (stamp (client_id message) r, exit), s1)"
proof -
  have "client_id (stamp ADMIN_REQUEST message) = client_id message" by (simp add: stamp_def)
  from exchange_run [OF assms(1,2,3) _ assms(4-7,9) this assms(10), of env] assms(3,8)
    request_run [OF assms(1,2,4), of message]
  show ?thesis by (auto simp: cinema_handle_def Let_def)
qed

text \<open>C31. Relaying is a call: for a request about rooms, seats, a selection or a payment, putting it in the
  administrator's queue and waiting for the answer gives the listener the answer the administrator computes for the
  request, stamped with the client's identifier, and leaves everything as that computation leaves it.\<close>

theorem relayed_request_is_a_call:
  assumes "channel_pair a adm" and "cq_id a = ADMIN_REQUEST" and "0 < client_id message"
    and "msg_queues s (id_secondqueue a) = Some qreq" and "q_inbox qreq ADMIN_REQUEST = []"
    and "msg_queues s (id_firstqueue a) = Some qresp" and "q_inbox qresp (client_id message) = []"
    and "message_choice_number message \<in> {CHOICE_ROOMS_REQUEST, CHOICE_SEATS_REQUEST,
           CHOICE_SEAT_SELECT_REQUEST, CHOICE_PAY_RESERVATION_REQUEST}"
    and "admin_answer ftok E (stamp ADMIN_REQUEST message) s = (Ret (Some r), s1)"
    and "msg_queues s1 (id_firstqueue a) = Some qresp"
  shows "cinema_handle (admin_serves ftok env E adm) a message exit s = (Ret (stamp (client_id message) r, exit), s1)"
  by (rule relay_run [OF assms])

definition rooms_request_example :: q_message where
  "rooms_request_example = zero_message\<lparr>client_id := 7, message_choice_number := CHOICE_ROOMS_REQUEST\<rparr>"

theorem relayed_request_is_a_call_witness:
  "\<exists>r s1. cinema_handle (admin_serves small_ftok (\<lambda>s. s) ref_engine admin_channel)
      (admin_channel\<lparr>orientation := Some 1, cq_id := 1\<rparr>) rooms_request_example 0 small_host = (Ret (r, 0), s1)
     \<and> message_choice_number r = CHOICE_ROOMS_RESPONSE \<and> m2_count (as_m2 (msg_choice r)) = 2"
proof -
  let ?a = "admin_channel\<lparr>orientation := Some 1, cq_id := 1\<rparr>"
  have sel: "db_select_room ref_engine small_db = ([1, 2], small_db)"
    by (simp add: db_select_room_def query_rows_def execute_query_def ref_engine_def callback_foldl) (code_simp)
  let ?m = "stamp ADMIN_REQUEST rooms_request_example"
  obtain ids where ids: "std_copy [1, 2] (m2_ids zero_m2) = Some ids" by (simp add: std_copy_def zero_m2_def)
  let ?r = "(new_response ?m)\<lparr>message_choice_number := CHOICE_ROOMS_RESPONSE,
           msg_choice := M2 (zero_m2\<lparr>m2_count := 2, m2_ids := ids\<rparr>)\<rparr>"
  have db: "db small_host = small_db" "small_host\<lparr>db := small_db\<rparr> = small_host" by (simp_all add: small_host_def)
  have "admin_answer small_ftok ref_engine ?m small_host = (Ret (Some ?r), small_host)"
    using ids by (simp add: admin_answer_def admin_rooms_def db_op_run db sel stamp_def rooms_request_example_def
        zero_message_def int32_id)
  from relayed_request_is_a_call [OF _ _ _ _ _ _ _ _ this, of ?a admin_channel "[]" "[]" "\<lambda>s. s" 0]
  show ?thesis
    by (auto simp: channel_pair_def admin_channel_def rooms_request_example_def zero_message_def small_host_def
        q_inbox_def stamp_def)
qed


section \<open>A client comes and goes\<close>

definition connection_accepted :: "int \<Rightarrow> q_message" where
  "connection_accepted new_id = zero_message\<lparr>message_choice_number := CHOICE_CONNECTION_ACCEPTED, msg_choice := M1 new_id\<rparr>"

lemma stamp_other [simp]:
  "client_id (stamp t m) = client_id m" "message_choice_number (stamp t m) = message_choice_number m"
  "msg_choice (stamp t m) = msg_choice m"
  by (simp_all add: stamp_def)

text \<open>Taking a client: the listener takes one connection request, has the administrator register the client
  (with the token the request carries as return address) and confirms to that token, once, the identifier the
  administrator gave; it returns this identifier.\<close>

theorem client_taken:
  assumes "channel_pair (admin_comm cinema) adm" and "cq_id (admin_comm cinema) = ADMIN_REQUEST"
    and "orientation (client_comm cinema) = Some COMMQUEUE_AS_SERVER"
    and "msg_queues s (id_secondqueue (client_comm cinema)) = Some qc"
    and "q_get TYPE_CONNECTION_CINEMA_REQUEST qc = Some (request, qc')"
    and "token = as_m1 (msg_choice request)" and "0 < token"
    and "s0 = set_queue (id_secondqueue (client_comm cinema)) qc' s"
    and "msg_queues s0 (id_secondqueue (admin_comm cinema)) = Some qreq" and "q_inbox qreq ADMIN_REQUEST = []"
    and "msg_queues s0 (id_firstqueue (admin_comm cinema)) = Some qresp" and "q_inbox qresp token = []"
    and "admin_answer ftok E (stamp ADMIN_REQUEST
           (zero_message\<lparr>client_id := token, message_choice_number := CHOICE_CONNECTION_ACCEPTED\<rparr>)) s0 = (Ret (Some r), s1)"
    and "message_choice_number r = CHOICE_CONNECTION_ACCEPTED"
    and "msg_queues s1 (id_firstqueue (admin_comm cinema)) = Some qresp"
    and "msg_queues s1 (id_firstqueue (client_comm cinema)) = Some qr"
  shows "cinema_take_client (admin_serves ftok env E adm) cinema s = (Ret (as_m1 (msg_choice r)),
     set_queue (id_firstqueue (client_comm cinema))
       (q_put token (stamp token (connection_accepted (as_m1 (msg_choice r)))) qr) s1)"
proof -
  let ?a = "admin_comm cinema"
  let ?m = "zero_message\<lparr>client_id := token, message_choice_number := CHOICE_CONNECTION_ACCEPTED\<rparr>"
  let ?s2 = "set_queue (id_secondqueue ?a) (q_put ADMIN_REQUEST (stamp ADMIN_REQUEST ?m) qreq) s0"
  have take: "receive_message_type (admin_serves ftok env E adm) (client_comm cinema) TYPE_CONNECTION_CINEMA_REQUEST s
      = (Ret request, s0)"
    using assms(3,4,8) queue_receive_run [OF assms(4,5), of "admin_serves ftok env E adm"]
    by (simp add: receive_message_type_def)
  have send: "send_message ?a ?m s0 = (Ret (), ?s2)"
    by (rule request_run [OF assms(1,2,9)])
  have answer: "receive_message (admin_serves ftok env E adm) (?a\<lparr>cq_id := token\<rparr>) ?s2 = (Ret (stamp token r), s1)"
    by (rule exchange_run [OF assms(1,2,7) _ assms(9-13) _ assms(15)]) (use assms(7) in \<open>simp_all add: stamp_def\<close>)
  have confirm: "send_message ((client_comm cinema)\<lparr>cq_id := token\<rparr>) (connection_accepted i) s1 =
      (Ret (), set_queue (id_firstqueue (client_comm cinema)) (q_put token (stamp token (connection_accepted i)) qr) s1)" for i
    using send_message_run [of "(client_comm cinema)\<lparr>cq_id := token\<rparr>" token s1 qr] assms(3,7,16)
    by (simp add: out_queue_def)
  show ?thesis
    using take send answer confirm [of "as_m1 (msg_choice r)"] assms(6,14)
    by (simp add: cinema_take_client_def Let_def send_confirmation_def connection_accepted_def)
qed

lemma listen_turn_exit:
  assumes "orientation (client_comm cinema) = Some COMMQUEUE_AS_SERVER" and "cq_id (client_comm cinema) = c" and "0 < c"
    and "cinema_client_id cinema = c" and "id_firstqueue (client_comm cinema) \<noteq> id_secondqueue (client_comm cinema)"
    and "channel_pair (admin_comm cinema) adm" and "cq_id (admin_comm cinema) = ADMIN_REQUEST"
    and "id_secondqueue (admin_comm cinema) \<notin> {id_firstqueue (client_comm cinema), id_secondqueue (client_comm cinema)}"
    and "timer_ready timer (client_slot c) mutex s" and "slot_value timer (client_slot c) s \<noteq> CONNECTION_TIMEDOUT"
    and "msg_queues s (id_secondqueue (client_comm cinema)) = Some qc"
    and "q_get c qc = Some (request, qc')" and "message_choice_number request = CHOICE_EXIT"
    and "msg_queues s (id_firstqueue (client_comm cinema)) = Some qr"
    and "msg_queues s (id_secondqueue (admin_comm cinema)) = Some qa"
  shows "listen_turn env cinema timer mutex now s = (Ret CINEMA_LISTENER_EXIT,
     set_queue (id_firstqueue (client_comm cinema)) (q_put c (stamp c (zero_message\<lparr>message_choice_number := CHOICE_EXIT\<rparr>)) qr)
     (set_queue (id_secondqueue (admin_comm cinema)) (q_put ADMIN_REQUEST (stamp ADMIN_REQUEST (request\<lparr>client_id := c\<rparr>)) qa)
     (set_slot timer (client_slot c) now (set_queue (id_secondqueue (client_comm cinema)) qc' s))))"
proof -
  let ?s1 = "set_queue (id_secondqueue (client_comm cinema)) qc' s"
  let ?s2 = "set_slot timer (client_slot c) now ?s1"
  let ?req = "request\<lparr>client_id := c\<rparr>"
  let ?s3 = "set_queue (id_secondqueue (admin_comm cinema)) (q_put ADMIN_REQUEST (stamp ADMIN_REQUEST ?req) qa) ?s2"
  have ready: "timer_ready timer (client_slot c) mutex ?s1" using assms(9) by simp
  have recv: "receive_message env (client_comm cinema) s = (Ret request, ?s1)"
    using receive_message_run [of "client_comm cinema" c s qc request qc' env] assms(1-3,11,12) by (simp add: in_queue_def)
  have fwd: "send_message (admin_comm cinema) ?req ?s2 = (Ret (), ?s3)"
    using assms(8,15) by (intro request_run [OF assms(6,7)]) simp
  have resp: "send_message (client_comm cinema) m ?s3
      = (Ret (), set_queue (id_firstqueue (client_comm cinema)) (q_put c (stamp c m) qr) ?s3)" for m
    using send_message_run [of "client_comm cinema" c ?s3 qr m] assms(1-3,5,8,14) by (simp add: out_queue_def)
  show ?thesis
    using recv get_timestamp_run [OF ready, of env] update_timestamp_run [OF ready, of env now] fwd resp assms(4,10,13)
    by (simp add: listen_turn_def cinema_handle_def Let_def)
qed

text \<open>C32. A client who leaves: when the next message of the client is an exit, the listener ends its loop after
  that turn, whatever is behind it in the queue.  It has answered the exit to the client, passed it on to the
  administrator under the client's cinema identifier, marked the timer's slot \<open>TIMER_CLOSE\<close> and detached from the
  shared memory.\<close>

theorem exit_ends_listener:
  assumes "orientation (client_comm cinema) = Some COMMQUEUE_AS_SERVER" and "cq_id (client_comm cinema) = c" and "0 < c"
    and "cinema_client_id cinema = c" and "id_firstqueue (client_comm cinema) \<noteq> id_secondqueue (client_comm cinema)"
    and "channel_pair (admin_comm cinema) adm" and "cq_id (admin_comm cinema) = ADMIN_REQUEST"
    and "id_secondqueue (admin_comm cinema) \<notin> {id_firstqueue (client_comm cinema), id_secondqueue (client_comm cinema)}"
    and "timer_ready timer (client_slot c) mutex s" and "slot_value timer (client_slot c) s \<noteq> CONNECTION_TIMEDOUT"
    and "msg_queues s (id_secondqueue (client_comm cinema)) = Some qc"
    and "q_get c qc = Some (request, qc')" and "message_choice_number request = CHOICE_EXIT"
    and "msg_queues s (id_firstqueue (client_comm cinema)) = Some qr"
    and "msg_queues s (id_secondqueue (admin_comm cinema)) = Some qa"
    and "now \<noteq> CONNECTION_TIMEDOUT" and "seg_nattch (the (shm_segs s timer)) = Suc n"
  shows "\<exists>s'. listen_loop (now # nows) env cinema timer mutex s = (Ret True, s')
     \<and> msg_queues s' (id_firstqueue (client_comm cinema))
         = Some (q_put c (stamp c (zero_message\<lparr>message_choice_number := CHOICE_EXIT\<rparr>)) qr)
     \<and> msg_queues s' (id_secondqueue (admin_comm cinema))
         = Some (q_put ADMIN_REQUEST (stamp ADMIN_REQUEST (request\<lparr>client_id := c\<rparr>)) qa)
     \<and> slot_value timer (client_slot c) s' = TIMER_CLOSE \<and> seg_nattch (the (shm_segs s' timer)) = n"
proof -
  let ?s1 = "set_queue (id_firstqueue (client_comm cinema)) (q_put c (stamp c (zero_message\<lparr>message_choice_number := CHOICE_EXIT\<rparr>)) qr)
     (set_queue (id_secondqueue (admin_comm cinema)) (q_put ADMIN_REQUEST (stamp ADMIN_REQUEST (request\<lparr>client_id := c\<rparr>)) qa)
     (set_slot timer (client_slot c) now (set_queue (id_secondqueue (client_comm cinema)) qc' s)))"
  let ?s2 = "set_slot timer (client_slot c) TIMER_CLOSE ?s1"
  obtain g where g: "shm_segs s timer = Some g" "0 \<le> client_slot c" "client_slot c < int (length (seg_ints g))"
    using assms(9) by (auto simp: timer_ready_def)
  have turn: "listen_turn env cinema timer mutex now s = (Ret CINEMA_LISTENER_EXIT, ?s1)"
    by (rule listen_turn_exit [OF assms(1-15)])
  have ready: "timer_ready timer (client_slot c) mutex ?s1" using assms(9) g(1) by simp
  have slot: "slot_value timer (client_slot c) ?s1 = now" using assms(9) by simp
  obtain s' where s': "shm_dettach timer ?s2 = (Ret (), s')" "msg_queues s' = msg_queues ?s1"
    "seg_ints (the (shm_segs s' timer)) = (seg_ints (the (shm_segs ?s1 timer)))[nat (client_slot c) := TIMER_CLOSE]"
    "seg_nattch (the (shm_segs s' timer)) = n"
    using assms(17) g(1) by (auto simp: shm_dettach_def)
  have "listen_end env cinema timer mutex ?s1 = (Ret (), s')"
    using get_timestamp_run [OF ready, of env] update_timestamp_run [OF ready, of env TIMER_CLOSE] s'(1) slot assms(4,16)
    by (simp add: listen_end_def Let_def)
  then have "listen_loop (now # nows) env cinema timer mutex s = (Ret True, s')"
    using turn by (simp add: andThen_def)
  moreover have "slot_value timer (client_slot c) s' = TIMER_CLOSE"
    using s'(3) g by (simp add: slot_value_def nat_less_iff)
  ultimately show ?thesis using s'(2,4) assms(8) by (intro exI [of _ s']) auto
qed

text \<open>The channel of the clients in the example host is made of the queues 1 and 2.\<close>

definition small_cinema :: Cinema where
  "small_cinema = \<lparr>client_comm = \<lparr>id_firstqueue = 1, id_secondqueue = 2, orientation = Some 0, cq_id = - 1\<rparr>,
     admin_comm = \<lparr>id_firstqueue = 3, id_secondqueue = 4, orientation = Some 1, cq_id = 1\<rparr>,
     cinema_net_info = \<lparr>nc_sock_fd = 3, nc_ip_addr = CINEMA_IP_ADDR, nc_port = CINEMA_PORT\<rparr>, cinema_client_id = 7\<rparr>"

definition connect_example :: q_message where
  "connect_example = zero_message\<lparr>message_type := TYPE_CONNECTION_CINEMA_REQUEST, msg_choice := M1 500\<rparr>"

theorem client_taken_witness:
  "\<exists>i s1. cinema_take_client (admin_serves small_ftok (\<lambda>s. s) ref_engine admin_channel) small_cinema
      (set_queue 2 [(1, connect_example)] small_host) = (Ret i, s1)
     \<and> msg_queues s1 1 = Some [(500, stamp 500 (connection_accepted i))]"
proof -
  let ?m = "stamp ADMIN_REQUEST (zero_message\<lparr>client_id := 500, message_choice_number := CHOICE_CONNECTION_ACCEPTED\<rparr>)"
  let ?s = "set_queue 2 [(1, connect_example)] small_host"
  have s0: "small_host = set_queue 2 [] ?s" by (simp add: set_queue_same small_host_def)
  obtain i d1 where i: "db_insert_user ref_engine (db small_host) = (i, d1)" by (metis prod.exhaust)
  obtain res d2 where l: "db_login_user ref_engine i d1 = (res, d2)" by (metis prod.exhaust)
  let ?r = "(new_response ?m)\<lparr>message_choice_number := CHOICE_CONNECTION_ACCEPTED, msg_choice := M1 i\<rparr>"
  have ans: "admin_answer small_ftok ref_engine ?m small_host = (Ret (Some ?r), small_host\<lparr>db := d2\<rparr>)"
    using i l by (simp add: admin_answer_def admin_connect_def db_op_run)
  have "cinema_take_client (admin_serves small_ftok (\<lambda>s. s) ref_engine admin_channel) small_cinema ?s
      = (Ret (as_m1 (msg_choice ?r)), set_queue (id_firstqueue (client_comm small_cinema))
          (q_put 500 (stamp 500 (connection_accepted (as_m1 (msg_choice ?r)))) []) (small_host\<lparr>db := d2\<rparr>))"
    by (rule client_taken [where request = connect_example and qc' = "[]" and qc = "[(1, connect_example)]"
          and qreq = "[]" and qresp = "[]" and ?s0.0 = small_host, OF _ _ _ _ _ _ _ _ _ _ _ _ ans])
      (use s0 in \<open>simp_all add: small_cinema_def channel_pair_def admin_channel_def small_host_def q_get_def
        msgrcv_def q_inbox_def connect_example_def as_m1_def\<close>)
  then show ?thesis by (simp add: small_cinema_def q_put_def as_m1_def)
qed

definition exit_example :: q_message where
  "exit_example = zero_message\<lparr>message_type := 7, message_choice_number := CHOICE_EXIT\<rparr>"

definition exit_host :: ipc where
  "exit_host = timer_host\<lparr>msg_queues := [1 \<mapsto> [], 2 \<mapsto> [(7, exit_example), (7, exit_example)], 3 \<mapsto> [], 4 \<mapsto> []]\<rparr>"

theorem exit_ends_listener_witness:
  "\<exists>s'. listen_loop [1010, 1020] (\<lambda>s. s) (small_cinema\<lparr>client_comm := client_7_channel\<rparr>) 8 9 exit_host = (Ret True, s')
     \<and> slot_value 8 7 s' = TIMER_CLOSE \<and> length (the (msg_queues s' 4)) = 1"
proof -
  have slot: "client_slot 7 = 7" by (simp add: client_slot_def signed_modulo_int_def)
  have ready: "timer_ready 8 (client_slot 7) 9 exit_host" "slot_value 8 (client_slot 7) exit_host \<noteq> CONNECTION_TIMEDOUT"
    by (simp_all add: timer_ready_def timer_host_def exit_host_def slot slot_value_def)
  have "\<exists>s'. listen_loop (1010 # [1020]) (\<lambda>s. s) (small_cinema\<lparr>client_comm := client_7_channel\<rparr>) 8 9 exit_host = (Ret True, s')
     \<and> msg_queues s' (id_firstqueue (client_comm (small_cinema\<lparr>client_comm := client_7_channel\<rparr>)))
         = Some (q_put 7 (stamp 7 (zero_message\<lparr>message_choice_number := CHOICE_EXIT\<rparr>)) [])
     \<and> msg_queues s' (id_secondqueue (admin_comm (small_cinema\<lparr>client_comm := client_7_channel\<rparr>)))
         = Some (q_put ADMIN_REQUEST (stamp ADMIN_REQUEST (exit_example\<lparr>client_id := 7\<rparr>)) [])
     \<and> slot_value 8 (client_slot 7) s' = TIMER_CLOSE \<and> seg_nattch (the (shm_segs s' 8)) = 0"
    by (rule exit_ends_listener [OF _ _ _ _ _ _ _ _ ready, where adm = admin_channel and qc = "[(7, exit_example), (7, exit_example)]"
          and qc' = "[(7, exit_example)]"])
      (simp_all add: small_cinema_def client_7_channel_def channel_pair_def admin_channel_def exit_host_def
        q_get_def msgrcv_def exit_example_def timer_host_def)
  then show ?thesis by (auto simp: slot small_cinema_def q_put_def simp del: listen_loop.simps)
qed

text \<open>The timer does not see that its client has left: \<open>TIMER_CLOSE\<close> is compared with the clock instead of the
  slot the listener marked, so a timer that survives sends an exit message for the client who is gone, at its next
  reading, and then overwrites the mark.\<close>

theorem timer_ignores_close:
  assumes "timer_ready timer (client_slot (cq_id comm)) mutex s" and "0 < cq_id comm"
    and "msg_queues s (id_secondqueue comm) = Some q"
    and "slot_value timer (client_slot (cq_id comm)) s = TIMER_CLOSE" and "0 \<le> now"
  shows "\<exists>s' q'. timer_turn env timer comm mutex now s = (Ret True, s')
     \<and> msg_queues s' (id_secondqueue comm) = Some q'
     \<and> q_inbox q' (cq_id comm) = q_inbox q (cq_id comm)
         @ [zero_message\<lparr>message_choice_number := CHOICE_EXIT, message_type := cq_id comm\<rparr>]
     \<and> slot_value timer (client_slot (cq_id comm)) s' = CONNECTION_TIMEDOUT"
proof -
  let ?i = "client_slot (cq_id comm)"
  let ?q1 = "q_put (cq_id comm) (zero_message\<lparr>message_choice_number := CHOICE_EXIT, message_type := cq_id comm\<rparr>) q"
  let ?s1 = "set_slot timer ?i CONNECTION_TIMEDOUT (set_queue (id_secondqueue comm) ?q1 s)"
  have "timer_turn env timer comm mutex now s = (Ret True, ?s1)"
    using assms(4,5) by (intro timer_turn_close [OF assms(1) _ _ assms(2,3)]) simp_all
  moreover have "slot_value timer ?i ?s1 = CONNECTION_TIMEDOUT"
    by (rule slot_value_set_slot [where mutex = mutex]) (simp add: assms(1))
  ultimately show ?thesis
    by (intro exI [of _ ?s1] exI [of _ ?q1]) (simp add: sysv.inbox_put)
qed

definition closed_host :: ipc where
  "closed_host = set_slot 8 7 TIMER_CLOSE timer_host"

theorem timer_ignores_close_witness:
  "\<exists>s' q'. timer_turn (\<lambda>s. s) 8 client_7_channel 9 1500000000 closed_host = (Ret True, s')
     \<and> msg_queues s' 2 = Some q' \<and> q_inbox q' 7 \<noteq> []"
proof -
  have slot: "client_slot 7 = 7" by (simp add: client_slot_def signed_modulo_int_def)
  have "timer_ready 8 (client_slot (cq_id client_7_channel)) 9 closed_host"
    "slot_value 8 (client_slot (cq_id client_7_channel)) closed_host = TIMER_CLOSE"
    "msg_queues closed_host (id_secondqueue client_7_channel) = Some []" "0 < cq_id client_7_channel"
    by (simp_all add: timer_ready_def timer_host_def client_7_channel_def slot closed_host_def slot_value_def)
  from timer_ignores_close [OF this(1,4,3,2), of 1500000000 "\<lambda>s. s"] show ?thesis
    by (auto simp: client_7_channel_def)
qed

end
