(* ===== verification/Mom.thy ===== *)
theory Mom
  imports Cinema
begin

text \<open>
  src/middleware/mom.cpp: the service of a client host.  It forwards the requests of each local
  client to the cinema and back, and keeps the client's seat listener, a child process that
  writes the updates of the seats into shared memory.

  \<^item> \<open>process_message\<close> is the state machine of a client's service: connected or not, listening
    for updates or not.
  \<^item> Process identifiers are what \<open>fork\<close> returned (an argument).  A call of \<open>kill\<close> is recorded
    in the result as the pair of its arguments, in the order the code gives them.
\<close>

section \<open>Constants\<close>

definition UNDEFINED_CINEMA_CLIENT_ID :: int where "UNDEFINED_CINEMA_CLIENT_ID = - 1"
definition UNDEFINED_LOCAL_CLIENT_ID :: int where "UNDEFINED_LOCAL_CLIENT_ID = - 1"
definition LISTENER_NOT_INITIALIZED :: int where "LISTENER_NOT_INITIALIZED = 0"
definition SIGKILL :: int where "SIGKILL = 9"

lemmas mom_constants [simp] = UNDEFINED_CINEMA_CLIENT_ID_def UNDEFINED_LOCAL_CLIENT_ID_def
  LISTENER_NOT_INITIALIZED_def SIGKILL_def

definition SHM_CLIENT_FILE :: string where "SHM_CLIENT_FILE = ''/bin/ls''"
definition SHM_CLIENT_CHAR :: char where "SHM_CLIENT_CHAR = CHR ''c''"
definition SHM_CLIENT_SIZE :: nat where "SHM_CLIENT_SIZE = SIZEOF_Seats_update * nat MAX_CLIENTS_HOST"
definition MUTEX_CLIENT_FILE :: string where "MUTEX_CLIENT_FILE = ''/bin/bash''"
definition MUTEX_CLIENT_CHAR :: char where "MUTEX_CLIENT_CHAR = CHR ''v''"
definition QUEUE_MOM_FILE :: string where "QUEUE_MOM_FILE = ''/bin/ls''"
definition QUEUE_MOM_CHAR :: char where "QUEUE_MOM_CHAR = CHR ''a''"

record Mom =
  client_queue :: commqueue
  cinema_queue :: commqueue
  listener_queue :: commqueue
  update_flag :: int
  update_flag_position :: int
  update_flag_mutex :: int
  listener_pid :: int
  client_local_id :: int
  client_cinema_id :: int
  net_info :: network_comm
  upd_info :: network_comm

section \<open>The flag in shared memory\<close>

definition shm_read_update :: "int \<Rightarrow> int \<Rightarrow> (Seats_update, 'a ipc_scheme) prog" where
  "shm_read_update ptr i = (\<lambda>s. case shm_segs s ptr of
       None \<Rightarrow> undef_behaviour s
     | Some g \<Rightarrow> if 0 \<le> i \<and> i < int (length (seg_updates g)) then (Ret (seg_updates g ! nat i), s) else undef_behaviour s)"

definition shm_write_update :: "int \<Rightarrow> int \<Rightarrow> Seats_update \<Rightarrow> (unit, 'a ipc_scheme) prog" where
  "shm_write_update ptr i v = (\<lambda>s. case shm_segs s ptr of
       None \<Rightarrow> undef_behaviour s
     | Some g \<Rightarrow> if 0 \<le> i \<and> i < int (length (seg_updates g))
         then (Ret (), s\<lparr>shm_segs := (shm_segs s)(ptr \<mapsto> g\<lparr>seg_updates := (seg_updates g)[nat i := v]\<rparr>)\<rparr>)
         else undef_behaviour s)"

definition flag_update_read :: "('a ipc_scheme \<Rightarrow> 'a ipc_scheme) \<Rightarrow> Mom \<Rightarrow> (Seats_update, 'a ipc_scheme) prog" where
  "flag_update_read env mom =
     andThen (semaphore_wait env (update_flag_mutex mom)) (\<lambda>_.
     andThen (shm_read_update (update_flag mom) (update_flag_position mom)) (\<lambda>value.
     andThen (semaphore_signal env (update_flag_mutex mom)) (\<lambda>_. ret value)))"

definition flag_update_write ::
  "('a ipc_scheme \<Rightarrow> 'a ipc_scheme) \<Rightarrow> Mom \<Rightarrow> Seats_update \<Rightarrow> (unit, 'a ipc_scheme) prog" where
  "flag_update_write env mom update =
     andThen (semaphore_wait env (update_flag_mutex mom)) (\<lambda>_.
     andThen (shm_write_update (update_flag mom) (update_flag_position mom) update) (\<lambda>_.
       semaphore_signal env (update_flag_mutex mom)))"

section \<open>Starting, and taking a client\<close>

text \<open>\<open>commqueue{}\<close> and a \<open>network_comm\<close> not yet opened.\<close>

definition no_network :: network_comm where
  "no_network = \<lparr>nc_sock_fd = 0, nc_ip_addr = [], nc_port = 0\<rparr>"

definition start_mom :: "ftok \<Rightarrow> (Mom, 'a ipc_scheme) prog" where
  "start_mom ftok =
     andThen (create_commqueue ftok QUEUE_MOM_FILE QUEUE_MOM_CHAR) (\<lambda>client.
     andThen (create_commqueue ftok QUEUE_COMMUNICATION_FILE QUEUE_COMMUNICATION_CHAR) (\<lambda>cinema_communication.
     andThen (create_commqueue ftok QUEUE_ACTIVITY_FILE QUEUE_ACTIVITY_CHAR) (\<lambda>listener_communication.
     andThen (semaphore_get ftok MUTEX_CLIENT_FILE MUTEX_CLIENT_CHAR) (\<lambda>mutex_shared_memory.
     andThen (shm_get_data ftok SHM_CLIENT_FILE SHM_CLIENT_CHAR SHM_CLIENT_SIZE) (\<lambda>flag.
       ret \<lparr>client_queue = client\<lparr>orientation := Some COMMQUEUE_AS_SERVER\<rparr>,
            cinema_queue = cinema_communication\<lparr>orientation := Some COMMQUEUE_AS_CLIENT\<rparr>,
            listener_queue = listener_communication\<lparr>orientation := Some COMMQUEUE_AS_CLIENT\<rparr>,
            update_flag = flag, update_flag_position = 0, update_flag_mutex = mutex_shared_memory,
            listener_pid = LISTENER_NOT_INITIALIZED, client_local_id = UNDEFINED_LOCAL_CLIENT_ID,
            client_cinema_id = UNDEFINED_CINEMA_CLIENT_ID, net_info = no_network, upd_info = no_network\<rparr>)))))"

definition connect_client :: "('a ipc_scheme \<Rightarrow> 'a ipc_scheme) \<Rightarrow> Mom \<Rightarrow> (int, 'a ipc_scheme) prog" where
  "connect_client env mom =
     andThen (receive_message_type env (client_queue mom) TYPE_CONNECTION_MOM_REQUEST) (\<lambda>connect_request.
       let local_id = as_m1 (msg_choice connect_request) in
       andThen (send_message ((client_queue mom)\<lparr>cq_id := local_id\<rparr>)
           (zero_message\<lparr>message_choice_number := CHOICE_CONNECTION_ACCEPTED,
              msg_choice := M1 (local_id smod MAX_CLIENTS_HOST)\<rparr>)) (\<lambda>_. ret local_id))"

section \<open>The seat listener\<close>

text \<open>The seats of an update: undefined past the end of the arrays.\<close>

definition update_of :: "m4_seats \<Rightarrow> Seats_update option" where
  "update_of m4 =
     (if m4_count m4 \<le> int MAX_SEATS
      then Some (zero_Seats_update\<lparr>su_update := SUCCESS, su_count := m4_count m4,
        su_seats := map (\<lambda>i. zero_Seat\<lparr>seat_no := m4_seats_id m4 ! i, seat_status := m4_seats_status m4 ! i\<rparr>)
            [0..<nat (m4_count m4)] @ drop (nat (m4_count m4)) (su_seats zero_Seats_update)\<rparr>)
      else None)"

text \<open>What the child does first, and one turn of its loop: the value of \<open>close_listener\<close>.\<close>

definition seat_listener_start :: "('a ipc_scheme \<Rightarrow> 'a ipc_scheme) \<Rightarrow> Mom \<Rightarrow> (unit, 'a ipc_scheme) prog" where
  "seat_listener_start env mom =
     flag_update_write env mom (zero_Seats_update\<lparr>su_update := NOT_SUCCESS, su_count := 0\<rparr>)"

definition seat_listener_turn :: "('a ipc_scheme \<Rightarrow> 'a ipc_scheme) \<Rightarrow> Mom \<Rightarrow> (bool, 'a ipc_scheme) prog" where
  "seat_listener_turn env mom =
     andThen (receive_message env (listener_queue mom)) (\<lambda>seats_update.
       if message_choice_number seats_update = CHOICE_SEATS_RESPONSE
       then andThen (defined (update_of (as_m4 (msg_choice seats_update)))) (\<lambda>update.
            andThen (flag_update_write env mom update) (\<lambda>_. ret False))
       else ret (message_choice_number seats_update = CHOICE_EXIT))"

text \<open>The child over a number of messages: whether it has ended.\<close>

primrec seat_listener :: "nat \<Rightarrow> ('a ipc_scheme \<Rightarrow> 'a ipc_scheme) \<Rightarrow> Mom \<Rightarrow> (bool, 'a ipc_scheme) prog" where
  "seat_listener 0 env mom = ret False"
| "seat_listener (Suc n) env mom =
     andThen (seat_listener_turn env mom) (\<lambda>close_listener.
       if close_listener then andThen (shm_dettach (update_flag mom)) (\<lambda>_. ret True)
       else seat_listener n env mom)"

section \<open>The state machine\<close>

text \<open>The calls of \<open>kill\<close>, with the arguments as the code passes them.\<close>

type_synonym kills = "(int \<times> int) list"

definition start_async_seat_listener :: "int \<Rightarrow> Mom \<Rightarrow> Mom" where
  "start_async_seat_listener forked mom =
     (if listener_pid mom \<noteq> LISTENER_NOT_INITIALIZED then mom else mom\<lparr>listener_pid := forked\<rparr>)"

definition finish_async_seat_listener :: "Mom \<Rightarrow> Mom \<times> kills" where
  "finish_async_seat_listener mom =
     (if listener_pid mom \<noteq> LISTENER_NOT_INITIALIZED
      then (mom\<lparr>listener_pid := LISTENER_NOT_INITIALIZED\<rparr>, [(SIGKILL, listener_pid mom)])
      else (mom, []))"

text \<open>The new state, the value of \<open>*exit\<close> after it, and the calls of \<open>kill\<close>.\<close>

definition process_message :: "int \<Rightarrow> Mom \<Rightarrow> q_message \<Rightarrow> bool \<Rightarrow> (Mom \<times> kills) \<times> bool" where
  "process_message forked mom cinema_message exit =
     (let choice = message_choice_number cinema_message in
      if choice = CHOICE_CONNECTION_ACCEPTED then
        (let cid = as_m1 (msg_choice cinema_message) in
         ((mom\<lparr>client_cinema_id := cid, cinema_queue := (cinema_queue mom)\<lparr>cq_id := cid\<rparr>,
               listener_queue := (listener_queue mom)\<lparr>cq_id := cid\<rparr>\<rparr>, []), exit))
      else if choice = CHOICE_SEATS_RESPONSE then ((start_async_seat_listener forked mom, []), exit)
      else if choice = CHOICE_SEAT_SELECT_RESPONSE then
        (if m6_success (as_m6 (msg_choice cinema_message)) = SUCCESS
         then (finish_async_seat_listener mom, exit) else ((mom, []), exit))
      else if choice = CHOICE_ROOMS_RESPONSE then (finish_async_seat_listener mom, exit)
      else if choice = CHOICE_EXIT then (finish_async_seat_listener mom, True)
      else ((mom, []), exit))"

section \<open>The service of a client\<close>

definition fork_client_start :: "Mom \<Rightarrow> int \<Rightarrow> Mom" where
  "fork_client_start mom local_id =
     mom\<lparr>client_local_id := local_id, client_queue := (client_queue mom)\<lparr>cq_id := local_id\<rparr>,
         update_flag_position := local_id smod MAX_CLIENTS_HOST\<rparr>"

definition fork_client_turn ::
  "('a ipc_scheme \<Rightarrow> 'a ipc_scheme) \<Rightarrow> int \<Rightarrow> Mom \<Rightarrow> ((Mom \<times> kills) \<times> bool, 'a ipc_scheme) prog" where
  "fork_client_turn env forked mom =
     andThen (receive_message env (client_queue mom)) (\<lambda>client_request.
     andThen (send_message (cinema_queue mom) client_request) (\<lambda>_.
     andThen (if client_cinema_id mom \<noteq> UNDEFINED_CINEMA_CLIENT_ID then receive_message env (cinema_queue mom)
              else receive_message_type env (cinema_queue mom) (client_local_id mom)) (\<lambda>cinema_response.
     andThen (send_message (client_queue mom) cinema_response) (\<lambda>_.
       ret (process_message forked mom cinema_response False)))))"

text \<open>The loop over the identifiers its forks return, one per turn: whether it has ended.\<close>

primrec fork_client_loop ::
  "int list \<Rightarrow> ('a ipc_scheme \<Rightarrow> 'a ipc_scheme) \<Rightarrow> Mom \<Rightarrow> (Mom \<times> bool, 'a ipc_scheme) prog" where
  "fork_client_loop [] env mom = ret (mom, False)"
| "fork_client_loop (p # ps) env mom =
     andThen (fork_client_turn env p mom) (\<lambda>((mom', kills), exit_listener).
       if exit_listener then ret (mom', True) else fork_client_loop ps env mom')"

definition fork_client ::
  "int list \<Rightarrow> ('a ipc_scheme \<Rightarrow> 'a ipc_scheme) \<Rightarrow> Mom \<Rightarrow> int \<Rightarrow> (Mom \<times> bool, 'a ipc_scheme) prog" where
  "fork_client ps env mom local_id = fork_client_loop ps env (fork_client_start mom local_id)"

section \<open>The network\<close>

definition start_network :: "'k sock_api \<Rightarrow> Mom \<Rightarrow> (Mom, ('k, 'b) host_scheme) prog" where
  "start_network K mom =
     andThen (net_op (network_newconn K CINEMA_IP_ADDR CINEMA_PORT)) (\<lambda>ni.
     andThen (net_op (network_newconn K CINEMA_IP_ADDR ADMIN_PORT)) (\<lambda>ui.
     andThen (net_op (network_connect K ni)) (\<lambda>_.
     andThen (net_op (network_connect K ui)) (\<lambda>_.
       ret (mom\<lparr>net_info := ni, upd_info := ui\<rparr>)))))"

definition end_network :: "'k sock_api \<Rightarrow> Mom \<Rightarrow> (unit, ('k, 'b) host_scheme) prog" where
  "end_network K mom = andThen (net_op (network_delete K (net_info mom))) (\<lambda>_.
     net_op (network_delete K (upd_info mom)))"

text \<open>The two children of \<open>network_listen\<close>, a turn of each.\<close>

definition mom_network_turn ::
  "(('k, 'b) host_scheme \<Rightarrow> ('k, 'b) host_scheme) \<Rightarrow> 'k sock_api \<Rightarrow> byte list \<Rightarrow> q_message \<Rightarrow> Mom \<Rightarrow>
     (unit, ('k, 'b) host_scheme) prog" where
  "mom_network_turn env K junk uninitialised mom =
     (let queue = (cinema_queue mom)\<lparr>orientation := Some COMMQUEUE_AS_SERVER\<rparr> in
      andThen (receive_message_type env queue 0) (\<lambda>msg_to_serialize.
      andThen (packet_op (send_packet K junk (nc_sock_fd (net_info mom)) msg_to_serialize)) (\<lambda>_.
      andThen (packet_op (receive_packet K (nc_sock_fd (net_info mom)) uninitialised)) (\<lambda>msg_to_deserialize.
        send_message queue msg_to_deserialize))))"

definition mom_updates_turn ::
  "'k sock_api \<Rightarrow> q_message \<Rightarrow> Mom \<Rightarrow> (unit, ('k, 'b) host_scheme) prog" where
  "mom_updates_turn K uninitialised mom =
     (let queue = (listener_queue mom)\<lparr>orientation := Some COMMQUEUE_AS_SERVER, cq_id := - 1\<rparr> in
      andThen (packet_op (receive_packet K (nc_sock_fd (upd_info mom)) uninitialised)) (\<lambda>update_msg.
        send_message queue update_msg))"

text \<open>One turn of \<open>main\<close>: a client is connected and its service forked.\<close>

definition mom_main_turn ::
  "int list \<Rightarrow> ('a ipc_scheme \<Rightarrow> 'a ipc_scheme) \<Rightarrow> Mom \<Rightarrow> (unit, 'a ipc_scheme) prog" where
  "mom_main_turn ps env mom =
     andThen (connect_client env mom) (\<lambda>local_id. fork_child (fork_client ps env mom local_id))"


section \<open>The state machine over a conversation\<close>

text \<open>The responses of the cinema processed one after the other, with the identifiers \<open>fork\<close> would return.\<close>

primrec process_all :: "(int \<times> q_message) list \<Rightarrow> Mom \<Rightarrow> Mom" where
  "process_all [] mom = mom"
| "process_all (x # xs) mom = process_all xs (fst (fst (process_message (fst x) mom (snd x) False)))"

definition listening :: "Mom \<Rightarrow> bool" where
  "listening mom \<longleftrightarrow> listener_pid mom \<noteq> LISTENER_NOT_INITIALIZED"

text \<open>The responses that end the listening.\<close>

definition ends_listening :: "q_message \<Rightarrow> bool" where
  "ends_listening m \<longleftrightarrow> message_choice_number m \<in> {CHOICE_ROOMS_RESPONSE, CHOICE_EXIT}
     \<or> (message_choice_number m = CHOICE_SEAT_SELECT_RESPONSE \<and> m6_success (as_m6 (msg_choice m)) = SUCCESS)"

definition shows_seats :: "q_message \<Rightarrow> bool" where
  "shows_seats m \<longleftrightarrow> message_choice_number m = CHOICE_SEATS_RESPONSE"

text \<open>The three places that hold the client's cinema identifier agree.\<close>

definition ids_agree :: "Mom \<Rightarrow> bool" where
  "ids_agree mom \<longleftrightarrow> cq_id (cinema_queue mom) = client_cinema_id mom \<and> cq_id (listener_queue mom) = client_cinema_id mom"

lemma process_listening:
  "p \<noteq> 0 \<Longrightarrow> listening (fst (fst (process_message p mom m e)))
     \<longleftrightarrow> (if shows_seats m then True else if ends_listening m then False else listening mom)"
  by (simp add: process_message_def Let_def listening_def shows_seats_def ends_listening_def
      start_async_seat_listener_def finish_async_seat_listener_def)

lemma process_ids:
  "ids_agree mom \<Longrightarrow> ids_agree (fst (fst (process_message p mom m e)))"
  "client_cinema_id (fst (fst (process_message p mom m e))) =
     (if message_choice_number m = CHOICE_CONNECTION_ACCEPTED then as_m1 (msg_choice m) else client_cinema_id mom)"
  by (simp_all add: process_message_def Let_def ids_agree_def start_async_seat_listener_def
      finish_async_seat_listener_def)

lemma split_last_shown:
  "(\<exists>ms1 m ms2. x # xs = ms1 @ m # ms2 \<and> shows_seats m \<and> \<not> list_ex ends_listening ms2) \<longleftrightarrow>
     (\<exists>ms1 m ms2. xs = ms1 @ m # ms2 \<and> shows_seats m \<and> \<not> list_ex ends_listening ms2)
     \<or> (shows_seats x \<and> \<not> list_ex ends_listening xs)"
  by (auto simp: Cons_eq_append_conv)

lemma process_all_listening:
  assumes "\<forall>x \<in> set xs. fst x \<noteq> 0"
  shows "listening (process_all xs mom) \<longleftrightarrow>
     (\<exists>ms1 m ms2. map snd xs = ms1 @ m # ms2 \<and> shows_seats m \<and> \<not> list_ex ends_listening ms2)
     \<or> (listening mom \<and> \<not> list_ex ends_listening (map snd xs))"
  using assms
proof (induction xs arbitrary: mom)
  case Nil
  then show ?case by simp
next
  case (Cons x xs)
  let ?mom = "fst (fst (process_message (fst x) mom (snd x) False))"
  have l: "listening ?mom \<longleftrightarrow> (if shows_seats (snd x) then True else if ends_listening (snd x) then False else listening mom)"
    using Cons.prems by (intro process_listening) simp
  have dis: "\<not> (shows_seats m \<and> ends_listening m)" for m
    by (auto simp: shows_seats_def ends_listening_def)
  have "listening (process_all (x # xs) mom) \<longleftrightarrow> listening (process_all xs ?mom)" by simp
  also have "\<dots> \<longleftrightarrow> (\<exists>ms1 m ms2. map snd xs = ms1 @ m # ms2 \<and> shows_seats m \<and> \<not> list_ex ends_listening ms2)
     \<or> (listening ?mom \<and> \<not> list_ex ends_listening (map snd xs))"
    using Cons by simp
  finally show ?case
    unfolding list.map split_last_shown using l dis [of "snd x"] by auto
qed

lemma process_all_ids: "ids_agree mom \<Longrightarrow> ids_agree (process_all xs mom)"
  by (induction xs arbitrary: mom) (simp_all add: process_ids)

text \<open>The identifier in the last response that accepts the connection, and the one there was when none does.\<close>

definition accepts :: "q_message \<Rightarrow> bool" where
  "accepts m \<longleftrightarrow> message_choice_number m = CHOICE_CONNECTION_ACCEPTED"

definition last_identifier :: "int \<Rightarrow> q_message list \<Rightarrow> int" where
  "last_identifier before ms =
     (case filter accepts (rev ms) of [] \<Rightarrow> before | m # _ \<Rightarrow> as_m1 (msg_choice m))"

lemma last_identifier_Cons:
  "last_identifier before (m # ms) = last_identifier (if accepts m then as_m1 (msg_choice m) else before) ms"
  by (simp add: last_identifier_def split: list.splits)

lemma process_all_identifier:
  "client_cinema_id (process_all xs mom) = last_identifier (client_cinema_id mom) (map snd xs)"
  by (induction xs arbitrary: mom)
    (simp_all add: process_ids(2) last_identifier_Cons accepts_def last_identifier_def [of _ "[]"])

text \<open>C35. The service of a client follows the conversation.  After any responses of the cinema it notes a seat listener
  (a \<open>listener_pid\<close> that is not \<open>LISTENER_NOT_INITIALIZED\<close>, so that the next seats response forks none) exactly when
  a response with seats came after the last response that ends the interest in them (the rooms, a successful selection,
  the exit); whether the process it noted before has ended is another matter (\<open>kill_misses_listener\<close>).  Its
  identifier is the one of the last response that accepted a connection, and both its queues use it.\<close>

theorem service_follows_conversation:
  assumes "\<forall>x \<in> set xs. fst x \<noteq> 0" and "ids_agree mom" and "\<not> listening mom"
  shows "(listening (process_all xs mom) \<longleftrightarrow>
       (\<exists>ms1 m ms2. map snd xs = ms1 @ m # ms2 \<and> shows_seats m \<and> \<not> list_ex ends_listening ms2))
     \<and> client_cinema_id (process_all xs mom) = last_identifier (client_cinema_id mom) (map snd xs)
     \<and> cq_id (cinema_queue (process_all xs mom)) = last_identifier (client_cinema_id mom) (map snd xs)
     \<and> cq_id (listener_queue (process_all xs mom)) = last_identifier (client_cinema_id mom) (map snd xs)"
  using process_all_listening [OF assms(1), of mom] process_all_ids [OF assms(2), of xs] process_all_identifier [of xs mom] assms(3)
  unfolding ids_agree_def by simp

definition mom_example :: Mom where
  "mom_example = \<lparr>client_queue = client_7_channel, cinema_queue = client_7_channel\<lparr>cq_id := - 1\<rparr>,
     listener_queue = client_7_channel\<lparr>cq_id := - 1\<rparr>, update_flag = 8, update_flag_position = 7, update_flag_mutex = 9,
     listener_pid = 0, client_local_id = 7, client_cinema_id = - 1, net_info = no_network, upd_info = no_network\<rparr>"

theorem service_follows_conversation_witness:
  "let mom = process_all [(50, connection_accepted 3), (51, zero_message\<lparr>message_choice_number := CHOICE_SEATS_RESPONSE\<rparr>)] mom_example
   in listening mom \<and> client_cinema_id mom = 3 \<and> cq_id (cinema_queue mom) = 3 \<and> cq_id (listener_queue mom) = 3"
proof -
  let ?xs = "[(50, connection_accepted 3), (51, zero_message\<lparr>message_choice_number := CHOICE_SEATS_RESPONSE\<rparr>)] :: (int \<times> q_message) list"
  have "\<forall>x \<in> set ?xs. fst x \<noteq> (0 :: int)" "ids_agree mom_example" "\<not> listening mom_example"
    by (simp_all add: ids_agree_def listening_def mom_example_def)
  note t = service_follows_conversation [OF this]
  have "map snd ?xs = [connection_accepted 3] @ zero_message\<lparr>message_choice_number := CHOICE_SEATS_RESPONSE\<rparr> # []"
    "shows_seats (zero_message\<lparr>message_choice_number := CHOICE_SEATS_RESPONSE\<rparr>)" "\<not> list_ex ends_listening []"
    by (simp_all add: shows_seats_def)
  then have "\<exists>ms1 m ms2. map snd ?xs = ms1 @ m # ms2 \<and> shows_seats m \<and> \<not> list_ex ends_listening ms2" by blast
  moreover have "last_identifier (client_cinema_id mom_example) (map snd ?xs) = 3"
    by (simp add: last_identifier_def accepts_def connection_accepted_def as_m1_def zero_message_def)
  ultimately show ?thesis using t by (simp only: Let_def)
qed

text \<open>The listener is never killed: \<open>kill\<close> is called exactly when a response ends the interest in the seats
  while a listener runs, and then with its arguments swapped, process 9 (\<open>SIGKILL\<close>) as the target and the
  listener's identifier as the signal.\<close>

theorem kill_misses_listener:
  "snd (fst (process_message forked mom m e)) =
     (if listening mom \<and> ends_listening m then [(SIGKILL, listener_pid mom)] else [])"
  by (simp add: process_message_def Let_def finish_async_seat_listener_def listening_def ends_listening_def)

section \<open>The flag\<close>

definition set_update :: "int \<Rightarrow> int \<Rightarrow> Seats_update \<Rightarrow> 'a ipc_scheme \<Rightarrow> 'a ipc_scheme" where
  "set_update ptr i v s = s\<lparr>shm_segs := (shm_segs s)(ptr \<mapsto>
     (the (shm_segs s ptr))\<lparr>seg_updates := (seg_updates (the (shm_segs s ptr)))[nat i := v]\<rparr>)\<rparr>"

lemma shm_segs_set_update [simp]:
  "shm_segs (set_update p i v s) j = (if j = p then Some ((the (shm_segs s p))
     \<lparr>seg_updates := (seg_updates (the (shm_segs s p)))[nat i := v]\<rparr>) else shm_segs s j)"
  by (simp add: set_update_def)

lemma set_update_other [simp]:
  "sem_vals (set_update p i v s) = sem_vals s" "msg_queues (set_update p i v s) = msg_queues s"
  by (simp_all add: set_update_def)

lemma set_sem_set_update: "set_sem m w (set_update p i v s) = set_update p i v (set_sem m w s)"
  by (simp add: set_sem_def set_update_def del: fun_upd_apply)

definition flag_ready :: "Mom \<Rightarrow> 'a ipc_scheme \<Rightarrow> bool" where
  "flag_ready mom s \<longleftrightarrow> sem_vals s (update_flag_mutex mom) = Some 1
     \<and> (\<exists>g. shm_segs s (update_flag mom) = Some g \<and> 0 \<le> update_flag_position mom
          \<and> update_flag_position mom < int (length (seg_updates g)))"

lemma flag_read_run:
  assumes "flag_ready mom s"
  shows "flag_update_read env mom s
    = (Ret (seg_updates (the (shm_segs s (update_flag mom))) ! nat (update_flag_position mom)), s)"
  using assms by (auto simp: flag_ready_def flag_update_read_def shm_read_update_def semaphore_run set_sem_same)

lemma flag_write_run:
  assumes "flag_ready mom s"
  shows "flag_update_write env mom u s = (Ret (), set_update (update_flag mom) (update_flag_position mom) u s)"
proof -
  let ?s0 = "set_sem (update_flag_mutex mom) 0 s"
  let ?s1 = "set_update (update_flag mom) (update_flag_position mom) u ?s0"
  have "shm_write_update (update_flag mom) (update_flag_position mom) u ?s0 = (Ret (), ?s1)"
    using assms by (auto simp: flag_ready_def shm_write_update_def set_update_def set_sem_def)
  moreover have "sem_vals ?s1 (update_flag_mutex mom) = Some 0" by simp
  ultimately show ?thesis
    using assms by (simp add: flag_ready_def flag_update_write_def semaphore_run set_sem_set_update set_sem_same)
qed

lemma flag_ready_write: "flag_ready mom s \<Longrightarrow> flag_ready mom (set_update (update_flag mom) i u s)"
  by (auto simp: flag_ready_def)

lemma flag_ready_queue [simp]: "flag_ready mom (set_queue q c s) = flag_ready mom s"
  by (simp add: flag_ready_def)

text \<open>A seat update reaches the client: when the listener receives a response with seats, what is read from the
  client's place in shared memory afterwards is marked \<open>SUCCESS\<close> and holds exactly the seats of the message, in
  order, with their status; the message is gone from the queue and the mutex is free again.\<close>

theorem update_reaches_flag:
  assumes "flag_ready mom s" and "orientation (listener_queue mom) = Some COMMQUEUE_AS_CLIENT"
    and "cq_id (listener_queue mom) = c" and "0 < c"
    and "msg_queues s (id_firstqueue (listener_queue mom)) = Some q" and "q_get c q = Some (m, q')"
    and "message_choice_number m = CHOICE_SEATS_RESPONSE" and "msg_choice m = M4 m4"
    and "0 \<le> m4_count m4" and "m4_count m4 \<le> int MAX_SEATS"
  shows "\<exists>s' u. seat_listener_turn env mom s = (Ret False, s') \<and> flag_update_read env mom s' = (Ret u, s')
     \<and> su_update u = SUCCESS \<and> su_count u = m4_count m4
     \<and> (\<forall>i < nat (m4_count m4). seat_no (su_seats u ! i) = m4_seats_id m4 ! i
          \<and> seat_status (su_seats u ! i) = m4_seats_status m4 ! i)
     \<and> msg_queues s' (id_firstqueue (listener_queue mom)) = Some q' \<and> flag_ready mom s'"
proof -
  let ?s1 = "set_queue (id_firstqueue (listener_queue mom)) q' s"
  obtain u where u: "update_of m4 = Some u" "su_update u = SUCCESS" "su_count u = m4_count m4"
    "\<forall>i < nat (m4_count m4). seat_no (su_seats u ! i) = m4_seats_id m4 ! i \<and> seat_status (su_seats u ! i) = m4_seats_status m4 ! i"
    using assms(10) by (simp add: update_of_def nth_append)
  let ?s2 = "set_update (update_flag mom) (update_flag_position mom) u ?s1"
  have recv: "receive_message env (listener_queue mom) s = (Ret m, ?s1)"
    using receive_message_run [of "listener_queue mom" c s q m q' env] assms(2-6) by (simp add: in_queue_def)
  have ready: "flag_ready mom ?s1" using assms(1) by simp
  have turn: "seat_listener_turn env mom s = (Ret False, ?s2)"
    using recv flag_write_run [OF ready, of env u] u(1) assms(7,8) by (simp add: seat_listener_turn_def)
  have ready2: "flag_ready mom ?s2" by (rule flag_ready_write [OF ready])
  have "flag_update_read env mom ?s2 = (Ret u, ?s2)"
    using flag_read_run [OF ready2, of env] ready by (auto simp: flag_ready_def nat_less_iff)
  with turn u ready2 show ?thesis by (intro exI [of _ ?s2] exI [of _ u]) simp
qed

definition m4_example :: m4_seats where
  "m4_example = zero_m4\<lparr>m4_count := 2, m4_seats_id := [1, 2] @ replicate 48 0, m4_seats_status := [1, 0] @ replicate 48 0\<rparr>"

lemma m4_example_simps:
  "m4_count m4_example = 2" "m4_seats_id m4_example ! 0 = 1" "m4_seats_status m4_example ! 0 = 1"
  by (simp_all add: m4_example_def)

definition flag_host :: ipc where
  "flag_host = empty_ipc\<lparr>msg_queues := [1 \<mapsto> [(7, seats_update_message 7 m4_example)]], sem_vals := [9 \<mapsto> 1],
     shm_segs := [8 \<mapsto> \<lparr>seg_size = 30400, seg_nattch = 1, seg_ints = [], seg_updates = replicate 50 zero_Seats_update\<rparr>]\<rparr>"

theorem update_reaches_flag_witness:
  "\<exists>s' u. seat_listener_turn (\<lambda>s. s) (mom_example\<lparr>listener_queue := client_7_channel\<lparr>orientation := Some 1\<rparr>\<rparr>) flag_host = (Ret False, s')
     \<and> flag_update_read (\<lambda>s. s) (mom_example\<lparr>listener_queue := client_7_channel\<lparr>orientation := Some 1\<rparr>\<rparr>) s' = (Ret u, s')
     \<and> su_count u = 2 \<and> seat_no (su_seats u ! 0) = 1 \<and> seat_status (su_seats u ! 0) = SEAT_STATUS_OCCUPED"
proof -
  let ?mom = "mom_example\<lparr>listener_queue := client_7_channel\<lparr>orientation := Some 1\<rparr>\<rparr>"
  have ready: "flag_ready ?mom flag_host" by (simp add: flag_ready_def flag_host_def mom_example_def)
  have q: "q_get 7 [(7, seats_update_message 7 m4_example)] = Some (seats_update_message 7 m4_example, [])"
    by (simp add: q_get_def msgrcv_def)
  have m: "message_choice_number (seats_update_message 7 m4_example) = CHOICE_SEATS_RESPONSE"
    "msg_choice (seats_update_message 7 m4_example) = M4 m4_example"
    by (simp_all add: seats_update_message_def)
  have queue: "msg_queues flag_host (id_firstqueue (listener_queue ?mom)) = Some [(7, seats_update_message 7 m4_example)]"
    by (simp add: flag_host_def client_7_channel_def)
  have ch: "orientation (listener_queue ?mom) = Some COMMQUEUE_AS_CLIENT" "cq_id (listener_queue ?mom) = 7" "0 < (7 :: int)"
    "0 \<le> m4_count m4_example" "m4_count m4_example \<le> int MAX_SEATS"
    by (simp_all add: client_7_channel_def m4_example_simps)
  from update_reaches_flag [OF ready ch(1-3) queue q m ch(4,5), of "\<lambda>s. s"] show ?thesis
  proof (elim exE conjE)
    fix s' u
    assume r: "seat_listener_turn (\<lambda>s. s) ?mom flag_host = (Ret False, s')" "flag_update_read (\<lambda>s. s) ?mom s' = (Ret u, s')" "su_count u = m4_count m4_example"
      "\<forall>i < nat (m4_count m4_example). seat_no (su_seats u ! i) = m4_seats_id m4_example ! i
          \<and> seat_status (su_seats u ! i) = m4_seats_status m4_example ! i"
    from r(4) [rule_format, of 0] r(1-3) show ?thesis
      by (intro exI [of _ s'] exI [of _ u]) (simp add: m4_example_simps)
  qed
qed

end
