(* ===== verification/Client_Interface.thy ===== *)
theory Client_Interface
  imports Mom
begin

text \<open>
  src/middleware/client_interface.cpp: the library a client program links, with the operations
  of include/middleware/client_interface.h.

  \<^item> A client process has the System V objects of its host and the map \<open>CLIENTS\<close>.  A
    \<open>Client*\<close> is a key of the map or null (\<open>None\<close>); to follow a null pointer is undefined.
  \<^item> The threads library is a parameter: the result of \<open>pthread_cancel\<close> for a thread, and the
    result and new thread of \<open>pthread_create\<close>.  The polling thread is a definition of its own,
    one turn of its loop, which gives the seats it hands to \<open>on_seat_update\<close>.
  \<^item> The text printed and the delays are left out.
\<close>

section \<open>Data\<close>

definition ERROR_NO_ERROR :: int where "ERROR_NO_ERROR = 0"
definition ERROR_CINEMA_CLOSE_CONNECTION :: int where "ERROR_CINEMA_CLOSE_CONNECTION = 1"
definition ERROR_CANNOT_CONNECT_TO_CINEMA :: int where "ERROR_CANNOT_CONNECT_TO_CINEMA = 2"
definition ERROR_ON_DISCONNECT_CINEMA :: int where "ERROR_ON_DISCONNECT_CINEMA = 3"
definition ERROR_GENERAL_ERROR :: int where "ERROR_GENERAL_ERROR = 4"
definition ERROR_MOM_ALREADY_INIT :: int where "ERROR_MOM_ALREADY_INIT = 5"
definition ERROR_MOM_NOT_INITIALIZED :: int where "ERROR_MOM_NOT_INITIALIZED = 6"
definition UNDEFINED_ID :: int where "UNDEFINED_ID = - 123"

lemmas error_codes [simp] = ERROR_NO_ERROR_def ERROR_CINEMA_CLOSE_CONNECTION_def ERROR_CANNOT_CONNECT_TO_CINEMA_def
  ERROR_ON_DISCONNECT_CINEMA_def ERROR_GENERAL_ERROR_def ERROR_MOM_ALREADY_INIT_def ERROR_MOM_NOT_INITIALIZED_def
  UNDEFINED_ID_def

record MomError =
  err_type :: int           \<comment> \<open>a \<open>short\<close>\<close>
  err_info :: string

record on_seat_update_data =
  polling_interval_sec :: int

record Client =
  mom_queue :: commqueue
  listener_thread :: int
  listener_updates :: int
  listener_updates_mutex :: int
  listener_updates_position :: int
  listener_extern_data :: "on_seat_update_data option"
  reservations :: "Reservation list"
  local_id :: int
  cinema_id :: int
  connected :: bool
  client_error :: MomError

record client_process = ipc +
  CLIENTS :: "int \<Rightarrow> Client option"

record threads =
  pthread_cancel :: "int \<Rightarrow> int"
  pthread_create :: "int \<times> int"

text \<open>Following and assigning through a \<open>Client*\<close>.\<close>

definition deref :: "int option \<Rightarrow> (Client, client_process) prog" where
  "deref p = (\<lambda>s. case p of None \<Rightarrow> undef_behaviour s | Some k \<Rightarrow> defined (CLIENTS s k) s)"

definition assign :: "int option \<Rightarrow> (Client \<Rightarrow> Client) \<Rightarrow> (unit, client_process) prog" where
  "assign p f = andThen (deref p) (\<lambda>c s. (Ret (), s\<lparr>CLIENTS := (CLIENTS s)(the p \<mapsto> f c)\<rparr>))"

definition set_error :: "int option \<Rightarrow> int \<Rightarrow> string \<Rightarrow> (unit, client_process) prog" where
  "set_error p type info = assign p (\<lambda>c. c\<lparr>client_error := \<lparr>err_type = type, err_info = info\<rparr>\<rparr>)"

definition get_client :: "int \<Rightarrow> bool \<Rightarrow> (int option, client_process) prog" where
  "get_client client_key checkConnection = (\<lambda>s. case CLIENTS s client_key of
       None \<Rightarrow> (Ret None, s)
     | Some client \<Rightarrow> if checkConnection \<and> \<not> connected client then (Ret None, s) else (Ret (Some client_key), s))"

definition clean_error :: "int option \<Rightarrow> (unit, client_process) prog" where
  "clean_error p = (if p \<noteq> None then set_error p ERROR_NO_ERROR [] else ret ())"

type_synonym client_env = "client_process \<Rightarrow> client_process"

section \<open>Connecting\<close>

definition connect_to_cinema :: "client_env \<Rightarrow> Client \<Rightarrow> (int, client_process) prog" where
  "connect_to_cinema env client =
     (let client_token = local_id client in
      andThen (send_message (mom_queue client) (zero_message\<lparr>message_type := TYPE_CONNECTION_CINEMA_REQUEST,
          message_choice_number := TYPE_CONNECTION_CINEMA_REQUEST, msg_choice := M1 client_token\<rparr>)) (\<lambda>_.
      andThen (receive_message env (mom_queue client)) (\<lambda>response.
        ret (if message_choice_number response = CHOICE_CONNECTION_ACCEPTED
             then as_m1 (msg_choice response) else UNDEFINED_ID))))"

definition init_mom :: "ftok \<Rightarrow> client_env \<Rightarrow> int \<Rightarrow> (int, client_process) prog" where
  "init_mom ftok env pid =
     (let client_local_id = pid in
      andThen (get_client client_local_id False) (\<lambda>client_exists.
        if client_exists \<noteq> None
        then andThen (set_error client_exists ERROR_MOM_ALREADY_INIT ''Error. MOM is already initialized'') (\<lambda>_.
             ret client_local_id)
        else andThen (create_commqueue ftok QUEUE_MOM_FILE QUEUE_MOM_CHAR) (\<lambda>channel.
          let mom_queue = channel\<lparr>orientation := Some COMMQUEUE_AS_CLIENT\<rparr> in
          andThen (semaphore_get ftok MUTEX_CLIENT_FILE MUTEX_CLIENT_CHAR) (\<lambda>mutex.
          andThen (shm_get_data ftok SHM_CLIENT_FILE SHM_CLIENT_CHAR SHM_CLIENT_SIZE) (\<lambda>updates.
            let client = \<lparr>mom_queue = mom_queue, listener_thread = 0, listener_updates = updates,
                  listener_updates_mutex = mutex, listener_updates_position = 0, listener_extern_data = None,
                  reservations = [], local_id = client_local_id, cinema_id = UNDEFINED_ID, connected = False,
                  client_error = \<lparr>err_type = ERROR_NO_ERROR, err_info = []\<rparr>\<rparr> in
            andThen (send_message mom_queue (zero_message\<lparr>message_type := TYPE_CONNECTION_MOM_REQUEST,
                msg_choice := M1 client_local_id\<rparr>)) (\<lambda>_.
            let mom_queue = mom_queue\<lparr>cq_id := client_local_id\<rparr> in
            andThen (receive_message env mom_queue) (\<lambda>response.
              if message_choice_number response = CHOICE_CONNECTION_ACCEPTED
              then andThen (modify (\<lambda>s. s\<lparr>CLIENTS := (CLIENTS s)(client_local_id \<mapsto> client\<lparr>connected := True,
                     mom_queue := mom_queue, listener_updates_position := as_m1 (msg_choice response)\<rparr>)\<rparr>)) (\<lambda>_.
                   ret client_local_id)
              else ret client_local_id)))))))"

definition login :: "client_env \<Rightarrow> int \<Rightarrow> (bool, client_process) prog" where
  "login env client_fd =
     andThen (get_client client_fd False) (\<lambda>client.
     andThen (clean_error client) (\<lambda>_.
     andThen (deref client) (\<lambda>c.
     andThen (connect_to_cinema env c) (\<lambda>new_id.
     andThen (assign client (\<lambda>c. c\<lparr>cinema_id := new_id\<rparr>)) (\<lambda>_.
       if new_id = UNDEFINED_ID
       then andThen (set_error client ERROR_CANNOT_CONNECT_TO_CINEMA ''Cannot connect with cinema'') (\<lambda>_. ret False)
       else andThen (assign client (\<lambda>c. c\<lparr>connected := True\<rparr>)) (\<lambda>_. ret True))))))"

section \<open>The polling thread and the end of a connection\<close>

definition end_listener_thread :: "threads \<Rightarrow> int option \<Rightarrow> (unit, client_process) prog" where
  "end_listener_thread T client =
     andThen (deref client) (\<lambda>c.
       if pthread_cancel T (listener_thread c) = 0 then assign client (\<lambda>c. c\<lparr>listener_extern_data := None\<rparr>)
       else ret ())"

definition disconnect :: "threads \<Rightarrow> client_env \<Rightarrow> int option \<Rightarrow> bool \<Rightarrow> (bool, client_process) prog" where
  "disconnect T env client send =
     andThen (end_listener_thread T client) (\<lambda>_.
     andThen (deref client) (\<lambda>c.
     andThen (if send
              then andThen (send_message (mom_queue c) (zero_message\<lparr>message_choice_number := CHOICE_EXIT\<rparr>)) (\<lambda>_.
                   andThen (receive_message env (mom_queue c)) (\<lambda>exit_from_cinema.
                     ret (message_choice_number exit_from_cinema = CHOICE_EXIT)))
              else ret True) (\<lambda>answered.
       if answered then andThen (assign client (\<lambda>c. c\<lparr>connected := False\<rparr>)) (\<lambda>_. ret True)
       else andThen (set_error client ERROR_ON_DISCONNECT_CINEMA ''Error after exited from cinema'') (\<lambda>_. ret False))))"

text \<open>One turn of the polling thread: the seats handed over, if any, and whether it goes on.\<close>

definition listener_thread_turn :: "client_env \<Rightarrow> Client \<Rightarrow> (Seat list option \<times> bool, client_process) prog" where
  "listener_thread_turn env client =
     (let mutex = listener_updates_mutex client; ptr = listener_updates client; i = listener_updates_position client in
      andThen (semaphore_wait env mutex) (\<lambda>_.
      andThen (shm_read_update ptr i) (\<lambda>update.
      andThen (shm_write_update ptr i (update\<lparr>su_update := NOT_SUCCESS\<rparr>)) (\<lambda>_.
      andThen (semaphore_signal env mutex) (\<lambda>_.
        if su_update update = SUCCESS
        then if su_count update \<le> int (length (su_seats update))
             then ret (Some (take (nat (su_count update)) (su_seats update)), True)
             else undef_behaviour
        else ret (None, su_update update = NOT_SUCCESS))))))"

definition start_listener_thread :: "threads \<Rightarrow> int option \<Rightarrow> (unit, client_process) prog" where
  "start_listener_thread T client =
     andThen (end_listener_thread T client) (\<lambda>_.
       if client = None then ret ()
       else if fst (pthread_create T) \<noteq> 0 then set_error client ERROR_GENERAL_ERROR ''Cannot start listener''
       else assign client (\<lambda>c. c\<lparr>listener_thread := snd (pthread_create T)\<rparr>))"

section \<open>The operations\<close>

text \<open>The branch taken on \<open>CHOICE_EXIT\<close>.\<close>

definition cinema_closed :: "threads \<Rightarrow> client_env \<Rightarrow> int option \<Rightarrow> (unit, client_process) prog" where
  "cinema_closed T env client =
     andThen (disconnect T env client False) (\<lambda>_.
       set_error client ERROR_CINEMA_CLOSE_CONNECTION ''Cinema close connection'')"

definition rooms_of_message :: "m2_rooms \<Rightarrow> Room list option" where
  "rooms_of_message m2 = (if m2_count m2 \<le> int (length (m2_ids m2))
     then Some (map (\<lambda>i. \<lparr>room_no = i\<rparr>) (take (nat (m2_count m2)) (m2_ids m2))) else None)"

definition get_rooms :: "threads \<Rightarrow> client_env \<Rightarrow> int \<Rightarrow> (Room list, client_process) prog" where
  "get_rooms T env client_fd =
     andThen (get_client client_fd True) (\<lambda>client.
     andThen (clean_error client) (\<lambda>_.
     andThen (end_listener_thread T client) (\<lambda>_.
       if client = None then ret []
       else andThen (deref client) (\<lambda>c.
         andThen (send_message (mom_queue c) (zero_message\<lparr>message_choice_number := CHOICE_ROOMS_REQUEST\<rparr>)) (\<lambda>_.
         andThen (receive_message env (mom_queue c)) (\<lambda>rooms_response.
           if message_choice_number rooms_response = CHOICE_ROOMS_RESPONSE
           then defined (rooms_of_message (as_m2 (msg_choice rooms_response)))
           else if message_choice_number rooms_response = CHOICE_EXIT
           then andThen (cinema_closed T env client) (\<lambda>_. ret [])
           else andThen (set_error client ERROR_GENERAL_ERROR ''Unexpected Error after CHOICE_ROOMS_REQUEST'') (\<lambda>_. ret []))))))) "

definition seat_to_vector :: "m4_seats \<Rightarrow> Seat list option" where
  "seat_to_vector raw_seats =
     (if m4_count raw_seats \<le> int (length (m4_seats_id raw_seats)) \<and> m4_count raw_seats \<le> int (length (m4_seats_status raw_seats))
      then Some (map (\<lambda>(i, st). zero_Seat\<lparr>seat_no := i, seat_status := st\<rparr>)
        (take (nat (m4_count raw_seats)) (zip (m4_seats_id raw_seats) (m4_seats_status raw_seats))))
      else None)"

definition get_seats ::
  "threads \<Rightarrow> client_env \<Rightarrow> int \<Rightarrow> Room \<Rightarrow> on_seat_update_data option \<Rightarrow> (Seat list, client_process) prog" where
  "get_seats T env client_fd aRoom on_update_data =
     andThen (get_client client_fd True) (\<lambda>client.
     andThen (clean_error client) (\<lambda>_.
     andThen (end_listener_thread T client) (\<lambda>_.
       if client = None then ret []
       else andThen (deref client) (\<lambda>c.
         andThen (send_message (mom_queue c) (zero_message\<lparr>message_choice_number := CHOICE_SEATS_REQUEST,
             msg_choice := M3 (room_no aRoom)\<rparr>)) (\<lambda>_.
         andThen (receive_message env (mom_queue c)) (\<lambda>room_information.
           let m4 = as_m4 (msg_choice room_information) in
           if message_choice_number room_information \<noteq> CHOICE_SEATS_RESPONSE
           then if message_choice_number room_information = CHOICE_EXIT
                then andThen (cinema_closed T env client) (\<lambda>_. ret [])
                else andThen (set_error client ERROR_GENERAL_ERROR ''Unexpected Error after CHOICE_SEATS_REQUEST'') (\<lambda>_. ret [])
           else if m4_success m4 = NOT_SUCCESS
           then andThen (set_error client ERROR_GENERAL_ERROR
                  (''Not succes after select room: '' @ [CHR 0x22] @ c_string (m4_information m4) @ [CHR 0x22])) (\<lambda>_. ret [])
           else andThen (if on_update_data \<noteq> None
                    then andThen (assign client (\<lambda>c. c\<lparr>listener_extern_data := on_update_data\<rparr>)) (\<lambda>_.
                         start_listener_thread T client)
                    else ret ()) (\<lambda>_.
                  defined (seat_to_vector m4))))))))"

definition reserve_seat :: "threads \<Rightarrow> client_env \<Rightarrow> int \<Rightarrow> Seat \<Rightarrow> (bool, client_process) prog" where
  "reserve_seat T env client_fd aSeat =
     andThen (get_client client_fd True) (\<lambda>client.
     andThen (clean_error client) (\<lambda>_.
       if client = None then ret False
       else andThen (deref client) (\<lambda>c.
         andThen (send_message (mom_queue c) (zero_message\<lparr>message_choice_number := CHOICE_SEAT_SELECT_REQUEST,
             msg_choice := M5 (seat_no aSeat)\<rparr>)) (\<lambda>_.
         andThen (receive_message env (mom_queue c)) (\<lambda>seat_select_response.
           let m6 = as_m6 (msg_choice seat_select_response) in
           if message_choice_number seat_select_response \<noteq> CHOICE_SEAT_SELECT_RESPONSE
           then if message_choice_number seat_select_response = CHOICE_EXIT
                then andThen (cinema_closed T env client) (\<lambda>_. ret False)
                else andThen (set_error client ERROR_GENERAL_ERROR ''Unexpected error when select seat'') (\<lambda>_. ret False)
           else if m6_success m6 \<noteq> SUCCESS
           then andThen (set_error client ERROR_GENERAL_ERROR (c_string (m6_information m6))) (\<lambda>_. ret False)
           else andThen (end_listener_thread T client) (\<lambda>_.
                andThen (assign client (\<lambda>c. c\<lparr>reservations := reservations c
                    @ [\<lparr>res_room = seat_room aSeat, res_seat_num = seat_no aSeat\<rparr>]\<rparr>)) (\<lambda>_. ret True)))))))"

definition get_reservations :: "int \<Rightarrow> (Reservation list, client_process) prog" where
  "get_reservations client_fd =
     andThen (get_client client_fd True) (\<lambda>client.
     andThen (clean_error client) (\<lambda>_.
       if client = None then ret [] else andThen (deref client) (\<lambda>c. ret (reservations c))))"

definition pay_seats :: "threads \<Rightarrow> client_env \<Rightarrow> int \<Rightarrow> (bool, client_process) prog" where
  "pay_seats T env client_fd =
     andThen (get_client client_fd True) (\<lambda>client.
     andThen (clean_error client) (\<lambda>_.
       if client = None then ret False
       else andThen (deref client) (\<lambda>c.
         let m7 = (as_m7 (msg_choice zero_message))\<lparr>m7_count := int32 (int (length (reservations c)))\<rparr> in
         andThen (defined (std_copy (reservations c) (m7_list m7))) (\<lambda>rlist.
         andThen (send_message (mom_queue c) (zero_message\<lparr>q_message.client_id := cinema_id c,
             message_choice_number := CHOICE_PAY_RESERVATION_REQUEST, msg_choice := M7 (m7\<lparr>m7_list := rlist\<rparr>)\<rparr>)) (\<lambda>_.
         andThen (receive_message env (mom_queue c)) (\<lambda>response.
           let m6 = as_m6 (msg_choice response) in
           if message_choice_number response \<noteq> CHOICE_PAY_RESERVATION_RESPONSE
           then andThen (if message_choice_number response = CHOICE_EXIT then cinema_closed T env client else ret ()) (\<lambda>_.
                andThen (set_error client ERROR_GENERAL_ERROR ''Error on pay reservations'') (\<lambda>_. ret False))
           else if m6_success m6 = NOT_SUCCESS
           then andThen (set_error client ERROR_GENERAL_ERROR (''Error on Buy: '' @ c_string (m6_information m6))) (\<lambda>_. ret False)
           else ret True))))))"

definition is_connected :: "int \<Rightarrow> (bool, client_process) prog" where
  "is_connected client_fd =
     andThen (get_client client_fd True) (\<lambda>client.
       if client = None then ret False else andThen (deref client) (\<lambda>c. ret (connected c)))"

definition is_error :: "int \<Rightarrow> (bool, client_process) prog" where
  "is_error client_fd =
     andThen (get_client client_fd True) (\<lambda>client.
       if client = None then ret True
       else andThen (deref client) (\<lambda>c. ret (err_type (client_error c) \<noteq> ERROR_NO_ERROR)))"

definition get_error :: "int \<Rightarrow> (MomError, client_process) prog" where
  "get_error client_fd =
     andThen (get_client client_fd True) (\<lambda>client.
       if client = None then ret \<lparr>err_type = ERROR_MOM_NOT_INITIALIZED, err_info = ''MOM not initialized''\<rparr>
       else andThen (deref client) (\<lambda>c. ret (client_error c)))"

definition end_mom :: "threads \<Rightarrow> client_env \<Rightarrow> int \<Rightarrow> (bool, client_process) prog" where
  "end_mom T env client_fd =
     andThen (get_client client_fd True) (\<lambda>client.
     andThen (clean_error client) (\<lambda>_.
       if client = None then ret True
       else andThen (disconnect T env client True) (\<lambda>disconnected.
         if \<not> disconnected
         then andThen (set_error client ERROR_GENERAL_ERROR ''Error on en MOM'') (\<lambda>_. ret False)
         else andThen (modify (\<lambda>s. s\<lparr>CLIENTS := (CLIENTS s)(client_fd := None)\<rparr>)) (\<lambda>_. ret True))))"


section \<open>What an operation does to the client\<close>

definition set_client :: "int \<Rightarrow> Client \<Rightarrow> client_process \<Rightarrow> client_process" where
  "set_client k c s = s\<lparr>CLIENTS := (CLIENTS s)(k \<mapsto> c)\<rparr>"

lemma CLIENTS_set_client [simp]: "CLIENTS (set_client k c s) j = (if j = k then Some c else CLIENTS s j)"
  by (simp add: set_client_def)

lemma set_client_set_client [simp]: "set_client k c' (set_client k c s) = set_client k c' s"
  by (simp add: set_client_def del: fun_upd_apply)

lemma deref_run: "CLIENTS s k = Some c \<Longrightarrow> deref (Some k) s = (Ret c, s)"
  by (simp add: deref_def)

lemma deref_null: "deref None s = (Undef, s)"
  by (simp add: deref_def)

lemma assign_run: "CLIENTS s k = Some c \<Longrightarrow> assign (Some k) f s = (Ret (), set_client k (f c) s)"
  by (simp add: assign_def deref_run set_client_def)

lemma set_error_run:
  "CLIENTS s k = Some c \<Longrightarrow> set_error (Some k) t i s
     = (Ret (), set_client k (c\<lparr>client_error := \<lparr>err_type = t, err_info = i\<rparr>\<rparr>) s)"
  by (simp add: set_error_def assign_run)

definition no_error :: "Client \<Rightarrow> Client" where
  "no_error c = c\<lparr>client_error := \<lparr>err_type = ERROR_NO_ERROR, err_info = []\<rparr>\<rparr>"

lemma no_error_simps [simp]:
  "mom_queue (no_error c) = mom_queue c" "reservations (no_error c) = reservations c"
  "connected (no_error c) = connected c" "client_error (no_error c) = \<lparr>err_type = 0, err_info = []\<rparr>"
  by (simp_all add: no_error_def)

lemma get_client_run:
  "CLIENTS s k = Some c \<Longrightarrow> connected c \<Longrightarrow> get_client k b s = (Ret (Some k), s)"
  "CLIENTS s k = Some c \<Longrightarrow> \<not> connected c \<Longrightarrow> get_client k True s = (Ret None, s)"
  "CLIENTS s k = None \<Longrightarrow> get_client k b s = (Ret None, s)"
  by (simp_all add: get_client_def)

lemma clean_error_run:
  "CLIENTS s k = Some c \<Longrightarrow> clean_error (Some k) s = (Ret (), set_client k (no_error c) s)"
  "clean_error None s = (Ret (), s)"
  by (simp_all add: clean_error_def set_error_run no_error_def)

lemmas client_run = deref_run deref_null assign_run set_error_run get_client_run clean_error_run

lemma end_listener_run:
  assumes "CLIENTS s k = Some c"
  shows "\<exists>d. end_listener_thread T (Some k) s = (Ret (), set_client k (c\<lparr>listener_extern_data := d\<rparr>) s)"
proof (cases "pthread_cancel T (listener_thread c) = 0")
  case True
  with assms show ?thesis by (intro exI [of _ None]) (simp add: end_listener_thread_def client_run)
next
  case False
  moreover have "set_client k (c\<lparr>listener_extern_data := listener_extern_data c\<rparr>) s = s"
    using assms by (simp add: set_client_def fun_upd_idem del: fun_upd_apply)
  ultimately show ?thesis
    using assms by (intro exI [of _ "listener_extern_data c"]) (simp add: end_listener_thread_def client_run)
qed

lemma cinema_closed_run:
  assumes "CLIENTS s k = Some c"
  shows "\<exists>d. cinema_closed T env (Some k) s = (Ret (), set_client k (c\<lparr>listener_extern_data := d, connected := False,
    client_error := \<lparr>err_type = ERROR_CINEMA_CLOSE_CONNECTION, err_info = ''Cinema close connection''\<rparr>\<rparr>) s)"
proof -
  obtain d where "end_listener_thread T (Some k) s = (Ret (), set_client k (c\<lparr>listener_extern_data := d\<rparr>) s)"
    using end_listener_run [OF assms] by blast
  then show ?thesis
    by (intro exI [of _ d]) (simp add: cinema_closed_def disconnect_def client_run)
qed

definition select_request :: "Seat \<Rightarrow> q_message" where
  "select_request aSeat = zero_message\<lparr>message_choice_number := CHOICE_SEAT_SELECT_REQUEST, msg_choice := M5 (seat_no aSeat)\<rparr>"

lemma reserve_seat_run:
  assumes "CLIENTS s k = Some c" and "connected c"
    and "send_message (mom_queue c) (select_request aSeat) (set_client k (no_error c) s) = (Ret (), s1)"
    and "receive_message env (mom_queue c) s1 = (Ret m, s2)" and "CLIENTS s2 k = Some (no_error c)"
  shows "\<exists>ok s3 c3. reserve_seat T env k aSeat s = (Ret ok, s3) \<and> CLIENTS s3 k = Some c3
     \<and> (ok \<longleftrightarrow> message_choice_number m = CHOICE_SEAT_SELECT_RESPONSE \<and> m6_success (as_m6 (msg_choice m)) = SUCCESS)
     \<and> reservations c3 = reservations c @ (if ok then [\<lparr>res_room = seat_room aSeat, res_seat_num = seat_no aSeat\<rparr>] else [])
     \<and> (err_type (client_error c3) = ERROR_NO_ERROR \<longleftrightarrow> ok)
     \<and> (connected c3 \<longleftrightarrow> message_choice_number m \<noteq> CHOICE_EXIT)"
proof -
  have ask: "reserve_seat T env k aSeat s = (let m6 = as_m6 (msg_choice m) in
      if message_choice_number m \<noteq> CHOICE_SEAT_SELECT_RESPONSE
      then if message_choice_number m = CHOICE_EXIT
           then andThen (cinema_closed T env (Some k)) (\<lambda>_. ret False)
           else andThen (set_error (Some k) ERROR_GENERAL_ERROR ''Unexpected error when select seat'') (\<lambda>_. ret False)
      else if m6_success m6 \<noteq> SUCCESS
      then andThen (set_error (Some k) ERROR_GENERAL_ERROR (c_string (m6_information m6))) (\<lambda>_. ret False)
      else andThen (end_listener_thread T (Some k)) (\<lambda>_.
           andThen (assign (Some k) (\<lambda>c. c\<lparr>reservations := reservations c
               @ [\<lparr>res_room = seat_room aSeat, res_seat_num = seat_no aSeat\<rparr>]\<rparr>)) (\<lambda>_. ret True))) s2"
    using assms(1-4) by (simp add: reserve_seat_def client_run select_request_def Let_def)
  obtain d1 where d1: "cinema_closed T env (Some k) s2 = (Ret (), set_client k ((no_error c)\<lparr>listener_extern_data := d1,
      connected := False, client_error := \<lparr>err_type = ERROR_CINEMA_CLOSE_CONNECTION, err_info = ''Cinema close connection''\<rparr>\<rparr>) s2)"
    using cinema_closed_run [OF assms(5)] by blast
  obtain d2 where d2: "end_listener_thread T (Some k) s2 = (Ret (), set_client k ((no_error c)\<lparr>listener_extern_data := d2\<rparr>) s2)"
    using end_listener_run [OF assms(5)] by blast
  show ?thesis
    using assms(2,5) d1 d2 unfolding ask Let_def by (auto simp: client_run)
qed

text \<open>Reserving a seat: the client program is told true exactly when the cinema answered a selection with
  \<open>SUCCESS\<close>; then, and only then, the reservation is remembered, once, for the room and the seat asked for; otherwise
  an error is set; and the client is disconnected exactly when the cinema had closed the connection.\<close>

theorem reserve_seat_outcome:
  assumes "CLIENTS s k = Some c" and "connected c"
    and "send_message (mom_queue c) (select_request aSeat) (set_client k (no_error c) s) = (Ret (), s1)"
    and "receive_message env (mom_queue c) s1 = (Ret m, s2)" and "CLIENTS s2 k = Some (no_error c)"
  shows "\<exists>ok s3 c3. reserve_seat T env k aSeat s = (Ret ok, s3) \<and> CLIENTS s3 k = Some c3
     \<and> (ok \<longleftrightarrow> message_choice_number m = CHOICE_SEAT_SELECT_RESPONSE \<and> m6_success (as_m6 (msg_choice m)) = SUCCESS)
     \<and> reservations c3 = reservations c @ (if ok then [\<lparr>res_room = seat_room aSeat, res_seat_num = seat_no aSeat\<rparr>] else [])
     \<and> (err_type (client_error c3) = ERROR_NO_ERROR \<longleftrightarrow> ok)
     \<and> (connected c3 \<longleftrightarrow> message_choice_number m \<noteq> CHOICE_EXIT)"
  by (rule reserve_seat_run [OF assms])

definition client_example :: Client where
  "client_example = \<lparr>mom_queue = \<lparr>id_firstqueue = 1, id_secondqueue = 2, orientation = Some 1, cq_id = 500\<rparr>,
     listener_thread = 0, listener_updates = 8, listener_updates_mutex = 9, listener_updates_position = 0,
     listener_extern_data = None, reservations = [], local_id = 500, cinema_id = 3, connected = True,
     client_error = \<lparr>err_type = 0, err_info = []\<rparr>\<rparr>"

definition client_host :: client_process where
  "client_host = \<lparr>msg_ids = Map.empty, msg_queues = [1 \<mapsto> [], 2 \<mapsto> []], sem_ids = Map.empty, sem_vals = Map.empty,
     shm_ids = Map.empty, shm_segs = Map.empty, next_id = 10, CLIENTS = [500 \<mapsto> client_example]\<rparr>"

definition answers :: "q_message \<Rightarrow> client_env" where
  "answers m s = set_queue 1 [(500, m)] s"

text \<open>The exchange of the example: the request waits in queue 2, the answer has been taken.\<close>

lemma client_host_exchange:
  fixes r :: q_message
  defines "s0 \<equiv> set_client 500 (no_error client_example) client_host"
  defines "s1 \<equiv> set_queue 2 [(500, stamp 500 r)] s0"
  shows "send_message (mom_queue client_example) r s0 = (Ret (), s1)"
    and "receive_message (answers m) (mom_queue client_example) s1 = (Ret m, set_queue 1 [] s1)"
    and "CLIENTS (set_queue 1 [] s1) 500 = Some (no_error client_example)"
    and "CLIENTS client_host 500 = Some client_example" and "connected client_example"
proof -
  have q: "msg_queues s0 2 = Some []" "msg_queues s0 1 = Some []"
    by (simp_all add: s0_def set_client_def client_host_def)
  show "send_message (mom_queue client_example) r s0 = (Ret (), s1)"
    using send_message_run [of "mom_queue client_example" 500 s0 "[]" r] q
    by (simp add: client_example_def out_queue_def s1_def q_put_def)
  show "receive_message (answers m) (mom_queue client_example) s1 = (Ret m, set_queue 1 [] s1)"
    using q by (simp add: receive_message_def receive_message_type_def client_example_def queue_receive_def
        try_receive_def s1_def answers_def msgrcv_def)
  show "CLIENTS (set_queue 1 [] s1) 500 = Some (no_error client_example)"
    by (simp add: s1_def s0_def set_queue_def)
  show "CLIENTS client_host 500 = Some client_example" "connected client_example"
    by (simp_all add: client_host_def client_example_def)
qed

definition select_success :: q_message where
  "select_success = zero_message\<lparr>message_choice_number := CHOICE_SEAT_SELECT_RESPONSE, msg_choice := M6 zero_m6\<rparr>"

theorem reserve_seat_outcome_witness:
  "\<exists>s3 c3. reserve_seat \<lparr>pthread_cancel = \<lambda>_. 3, pthread_create = (0, 5)\<rparr> (answers select_success) 500
       \<lparr>seat_no = 4, seat_room = 2, seat_status = 0\<rparr> client_host = (Ret True, s3)
     \<and> CLIENTS s3 500 = Some c3 \<and> reservations c3 = [\<lparr>res_room = 2, res_seat_num = 4\<rparr>]"
proof -
  let ?r = "select_request \<lparr>seat_no = 4, seat_room = 2, seat_status = 0\<rparr>"
  note x = client_host_exchange(4,5) client_host_exchange(1) [where r = ?r]
    client_host_exchange(2) [where r = ?r and m = select_success] client_host_exchange(3) [where r = ?r]
  from reserve_seat_outcome [OF x, of "\<lparr>pthread_cancel = \<lambda>_. 3, pthread_create = (0, 5)\<rparr>"]
  show ?thesis
    by (elim exE conjE) (auto simp: select_success_def zero_m6_def client_example_def)
qed

text \<open>The reason of a disconnection is lost: when the cinema closes the connection, \<open>reserve_seat\<close> records
  \<open>ERROR_CINEMA_CLOSE_CONNECTION\<close>, but \<open>get_error\<close> does not look at a client that is not connected and answers
  \<open>ERROR_MOM_NOT_INITIALIZED\<close>; \<open>end_mom\<close> then returns true and leaves the client in the map.\<close>

theorem close_reason_lost:
  assumes "CLIENTS s k = Some c" and "connected c"
    and "send_message (mom_queue c) (select_request aSeat) (set_client k (no_error c) s) = (Ret (), s1)"
    and "receive_message env (mom_queue c) s1 = (Ret m, s2)" and "CLIENTS s2 k = Some (no_error c)"
    and "message_choice_number m = CHOICE_EXIT"
  shows "\<exists>s3 c3. reserve_seat T env k aSeat s = (Ret False, s3) \<and> CLIENTS s3 k = Some c3
     \<and> err_type (client_error c3) = ERROR_CINEMA_CLOSE_CONNECTION
     \<and> get_error k s3 = (Ret \<lparr>err_type = ERROR_MOM_NOT_INITIALIZED, err_info = ''MOM not initialized''\<rparr>, s3)
     \<and> end_mom T env k s3 = (Ret True, s3)"
proof -
  obtain d where d: "cinema_closed T env (Some k) s2 = (Ret (), set_client k ((no_error c)\<lparr>listener_extern_data := d,
      connected := False, client_error := \<lparr>err_type = ERROR_CINEMA_CLOSE_CONNECTION, err_info = ''Cinema close connection''\<rparr>\<rparr>) s2)"
    (is "_ = (Ret (), ?s3)")
    using cinema_closed_run [OF assms(5)] by blast
  have "reserve_seat T env k aSeat s = (Ret False, ?s3)"
    using assms d by (simp add: reserve_seat_def client_run select_request_def Let_def)
  moreover have "get_client k True ?s3 = (Ret None, ?s3)" by (simp add: get_client_def)
  then have "get_error k ?s3 = (Ret \<lparr>err_type = ERROR_MOM_NOT_INITIALIZED, err_info = ''MOM not initialized''\<rparr>, ?s3)"
    "end_mom T env k ?s3 = (Ret True, ?s3)"
    by (simp_all add: get_error_def end_mom_def clean_error_run)
  ultimately show ?thesis by (intro exI [of _ ?s3]) simp
qed

theorem close_reason_lost_witness:
  "\<exists>s3. reserve_seat \<lparr>pthread_cancel = \<lambda>_. 3, pthread_create = (0, 5)\<rparr> (answers (zero_message\<lparr>message_choice_number := CHOICE_EXIT\<rparr>)) 500
       \<lparr>seat_no = 4, seat_room = 2, seat_status = 0\<rparr> client_host = (Ret False, s3)
     \<and> get_error 500 s3 = (Ret \<lparr>err_type = ERROR_MOM_NOT_INITIALIZED, err_info = ''MOM not initialized''\<rparr>, s3)"
proof -
  let ?r = "select_request \<lparr>seat_no = 4, seat_room = 2, seat_status = 0\<rparr>"
  note x = client_host_exchange(4,5) client_host_exchange(1) [where r = ?r]
    client_host_exchange(2) [where r = ?r and m = "zero_message\<lparr>message_choice_number := CHOICE_EXIT\<rparr>"]
    client_host_exchange(3) [where r = ?r]
  from close_reason_lost [OF x, of "\<lparr>pthread_cancel = \<lambda>_. 3, pthread_create = (0, 5)\<rparr>"]
  show ?thesis by fastforce
qed

text \<open>Operations on a client that is not connected: \<open>reserve_seat\<close> and \<open>pay_seats\<close> return false and
  \<open>get_reservations\<close> nothing, but \<open>get_rooms\<close>, \<open>get_seats\<close> and \<open>login\<close> follow the null pointer before testing it.\<close>

theorem unconnected_client:
  assumes "CLIENTS s k = None"
  shows "reserve_seat T env k aSeat s = (Ret False, s) \<and> pay_seats T env k s = (Ret False, s)
     \<and> get_reservations k s = (Ret [], s)
     \<and> fst (get_rooms T env k s) = Undef \<and> fst (get_seats T env k aRoom data s) = Undef \<and> fst (login env k s) = Undef"
  using assms
  by (simp add: reserve_seat_def pay_seats_def get_reservations_def get_rooms_def get_seats_def login_def
      end_listener_thread_def client_run)

theorem unconnected_client_witness:
  "fst (get_rooms \<lparr>pthread_cancel = \<lambda>_. 3, pthread_create = (0, 5)\<rparr> (\<lambda>s. s) 1 client_host) = Undef"
  using unconnected_client [of client_host 1 "\<lparr>pthread_cancel = \<lambda>_. 3, pthread_create = (0, 5)\<rparr>" "\<lambda>s. s"]
  by (simp add: client_host_def)

end
