(* ===== verification/Utilities.thy ===== *)
theory Utilities
  imports Client_Interface
begin

text \<open>
  The three programs of src/utils: initializer.cpp creates the System V objects of the system,
  destructor.cpp removes them, and database_data_init.cpp fills a new database with two users,
  three rooms and their seats.
\<close>

section \<open>initializer.cpp and destructor.cpp\<close>

definition MUTEX_CINEMA_INIT_VALUE :: int where "MUTEX_CINEMA_INIT_VALUE = 1"
definition MUTEX_CLIENT_INIT_VALUE :: int where "MUTEX_CLIENT_INIT_VALUE = 1"

definition initializer :: "ftok \<Rightarrow> (int, 'a ipc_scheme) prog" where
  "initializer ftok =
     andThen (create_commqueue ftok QUEUE_COMMUNICATION_FILE QUEUE_COMMUNICATION_CHAR) (\<lambda>_.
     andThen (create_commqueue ftok QUEUE_ACTIVITY_FILE QUEUE_ACTIVITY_CHAR) (\<lambda>_.
     andThen (create_commqueue ftok QUEUE_CINEMA_ADMIN_FILE QUEUE_CINEMA_ADMIN_CHAR) (\<lambda>_.
     andThen (create_commqueue ftok QUEUE_MOM_FILE QUEUE_MOM_CHAR) (\<lambda>_.
     andThen (shm_create ftok SHM_CINEMA_TIMER_FILE SHM_CINEMA_TIMER_CHAR SHM_CINEMA_TIMER_SIZE) (\<lambda>_.
     andThen (semaphore_create ftok MUTEX_CINEMA_FILE MUTEX_CINEMA_CHAR MUTEX_CINEMA_INIT_VALUE) (\<lambda>_.
     andThen (shm_create ftok SHM_CLIENT_FILE SHM_CLIENT_CHAR SHM_CLIENT_SIZE) (\<lambda>_.
     andThen (semaphore_create ftok MUTEX_CLIENT_FILE MUTEX_CLIENT_CHAR MUTEX_CLIENT_INIT_VALUE) (\<lambda>_.
       ret 0))))))))"

definition destructor :: "ftok \<Rightarrow> (unit, 'a ipc_scheme) prog" where
  "destructor ftok =
     andThen (andThen (create_commqueue ftok QUEUE_COMMUNICATION_FILE QUEUE_COMMUNICATION_CHAR) delete_queue) (\<lambda>_.
     andThen (andThen (create_commqueue ftok QUEUE_ACTIVITY_FILE QUEUE_ACTIVITY_CHAR) delete_queue) (\<lambda>_.
     andThen (andThen (create_commqueue ftok QUEUE_CINEMA_ADMIN_FILE QUEUE_CINEMA_ADMIN_CHAR) delete_queue) (\<lambda>_.
     andThen (andThen (create_commqueue ftok QUEUE_MOM_FILE QUEUE_MOM_CHAR) delete_queue) (\<lambda>_.
     andThen (andThen (shm_create ftok SHM_CINEMA_TIMER_FILE SHM_CINEMA_TIMER_CHAR SHM_CINEMA_TIMER_SIZE) shm_remove) (\<lambda>_.
     andThen (andThen (semaphore_get ftok MUTEX_CLIENT_FILE MUTEX_CLIENT_CHAR) semaphore_delete) (\<lambda>_.
     andThen (andThen (shm_create ftok SHM_CLIENT_FILE SHM_CLIENT_CHAR SHM_CLIENT_SIZE) shm_remove) (\<lambda>_.
       andThen (semaphore_get ftok MUTEX_CINEMA_FILE MUTEX_CINEMA_CHAR) semaphore_delete)))))))"

lemmas object_names = QUEUE_COMMUNICATION_FILE_def QUEUE_COMMUNICATION_CHAR_def QUEUE_ACTIVITY_FILE_def
  QUEUE_ACTIVITY_CHAR_def QUEUE_CINEMA_ADMIN_FILE_def QUEUE_CINEMA_ADMIN_CHAR_def QUEUE_MOM_FILE_def QUEUE_MOM_CHAR_def
  SHM_CINEMA_TIMER_FILE_def SHM_CINEMA_TIMER_CHAR_def MUTEX_CINEMA_FILE_def MUTEX_CINEMA_CHAR_def
  SHM_CLIENT_FILE_def SHM_CLIENT_CHAR_def MUTEX_CLIENT_FILE_def MUTEX_CLIENT_CHAR_def
  MUTEX_CINEMA_INIT_VALUE_def MUTEX_CLIENT_INIT_VALUE_def

text \<open>The names of the eight queues, the two segments and the two semaphores.\<close>

definition queue_names :: "(string \<times> char) list" where
  "queue_names = [(''/bin/bash'', CHR ''a''), (''/bin/bash'', CHR ''b''), (''/bin/bash'', CHR ''h''), (''/bin/bash'', CHR ''i''),
     (''/bin/bash'', CHR ''e''), (''/bin/bash'', CHR ''f''), (''/bin/ls'', CHR ''a''), (''/bin/ls'', CHR ''b'')]"

definition segment_names :: "(string \<times> char) list" where
  "segment_names = [(''/bin/bash'', CHR ''t''), (''/bin/ls'', CHR ''c'')]"

definition semaphore_names :: "(string \<times> char) list" where
  "semaphore_names = [(''/bin/bash'', CHR ''x''), (''/bin/bash'', CHR ''v'')]"

text \<open>\<open>ftok\<close> gives the names of one kind of object different keys, none of them an error.\<close>

definition good_keys :: "ftok \<Rightarrow> bool" where
  "good_keys ftok \<longleftrightarrow>
     distinct (map (\<lambda>(f, c). ftok f c) queue_names) \<and> list_all (\<lambda>(f, c). ftok f c \<noteq> - 1) queue_names
     \<and> distinct (map (\<lambda>(f, c). ftok f c) segment_names) \<and> list_all (\<lambda>(f, c). ftok f c \<noteq> - 1) segment_names
     \<and> distinct (map (\<lambda>(f, c). ftok f c) semaphore_names)"


lemma queue_create_run:
  "ftok f c \<noteq> - 1 \<Longrightarrow> msg_ids s (ftok f c) = None \<Longrightarrow> queue_create ftok f c s =
    (Ret (next_id s), s\<lparr>msg_ids := (msg_ids s)(ftok f c \<mapsto> next_id s),
       msg_queues := (msg_queues s)(next_id s \<mapsto> []), next_id := next_id s + 1\<rparr>)"
  "ftok f c \<noteq> - 1 \<Longrightarrow> msg_ids s (ftok f c) = Some i \<Longrightarrow> queue_create ftok f c s = (Ret i, s)"
  by (simp_all add: queue_create_def)

lemma queue_destroy_run:
  "msg_queues s i = Some q \<Longrightarrow> queue_destroy i s = (Ret (), s\<lparr>msg_ids := drop_id (msg_ids s) i,
                            msg_queues := (msg_queues s)(i := None)\<rparr>)"
  by (simp add: queue_destroy_def)

lemma shm_create_run:
  "ftok f c \<noteq> - 1 \<Longrightarrow> shm_ids s (ftok f c) = None \<Longrightarrow> shm_create ftok f c n s =
    (Ret (next_id s), s\<lparr>shm_ids := (shm_ids s)(ftok f c \<mapsto> next_id s),
       shm_segs := (shm_segs s)(next_id s \<mapsto> new_segment n), next_id := next_id s + 1\<rparr>)"
  "ftok f c \<noteq> - 1 \<Longrightarrow> shm_ids s (ftok f c) = Some i \<Longrightarrow> shm_segs s i = Some (new_segment n) \<Longrightarrow>
     shm_create ftok f c n s = (Ret i, s)"
  by (simp_all add: shm_create_def new_segment_def)

lemma shm_remove_run:
  "shm_segs s i = Some (new_segment n) \<Longrightarrow> shm_remove i s = (Ret (), s\<lparr>shm_ids := drop_id (shm_ids s) i,
     shm_segs := (shm_segs s)(i := None)\<rparr>)"
  by (simp add: shm_remove_def new_segment_def)

lemma semaphore_get_run:
  "sem_ids s (ftok f c) = None \<Longrightarrow> semaphore_get ftok f c s =
    (Ret (next_id s), s\<lparr>sem_ids := (sem_ids s)(ftok f c \<mapsto> next_id s),
       sem_vals := (sem_vals s)(next_id s \<mapsto> 0), next_id := next_id s + 1\<rparr>)"
  "sem_ids s (ftok f c) = Some i \<Longrightarrow> semaphore_get ftok f c s = (Ret i, s)"
  by (simp_all add: semaphore_get_def)

lemma semaphore_delete_run:
  "sem_vals s i = Some v \<Longrightarrow> semaphore_delete i s = (Ret (), s\<lparr>sem_ids := drop_id (sem_ids s) i,
     sem_vals := (sem_vals s)(i := None)\<rparr>)"
  by (simp add: semaphore_delete_def)

lemma sem_init_run:
  "sem_vals s i = Some v \<Longrightarrow> 0 \<le> w \<Longrightarrow> sem_init i w s = (Ret (), s\<lparr>sem_vals := (sem_vals s)(i \<mapsto> w)\<rparr>)"
  by (simp add: sem_init_def)

lemmas objects_run = queue_create_run queue_destroy_run shm_create_run shm_remove_run semaphore_get_run
  semaphore_delete_run sem_init_run

text \<open>Removing entries from the tables, one key or object at a time.\<close>

lemma drop_id_update:
  "drop_id (ids(k \<mapsto> i)) i = (drop_id ids i)(k := None)"
  "j \<noteq> i \<Longrightarrow> drop_id (ids(k \<mapsto> j)) i = (drop_id ids i)(k \<mapsto> j)"
  "drop_id (\<lambda>_. None) i = (\<lambda>_. None)"
  by (auto simp: drop_id_def)

lemma remove_update:
  "(m(i \<mapsto> x))(i := None) = m(i := None)"
  "j \<noteq> i \<Longrightarrow> (m(j \<mapsto> x))(i := None) = (m(i := None))(j \<mapsto> x)"
  "(\<lambda>_. None)(i := None) = (\<lambda>_. None)"
  by auto

text \<open>The kernel's objects after the initializer.\<close>

definition running_ipc :: "ftok \<Rightarrow> ipc" where
  "running_ipc ftok = \<lparr>msg_ids = [ftok ''/bin/bash'' (CHR ''a'') \<mapsto> 0, ftok ''/bin/bash'' (CHR ''b'') \<mapsto> 1,
      ftok ''/bin/bash'' (CHR ''h'') \<mapsto> 2, ftok ''/bin/bash'' (CHR ''i'') \<mapsto> 3,
      ftok ''/bin/bash'' (CHR ''e'') \<mapsto> 4, ftok ''/bin/bash'' (CHR ''f'') \<mapsto> 5,
      ftok ''/bin/ls'' (CHR ''a'') \<mapsto> 6, ftok ''/bin/ls'' (CHR ''b'') \<mapsto> 7],
    msg_queues = [0 \<mapsto> [], 1 \<mapsto> [], 2 \<mapsto> [], 3 \<mapsto> [], 4 \<mapsto> [], 5 \<mapsto> [], 6 \<mapsto> [], 7 \<mapsto> []],
    sem_ids = [ftok ''/bin/bash'' (CHR ''x'') \<mapsto> 9, ftok ''/bin/bash'' (CHR ''v'') \<mapsto> 11],
    sem_vals = [9 \<mapsto> 1, 11 \<mapsto> 1],
    shm_ids = [ftok ''/bin/bash'' (CHR ''t'') \<mapsto> 8, ftok ''/bin/ls'' (CHR ''c'') \<mapsto> 10],
    shm_segs = [8 \<mapsto> new_segment SHM_CINEMA_TIMER_SIZE, 10 \<mapsto> new_segment SHM_CLIENT_SIZE], next_id = 12\<rparr>"

lemma initializer_run:
  assumes "good_keys ftok"
  shows "initializer ftok empty_ipc = (Ret 0, running_ipc ftok)"
  using assms
  apply (simp add: good_keys_def queue_names_def segment_names_def semaphore_names_def)
  apply (elim conjE)
  apply (simp add: running_ipc_def
      initializer_def create_commqueue_def next_char_letters object_names empty_ipc_def semaphore_create_def objects_run)
  done

lemma destructor_run:
  assumes "good_keys ftok"
  shows "destructor ftok (running_ipc ftok) = (Ret (), empty_ipc\<lparr>next_id := 12\<rparr>)"
  using assms
  apply (simp add: good_keys_def queue_names_def segment_names_def semaphore_names_def)
  apply (elim conjE)
  apply (simp add: running_ipc_def destructor_def delete_queue_def create_commqueue_def next_char_letters object_names empty_ipc_def objects_run
      drop_id_update remove_update)
  done

lemma initializer_again:
  assumes "good_keys ftok"
  shows "initializer ftok ((running_ipc ftok)\<lparr>sem_vals := [9 \<mapsto> a, 11 \<mapsto> b]\<rparr>) = (Ret 0, running_ipc ftok)"
  using assms
  apply (simp add: good_keys_def queue_names_def segment_names_def semaphore_names_def)
  apply (elim conjE)
  apply (simp add: running_ipc_def
      initializer_def create_commqueue_def next_char_letters object_names semaphore_create_def objects_run)
  done

text \<open>C36. Starting and stopping: on a kernel without objects the initializer succeeds; then each of the eight queues
  of the program exists and is empty, the queues are distinct, the two segments have the size the program maps and
  the two mutexes are free.  Run again, it frees the mutexes whatever their values and changes nothing else.
  Afterwards the destructor removes every object.\<close>

theorem start_and_stop:
  assumes "good_keys ftok"
  shows "\<exists>s. initializer ftok empty_ipc = (Ret 0, s)
    \<and> list_all (\<lambda>(f, c). \<exists>i. msg_ids s (ftok f c) = Some i \<and> msg_queues s i = Some []) queue_names
    \<and> distinct (map (\<lambda>(f, c). msg_ids s (ftok f c)) queue_names)
    \<and> map (\<lambda>(f, c). Option.bind (shm_ids s (ftok f c)) (shm_segs s)) segment_names
        = [Some (new_segment SHM_CINEMA_TIMER_SIZE), Some (new_segment SHM_CLIENT_SIZE)]
    \<and> map (\<lambda>(f, c). Option.bind (sem_ids s (ftok f c)) (sem_vals s)) semaphore_names = [Some 1, Some 1]
    \<and> (\<forall>a b. initializer ftok (s\<lparr>sem_vals := [the (sem_ids s (ftok MUTEX_CINEMA_FILE MUTEX_CINEMA_CHAR)) \<mapsto> a,
          the (sem_ids s (ftok MUTEX_CLIENT_FILE MUTEX_CLIENT_CHAR)) \<mapsto> b]\<rparr>) = (Ret 0, s))
    \<and> destructor ftok s = (Ret (), empty_ipc\<lparr>next_id := next_id s\<rparr>)"
proof (intro exI conjI)
  show "initializer ftok empty_ipc = (Ret 0, running_ipc ftok)"
    by (rule initializer_run [OF assms])
  show "destructor ftok (running_ipc ftok) = (Ret (), empty_ipc\<lparr>next_id := next_id (running_ipc ftok)\<rparr>)"
    using destructor_run [OF assms] by (simp add: running_ipc_def)
  have keys: "ftok ''/bin/bash'' (CHR ''x'') \<noteq> ftok ''/bin/bash'' (CHR ''v'')"
    using assms by (simp add: good_keys_def semaphore_names_def)
  then show "\<forall>a b. initializer ftok ((running_ipc ftok)\<lparr>sem_vals := [the (sem_ids (running_ipc ftok) (ftok MUTEX_CINEMA_FILE MUTEX_CINEMA_CHAR)) \<mapsto> a,
          the (sem_ids (running_ipc ftok) (ftok MUTEX_CLIENT_FILE MUTEX_CLIENT_CHAR)) \<mapsto> b]\<rparr>) = (Ret 0, running_ipc ftok)"
    using initializer_again [OF assms] by (simp add: object_names running_ipc_def)
qed (use assms in \<open>auto simp: good_keys_def queue_names_def segment_names_def semaphore_names_def running_ipc_def\<close>)

definition sample_ftok :: ftok where
  "sample_ftok f c = of_char c + (if f = ''/bin/ls'' then 1000 else 0)"

lemma good_sample_ftok: "good_keys sample_ftok"
  by (simp add: good_keys_def queue_names_def segment_names_def semaphore_names_def sample_ftok_def)

theorem start_and_stop_witness:
  "\<exists>s. initializer sample_ftok empty_ipc = (Ret 0, s) \<and> destructor sample_ftok s = (Ret (), empty_ipc\<lparr>next_id := next_id s\<rparr>)"
  using start_and_stop [OF good_sample_ftok] by blast


section \<open>database\_data\_init.cpp\<close>

text \<open>
  The program between \<open>sqlite3_open\<close> and \<open>sqlite3_close\<close>; the results of its calls are ignored.
\<close>

definition data_init :: "'db sqlite \<Rightarrow> (int, 'db) query" where
  "data_init E d =
     (let d = snd (db_initialize E d);
          d = snd (db_insert_user E d);
          d = snd (db_insert_user E d);
          d = snd (db_insert_room E d);
          d = snd (db_insert_room E d);
          d = snd (db_insert_room E d);
          d = fold (\<lambda>i d. snd (db_insert_seats E 1 (int i + 1) d)) [0..<20] d;
          d = fold (\<lambda>i d. snd (db_insert_seats E 2 (int i + 1) d)) [0..<10] d;
          d = fold (\<lambda>i d. snd (db_insert_seats E 3 (int i + 1) d)) [0..<15] d
      in (0, d))"

text \<open>The same as one run of calls.\<close>

definition seat_calls :: "int \<Rightarrow> nat \<Rightarrow> db_call list" where
  "seat_calls r n = map (\<lambda>i. Call_insert_seats r (int i + 1)) [0..<n]"

lemma data_init_run:
  "snd (data_init E d) = db_run E (seat_calls 1 20 @ seat_calls 2 10 @ seat_calls 3 15)
     (db_run E [Call_initialize, Call_insert_user, Call_insert_user, Call_insert_room, Call_insert_room, Call_insert_room] d)"
proof -
  have "db_perform E (Call_insert_seats r s) = (\<lambda>d. snd (db_insert_seats E r s d))" for r s
    by (simp add: fun_eq_iff)
  then show ?thesis
    by (simp add: data_init_def db_run_def seat_calls_def fold_map comp_def Let_def del: upt_rec_numeral)
qed

definition seat_keys :: "tables \<Rightarrow> (int option \<times> int option) list" where
  "seat_keys T = map (\<lambda>r. (r Col_room_id, r Col_seat_id)) (T Seats)"

definition ids_of :: "table \<Rightarrow> tables \<Rightarrow> int option list" where
  "ids_of t T = map (\<lambda>r. r Col_id) (T t)"

lemma effect_other_tables:
  "ids_of Users (sql_effect i (statement_of c) T) = ids_of Users T @ (if c = Call_insert_user then [Some i] else [])"
  "ids_of Rooms (sql_effect i (statement_of c) T) = ids_of Rooms T @ (if c = Call_insert_room then [Some i] else [])"
  "seat_keys (sql_effect i (statement_of c) T) =
     seat_keys T @ (case c of Call_insert_seats r s \<Rightarrow> [(Some r, Some s)] | _ \<Rightarrow> [])"
  by (cases c; simp add: ids_of_def seat_keys_def new_row_def)+

context sqlite_engine
begin

text \<open>Users are never removed, and a new one is above all of them.\<close>

lemma users_grow: "\<exists>more. ids_of Users (tab (db_perform E c d)) = ids_of Users (tab d) @ more"
proof (cases "c = Call_initialize \<or> db_perform E c d = d")
  case False
  then have p: "db_perform E c d = snd (sq_exec E (statement_of c) d)"
    using db_perform_statement by metis
  obtain rc rows d' where e: "sq_exec E (statement_of c) d = ((rc, rows), d')" by (metis prod.exhaust)
  show ?thesis
    using p e exec_ok [OF e] exec_failed [OF e] effect_other_tables(1)
    by (cases "rc = SQLITE_OK") simp_all
qed (auto simp: db_initialize_tables)

lemma users_stay:
  "set (ids_of Users (tab d)) \<subseteq> set (ids_of Users (tab (db_run E cs d)))"
proof (induction cs arbitrary: d)
  case (Cons c cs)
  from users_grow [of c d] Cons [of "db_perform E c d"] show ?case by (force simp: db_run_def)
qed (simp add: db_run_def)

end

context reliable_engine
begin

lemma new_id_row:
  assumes "c = Call_insert_user \<and> t = Users \<or> c = Call_insert_room \<and> t = Rooms"
  shows "\<exists>i. 0 < i \<and> (\<forall>j. Some j \<in> set (ids_of t (tab d)) \<longrightarrow> j < i)
    \<and> sq_last_insert_rowid E (db_perform E c d) = i
    \<and> tab (db_perform E c d) = sql_effect i (statement_of c) (tab d)"
proof -
  obtain rc rows d' where e: "sq_exec E (statement_of c) d = ((rc, rows), d')" by (metis prod.exhaust)
  have st: "statement_of c = InsertInto t [(Col_id, None)]" and c: "c \<noteq> Call_initialize"
    "\<And>u r s. c = Call_insert_reservation u r s \<Longrightarrow> 0 < s"
    and k: "primary_key t = [Col_id]" "foreign_keys t = []"
    using assms by auto
  have d': "db_perform E c d = d'"
    using db_perform_exact [OF c(1), of E d] prepare_reliable c(2) e by simp
  have ok: "rc = SQLITE_OK" using exec_new_row [OF e [unfolded st] k] .
  show ?thesis
    using exec_rowid [OF e [unfolded st] ok] exec_ok [OF e ok] d'
    by (intro exI [of _ "sq_last_insert_rowid E d'"]) (auto simp: ids_of_def)
qed

text \<open>With foreign keys off a seat that is not there is inserted, whether its room exists or not.\<close>

lemma new_seat:
  assumes "\<not> fk d" and "(Some r, Some s) \<notin> set (seat_keys (tab d))"
  shows "\<exists>i. tab (db_perform E (Call_insert_seats r s) d) = sql_effect i (statement_of (Call_insert_seats r s)) (tab d)"
proof -
  let ?c = "Call_insert_seats r s" and ?vals = "[(Col_room_id, Some r), (Col_seat_id, Some s)]"
  obtain rc rows d' where e: "sq_exec E (statement_of ?c) d = ((rc, rows), d')" by (metis prod.exhaust)
  have d': "db_perform E ?c d = d'"
    using db_perform_exact [of ?c E d] prepare_reliable e by simp
  have free: "\<not> pk_clash (tab d) Seats (new_row Seats ?vals i)" for i
    using assms(2) by (auto simp: pk_clash_def key_of_def new_row_def seat_keys_def image_iff)
  have "rc = SQLITE_OK"
    using exec_reliable [OF e] exec_constraint [of Seats ?vals d rc rows d'] e free assms(1)
    by (auto simp: no_nulls_def)
  from exec_ok [OF e this] d' show ?thesis by auto
qed

lemma new_seats:
  assumes "\<not> fk d" and "distinct (seat_keys (tab d) @ map (\<lambda>(r, s). (Some r, Some s)) ps)"
  shows "seat_keys (tab (db_run E (map (\<lambda>(r, s). Call_insert_seats r s) ps) d))
      = seat_keys (tab d) @ map (\<lambda>(r, s). (Some r, Some s)) ps
    \<and> ids_of Users (tab (db_run E (map (\<lambda>(r, s). Call_insert_seats r s) ps) d)) = ids_of Users (tab d)
    \<and> ids_of Rooms (tab (db_run E (map (\<lambda>(r, s). Call_insert_seats r s) ps) d)) = ids_of Rooms (tab d)"
  using assms
proof (induction ps arbitrary: d)
  case (Cons p ps)
  obtain r s where p: "p = (r, s)" by (cases p)
  from Cons.prems p obtain i where
    t: "tab (db_perform E (Call_insert_seats r s) d) = sql_effect i (statement_of (Call_insert_seats r s)) (tab d)"
    using new_seat [of d r s] by auto
  show ?case
    using Cons.IH [of "db_perform E (Call_insert_seats r s) d"] Cons.prems p
    by (auto simp: db_run_def t effect_other_tables fk_perform simp del: statement_of.simps db_perform.simps)
qed (simp add: db_run_def)

end

definition initial_seats :: "(int \<times> int) list" where
  "initial_seats = map (Pair 1) [1..20] @ map (Pair 2) [1..10] @ map (Pair 3) [1..15]"

lemma seat_calls_pairs: "seat_calls r n = map (\<lambda>(r, s). Call_insert_seats r s) (map (Pair r) [1..int n])"
proof -
  have "map (\<lambda>i. int i + 1) [0..<n] = [1..int n]" for n
    by (induction n) (simp_all add: upto_rec2)
  from this [of n, symmetric] show ?thesis
    by (simp add: seat_calls_def)
qed

lemma initial_seats_calls:
  "seat_calls 1 20 @ seat_calls 2 10 @ seat_calls 3 15 = map (\<lambda>(r, s). Call_insert_seats r s) initial_seats"
  by (simp add: seat_calls_pairs initial_seats_def)

lemma initial_seats_distinct: "distinct (map (\<lambda>(r, s). (Some r, Some s)) initial_seats)"
proof -
  have "distinct initial_seats" by (auto simp: initial_seats_def distinct_map inj_on_def)
  then show ?thesis by (auto simp: distinct_map inj_on_def)
qed

context reliable_engine
begin

lemma two_users_three_rooms:
  assumes "tab d = (\<lambda>_. [])"
  defines "d' \<equiv> db_run E [Call_initialize, Call_insert_user, Call_insert_user, Call_insert_room, Call_insert_room, Call_insert_room] d"
  shows "\<exists>u v a b c. ids_of Users (tab d') = [Some u, Some v] \<and> 0 < u \<and> u < v
    \<and> ids_of Rooms (tab d') = [Some a, Some b, Some c] \<and> 0 < a \<and> a < b \<and> b < c
    \<and> seat_keys (tab d') = [] \<and> fk d' = fk d"
proof -
  let ?d0 = "db_perform E Call_initialize d"
  let ?d1 = "db_perform E Call_insert_user ?d0" let ?d2 = "db_perform E Call_insert_user ?d1"
  let ?d3 = "db_perform E Call_insert_room ?d2" let ?d4 = "db_perform E Call_insert_room ?d3"
  let ?d5 = "db_perform E Call_insert_room ?d4"
  have d': "d' = ?d5" by (simp add: d'_def db_run_def)
  have t0: "tab ?d0 = (\<lambda>_. [])" using assms(1) by (simp add: db_initialize_tables)
  note eff = effect_other_tables and start = ids_of_def seat_keys_def
  obtain u where u: "0 < u" "tab ?d1 = sql_effect u (statement_of Call_insert_user) (tab ?d0)"
    using new_id_row [of Call_insert_user Users ?d0] by blast
  have i1: "ids_of Users (tab ?d1) = [Some u]" "ids_of Rooms (tab ?d1) = []" "seat_keys (tab ?d1) = []"
    unfolding u(2) eff by (simp_all add: t0 start del: db_perform.simps)
  obtain v where v: "u < v" "tab ?d2 = sql_effect v (statement_of Call_insert_user) (tab ?d1)"
    using new_id_row [of Call_insert_user Users ?d1] i1 by auto
  have i2: "ids_of Users (tab ?d2) = [Some u, Some v]" "ids_of Rooms (tab ?d2) = []" "seat_keys (tab ?d2) = []"
    unfolding v(2) eff by (simp_all add: i1 del: db_perform.simps)
  obtain a where a: "0 < a" "tab ?d3 = sql_effect a (statement_of Call_insert_room) (tab ?d2)"
    using new_id_row [of Call_insert_room Rooms ?d2] by blast
  have i3: "ids_of Users (tab ?d3) = [Some u, Some v]" "ids_of Rooms (tab ?d3) = [Some a]" "seat_keys (tab ?d3) = []"
    unfolding a(2) eff by (simp_all add: i2 del: db_perform.simps)
  obtain b where b: "a < b" "tab ?d4 = sql_effect b (statement_of Call_insert_room) (tab ?d3)"
    using new_id_row [of Call_insert_room Rooms ?d3] i3 by auto
  have i4: "ids_of Users (tab ?d4) = [Some u, Some v]" "ids_of Rooms (tab ?d4) = [Some a, Some b]" "seat_keys (tab ?d4) = []"
    unfolding b(2) eff by (simp_all add: i3 del: db_perform.simps)
  obtain c where c: "b < c" "tab ?d5 = sql_effect c (statement_of Call_insert_room) (tab ?d4)"
    using new_id_row [of Call_insert_room Rooms ?d4] i4 by auto
  have i5: "ids_of Users (tab ?d5) = [Some u, Some v]" "ids_of Rooms (tab ?d5) = [Some a, Some b, Some c]" "seat_keys (tab ?d5) = []"
    unfolding c(2) eff by (simp_all add: i4 del: db_perform.simps)
  have "fk ?d5 = fk d" by (simp add: fk_perform del: db_perform.simps)
  with d' u(1) v(1) a(1) b(1) c(1) i5 show ?thesis by blast
qed

lemma data_init_tables:
  assumes "tab d = (\<lambda>_. [])" and "\<not> fk d"
  defines "d' \<equiv> snd (data_init E d)"
  shows "seat_keys (tab d') = map (\<lambda>(r, s). (Some r, Some s)) initial_seats"
    and "\<exists>a b c. ids_of Rooms (tab d') = [Some a, Some b, Some c] \<and> 0 < a \<and> a < b \<and> b < c"
    and "\<exists>u v. ids_of Users (tab d') = [Some u, Some v] \<and> 0 < u \<and> u < v"
proof -
  let ?d = "db_run E [Call_initialize, Call_insert_user, Call_insert_user, Call_insert_room, Call_insert_room, Call_insert_room] d"
  have d': "d' = db_run E (map (\<lambda>(r, s). Call_insert_seats r s) initial_seats) ?d"
    by (simp only: d'_def data_init_run initial_seats_calls)
  from two_users_three_rooms [OF assms(1)] obtain u v a b c where
    ids: "ids_of Users (tab ?d) = [Some u, Some v]" "0 < u" "u < v"
      "ids_of Rooms (tab ?d) = [Some a, Some b, Some c]" "0 < a" "a < b" "b < c"
      "seat_keys (tab ?d) = []" "fk ?d = fk d" by blast
  with new_seats [of ?d initial_seats] initial_seats_distinct assms(2)
  have "seat_keys (tab d') = map (\<lambda>(r, s). (Some r, Some s)) initial_seats
    \<and> ids_of Users (tab d') = ids_of Users (tab ?d) \<and> ids_of Rooms (tab d') = ids_of Rooms (tab ?d)"
    unfolding d' by simp
  with ids show "seat_keys (tab d') = map (\<lambda>(r, s). (Some r, Some s)) initial_seats"
    "\<exists>a b c. ids_of Rooms (tab d') = [Some a, Some b, Some c] \<and> 0 < a \<and> a < b \<and> b < c"
    "\<exists>u v. ids_of Users (tab d') = [Some u, Some v] \<and> 0 < u \<and> u < v" by auto
qed

lemma later_user_id:
  assumes "ids_of Users (tab d) = [Some u, Some v]" and "0 < u" and "u < v"
  shows "2 < sq_last_insert_rowid E (db_perform E Call_insert_user (db_run E cs d))"
proof -
  have "Some v \<in> set (ids_of Users (tab (db_run E cs d)))"
    using users_stay [of d cs] assms(1) by auto
  with new_id_row [of Call_insert_user Users "db_run E cs d"] assms(2,3) show ?thesis by force
qed

end

text \<open>The initial data: run on a new database the program leaves three rooms and two users, with ascending positive
  identifiers, and exactly the seats 1 to 20, 1 to 10 and 1 to 15 of the rooms numbered 1, 2 and 3; and whatever calls
  follow, a user inserted later gets a row identifier above 2, so that no client of the cinema is ever named by a number that
  its message queues use for connection requests.\<close>

theorem initial_data:
  assumes "reliable_engine E tab fk" and "tab d = (\<lambda>_. [])" and "\<not> fk d"
  shows "seat_keys (tab (snd (data_init E d))) = map (\<lambda>(r, s). (Some r, Some s)) initial_seats
    \<and> (\<exists>a b c. ids_of Rooms (tab (snd (data_init E d))) = [Some a, Some b, Some c] \<and> 0 < a \<and> a < b \<and> b < c)
    \<and> (\<exists>u v. ids_of Users (tab (snd (data_init E d))) = [Some u, Some v] \<and> 0 < u \<and> u < v)
    \<and> (\<forall>cs. max TYPE_CONNECTION_CINEMA_REQUEST TYPE_CONNECTION_MOM_REQUEST
         < sq_last_insert_rowid E (snd (db_insert_user E (db_run E cs (snd (data_init E d))))))"
proof (intro conjI allI)
  note tables = reliable_engine.data_init_tables [OF assms]
  show "seat_keys (tab (snd (data_init E d))) = map (\<lambda>(r, s). (Some r, Some s)) initial_seats"
    "\<exists>a b c. ids_of Rooms (tab (snd (data_init E d))) = [Some a, Some b, Some c] \<and> 0 < a \<and> a < b \<and> b < c"
    "\<exists>u v. ids_of Users (tab (snd (data_init E d))) = [Some u, Some v] \<and> 0 < u \<and> u < v"
    by (rule tables)+
  from tables(3) obtain u v where
    "ids_of Users (tab (snd (data_init E d))) = [Some u, Some v]" "0 < u" "u < v" by blast
  from reliable_engine.later_user_id [OF assms(1) this]
  show "max TYPE_CONNECTION_CINEMA_REQUEST TYPE_CONNECTION_MOM_REQUEST
      < sq_last_insert_rowid E (snd (db_insert_user E (db_run E cs (snd (data_init E d)))))" for cs
    by (simp add: TYPE_CONNECTION_CINEMA_REQUEST_def TYPE_CONNECTION_MOM_REQUEST_def)
qed

theorem initial_data_witness:
  "seat_keys (rd_tab (snd (data_init ref_engine ref_empty))) = map (\<lambda>(r, s). (Some r, Some s)) initial_seats"
  using initial_data [OF ref.reliable_engine_axioms, of ref_empty] by (simp add: ref_empty_def)

end
