(* ===== verification/Mutual_Exclusion.thy ===== *)
theory Mutual_Exclusion
  imports Mom
begin

text \<open>
  The processes that share a semaphore of src/ipc/semaphore.cpp as a mutex: the timers and listeners of
  the cinema around the time stamps (src/cinema/cinema.cpp), the services of the middleware and the
  polling threads of the clients around the flags of the updates (src/middleware).

  \<^item> \<open>access\<close> names the accessors of the code, \<open>accessor\<close> is the code of each and \<open>access_body\<close> what it does to the
    segment.  \<open>lock_step\<close> is the machine of all these processes, where an accessor is no longer one step: one
    process calls \<open>semaphore_wait\<close>, later accesses the segment, later calls \<open>semaphore_signal\<close>; the others
    run in between, and any of them may be killed at any point.
  \<^item> \<open>sem_op\<close> asks for \<open>SEM_UNDO\<close>: the kernel keeps for each process an account of what it has changed with the
    flag set, and takes it back when the process ends, however it ends (\<open>adjusted\<close>, \<open>sem_undo\<close>: semop(2)).
  \<^item> The properties: never are two processes inside, the mutex is free exactly when nobody is
    inside, even after processes were killed there, and the accessors of the code run as the machine says.
\<close>

section \<open>The accessors\<close>

datatype access =
    Get_timestamp int int
  | Update_timestamp int int int
  | Flag_read Mom
  | Flag_write Mom Seats_update

text \<open>The code of each, with the mutex \<open>m\<close>; the value it returns is left out.\<close>

definition no_value :: "('b, 's) prog \<Rightarrow> (unit, 's) prog" where
  "no_value c = andThen c (\<lambda>_. ret ())"

fun accessor :: "('a ipc_scheme \<Rightarrow> 'a ipc_scheme) \<Rightarrow> int \<Rightarrow> access \<Rightarrow> (unit, 'a ipc_scheme) prog" where
  "accessor env m (Get_timestamp timer i) = no_value (get_timestamp env timer i m)"
| "accessor env m (Update_timestamp timer i v) = update_timestamp env timer i m v"
| "accessor env m (Flag_read mom) = no_value (flag_update_read env (mom\<lparr>update_flag_mutex := m\<rparr>))"
| "accessor env m (Flag_write mom u) = flag_update_write env (mom\<lparr>update_flag_mutex := m\<rparr>) u"

text \<open>What each does to the segment.\<close>

fun access_body :: "access \<Rightarrow> (unit, 'a ipc_scheme) prog" where
  "access_body (Get_timestamp timer i) = no_value (shm_read_int timer i)"
| "access_body (Update_timestamp timer i v) = shm_write_int timer i v"
| "access_body (Flag_read mom) = no_value (shm_read_update (update_flag mom) (update_flag_position mom))"
| "access_body (Flag_write mom u) = shm_write_update (update_flag mom) (update_flag_position mom) u"

section \<open>The machine\<close>

text \<open>What the kernel gives back for a process: its account grows by what it took, when the operation has the flag.\<close>

definition adjusted :: "int \<Rightarrow> 'a ipc_scheme \<Rightarrow> 'a ipc_scheme \<Rightarrow> int \<Rightarrow> int" where
  "adjusted m s s' account =
     (let change = the (sem_vals s' m) - the (sem_vals s m) in
      if sem_flg (sem_operation change) = SEM_UNDO then account - change else account)"

definition sem_undo :: "int \<Rightarrow> int \<Rightarrow> 'a ipc_scheme \<Rightarrow> 'a ipc_scheme" where
  "sem_undo m account s = (case sem_vals s m of None \<Rightarrow> s
     | Some v \<Rightarrow> s\<lparr>sem_vals := (sem_vals s)(m \<mapsto> v + account)\<rparr>)"

text \<open>Where a process is: outside, inside before its access, inside after it.\<close>

datatype place = Outside | Entered access | Accessed

text \<open>The state of the kernel, what is to be undone for each process, and where each is.\<close>

type_synonym 'a lock_state = "'a ipc_scheme \<times> (nat \<Rightarrow> int) \<times> (nat \<Rightarrow> place)"

inductive lock_step :: "int \<Rightarrow> 'a lock_state \<Rightarrow> 'a lock_state \<Rightarrow> bool" for m where
  enter: "loc p = Outside \<Longrightarrow> semaphore_wait (\<lambda>s. s) m s = (Ret (), s') \<Longrightarrow>
    lock_step m (s, undo, loc) (s', undo(p := adjusted m s s' (undo p)), loc(p := Entered a))"
| does: "loc p = Entered a \<Longrightarrow> access_body a s = (Ret (), s') \<Longrightarrow>
    lock_step m (s, undo, loc) (s', undo, loc(p := Accessed))"
| leave: "loc p = Accessed \<Longrightarrow> semaphore_signal (\<lambda>s. s) m s = (Ret (), s') \<Longrightarrow>
    lock_step m (s, undo, loc) (s', undo(p := adjusted m s s' (undo p)), loc(p := Outside))"
| die: "lock_step m (s, undo, loc) (sem_undo m (undo p) s, undo(p := 0), loc(p := Outside))"
| elsewhere: "sem_vals s' m = sem_vals s m \<Longrightarrow> lock_step m (s, undo, loc) (s', undo, loc)"

inductive_cases lock_stepE: "lock_step m c c'"

abbreviation lock_steps :: "int \<Rightarrow> 'a lock_state \<Rightarrow> 'a lock_state \<Rightarrow> bool" where
  "lock_steps m \<equiv> (lock_step m)\<^sup>*\<^sup>*"

definition all_outside :: "nat \<Rightarrow> place" where
  "all_outside = (\<lambda>p. Outside)"

section \<open>The semaphore\<close>

lemma wait_alone:
  "sem_vals s m = Some v \<Longrightarrow> semaphore_wait (\<lambda>s. s) m s
    = (if 0 < v then (Ret (), s\<lparr>sem_vals := (sem_vals s)(m \<mapsto> v - 1)\<rparr>) else (Blocked, s))"
  by (simp add: semaphore_wait_def sem_op_def semop_operation int16_one)

lemma signal_alone:
  "sem_vals s m = Some v \<Longrightarrow> 0 \<le> v \<Longrightarrow> semaphore_signal env m s = (Ret (), s\<lparr>sem_vals := (sem_vals s)(m \<mapsto> v + 1)\<rparr>)"
  by (simp add: semaphore_signal_def sem_op_def semop_operation int16_one)

lemma wait_env:
  "sem_vals s m = Some v \<Longrightarrow> semaphore_wait env m s
    = (if 0 < v then semaphore_wait (\<lambda>s. s) m s else semaphore_wait (\<lambda>s. s) m (env s))"
  by (auto simp: semaphore_wait_def sem_op_def semop_operation int16_one Let_def split: option.splits)

lemma adjusted_run: "adjusted m s s' account = account - (the (sem_vals s' m) - the (sem_vals s m))"
  by (simp add: adjusted_def Let_def sem_operation_def)

lemma no_value_Ret_iff: "no_value c s = (Ret x, s') \<longleftrightarrow> (\<exists>y. c s = (Ret y, s'))"
  by (auto simp: no_value_def andThen_Ret_iff)

lemma body_keeps_semaphores: "keeps (\<lambda>s. sem_vals s m = v) (access_body a)"
  by (cases a) (auto simp: keeps_def no_value_def andThen_def shm_read_int_def shm_write_int_def shm_read_update_def
      shm_write_update_def split: option.splits)

section \<open>The invariant\<close>

text \<open>Either nobody is inside, or exactly one process is; the semaphore tells which, and a process is to be undone
  exactly while it is inside.\<close>

definition lock_ok :: "int \<Rightarrow> 'a lock_state \<Rightarrow> bool" where
  "lock_ok m = (\<lambda>(s, undo, loc). (\<forall>p. undo p = of_bool (loc p \<noteq> Outside))
     \<and> ((sem_vals s m = Some 1 \<and> (\<forall>p. loc p = Outside))
      \<or> (sem_vals s m = Some 0 \<and> (\<exists>p. loc p \<noteq> Outside \<and> (\<forall>q. q \<noteq> p \<longrightarrow> loc q = Outside)))))"

lemma lock_ok_start: "sem_vals s m = Some 1 \<Longrightarrow> lock_ok m (s, \<lambda>_. 0, all_outside)"
  by (simp add: lock_ok_def all_outside_def)

lemma lock_ok_inside:
  assumes "lock_ok m (s, undo, loc)" and "loc p \<noteq> Outside"
  shows "sem_vals s m = Some 0" and "q \<noteq> p \<Longrightarrow> loc q = Outside"
proof -
  obtain p' where p': "sem_vals s m = Some 0" "\<forall>q. q \<noteq> p' \<longrightarrow> loc q = Outside"
    using assms by (auto simp: lock_ok_def)
  then have "p = p'" using assms(2) by metis
  with p' show "sem_vals s m = Some 0" and "q \<noteq> p \<Longrightarrow> loc q = Outside" by simp_all
qed

lemma lock_ok_step:
  assumes "lock_step m c c'" and "lock_ok m c"
  shows "lock_ok m c'"
  using assms
proof cases
  case (enter loc p s s' undo a)
  then have "sem_vals s m = Some 1" "\<forall>p. loc p = Outside"
    using assms(2) by (auto simp: lock_ok_def wait_alone)
  with enter assms(2) show ?thesis by (auto simp: lock_ok_def wait_alone adjusted_run)
next
  case (does loc p a s s' undo)
  then have "sem_vals s' m = sem_vals s m"
    using keepsD [OF body_keeps_semaphores, of s m "sem_vals s m" a] by simp
  with does assms(2) show ?thesis by (auto simp: lock_ok_def)
next
  case (leave loc p s s' undo)
  then have "sem_vals s m = Some 0" "\<forall>q. q \<noteq> p \<longrightarrow> loc q = Outside"
    using lock_ok_inside [of m s undo loc p] assms(2) by simp_all
  with leave assms(2) show ?thesis by (auto simp: lock_ok_def signal_alone adjusted_run)
next
  case (die s undo loc p)
  then show ?thesis using assms(2) by (auto simp: lock_ok_def sem_undo_def) metis+
next
  case (elsewhere s' s undo loc)
  with assms(2) show ?thesis by (simp add: lock_ok_def)
qed

lemma lock_ok_steps: "lock_steps m c c' \<Longrightarrow> lock_ok m c \<Longrightarrow> lock_ok m c'"
  by (induction rule: rtranclp_induct) (auto intro: lock_ok_step)

section \<open>The critical sections\<close>

definition locked :: "('a ipc_scheme \<Rightarrow> 'a ipc_scheme) \<Rightarrow> int \<Rightarrow> ('b, 'a ipc_scheme) prog \<Rightarrow> ('b, 'a ipc_scheme) prog" where
  "locked env m body =
     andThen (semaphore_wait env m) (\<lambda>_. andThen body (\<lambda>x. andThen (semaphore_signal env m) (\<lambda>_. ret x)))"

lemma andThen_ret_right: "andThen c ret = c"
  by (rule ext) (simp add: andThen_def split: prod.splits outcome.splits)

lemma andThen_ret_unit: "andThen c (\<lambda>_. Pair (Ret ())) = (c :: (unit, 's) prog)"
  by (rule ext) (simp add: andThen_def split: prod.splits outcome.splits)

lemma sections_of_the_code: "accessor env m a = locked env m (access_body a)"
  by (cases a) (simp_all add: locked_def no_value_def get_timestamp_def update_timestamp_def flag_update_read_def
      flag_update_write_def andThen_assoc andThen_ret_left andThen_ret_right andThen_ret_unit)

text \<open>A section that finds the mutex taken begins after the others have run, or not at all.\<close>

lemma locked_waits:
  assumes "sem_vals s m = Some 0"
  shows "sem_vals (env s) m = Some 0 \<Longrightarrow> locked env m body s = (Blocked, env s)"
    and "sem_vals (env s) m = Some 1 \<Longrightarrow> locked env m body s = locked env m body (env s)"
  using wait_env [OF assms, of env] wait_env [of "env s" m _ env] wait_alone [of "env s" m] by (simp_all add: locked_def andThen_def)

lemma locked_runs:
  assumes "sem_vals s m = Some 1" and "locked env m (access_body a) s = (Ret (), s')"
    and "loc p = Outside" and "undo p = 0"
  shows "\<exists>s1 s2. lock_step m (s, undo, loc) (s1, undo(p := 1), loc(p := Entered a))
     \<and> lock_step m (s1, undo(p := 1), loc(p := Entered a)) (s2, undo(p := 1), loc(p := Accessed))
     \<and> lock_step m (s2, undo(p := 1), loc(p := Accessed)) (s', undo, loc)"
proof -
  let ?s1 = "s\<lparr>sem_vals := (sem_vals s)(m \<mapsto> 0)\<rparr>"
  have wait: "semaphore_wait (\<lambda>s. s) m s = (Ret (), ?s1)" using assms(1) by (simp add: wait_alone)
  then have "semaphore_wait env m s = (Ret (), ?s1)" using wait_env [OF assms(1), of env] by simp
  then obtain s2 where s2: "access_body a ?s1 = (Ret (), s2)" and signal: "semaphore_signal env m s2 = (Ret (), s')"
    using assms(2) by (auto simp: locked_def andThen_Ret_iff)
  have v2: "sem_vals s2 m = Some 0" using keepsD [OF body_keeps_semaphores, of ?s1 m "Some 0" a] s2 by simp
  then have give: "semaphore_signal (\<lambda>s. s) m s2 = (Ret (), s')" and v': "sem_vals s' m = Some 1"
    using signal by (auto simp: signal_alone)
  have "lock_step m (s, undo, loc) (?s1, undo(p := 1), loc(p := Entered a))"
    using enter [of loc p m s ?s1 undo a] wait assms(1,3,4) by (simp add: adjusted_run)
  moreover have "lock_step m (?s1, undo(p := 1), loc(p := Entered a)) (s2, undo(p := 1), loc(p := Accessed))"
    using does [of "loc(p := Entered a)" p a ?s1 s2 m "undo(p := 1)"] s2 by simp
  moreover have "undo(p := 0) = undo" "loc(p := Outside) = loc" using assms(3,4) by auto
  then have "lock_step m (s2, undo(p := 1), loc(p := Accessed)) (s', undo, loc)"
    using leave [of "loc(p := Accessed)" p m s2 s' "undo(p := 1)"] give v2 v' by (simp add: adjusted_run)
  ultimately show ?thesis by blast
qed

section \<open>Properties\<close>

text \<open>C18. Mutual exclusion: however the processes interleave their calls of \<open>semaphore_wait\<close>, their accesses and their calls of
  \<open>semaphore_signal\<close>, whatever else runs that does not touch this semaphore, and whoever is killed at whatever point,
  never are two of them between the two calls, a call of \<open>semaphore_wait\<close> succeeds exactly when nobody is, and
  waits, having changed nothing, exactly when somebody is; so a process that was killed inside, whose
  \<open>semop\<close> asked for \<open>SEM_UNDO\<close>, does not leave the mutex locked.\<close>

theorem mutex_excludes:
  assumes "sem_vals s0 m = Some 1" and "lock_steps m (s0, \<lambda>_. 0, all_outside) (s, undo, loc)"
  shows "(\<forall>p q. loc p \<noteq> Outside \<and> loc q \<noteq> Outside \<longrightarrow> p = q)
     \<and> ((\<forall>p. loc p = Outside) \<longleftrightarrow> fst (semaphore_wait (\<lambda>s. s) m s) = Ret ())
     \<and> ((\<exists>p. loc p \<noteq> Outside) \<longleftrightarrow> semaphore_wait (\<lambda>s. s) m s = (Blocked, s))"
proof -
  have "lock_ok m (s, undo, loc)" by (rule lock_ok_steps [OF assms(2) lock_ok_start [OF assms(1)]])
  then show ?thesis by (auto simp: lock_ok_def wait_alone) metis+
qed

text \<open>C19. The accessors of the shared segments, \<open>get_timestamp\<close>, \<open>update_timestamp\<close>, \<open>flag_update_read\<close> and
  \<open>flag_update_write\<close>, keep to the machine.  A process outside that calls one while another is inside waits: as long as
  the mutex is not given back it does nothing, and once it is, it runs as if called then.  One that finds
  nobody inside and returns has done three steps of the machine: take the mutex, do its access and nothing else to the
  segment, give the mutex back; so all that \<open>mutex_excludes\<close> says of interleaved steps holds of the code.\<close>

theorem accessors_are_sections:
  assumes "sem_vals s0 m = Some 1" and "lock_steps m (s0, \<lambda>_. 0, all_outside) (s, undo, loc)" and "loc p = Outside"
  shows "((\<exists>q. loc q \<noteq> Outside) \<longrightarrow>
        (sem_vals (env s) m = sem_vals s m \<longrightarrow> accessor env m a s = (Blocked, env s))
      \<and> (sem_vals (env s) m = Some 1 \<longrightarrow> accessor env m a s = accessor env m a (env s)))
     \<and> ((\<forall>q. loc q = Outside) \<longrightarrow> (\<forall>s'. accessor env m a s = (Ret (), s') \<longrightarrow>
        (\<exists>s1 s2. lock_step m (s, undo, loc) (s1, undo(p := 1), loc(p := Entered a))
         \<and> lock_step m (s1, undo(p := 1), loc(p := Entered a)) (s2, undo(p := 1), loc(p := Accessed))
         \<and> lock_step m (s2, undo(p := 1), loc(p := Accessed)) (s', undo, loc))))"
proof -
  have ok: "lock_ok m (s, undo, loc)" by (rule lock_ok_steps [OF assms(2) lock_ok_start [OF assms(1)]])
  then have "undo p = 0" using assms(3) by (simp add: lock_ok_def)
  moreover have "sem_vals s m = Some 0" if "\<exists>q. loc q \<noteq> Outside" using that ok by (auto simp: lock_ok_def)
  moreover have "sem_vals s m = Some 1" if "\<forall>q. loc q = Outside" using that ok by (auto simp: lock_ok_def)
  ultimately show ?thesis
    unfolding sections_of_the_code using locked_waits [of s m env "access_body a"] locked_runs [of s m env a _ loc p undo] assms(3) by auto
qed

text \<open>One process takes the mutex of the host of the timers and is killed inside.\<close>

lemma timer_host_free: "sem_vals timer_host 9 = Some 1"
  by (simp add: timer_host_def)

definition taken_host :: ipc where
  "taken_host = timer_host\<lparr>sem_vals := [9 \<mapsto> 0]\<rparr>"

lemma timer_host_taken:
  "lock_step 9 (timer_host, \<lambda>_. 0, all_outside) (taken_host, (\<lambda>_. 0)(4 := 1), all_outside(4 := Entered (Get_timestamp 8 7)))"
proof -
  have wait: "semaphore_wait (\<lambda>s. s) 9 timer_host = (Ret (), taken_host)"
    using wait_alone [OF timer_host_free] by (simp add: taken_host_def timer_host_def)
  have "adjusted 9 timer_host taken_host 0 = 1" by (simp add: adjusted_run taken_host_def timer_host_def)
  with enter [of all_outside 4 9 timer_host taken_host "\<lambda>_. 0" "Get_timestamp 8 7"] wait show ?thesis
    by (simp add: all_outside_def)
qed

theorem mutex_excludes_witness:
  "\<exists>undo loc. lock_steps 9 (timer_host, \<lambda>_. 0, all_outside) (taken_host, undo, loc) \<and> loc 4 \<noteq> Outside
     \<and> semaphore_wait (\<lambda>s. s) 9 taken_host = (Blocked, taken_host)
     \<and> (\<exists>undo'. lock_step 9 (taken_host, undo, loc) (timer_host, undo', all_outside)
       \<and> fst (semaphore_wait (\<lambda>s. s) 9 timer_host) = Ret ())"
proof -
  let ?u = "(\<lambda>_. 0)(4 := 1) :: nat \<Rightarrow> int" and ?l = "all_outside(4 := Entered (Get_timestamp 8 7))"
  have a: "lock_steps 9 (timer_host, \<lambda>_. 0, all_outside) (taken_host, ?u, ?l)"
    using timer_host_taken by (rule r_into_rtranclp)
  have "sem_undo 9 (?u 4) taken_host = timer_host" by (simp add: sem_undo_def taken_host_def timer_host_def)
  moreover have "?l(4 := Outside) = all_outside" by (auto simp: all_outside_def)
  ultimately have killed: "lock_step 9 (taken_host, ?u, ?l) (timer_host, ?u(4 := 0), all_outside)"
    using die [of 9 taken_host ?u ?l 4] by simp
  then have b: "lock_steps 9 (timer_host, \<lambda>_. 0, all_outside) (timer_host, ?u(4 := 0), all_outside)"
    using a by (meson rtranclp.rtrancl_into_rtrancl)
  have inside: "?l 4 \<noteq> Outside" by simp
  then have "semaphore_wait (\<lambda>s. s) 9 taken_host = (Blocked, taken_host)"
    using mutex_excludes [OF timer_host_free a] by blast
  moreover have "fst (semaphore_wait (\<lambda>s. s) 9 timer_host) = Ret ()"
    using mutex_excludes [OF timer_host_free b] by (simp add: all_outside_def)
  ultimately show ?thesis using a inside killed by blast
qed

text \<open>While it is inside another process waits, and when it has ended that one goes on.\<close>

theorem accessors_are_sections_witness:
  "accessor (\<lambda>s. s) 9 (Update_timestamp 8 7 77) taken_host = (Blocked, taken_host)
   \<and> accessor (\<lambda>s. timer_host) 9 (Update_timestamp 8 7 77) taken_host = (Ret (), set_slot 8 7 77 timer_host)
   \<and> (\<exists>s1 s2. lock_step 9 (timer_host, \<lambda>_. 0, all_outside) (s1, (\<lambda>_. 0)(5 := 1), all_outside(5 := Entered (Update_timestamp 8 7 77)))
     \<and> lock_step 9 (s2, (\<lambda>_. 0)(5 := 1), all_outside(5 := Accessed)) (set_slot 8 7 77 timer_host, \<lambda>_. 0, all_outside))"
proof -
  let ?a = "Update_timestamp 8 7 77" and ?l = "all_outside(4 := Entered (Get_timestamp 8 7))"
  have run: "accessor env 9 ?a timer_host = (Ret (), set_slot 8 7 77 timer_host)" for env
    using update_timestamp_run [of 8 7 9 timer_host env 77] by (simp add: timer_ready_def timer_host_def)
  have taken: "lock_steps 9 (timer_host, \<lambda>_. 0, all_outside) (taken_host, (\<lambda>_. 0)(4 := 1), ?l)"
    using timer_host_taken by (rule r_into_rtranclp)
  have out: "?l 5 = Outside" by (simp add: all_outside_def)
  note t = accessors_are_sections [OF timer_host_free taken, where p = 5 and a = ?a, OF out]
  have inside: "\<exists>q. ?l q \<noteq> Outside" by (intro exI [of _ 4]) simp
  have "accessor (\<lambda>s. s) 9 ?a taken_host = (Blocked, taken_host)" using t [where env = "\<lambda>s. s"] inside by blast
  moreover have "accessor (\<lambda>s. timer_host) 9 ?a taken_host = (Ret (), set_slot 8 7 77 timer_host)"
    using t [where env = "\<lambda>s. timer_host"] inside timer_host_free run by simp
  moreover have "all_outside 5 = Outside" "\<forall>q. all_outside q = Outside" by (simp_all add: all_outside_def)
  ultimately show ?thesis
    using accessors_are_sections [OF timer_host_free rtranclp.rtrancl_refl, where p = 5 and a = ?a and env = "\<lambda>s. s"] run [of "\<lambda>s. s"] by blast
qed

end
