(* ===== verification/Text_Table.thy ===== *)
theory Text_Table
  imports Prelude
begin

text \<open>
  include/utils/TextTable.h: the table printer of the client program.

  \<^item> A table is a record of the members of the class.  \<open>unsigned\<close> numbers are naturals reduced
    modulo \<open>2 ^ 32\<close> where the class stores them (\<open>unsigned32\<close>), and \<open>width\<close> converts to \<open>int\<close>.
  \<^item> Indexing a vector out of range is undefined: the functions that do it give \<open>None\<close>.
  \<^item> Writing to the stream is the text written; \<open>std::setw\<close> pads with spaces on the side the
    alignment leaves.
\<close>

section \<open>The class\<close>

datatype Alignment = LEFT | RIGHT

record TextTable =
  tt_horizontal :: char
  tt_vertical :: char
  tt_corner :: char
  tt_current :: "string list"
  tt_rows :: "string list list"
  tt_width :: "nat list"
  tt_alignment :: "nat \<Rightarrow> Alignment option"

definition new_TextTable :: TextTable where
  "new_TextTable = \<lparr>tt_horizontal = CHR ''-'', tt_vertical = CHR ''|'', tt_corner = CHR ''+'',
     tt_current = [], tt_rows = [], tt_width = [], tt_alignment = \<lambda>_. None\<rparr>"

definition unsigned32 :: "nat \<Rightarrow> nat" where
  "unsigned32 n = n mod 2 ^ 32"

definition setAlignment :: "nat \<Rightarrow> Alignment \<Rightarrow> TextTable \<Rightarrow> TextTable" where
  "setAlignment i al t = t\<lparr>tt_alignment := (tt_alignment t)(i \<mapsto> al)\<rparr>"

text \<open>\<open>_alignment[i]\<close> makes a missing entry, with the first value of the enumeration.\<close>

definition alignment :: "nat \<Rightarrow> TextTable \<Rightarrow> Alignment \<times> TextTable" where
  "alignment i t = (case tt_alignment t i of
       Some al \<Rightarrow> (al, t)
     | None \<Rightarrow> (LEFT, setAlignment i LEFT t))"

definition add_cell :: "string \<Rightarrow> TextTable \<Rightarrow> TextTable" where
  "add_cell content t = t\<lparr>tt_current := tt_current t @ [content]\<rparr>"

definition endOfRow :: "TextTable \<Rightarrow> TextTable" where
  "endOfRow t = t\<lparr>tt_rows := tt_rows t @ [tt_current t], tt_current := []\<rparr>"

definition addRow :: "string list \<Rightarrow> TextTable \<Rightarrow> TextTable" where
  "addRow cells t = endOfRow (fold add_cell cells t)"

definition repeat_char :: "nat \<Rightarrow> char \<Rightarrow> string" where
  "repeat_char n c = (((\<lambda>result. result @ [c]) ^^ n) [])"

definition ruler :: "TextTable \<Rightarrow> string" where
  "ruler t = foldl (\<lambda>result w. result @ repeat_char w (tt_horizontal t) @ [tt_corner t]) [tt_corner t] (tt_width t)"

definition width :: "nat \<Rightarrow> TextTable \<Rightarrow> int option" where
  "width i t = (if i < length (tt_width t) then Some (int32 (int (tt_width t ! i))) else None)"

definition columns :: "TextTable \<Rightarrow> nat option" where
  "columns t = (case tt_rows t of [] \<Rightarrow> None | r # _ \<Rightarrow> Some (unsigned32 (length r)))"

text \<open>The loop over the cells of a row, from column \<open>i\<close>, and over the rows.\<close>

fun widen_row :: "nat \<Rightarrow> string list \<Rightarrow> nat list \<Rightarrow> nat list option" where
  "widen_row i [] ws = Some ws"
| "widen_row i (cell # row) ws =
     (if i < length ws
      then widen_row (Suc i) row (ws[i := unsigned32 (if ws ! i > length cell then ws ! i else length cell)])
      else None)"

fun widen_rows :: "string list list \<Rightarrow> nat list \<Rightarrow> nat list option" where
  "widen_rows [] ws = Some ws"
| "widen_rows (row # rows) ws = (case widen_row 0 row ws of None \<Rightarrow> None | Some ws' \<Rightarrow> widen_rows rows ws')"

definition determineWidths :: "TextTable \<Rightarrow> TextTable option" where
  "determineWidths t = (case columns t of None \<Rightarrow> None | Some n \<Rightarrow>
     (case widen_rows (tt_rows t) (replicate n 0) of None \<Rightarrow> None | Some ws \<Rightarrow> Some (t\<lparr>tt_width := ws\<rparr>)))"

definition setupAlignment :: "TextTable \<Rightarrow> TextTable option" where
  "setupAlignment t = (case columns t of None \<Rightarrow> None | Some n \<Rightarrow>
     Some (fold (\<lambda>i t. if tt_alignment t i = None then setAlignment i LEFT t else t) [0..<n] t))"

definition setup_table :: "TextTable \<Rightarrow> TextTable option" where
  "setup_table t = (case determineWidths t of None \<Rightarrow> None | Some t' \<Rightarrow> setupAlignment t')"

section \<open>Printing\<close>

definition newline :: string where
  "newline = [CHR 0x0A]"

definition padded :: "Alignment \<Rightarrow> int \<Rightarrow> string \<Rightarrow> string" where
  "padded al w s = (let fill = replicate (nat w - length s) (CHR '' '') in
     case al of LEFT \<Rightarrow> s @ fill | RIGHT \<Rightarrow> fill @ s)"

fun print_cells :: "nat \<Rightarrow> string list \<Rightarrow> TextTable \<Rightarrow> (string \<times> TextTable) option" where
  "print_cells i [] t = Some ([], t)"
| "print_cells i (cell # row) t =
     (let (al, t) = alignment i t in
      case width i t of None \<Rightarrow> None
      | Some w \<Rightarrow> (case print_cells (Suc i) row t of None \<Rightarrow> None
         | Some (out, t) \<Rightarrow> Some (padded al w cell @ [tt_vertical t] @ out, t)))"

fun print_rows :: "string list list \<Rightarrow> TextTable \<Rightarrow> (string \<times> TextTable) option" where
  "print_rows [] t = Some ([], t)"
| "print_rows (row # rows) t =
     (case print_cells 0 row t of None \<Rightarrow> None
      | Some (cells, t) \<Rightarrow> (case print_rows rows t of None \<Rightarrow> None
         | Some (out, t') \<Rightarrow> Some ([tt_vertical t] @ cells @ newline @ ruler t @ newline @ out, t')))"

text \<open>\<open>operator<<\<close>.\<close>

definition print_table :: "TextTable \<Rightarrow> (string \<times> TextTable) option" where
  "print_table t = (case setup_table t of None \<Rightarrow> None
     | Some t \<Rightarrow> (case print_rows (tt_rows t) t of None \<Rightarrow> None
         | Some (out, t') \<Rightarrow> Some (ruler t @ newline @ out, t')))"


section \<open>The widths\<close>

lemma length_repeat_char [simp]: "length (repeat_char n c) = n"
  by (induction n) (simp_all add: repeat_char_def)

lemma unsigned32_small [simp]: "n < 2 ^ 32 \<Longrightarrow> unsigned32 n = n"
  by (simp add: unsigned32_def)

text \<open>The widths of a row over the widths so far.\<close>

fun row_max :: "string list \<Rightarrow> nat list \<Rightarrow> nat list" where
  "row_max (cell # row) (w # ws) = max w (length cell) # row_max row ws"
| "row_max _ ws = ws"

definition small_row :: "string list \<Rightarrow> bool" where
  "small_row row \<longleftrightarrow> list_all (\<lambda>cell. length cell < 2 ^ 31) row"

definition small_widths :: "nat list \<Rightarrow> bool" where
  "small_widths ws \<longleftrightarrow> list_all (\<lambda>w. w < 2 ^ 31) ws"

lemma length_row_max [simp]: "length (row_max row ws) = length ws"
  by (induction row ws rule: row_max.induct) simp_all

lemma nth_row_max:
  "i < length ws \<Longrightarrow> row_max row ws ! i = (if i < length row then max (ws ! i) (length (row ! i)) else ws ! i)"
  by (induction row ws arbitrary: i rule: row_max.induct) (auto simp: less_Suc_eq_0_disj)

lemma small_row_max: "small_row row \<Longrightarrow> small_widths ws \<Longrightarrow> small_widths (row_max row ws)"
  by (induction row ws rule: row_max.induct) (simp_all add: small_row_def small_widths_def)

lemma widen_row_outside: "widen_row (length pre) row pre = (if row = [] then Some pre else None)"
  by (cases row) simp_all

lemma widen_row_run:
  assumes "small_row row" and "small_widths ws"
  shows "widen_row (length pre) row (pre @ ws) =
    (if length row \<le> length ws then Some (pre @ row_max row ws) else None)"
  using assms
proof (induction row ws arbitrary: pre rule: row_max.induct)
  case (1 cell row w ws)
  have u: "unsigned32 (if w > length cell then w else length cell) = max w (length cell)"
    using 1(2,3) by (subst unsigned32_small) (auto simp: small_row_def small_widths_def)
  show ?case
    using 1(1) [of "pre @ [max w (length cell)]"] 1(2,3) u
    by (auto simp: small_row_def small_widths_def max_def split: if_splits)
next
  case "2_1"
  then show ?case by simp
next
  case "2_2"
  then show ?case by (auto simp: widen_row_outside)
qed

lemma widen_rows_run:
  assumes "list_all small_row rows" and "small_widths ws"
  shows "widen_rows rows ws =
    (if list_all (\<lambda>row. length row \<le> length ws) rows then Some (fold row_max rows ws) else None)"
  using assms
proof (induction rows arbitrary: ws)
  case (Cons row rows)
  then show ?case
    using widen_row_run [of row ws "[]"] Cons.IH [of "row_max row ws"] by (simp add: small_row_max)
qed simp

lemma length_fold_row_max [simp]: "length (fold row_max rows ws) = length ws"
  by (induction rows arbitrary: ws) simp_all

lemma small_fold_row_max:
  "list_all small_row rows \<Longrightarrow> small_widths ws \<Longrightarrow> small_widths (fold row_max rows ws)"
  by (induction rows arbitrary: ws) (simp_all add: small_row_max)

lemma fold_row_max_ge: "i < length ws \<Longrightarrow> ws ! i \<le> fold row_max rows ws ! i"
proof (induction rows arbitrary: ws)
  case (Cons row rows)
  then have "row_max row ws ! i \<le> fold row_max rows (row_max row ws) ! i" by simp
  with Cons.prems show ?case by (simp add: nth_row_max split: if_splits)
qed simp

lemma cell_fits:
  "row \<in> set rows \<Longrightarrow> i < length row \<Longrightarrow> i < length ws \<Longrightarrow> length (row ! i) \<le> fold row_max rows ws ! i"
proof (induction rows arbitrary: ws)
  case (Cons r rows)
  show ?case
  proof (cases "row = r")
    case True
    have "length (row ! i) \<le> row_max r ws ! i" using Cons.prems True by (simp add: nth_row_max)
    also have "\<dots> \<le> fold row_max rows (row_max r ws) ! i" using Cons.prems by (simp add: fold_row_max_ge)
    finally show ?thesis by simp
  next
    case False
    with Cons show ?thesis by simp
  qed
qed simp

text \<open>A width is the one before or the length of some cell of the column.\<close>

lemma width_attained:
  "i < length ws \<Longrightarrow> fold row_max rows ws ! i = ws ! i
    \<or> (\<exists>row \<in> set rows. i < length row \<and> fold row_max rows ws ! i = length (row ! i))"
proof (induction rows arbitrary: ws)
  case (Cons r rows)
  from Cons.IH [of "row_max r ws"] Cons.prems show ?case
    by (auto simp: nth_row_max max_def split: if_splits)
qed simp

section \<open>The set-up table\<close>

definition column_widths :: "TextTable \<Rightarrow> nat list" where
  "column_widths t = fold row_max (tt_rows t) (replicate (length (hd (tt_rows t))) 0)"

definition aligned :: "TextTable \<Rightarrow> nat \<Rightarrow> Alignment" where
  "aligned t i = (case tt_alignment t i of None \<Rightarrow> LEFT | Some al \<Rightarrow> al)"

text \<open>A table that can be printed: a first row, no longer row, and cells of lengths that are ints.\<close>

definition printable :: "TextTable \<Rightarrow> bool" where
  "printable t \<longleftrightarrow> tt_rows t \<noteq> [] \<and> list_all (\<lambda>row. length row \<le> length (hd (tt_rows t))) (tt_rows t)"

definition small_table :: "TextTable \<Rightarrow> bool" where
  "small_table t \<longleftrightarrow> list_all (\<lambda>row. small_row row \<and> length row < 2 ^ 32) (tt_rows t)"

lemma fold_setAlignment:
  "tt_alignment (fold (\<lambda>i t. if tt_alignment t i = None then setAlignment i LEFT t else t) is t) =
     (\<lambda>i. if i \<in> set is then Some (aligned t i) else tt_alignment t i)
   \<and> tt_rows (fold (\<lambda>i t. if tt_alignment t i = None then setAlignment i LEFT t else t) is t) = tt_rows t
   \<and> tt_width (fold (\<lambda>i t. if tt_alignment t i = None then setAlignment i LEFT t else t) is t) = tt_width t
   \<and> tt_vertical (fold (\<lambda>i t. if tt_alignment t i = None then setAlignment i LEFT t else t) is t) = tt_vertical t
   \<and> tt_horizontal (fold (\<lambda>i t. if tt_alignment t i = None then setAlignment i LEFT t else t) is t) = tt_horizontal t
   \<and> tt_corner (fold (\<lambda>i t. if tt_alignment t i = None then setAlignment i LEFT t else t) is t) = tt_corner t"
  by (induction "is" arbitrary: t) (auto simp: fun_eq_iff setAlignment_def aligned_def split: option.splits)

lemma setup_table_run:
  assumes "small_table t"
  shows "setup_table t = None \<longleftrightarrow> \<not> printable t"
    and "printable t \<Longrightarrow> setup_table t = Some u \<Longrightarrow> tt_rows u = tt_rows t \<and> tt_width u = column_widths t
      \<and> (\<forall>i < length (hd (tt_rows t)). tt_alignment u i = Some (aligned t i))
      \<and> tt_vertical u = tt_vertical t \<and> tt_horizontal u = tt_horizontal t \<and> tt_corner u = tt_corner t"
proof -
  have small: "list_all small_row (tt_rows t)" "tt_rows t \<noteq> [] \<Longrightarrow> length (hd (tt_rows t)) < 2 ^ 32"
    using assms by (auto simp: small_table_def list_all_iff neq_Nil_conv)
  have cols: "columns t = (if tt_rows t = [] then None else Some (length (hd (tt_rows t))))"
    using small(2) by (auto simp: columns_def neq_Nil_conv split: list.splits)
  have widths: "widen_rows (tt_rows t) (replicate (length (hd (tt_rows t))) 0) =
      (if list_all (\<lambda>row. length row \<le> length (hd (tt_rows t))) (tt_rows t) then Some (column_widths t) else None)"
    using widen_rows_run [OF small(1), of "replicate (length (hd (tt_rows t))) 0"]
    by (simp add: column_widths_def small_widths_def list_all_length)
  have det: "determineWidths t = (if printable t then Some (t\<lparr>tt_width := column_widths t\<rparr>) else None)"
    by (simp add: determineWidths_def cols widths printable_def)
  have cols': "columns (t\<lparr>tt_width := w\<rparr>) = columns t" for w by (simp add: columns_def)
  show "setup_table t = None \<longleftrightarrow> \<not> printable t"
    by (auto simp: setup_table_def det setupAlignment_def cols cols' printable_def)
  show "tt_rows u = tt_rows t \<and> tt_width u = column_widths t
      \<and> (\<forall>i < length (hd (tt_rows t)). tt_alignment u i = Some (aligned t i))
      \<and> tt_vertical u = tt_vertical t \<and> tt_horizontal u = tt_horizontal t \<and> tt_corner u = tt_corner t"
    if "printable t" "setup_table t = Some u"
    using that fold_setAlignment [of "[0..<length (hd (tt_rows t))]" "t\<lparr>tt_width := column_widths t\<rparr>"]
    by (auto simp: setup_table_def det setupAlignment_def cols cols' printable_def aligned_def)
qed


section \<open>The printed table\<close>

text \<open>The text of a row: each cell padded to its column, between vertical lines.\<close>

definition row_line :: "TextTable \<Rightarrow> string list \<Rightarrow> string" where
  "row_line t row = [tt_vertical t] @ concat (map (\<lambda>i.
     padded (aligned t i) (int (column_widths t ! i)) (row ! i) @ [tt_vertical t]) [0..<length row])"

definition rule_line :: "TextTable \<Rightarrow> string" where
  "rule_line t = [tt_corner t] @ concat (map (\<lambda>w. replicate w (tt_horizontal t) @ [tt_corner t]) (column_widths t))"

definition table_lines :: "TextTable \<Rightarrow> string list" where
  "table_lines t = rule_line t # concat (map (\<lambda>row. [row_line t row, rule_line t]) (tt_rows t))"

lemma repeat_char_replicate: "repeat_char n c = replicate n c"
  by (induction n) (simp_all add: repeat_char_def replicate_append_same)

lemma ruler_concat:
  "ruler t = [tt_corner t] @ concat (map (\<lambda>w. replicate w (tt_horizontal t) @ [tt_corner t]) (tt_width t))"
proof -
  have "foldl (\<lambda>result w. result @ repeat_char w (tt_horizontal t) @ [tt_corner t]) acc ws
      = acc @ concat (map (\<lambda>w. replicate w (tt_horizontal t) @ [tt_corner t]) ws)" for acc ws
    by (induction ws arbitrary: acc) (simp_all add: repeat_char_replicate)
  then show ?thesis by (simp add: ruler_def)
qed

lemma print_cells_run:
  assumes "small_widths (tt_width u)" and "\<And>j. j < length (tt_width u) \<Longrightarrow> tt_alignment u j = Some (al j)"
    and "i + length row \<le> length (tt_width u)"
  shows "print_cells i row u = Some (concat (map (\<lambda>j.
     padded (al (i + j)) (int (tt_width u ! (i + j))) (row ! j) @ [tt_vertical u]) [0..<length row]), u)"
  using assms(3)
proof (induction row arbitrary: i)
  case (Cons cell row)
  have "tt_width u ! i < 2 ^ 31" using assms(1) Cons.prems by (simp add: small_widths_def list_all_length)
  then have "width i u = Some (int (tt_width u ! i))"
    using Cons.prems by (simp add: width_def int32_id)
  moreover have "alignment i u = (al i, u)" using assms(2) Cons.prems by (simp add: alignment_def)
  ultimately show ?case
    using Cons.IH [of "Suc i"] Cons.prems by (simp add: map_upt_Suc del: upt_Suc)
qed simp

lemma print_rows_run:
  assumes "\<And>row. row \<in> set rows \<Longrightarrow> print_cells 0 row u = Some (f row, u)"
  shows "print_rows rows u = Some (concat (map (\<lambda>l. l @ newline)
     (concat (map (\<lambda>row. [tt_vertical u # f row, ruler u]) rows))), u)"
  using assms by (induction rows) simp_all

lemma small_column_widths: "small_table t \<Longrightarrow> small_widths (column_widths t)"
  unfolding column_widths_def
  by (rule small_fold_row_max) (auto simp: small_table_def list_all_iff small_widths_def)

lemma length_column_widths [simp]: "length (column_widths t) = length (hd (tt_rows t))"
  by (simp add: column_widths_def)

lemma print_table_run:
  assumes "small_table t"
  shows "map_option fst (print_table t) =
    (if printable t then Some (concat (map (\<lambda>l. l @ newline) (table_lines t))) else None)"
proof (cases "printable t")
  case True
  then obtain u where u: "setup_table t = Some u" using setup_table_run(1) [OF assms] by auto
  note same = setup_table_run(2) [OF assms True u]
  have al: "tt_alignment u j = Some (aligned t j)" if "j < length (tt_width u)" for j
    using same that by simp
  have small: "small_widths (tt_width u)" using same small_column_widths [OF assms] by simp
  have cells: "print_cells 0 row u = Some (concat (map (\<lambda>j.
     padded (aligned t j) (int (column_widths t ! j)) (row ! j) @ [tt_vertical t]) [0..<length row]), u)"
    if "row \<in> set (tt_rows t)" for row
    using print_cells_run [OF small al, of 0 row] same True that by (simp add: printable_def list_all_iff)
  have "print_rows (tt_rows t) u = Some (concat (map (\<lambda>l. l @ newline)
      (concat (map (\<lambda>row. [row_line t row, ruler u]) (tt_rows t)))), u)"
    using print_rows_run [of "tt_rows t" u, OF cells] same by (simp add: row_line_def)
  then have "print_table t = Some (ruler u @ newline @ concat (map (\<lambda>l. l @ newline)
      (concat (map (\<lambda>row. [row_line t row, ruler u]) (tt_rows t)))), u)"
    using u same by (simp add: print_table_def)
  moreover have "ruler u = rule_line t" using same by (simp add: ruler_concat rule_line_def)
  ultimately show ?thesis using True by (simp add: table_lines_def)
next
  case False
  then show ?thesis using setup_table_run(1) [OF assms] by (simp add: print_table_def)
qed

lemma length_padded: "0 \<le> w \<Longrightarrow> length (padded al w s) = max (nat w) (length s)"
  by (cases al) (simp_all add: padded_def Let_def)

lemma length_cells:
  "(\<And>i. i < n \<Longrightarrow> length (f i) = g i) \<Longrightarrow> length (concat (map f [0..<n])) = sum_list (map g [0..<n])"
  by (simp add: length_concat comp_def) (rule arg_cong [where f = sum_list], simp)

lemma length_rule_line: "length (rule_line t) = 1 + sum_list (map Suc (column_widths t))"
  by (simp add: rule_line_def length_concat comp_def)

lemma length_row_line:
  assumes "row \<in> set (tt_rows t)" and "length row = length (hd (tt_rows t))"
  shows "length (row_line t row) = length (rule_line t)"
proof -
  have "length (padded (aligned t i) (int (column_widths t ! i)) (row ! i) @ [tt_vertical t]) = Suc (column_widths t ! i)"
    if "i < length row" for i
    using cell_fits [OF assms(1) that, of "replicate (length (hd (tt_rows t))) 0"] assms(2) that
    by (simp add: length_padded column_widths_def)
  then have "length (row_line t row) = 1 + sum_list (map (\<lambda>i. Suc (column_widths t ! i)) [0..<length row])"
    using length_cells [of "length row" "\<lambda>i. padded (aligned t i) (int (column_widths t ! i)) (row ! i) @ [tt_vertical t]"
        "\<lambda>i. Suc (column_widths t ! i)"]
    by (simp only: row_line_def length_append list.size add_0_right One_nat_def)
  also have "map (\<lambda>i. Suc (column_widths t ! i)) [0..<length row] = map Suc (column_widths t)"
    by (rule nth_equalityI) (simp_all add: assms(2))
  finally show ?thesis by (simp add: length_rule_line)
qed

text \<open>The printed table is a frame: for a table with at least one row, all of the same number of cells, printing is
  defined; the output is a rule, then for each row its line and a rule; each of these lines has the same length, one
  more than the sum of the column widths, each with its separator; and the width of a column is the length of
  its longest cell, so that no cell is cut or sticks out.\<close>

theorem printed_lines_align:
  assumes "small_table t" and "tt_rows t \<noteq> []"
    and "list_all (\<lambda>row. length row = length (hd (tt_rows t))) (tt_rows t)"
  shows "map_option fst (print_table t) = Some (concat (map (\<lambda>l. l @ newline) (table_lines t)))
    \<and> length (table_lines t) = 2 * length (tt_rows t) + 1
    \<and> list_all (\<lambda>l. length l = 1 + sum_list (map Suc (column_widths t))) (table_lines t)
    \<and> (\<forall>i < length (hd (tt_rows t)).
        column_widths t ! i = Max ((\<lambda>row. length (row ! i)) ` set (tt_rows t)))"
proof (intro conjI allI impI)
  have eq: "\<And>row. row \<in> set (tt_rows t) \<Longrightarrow> length row = length (hd (tt_rows t))"
    using assms(3) by (simp only: list_all_iff)
  have "length row \<le> length (hd (tt_rows t))" if "row \<in> set (tt_rows t)" for row
    by (rule eq_refl, rule eq [OF that])
  with assms(2) have p: "printable t" by (simp add: printable_def list_all_iff)
  then show "map_option fst (print_table t) = Some (concat (map (\<lambda>l. l @ newline) (table_lines t)))"
    using print_table_run [OF assms(1)] by simp
  show "length (table_lines t) = 2 * length (tt_rows t) + 1"
    by (simp add: table_lines_def length_concat comp_def sum_list_triv)
  show "list_all (\<lambda>l. length l = 1 + sum_list (map Suc (column_widths t))) (table_lines t)"
  proof -
    have "length (row_line t row) = length (rule_line t)" if "row \<in> set (tt_rows t)" for row
      by (rule length_row_line [OF that eq [OF that]])
    then show ?thesis by (simp add: length_rule_line table_lines_def list_all_iff)
  qed
  fix i assume i: "i < length (hd (tt_rows t))"
  let ?z = "replicate (length (hd (tt_rows t))) 0"
  show "column_widths t ! i = Max ((\<lambda>row. length (row ! i)) ` set (tt_rows t))"
  proof (rule Max_eqI [symmetric])
    show "y \<le> column_widths t ! i" if "y \<in> (\<lambda>row. length (row ! i)) ` set (tt_rows t)" for y
    proof -
      from that obtain row where row: "row \<in> set (tt_rows t)" "y = length (row ! i)" by blast
      have "i < length row" using i eq [OF row(1)] by simp
      from cell_fits [OF row(1) this, of ?z] i row(2) show ?thesis by (simp add: column_widths_def)
    qed
    have hd: "hd (tt_rows t) \<in> set (tt_rows t)" using assms(2) by simp
    show "column_widths t ! i \<in> (\<lambda>row. length (row ! i)) ` set (tt_rows t)"
    proof (cases "column_widths t ! i = 0")
      case True
      with cell_fits [OF hd i, of ?z] i have "length (hd (tt_rows t) ! i) = 0"
        by (simp add: column_widths_def)
      with True hd show ?thesis by (metis image_eqI)
    next
      case False
      with width_attained [of i ?z "tt_rows t"] i show ?thesis by (auto simp: column_widths_def)
    qed
  qed simp
qed

definition seats_table_example :: TextTable where
  "seats_table_example = setAlignment 0 RIGHT (addRow [''10'', ''Occupped''] (addRow [''Seat'', ''Status''] new_TextTable))"

theorem printed_lines_align_witness:
  "map length (table_lines seats_table_example) = [15, 15, 15, 15, 15]
    \<and> map_option fst (print_table seats_table_example) = Some (concat (map (\<lambda>l. l @ newline)
        [''+----+--------+'', ''|Seat|Status  |'', ''+----+--------+'', ''|  10|Occupped|'', ''+----+--------+'']))"
proof -
  have rows: "tt_rows seats_table_example = [[''Seat'', ''Status''], [''10'', ''Occupped'']]"
    by (simp add: seats_table_example_def setAlignment_def addRow_def endOfRow_def add_cell_def new_TextTable_def)
  have lines: "table_lines seats_table_example =
      [''+----+--------+'', ''|Seat|Status  |'', ''+----+--------+'', ''|  10|Occupped|'', ''+----+--------+'']"
    by code_simp
  have "small_table seats_table_example" by (simp add: small_table_def small_row_def rows)
  from printed_lines_align [OF this] show ?thesis by (simp add: rows lines)
qed

text \<open>When printing is undefined: exactly for a table without rows (its first row is read) and for one with a row
  longer than the first (its widths are written and read out of range).\<close>

theorem printing_undefined:
  assumes "small_table t"
  shows "print_table t = None \<longleftrightarrow> tt_rows t = [] \<or> (\<exists>row \<in> set (tt_rows t). length (hd (tt_rows t)) < length row)"
  using print_table_run [OF assms] by (auto simp: printable_def list_all_iff not_le split: if_splits)

theorem printing_undefined_witness:
  "print_table new_TextTable = None \<and> print_table (addRow [''1'', ''2''] (addRow [''1''] new_TextTable)) = None"
proof
  show "print_table new_TextTable = None"
    using printing_undefined [of new_TextTable] by (simp add: small_table_def new_TextTable_def)
  show "print_table (addRow [''1'', ''2''] (addRow [''1''] new_TextTable)) = None"
    using printing_undefined [of "addRow [''1'', ''2''] (addRow [''1''] new_TextTable)"]
    by (simp add: small_table_def small_row_def addRow_def endOfRow_def add_cell_def new_TextTable_def)
qed

end
