(* ===== verification/Terminal.thy ===== *)
theory Terminal
  imports Messages Text_Table
begin

text \<open>
  What the client program reads and writes: src/client/client\_utils.cpp and the questions of
  src/client/client.cpp.

  \<^item> The terminal is a record: the text still to be read (\<open>fgets\<close> at its end changes nothing) and
    the text these two files have printed.  A character array is the string it holds up to its
    terminator, \<open>None\<close> while it is uninitialised; to read it then is undefined.
  \<^item> The loop of \<open>client_menu\<close> runs until a valid option is read, so it may run for ever:
    \<open>menu_loop\<close> is then \<open>None\<close>.
  \<^item> The properties: numbers printed and typed back are read as they were, and the menu returns
    the first valid option or never.
\<close>

section \<open>Numbers as text\<close>

text \<open>\<open>std::to_string\<close>.\<close>

fun digits :: "nat \<Rightarrow> string" where
  "digits n = (if n < 10 then [char_of (48 + n)] else digits (n div 10) @ [char_of (48 + n mod 10)])"

declare digits.simps [simp del]

definition to_string :: "int \<Rightarrow> string" where
  "to_string i = (if i < 0 then CHR ''-'' # digits (nat (- i)) else digits (nat i))"

definition is_space :: "char \<Rightarrow> bool" where
  "is_space c \<longleftrightarrow> c \<in> {CHR '' '', CHR 0x09, CHR 0x0A, CHR 0x0B, CHR 0x0C, CHR 0x0D}"

definition is_digit :: "char \<Rightarrow> bool" where
  "is_digit c \<longleftrightarrow> 48 \<le> (of_char c :: nat) \<and> (of_char c :: nat) \<le> 57"

definition digits_value :: "string \<Rightarrow> int" where
  "digits_value ds = foldl (\<lambda>v c. 10 * v + (of_char c - 48)) 0 ds"

definition LONG_MAX :: int where "LONG_MAX = 2 ^ 63 - 1"
definition LONG_MIN :: int where "LONG_MIN = - (2 ^ 63)"

text \<open>\<open>strtol(str, nullptr, 10)\<close>, which saturates.\<close>

definition strtol :: "string \<Rightarrow> int" where
  "strtol s =
     (let s = dropWhile is_space s;
          negative = (s \<noteq> [] \<and> hd s = CHR ''-'');
          s = (if s \<noteq> [] \<and> (hd s = CHR ''-'' \<or> hd s = CHR ''+'') then tl s else s);
          v = digits_value (takeWhile is_digit s)
      in max LONG_MIN (min LONG_MAX (if negative then - v else v)))"

section \<open>The terminal\<close>

record console =
  con_in :: string
  con_out :: string

definition put :: "string \<Rightarrow> (unit, console) prog" where
  "put s = modify (\<lambda>c. c\<lparr>con_out := con_out c @ s\<rparr>)"

definition MAX_CLIENT_INPUT :: nat where "MAX_CLIENT_INPUT = 30"

text \<open>A line with its newline, or \<open>n\<close> characters.\<close>

fun take_line :: "nat \<Rightarrow> string \<Rightarrow> string" where
  "take_line 0 cs = []"
| "take_line (Suc n) [] = []"
| "take_line (Suc n) (c # cs) = (if c = CHR 0x0A then [c] else c # take_line n cs)"

text \<open>\<open>fgets(str, sizeof str, stdin)\<close>: the array after it.\<close>

definition fgets :: "string option \<Rightarrow> (string option, console) prog" where
  "fgets str = (\<lambda>c. if con_in c = [] then (Ret str, c)
     else (let line = take_line (MAX_CLIENT_INPUT - 1) (con_in c)
           in (Ret (Some (c_string (line @ [NUL]))), c\<lparr>con_in := drop (length line) (con_in c)\<rparr>)))"

section \<open>client\_utils.cpp\<close>

fun reservation_lines :: "int \<Rightarrow> Reservation list \<Rightarrow> string" where
  "reservation_lines n [] = []"
| "reservation_lines n (r # rs) =
     to_string n @ '' | Seat '' @ to_string (res_seat_num r) @ '' in Room '' @ to_string (res_room r) @ newline
     @ reservation_lines (n + 1) rs"

definition list_reservations :: "Reservation list \<Rightarrow> (unit, console) prog" where
  "list_reservations rs =
     andThen (put (reservation_lines 1 rs)) (\<lambda>_.
     andThen (put (''Press <<Enter>> to continue'' @ newline)) (\<lambda>_.
     andThen (fgets None) (\<lambda>_. ret ())))"

definition rooms_table :: "Room list \<Rightarrow> TextTable" where
  "rooms_table rooms =
     (let table = endOfRow (add_cell ''Room ID  '' new_TextTable);
          table = fold (\<lambda>aRoom table. endOfRow (add_cell (to_string (room_no aRoom)) table)) rooms table
      in setAlignment 0 RIGHT table)"

definition print_rooms :: "Room list \<Rightarrow> (unit, console) prog" where
  "print_rooms rooms = andThen (defined (print_table (rooms_table rooms))) (\<lambda>(out, _).
     put (newline @ out @ newline))"

definition seat_text :: "Seat \<Rightarrow> string" where
  "seat_text aSeat = (if seat_status aSeat = SEAT_STATUS_FREE then ''Free'' else ''Occupped'')"

definition seats_table :: "Seat list \<Rightarrow> TextTable" where
  "seats_table seats =
     (let table = endOfRow (add_cell ''Status   '' (add_cell ''Seat Id  '' new_TextTable));
          table = fold (\<lambda>aSeat table. endOfRow (add_cell (seat_text aSeat) (add_cell (to_string (seat_no aSeat)) table))) seats table
      in setAlignment 1 RIGHT (setAlignment 0 RIGHT table))"

definition print_seats :: "Seat list \<Rightarrow> (unit, console) prog" where
  "print_seats seats = andThen (defined (print_table (seats_table seats))) (\<lambda>(out, _).
     put (newline @ out @ newline))"

section \<open>The questions of the terminal\<close>

definition REFRESH_SEATS :: int where "REFRESH_SEATS = - 500"
definition GO_BACK :: int where "GO_BACK = - 135"
definition POLLING_INTERVAL_SEAT :: int where "POLLING_INTERVAL_SEAT = 1"
definition OPTION_MAKE_RESERVATION :: int where "OPTION_MAKE_RESERVATION = 1"
definition OPTION_SEE_RESERVATION :: int where "OPTION_SEE_RESERVATION = 2"
definition OPTION_BUY_RESERVATION :: int where "OPTION_BUY_RESERVATION = 3"
definition OPTION_EXIT :: int where "OPTION_EXIT = 4"

lemmas ui_constants [simp] = REFRESH_SEATS_def GO_BACK_def POLLING_INTERVAL_SEAT_def OPTION_MAKE_RESERVATION_def
  OPTION_SEE_RESERVATION_def OPTION_BUY_RESERVATION_def OPTION_EXIT_def

definition back_words :: "string list" where
  "back_words = map (\<lambda>w. w @ newline) [''Back'', ''back'', ''b'', ''B'']"

definition refresh_words :: "string list" where
  "refresh_words = map (\<lambda>w. w @ newline) [''Refresh'', ''refresh'', ''r'', ''R'']"

definition client_select_room :: "(int, console) prog" where
  "client_select_room =
     andThen (put ''Enter ROOM id or [B]ack to go back: '') (\<lambda>_.
     andThen (fgets None) (\<lambda>str.
     andThen (defined str) (\<lambda>s.
       if s \<in> set back_words then ret GO_BACK
       else let room_id = int32 (strtol s) in
         andThen (put (''You Select ROOM '' @ to_string room_id @ newline @ ''Press <<Enter>> to show seats'')) (\<lambda>_.
         andThen (fgets str) (\<lambda>_. ret room_id)))))"

definition client_select_seat :: "(int, console) prog" where
  "client_select_seat =
     andThen (put ''Enter SEAT id, [R]efresh to reload or [B]ack to go back: '') (\<lambda>_.
     andThen (fgets None) (\<lambda>str.
     andThen (defined str) (\<lambda>s.
       if s \<in> set refresh_words then ret REFRESH_SEATS
       else if s \<in> set back_words then ret GO_BACK
       else let room_id = int32 (strtol s) in
         andThen (put (''You Select SEAT '' @ to_string room_id @ newline @ ''Press <<Enter>> to reserve'')) (\<lambda>_.
         andThen (fgets str) (\<lambda>_. ret room_id)))))"

definition menu_text :: "int \<Rightarrow> string" where
  "menu_text count_reservations =
     newline @ ''[1] Make reservation'' @ newline
     @ (if count_reservations > 0
        then ''[2] See '' @ to_string count_reservations @ '' reservation'' @ (if count_reservations = 1 then [] else ''s'') @ newline
          @ ''[3] Buy reservations'' @ newline
        else [])
     @ ''[4] Exit'' @ newline @ ''Select an option: ''"

definition valid_option :: "int \<Rightarrow> int \<Rightarrow> bool" where
  "valid_option count_reservations opt \<longleftrightarrow> opt = OPTION_MAKE_RESERVATION \<or> opt = OPTION_EXIT
     \<or> (count_reservations > 0 \<and> (opt = OPTION_BUY_RESERVATION \<or> opt = OPTION_SEE_RESERVATION))"

partial_function (option) menu_loop ::
  "int \<Rightarrow> string \<Rightarrow> string option \<Rightarrow> console \<Rightarrow> (int outcome \<times> console) option" where
  "menu_loop count_reservations msg str c =
     (case andThen (put (msg @ menu_text count_reservations)) (\<lambda>_. fgets str) c of
        (Ret (Some s), c') \<Rightarrow>
          if valid_option count_reservations (int32 (strtol s)) then Some (Ret (int32 (strtol s)), c')
          else menu_loop count_reservations (''** Please enter a valid option **'' @ newline) (Some s) c'
      | (_, c') \<Rightarrow> Some (Undef, c'))"

definition client_menu :: "int \<Rightarrow> console \<Rightarrow> (int outcome \<times> console) option" where
  "client_menu count_reservations c = menu_loop count_reservations [] None c"


section \<open>Reading what was printed\<close>

lemma of_char_digit: "d < 10 \<Longrightarrow> (of_char (char_of (48 + d :: nat)) :: nat) = 48 + d"
  by simp

lemma digits_are_digits: "list_all is_digit (digits n)"
proof (induction n rule: digits.induct)
  case (1 n)
  show ?case
    using 1 by (cases "n < 10") (simp_all add: digits.simps [of n] is_digit_def)
qed

lemma digits_value_append: "digits_value (ds @ [c]) = 10 * digits_value ds + (of_char c - 48)"
  by (simp add: digits_value_def)

lemma digits_value_digits: "digits_value (digits n) = int n"
proof (induction n rule: digits.induct)
  case (1 n)
  have c: "(of_char (char_of (48 + d :: nat)) :: int) = 48 + int d" if "d < 10" for d
    using of_char_digit [OF that] by (metis of_char_of of_nat_of_char of_nat_add of_nat_numeral)
  show ?case
  proof (cases "n < 10")
    case True
    then show ?thesis using c [OF True] by (simp add: digits.simps [of n] digits_value_def)
  next
    case False
    have "n mod 10 < 10" by simp
    from c [OF this] 1 [OF False] False
    have "digits_value (digits n) = 10 * int (n div 10) + int (n mod 10)"
      by (simp add: digits.simps [of n] digits_value_append)
    also have "\<dots> = int n" by presburger
    finally show ?thesis .
  qed
qed

lemma digits_not_empty [simp]: "digits n \<noteq> []"
  by (subst digits.simps) simp

lemma length_digits: "n < 10 ^ Suc k \<Longrightarrow> length (digits n) \<le> Suc k"
proof (induction k arbitrary: n)
  case 0
  then show ?case by (simp add: digits.simps [of n])
next
  case (Suc k)
  then have "n div 10 < 10 ^ Suc k" by (simp add: less_mult_imp_div_less)
  from Suc.IH [OF this] show ?case by (subst digits.simps) simp
qed

lemma hd_digits [simp]: "is_digit (hd (digits n))"
  using digits_are_digits [of n] by (simp add: list_all_iff)

lemma newline_not_empty [simp]: "newline \<noteq> []"
  by (simp add: newline_def)

text \<open>A line that \<open>fgets\<close> reads whole.\<close>

definition short_line :: "string \<Rightarrow> bool" where
  "short_line l \<longleftrightarrow> length l < 29 \<and> list_all (\<lambda>c. c \<noteq> CHR 0x0A \<and> c \<noteq> NUL) l"

lemma digit_not_special:
  "is_digit c \<Longrightarrow> \<not> is_space c" "is_digit c \<Longrightarrow> c \<noteq> CHR ''-''" "is_digit c \<Longrightarrow> c \<noteq> CHR ''+''"
  "is_digit c \<Longrightarrow> c \<noteq> CHR 0x0A" "is_digit c \<Longrightarrow> c \<noteq> NUL"
  by (auto simp: is_digit_def is_space_def)

lemma short_line_number: "in_int32 i \<Longrightarrow> short_line (to_string i)"
proof -
  assume i: "in_int32 i"
  have len: "length (digits (nat \<bar>i\<bar>)) \<le> Suc 9"
    by (rule length_digits) (use i in auto)
  have "list_all (\<lambda>c. c \<noteq> CHR 0x0A \<and> c \<noteq> NUL) (digits n)" for n
    using digits_are_digits [of n] by (auto simp: list_all_iff digit_not_special)
  with len show ?thesis by (auto simp: short_line_def to_string_def split: if_splits)
qed

lemma strtol_to_string:
  assumes "in_int32 i"
  shows "strtol (to_string i @ newline) = i"
proof -
  have tw: "takeWhile is_digit (digits n @ newline) = digits n" for n
    using digits_are_digits [of n] by (simp add: newline_def list_all_iff is_digit_def)
  have "\<not> is_space (hd (to_string i))"
    by (simp add: to_string_def digit_not_special) (simp add: is_space_def)
  then have dw: "dropWhile is_space (to_string i @ newline) = to_string i @ newline"
    by (cases "to_string i") (auto simp: to_string_def split: if_splits)
  have bounds: "- (2 ^ 63) \<le> i" "i \<le> 2 ^ 63 - 1" using assms by auto
  have sign: "hd (digits n) \<noteq> CHR ''-''" "hd (digits n) \<noteq> CHR ''+''" for n
    using digit_not_special(2,3) hd_digits by blast+
  show ?thesis
    using bounds sign unfolding strtol_def Let_def dw
    by (cases "i < 0") (simp_all add: to_string_def tw digits_value_digits LONG_MIN_def LONG_MAX_def)
qed

lemma take_line_short: "length l < n \<Longrightarrow> list_all (\<lambda>c. c \<noteq> CHR 0x0A \<and> c \<noteq> NUL) l \<Longrightarrow>
    take_line n (l @ newline @ rest) = l @ newline"
proof (induction l arbitrary: n)
  case Nil
  then show ?case by (cases n) (simp_all add: newline_def)
next
  case (Cons c l)
  then show ?case by (cases n) simp_all
qed

lemma c_string_terminated: "NUL \<notin> set s \<Longrightarrow> c_string (s @ [NUL]) = s"
  by (simp add: c_string_def takeWhile_append)

lemma fgets_line:
  assumes "short_line l"
  shows "fgets str \<lparr>con_in = l @ newline @ rest, con_out = out\<rparr>
    = (Ret (Some (l @ newline)), \<lparr>con_in = rest, con_out = out\<rparr>)"
proof -
  have "take_line (MAX_CLIENT_INPUT - 1) (l @ newline @ rest) = l @ newline"
    using assms by (simp add: take_line_short short_line_def MAX_CLIENT_INPUT_def)
  moreover have "c_string ((l @ newline) @ [NUL]) = l @ newline"
    by (rule c_string_terminated) (use assms in \<open>auto simp: short_line_def list_all_iff newline_def\<close>)
  moreover have "l @ newline @ rest \<noteq> []" by simp
  ultimately show ?thesis by (simp add: fgets_def Let_def)
qed

lemma put_run [simp]: "put s c = (Ret (), c\<lparr>con_out := con_out c @ s\<rparr>)"
  by (simp add: put_def)

lemma number_is_no_word:
  assumes "in_int32 i"
  shows "to_string i @ newline \<notin> set back_words" and "to_string i @ newline \<notin> set refresh_words"
proof -
  have "hd (to_string i) = CHR ''-'' \<or> is_digit (hd (to_string i))"
    by (simp add: to_string_def)
  moreover have "to_string i \<noteq> []" by (simp add: to_string_def)
  ultimately show "to_string i @ newline \<notin> set back_words" "to_string i @ newline \<notin> set refresh_words"
    by (auto simp: back_words_def refresh_words_def is_digit_def)
qed

text \<open>What is printed can be typed: a number as the tables print it, typed at either question and confirmed, is the
  number chosen, and exactly these two lines are read; this holds for every int, also for the two the program
  itself uses as answers: the number printed as -135 goes back, and -500 refreshes.\<close>

theorem number_typed_back:
  assumes "in_int32 i" and "short_line enter"
  shows "client_select_room \<lparr>con_in = to_string i @ newline @ enter @ newline @ rest, con_out = out\<rparr> =
      (Ret i, \<lparr>con_in = rest, con_out = out @ ''Enter ROOM id or [B]ack to go back: ''
         @ ''You Select ROOM '' @ to_string i @ newline @ ''Press <<Enter>> to show seats''\<rparr>)
    \<and> client_select_seat \<lparr>con_in = to_string i @ newline @ enter @ newline @ rest, con_out = out\<rparr> =
      (Ret i, \<lparr>con_in = rest, con_out = out @ ''Enter SEAT id, [R]efresh to reload or [B]ack to go back: ''
         @ ''You Select SEAT '' @ to_string i @ newline @ ''Press <<Enter>> to reserve''\<rparr>)"
  using number_is_no_word [OF assms(1)] fgets_line [OF short_line_number [OF assms(1)]] fgets_line [OF assms(2)]
    strtol_to_string [OF assms(1)] assms(1)
  by (simp add: client_select_room_def client_select_seat_def Let_def int32_id)

theorem number_typed_back_witness:
  "fst (client_select_room \<lparr>con_in = ''17'' @ newline @ [] @ newline @ [], con_out = []\<rparr>) = Ret 17
    \<and> fst (client_select_seat \<lparr>con_in = ''-135'' @ newline @ [] @ newline @ [], con_out = []\<rparr>) = Ret GO_BACK"
proof -
  have t: "to_string 17 = ''17''" "to_string (- 135) = ''-135''"
    by code_simp+
  have e: "short_line []" by (simp add: short_line_def)
  show ?thesis
    using number_typed_back [of 17 "[]" "[]" "[]", OF _ e] number_typed_back [of "- 135" "[]" "[]" "[]", OF _ e]
    by (simp add: t)
qed

section \<open>The menu\<close>

definition line_option :: "string \<Rightarrow> int" where
  "line_option l = int32 (strtol (l @ newline))"

definition lines_text :: "string list \<Rightarrow> string" where
  "lines_text ls = concat (map (\<lambda>l. l @ newline) ls)"

lemma menu_loop_line:
  assumes "short_line l"
  shows "menu_loop n msg str \<lparr>con_in = l @ newline @ rest, con_out = out\<rparr> =
    (if valid_option n (line_option l) then Some (Ret (line_option l), \<lparr>con_in = rest, con_out = out @ msg @ menu_text n\<rparr>)
     else menu_loop n (''** Please enter a valid option **'' @ newline) (Some (l @ newline))
       \<lparr>con_in = rest, con_out = out @ msg @ menu_text n\<rparr>)"
  by (subst menu_loop.simps) (simp add: fgets_line [OF assms] line_option_def)

definition last_read :: "string option \<Rightarrow> string list \<Rightarrow> string option" where
  "last_read str ls = (if ls = [] then str else Some (last ls @ newline))"

lemma menu_loop_reads:
  assumes "list_all short_line bad" and "list_all (\<lambda>l. \<not> valid_option n (line_option l)) bad"
  shows "\<exists>msg' out'. menu_loop n msg str \<lparr>con_in = lines_text bad @ rest, con_out = out\<rparr>
      = menu_loop n msg' (last_read str bad) \<lparr>con_in = rest, con_out = out'\<rparr>"
  using assms
proof (induction bad arbitrary: msg str out)
  case Nil
  then show ?case by (auto simp: lines_text_def last_read_def)
next
  case (Cons l bad)
  let ?msg = "''** Please enter a valid option **'' @ newline" and ?out = "out @ msg @ menu_text n"
  have "menu_loop n msg str \<lparr>con_in = lines_text (l # bad) @ rest, con_out = out\<rparr> =
      menu_loop n ?msg (Some (l @ newline)) \<lparr>con_in = lines_text bad @ rest, con_out = ?out\<rparr>"
    using menu_loop_line [of l n msg str "lines_text bad @ rest" out] Cons.prems by (simp add: lines_text_def)
  moreover have "last_read (Some (l @ newline)) bad = last_read str (l # bad)"
    by (simp add: last_read_def)
  moreover have "\<exists>msg' out'. menu_loop n ?msg (Some (l @ newline)) \<lparr>con_in = lines_text bad @ rest, con_out = ?out\<rparr>
      = menu_loop n msg' (last_read (Some (l @ newline)) bad) \<lparr>con_in = rest, con_out = out'\<rparr>"
    using Cons by simp
  ultimately show ?case by simp
qed

lemma menu_loop_stuck:
  assumes "menu_loop n msg str c = Some r"
  shows "con_in c = [] \<longrightarrow> str = Some s \<longrightarrow> valid_option n (int32 (strtol s))"
proof (rule menu_loop.raw_induct [OF _ assms])
  fix f n msg str and c :: console and r
  assume IH: "\<And>n msg str c r. f n msg str c = Some r \<Longrightarrow>
      con_in c = [] \<longrightarrow> str = Some s \<longrightarrow> valid_option n (int32 (strtol s))"
    and eq: "(case andThen (put (msg @ menu_text n)) (\<lambda>_. fgets str) c of
        (Ret (Some s), c') \<Rightarrow>
          if valid_option n (int32 (strtol s)) then Some (Ret (int32 (strtol s)), c')
          else f n (''** Please enter a valid option **'' @ newline) (Some s) c'
      | (_, c') \<Rightarrow> Some (Undef, c')) = Some r"
  show "con_in c = [] \<longrightarrow> str = Some s \<longrightarrow> valid_option n (int32 (strtol s))"
  proof (intro impI)
    assume c: "con_in c = []" and s: "str = Some s"
    then have "andThen (put (msg @ menu_text n)) (\<lambda>_. fgets str) c =
        (Ret (Some s), c\<lparr>con_out := con_out c @ msg @ menu_text n\<rparr>)"
      by (simp add: fgets_def)
    with eq have "valid_option n (int32 (strtol s)) \<or>
        f n (''** Please enter a valid option **'' @ newline) (Some s) (c\<lparr>con_out := con_out c @ msg @ menu_text n\<rparr>) = Some r"
      by (simp split: if_splits)
    with IH [of n _ "Some s" "c\<lparr>con_out := con_out c @ msg @ menu_text n\<rparr>" r] c
    show "valid_option n (int32 (strtol s))" by auto
  qed
qed

text \<open>C37. The menu reads lines until one is a valid option and returns it, having read exactly the lines up to it;
  when the input ends without one it never returns, because at the end of the input \<open>fgets\<close> leaves the last line in the
  array, and when there is no input at all it reads the array uninitialised.\<close>

theorem menu_returns_or_never:
  assumes "list_all short_line bad" and "list_all (\<lambda>l. \<not> valid_option n (line_option l)) bad"
    and "short_line good" and "valid_option n (line_option good)"
  shows "(\<exists>out'. client_menu n \<lparr>con_in = lines_text (bad @ [good]) @ rest, con_out = out\<rparr>
        = Some (Ret (line_option good), \<lparr>con_in = rest, con_out = out'\<rparr>))
    \<and> client_menu n \<lparr>con_in = lines_text bad, con_out = out\<rparr> =
        (if bad = [] then Some (Undef, \<lparr>con_in = [], con_out = out @ menu_text n\<rparr>) else None)"
proof (intro conjI)
  obtain msg' out' where "menu_loop n [] None \<lparr>con_in = lines_text bad @ good @ newline @ rest, con_out = out\<rparr>
      = menu_loop n msg' (last_read None bad) \<lparr>con_in = good @ newline @ rest, con_out = out'\<rparr>"
    using menu_loop_reads [OF assms(1,2), of "[]" None "good @ newline @ rest" out] by blast
  with assms(3,4) show "\<exists>out'. client_menu n \<lparr>con_in = lines_text (bad @ [good]) @ rest, con_out = out\<rparr>
      = Some (Ret (line_option good), \<lparr>con_in = rest, con_out = out'\<rparr>)"
    by (simp add: client_menu_def menu_loop_line lines_text_def)
next
  show "client_menu n \<lparr>con_in = lines_text bad, con_out = out\<rparr> =
      (if bad = [] then Some (Undef, \<lparr>con_in = [], con_out = out @ menu_text n\<rparr>) else None)"
  proof (cases "bad = []")
    case True
    then show ?thesis
      unfolding client_menu_def by (subst menu_loop.simps) (simp add: fgets_def lines_text_def)
  next
    case False
    obtain msg' out' where run: "menu_loop n [] None \<lparr>con_in = lines_text bad, con_out = out\<rparr>
        = menu_loop n msg' (Some (last bad @ newline)) \<lparr>con_in = [], con_out = out'\<rparr>"
      using menu_loop_reads [OF assms(1,2), of "[]" None "[]" out] False by (auto simp: last_read_def)
    have "\<not> valid_option n (int32 (strtol (last bad @ newline)))"
      using assms(2) False by (simp add: list_all_iff line_option_def)
    with menu_loop_stuck [where str = "Some (last bad @ newline)" and c = "\<lparr>con_in = [], con_out = out'\<rparr>"
        and s = "last bad @ newline"]
    show ?thesis unfolding client_menu_def run
      by (cases "menu_loop n msg' (Some (last bad @ newline)) \<lparr>con_in = [], con_out = out'\<rparr>") (auto simp: False)
  qed
qed

theorem menu_returns_or_never_witness:
  "(\<exists>out'. client_menu 0 \<lparr>con_in = lines_text ([''2'', ''buy''] @ [''4'']) @ ''x'', con_out = []\<rparr>
      = Some (Ret OPTION_EXIT, \<lparr>con_in = ''x'', con_out = out'\<rparr>))
    \<and> client_menu 0 \<lparr>con_in = lines_text [''2'', ''buy''], con_out = []\<rparr> = None"
proof -
  have options: "line_option ''2'' = 2" "line_option ''buy'' = 0" "line_option ''4'' = 4" by code_simp+
  have bad: "list_all short_line [''2'', ''buy'']" "list_all (\<lambda>l. \<not> valid_option 0 (line_option l)) [''2'', ''buy'']"
    by (simp_all add: short_line_def options valid_option_def)
  have good: "short_line ''4''" "valid_option 0 (line_option ''4'')"
    by (simp_all add: short_line_def options valid_option_def)
  show ?thesis
    using menu_returns_or_never [OF bad good, of "''x''" "[]"] by (simp add: options)
qed


section \<open>The tables of rooms and seats\<close>

lemma rows_fold:
  "tt_current t = [] \<Longrightarrow>
    tt_rows (fold (\<lambda>x t. endOfRow (add_cell (f x) t)) xs t) = tt_rows t @ map (\<lambda>x. [f x]) xs"
  "tt_current t = [] \<Longrightarrow>
    tt_rows (fold (\<lambda>x t. endOfRow (add_cell (g x) (add_cell (f x) t))) xs t) = tt_rows t @ map (\<lambda>x. [f x, g x]) xs"
  by (induction xs arbitrary: t) (simp_all add: endOfRow_def add_cell_def)

lemma rows_rooms_table: "tt_rows (rooms_table rooms) = [''Room ID  ''] # map (\<lambda>r. [to_string (room_no r)]) rooms"
  using rows_fold(1) [of "endOfRow (add_cell ''Room ID  '' new_TextTable)" "\<lambda>r. to_string (room_no r)" rooms]
  by (simp add: rooms_table_def setAlignment_def Let_def) (simp add: endOfRow_def add_cell_def new_TextTable_def)

lemma rows_seats_table: "tt_rows (seats_table seats) =
    [''Seat Id  '', ''Status   ''] # map (\<lambda>s. [to_string (seat_no s), seat_text s]) seats"
  using rows_fold(2) [of "endOfRow (add_cell ''Status   '' (add_cell ''Seat Id  '' new_TextTable))"
      seat_text "\<lambda>s. to_string (seat_no s)" seats]
  by (simp add: seats_table_def setAlignment_def Let_def) (simp add: endOfRow_def add_cell_def new_TextTable_def)

lemma short_number: "in_int32 i \<Longrightarrow> length (to_string i) < 2 ^ 31"
  using short_line_number [of i] by (simp add: short_line_def)

lemma print_seats_run:
  assumes "list_all (\<lambda>s. in_int32 (seat_no s)) seats"
  shows "print_seats seats c = (Ret (), c\<lparr>con_out := con_out c @ newline
    @ concat (map (\<lambda>l. l @ newline) (table_lines (seats_table seats))) @ newline\<rparr>)"
proof -
  have "small_table (seats_table seats)"
    using assms short_number
    by (auto simp: small_table_def small_row_def rows_seats_table seat_text_def list_all_iff)
  moreover have "printable (seats_table seats)" by (simp add: printable_def rows_seats_table list_all_iff)
  ultimately have "map_option fst (print_table (seats_table seats)) =
      Some (concat (map (\<lambda>l. l @ newline) (table_lines (seats_table seats))))"
    by (simp add: print_table_run)
  then obtain t where "print_table (seats_table seats) =
      Some (concat (map (\<lambda>l. l @ newline) (table_lines (seats_table seats))), t)" by auto
  then show ?thesis by (simp add: print_seats_def)
qed

lemma print_rooms_run:
  assumes "list_all (\<lambda>r. in_int32 (room_no r)) rooms"
  shows "print_rooms rooms c = (Ret (), c\<lparr>con_out := con_out c @ newline
    @ concat (map (\<lambda>l. l @ newline) (table_lines (rooms_table rooms))) @ newline\<rparr>)"
proof -
  have "small_table (rooms_table rooms)"
    using assms short_number
    by (auto simp: small_table_def small_row_def rows_rooms_table list_all_iff)
  moreover have "printable (rooms_table rooms)" by (simp add: printable_def rows_rooms_table list_all_iff)
  ultimately have "map_option fst (print_table (rooms_table rooms)) =
      Some (concat (map (\<lambda>l. l @ newline) (table_lines (rooms_table rooms))))"
    by (simp add: print_table_run)
  then obtain t where "print_table (rooms_table rooms) =
      Some (concat (map (\<lambda>l. l @ newline) (table_lines (rooms_table rooms))), t)" by auto
  then show ?thesis by (simp add: print_rooms_def)
qed

end
