(* ===== verification/Client_Program.thy ===== *)
theory Client_Program
  imports Client_Interface Terminal
begin

text \<open>
  \<open>main\<close> of the client: \<open>client_start\<close> of src/client/client.cpp.

  \<^item> The state is the client process of the library and the terminal.  \<open>library\<close> and
    \<open>terminal\<close> run an operation on its part.
  \<^item> The labels and \<open>goto\<close>s are a machine: \<open>client_step\<close> runs from a label to the next with the
    variables that live across labels, or ends with the value \<open>main\<close> returns.
  \<^item> The polling thread of the library calls \<open>on_update\<close> while the seats are shown: a step of its
    own in \<open>client_trans\<close>.  (A \<open>goto\<close> back to the rooms leaves the thread with a pointer to
    variables that no longer live; what it then does is not modelled.)
\<close>

section \<open>The state\<close>

record ui =
  ui_process :: client_process
  ui_console :: console

definition library :: "('a, client_process) prog \<Rightarrow> ('a, ui) prog" where
  "library m = (\<lambda>s. case m (ui_process s) of (r, p) \<Rightarrow> (r, s\<lparr>ui_process := p\<rparr>))"

definition terminal :: "('a, console) prog \<Rightarrow> ('a, ui) prog" where
  "terminal m = (\<lambda>s. case m (ui_console s) of (r, c) \<Rightarrow> (r, s\<lparr>ui_console := c\<rparr>))"

text \<open>A menu that never returns is a call that never returns.\<close>

definition menu :: "int \<Rightarrow> (int, ui) prog" where
  "menu n = (\<lambda>s. case client_menu n (ui_console s) of
     None \<Rightarrow> (Blocked, s) | Some (r, c) \<Rightarrow> (r, s\<lparr>ui_console := c\<rparr>))"

record on_update_arguments =
  oua_seats :: "Seat list"
  an_update :: bool

definition on_update :: "Seat list \<Rightarrow> on_update_arguments \<Rightarrow> (on_update_arguments, console) prog" where
  "on_update seats_update data =
     (let data = data\<lparr>oua_seats := seats_update\<rparr>; data = data\<lparr>an_update := True\<rparr> in
      andThen (put (newline @ ''There is an update on the state of the seats ('' @ to_string (int32 (int (length seats_update)))
        @ ''). Please refresh'' @ newline @ '' Select option: '')) (\<lambda>_. ret data))"

section \<open>client\_start\<close>

definition client_close :: "threads \<Rightarrow> client_env \<Rightarrow> int \<Rightarrow> (int, ui) prog" where
  "client_close T env fd = andThen (library (end_mom T env fd)) (\<lambda>ended. ret (if ended then 0 else 1))"

definition client_look_error :: "int \<Rightarrow> (bool, ui) prog" where
  "client_look_error fd =
     andThen (library (is_error fd)) (\<lambda>failed.
       if failed
       then andThen (library (get_error fd)) (\<lambda>error.
            andThen (terminal (put (err_info error @ newline))) (\<lambda>_. ret True))
       else ret False)"

datatype label = Menu | Room_Request | Print_Rooms | Select_Room | Print_Seats | Seat_Select

record client_vars =
  cv_rooms :: "Room list"
  cv_selected_room :: Room
  cv_update_args :: on_update_arguments
  cv_seats :: "Seat list"

type_synonym config = "label \<times> client_vars"

definition fresh_vars :: client_vars where
  "fresh_vars = \<lparr>cv_rooms = [], cv_selected_room = zero_Room,
     cv_update_args = \<lparr>oua_seats = [], an_update = False\<rparr>, cv_seats = []\<rparr>"

text \<open>From the start to the first label: the file descriptor and \<open>Menu\<close>, or the end.\<close>

definition client_begin :: "ftok \<Rightarrow> client_env \<Rightarrow> int \<Rightarrow> (int \<times> config + int, ui) prog" where
  "client_begin ftok env pid =
     andThen (library (init_mom ftok env pid)) (\<lambda>mom_fd.
     andThen (client_look_error mom_fd) (\<lambda>failed.
       if failed then ret (Inr 1)
       else andThen (library (login env mom_fd)) (\<lambda>logged.
         if \<not> logged then andThen (client_look_error mom_fd) (\<lambda>_. ret (Inr 1))
         else andThen (terminal (put (''Welcome CLIENT'' @ newline))) (\<lambda>_. ret (Inl (mom_fd, (Menu, fresh_vars)))))))"

definition menu_step :: "threads \<Rightarrow> client_env \<Rightarrow> int \<Rightarrow> client_vars \<Rightarrow> (config + int, ui) prog" where
  "menu_step T env mom_fd v =
     andThen (library (get_reservations mom_fd)) (\<lambda>rs.
     let reservations_count = int32 (int (length rs)) in
     andThen (menu reservations_count) (\<lambda>menu_selection.
       if menu_selection = OPTION_MAKE_RESERVATION then ret (Inl (Room_Request, v))
       else if menu_selection = OPTION_EXIT then andThen (client_close T env mom_fd) (\<lambda>code. ret (Inr code))
       else if menu_selection = OPTION_SEE_RESERVATION
       then andThen (library (get_reservations mom_fd)) (\<lambda>rs.
            andThen (terminal (list_reservations rs)) (\<lambda>_. ret (Inl (Menu, v))))
       else if menu_selection = OPTION_BUY_RESERVATION
       then andThen (library (pay_seats T env mom_fd)) (\<lambda>paid.
            if \<not> paid then ret (Inl (Menu, v))
            else andThen (terminal (put (''OK - '' @ to_string reservations_count @ '' ''
                 @ (if reservations_count = 1 then ''reservation was'' else ''reservations were'') @ '' purchased'' @ newline))) (\<lambda>_.
                 andThen (client_close T env mom_fd) (\<lambda>code. ret (Inr code))))
       else ret (Inl (Room_Request, v))))"

text \<open>What follows an operation that may have failed: the end, the menu, or the next label.\<close>

definition unless_error :: "threads \<Rightarrow> client_env \<Rightarrow> int \<Rightarrow> client_vars \<Rightarrow> config \<Rightarrow> (config + int, ui) prog" where
  "unless_error T env mom_fd v next =
     andThen (client_look_error mom_fd) (\<lambda>failed.
       if failed
       then andThen (library (is_connected mom_fd)) (\<lambda>conn.
            if \<not> conn then andThen (client_close T env mom_fd) (\<lambda>code. ret (Inr code))
            else ret (Inl (Menu, v)))
       else ret (Inl next))"

definition room_request_step :: "threads \<Rightarrow> client_env \<Rightarrow> int \<Rightarrow> client_vars \<Rightarrow> (config + int, ui) prog" where
  "room_request_step T env mom_fd v =
     andThen (library (get_rooms T env mom_fd)) (\<lambda>rooms.
       unless_error T env mom_fd v (Print_Rooms, v\<lparr>cv_rooms := rooms\<rparr>))"

definition select_room_step :: "threads \<Rightarrow> client_env \<Rightarrow> int \<Rightarrow> client_vars \<Rightarrow> (config + int, ui) prog" where
  "select_room_step T env mom_fd v =
     andThen (terminal client_select_room) (\<lambda>selected_room_id.
       if selected_room_id = GO_BACK then ret (Inl (Menu, v))
       else let selected_room = \<lparr>room_no = selected_room_id\<rparr>;
                v = v\<lparr>cv_selected_room := selected_room, cv_update_args := \<lparr>oua_seats = [], an_update = False\<rparr>\<rparr> in
         andThen (library (get_seats T env mom_fd selected_room (Some \<lparr>polling_interval_sec = POLLING_INTERVAL_SEAT\<rparr>))) (\<lambda>seats.
           unless_error T env mom_fd v (Print_Seats, v\<lparr>cv_seats := seats\<rparr>)))"

definition seat_select_step :: "threads \<Rightarrow> client_env \<Rightarrow> int \<Rightarrow> client_vars \<Rightarrow> (config + int, ui) prog" where
  "seat_select_step T env mom_fd v =
     andThen (terminal client_select_seat) (\<lambda>selected_seat_id.
       if selected_seat_id = GO_BACK then ret (Inl (Print_Rooms, v))
       else if selected_seat_id = REFRESH_SEATS
       then if \<not> an_update (cv_update_args v)
            then andThen (terminal (put (''No update'' @ newline))) (\<lambda>_. ret (Inl (Seat_Select, v)))
            else ret (Inl (Print_Seats, v\<lparr>cv_seats := oua_seats (cv_update_args v),
                   cv_update_args := (cv_update_args v)\<lparr>an_update := False\<rparr>\<rparr>))
       else let selected_seat = zero_Seat\<lparr>seat_no := selected_seat_id, seat_room := room_no (cv_selected_room v)\<rparr> in
         andThen (library (reserve_seat T env mom_fd selected_seat)) (\<lambda>reserved.
           if reserved then ret (Inl (Menu, v))
           else andThen (client_look_error mom_fd) (\<lambda>failed.
             andThen (if failed then library (is_connected mom_fd) else ret True) (\<lambda>conn.
               if failed \<and> \<not> conn then andThen (client_close T env mom_fd) (\<lambda>code. ret (Inr code))
               else andThen (terminal (put (''ERROR: Cannot reserve SEAT '' @ to_string selected_seat_id @ '' in ROOM ''
                      @ to_string (room_no (cv_selected_room v)) @ newline))) (\<lambda>_. ret (Inl (Seat_Select, v)))))))"

fun client_step :: "threads \<Rightarrow> client_env \<Rightarrow> int \<Rightarrow> config \<Rightarrow> (config + int, ui) prog" where
  "client_step T env mom_fd (Menu, v) = menu_step T env mom_fd v"
| "client_step T env mom_fd (Room_Request, v) = room_request_step T env mom_fd v"
| "client_step T env mom_fd (Print_Rooms, v) =
     andThen (terminal (print_rooms (cv_rooms v))) (\<lambda>_. ret (Inl (Select_Room, v)))"
| "client_step T env mom_fd (Select_Room, v) = select_room_step T env mom_fd v"
| "client_step T env mom_fd (Print_Seats, v) =
     andThen (terminal (print_seats (cv_seats v))) (\<lambda>_. ret (Inl (Seat_Select, v)))"
| "client_step T env mom_fd (Seat_Select, v) = seat_select_step T env mom_fd v"

text \<open>The program and the polling thread, interleaved; a configuration or the value returned.\<close>

inductive client_trans :: "threads \<Rightarrow> client_env \<Rightarrow> int \<Rightarrow> (config + int) \<times> ui \<Rightarrow> (config + int) \<times> ui \<Rightarrow> bool"
  for T env mom_fd where
  program: "client_step T env mom_fd c s = (Ret c', s') \<Longrightarrow> client_trans T env mom_fd (Inl c, s) (c', s')"
| update: "l = Print_Seats \<or> l = Seat_Select \<Longrightarrow>
    terminal (on_update seats_update (cv_update_args v)) s = (Ret args, s') \<Longrightarrow>
    client_trans T env mom_fd (Inl (l, v), s) (Inl (l, v\<lparr>cv_update_args := args\<rparr>), s')"

inductive_cases client_transE: "client_trans T env mom_fd x y"


section \<open>Steps\<close>

lemma library_run: "m (ui_process s) = (r, p) \<Longrightarrow> library m s = (r, s\<lparr>ui_process := p\<rparr>)"
  by (simp add: library_def)

lemma terminal_run: "m (ui_console s) = (r, c) \<Longrightarrow> terminal m s = (r, s\<lparr>ui_console := c\<rparr>)"
  by (simp add: terminal_def)

lemma library_then: "library m s = (Ret x, s') \<Longrightarrow> andThen (library m) f s = f x s'"
  by (simp add: andThen_def)

lemma menu_then: "menu n s = (Ret x, s') \<Longrightarrow> andThen (menu n) f s = f x s'"
  by (simp add: andThen_def)

lemma menu_run:
  assumes "short_line l" and "valid_option n (line_option l)" and "ui_console s = \<lparr>con_in = l @ newline @ rest, con_out = out\<rparr>"
  shows "menu n s = (Ret (line_option l), s\<lparr>ui_console := \<lparr>con_in = rest, con_out = out @ menu_text n\<rparr>\<rparr>)"
  using menu_loop_line [OF assms(1), of n "[]" None rest out] assms(2,3) by (simp add: menu_def client_menu_def)

lemma refresh_word:
  assumes "w \<in> {''Refresh'', ''refresh'', ''r'', ''R''}"
  shows "short_line w" and "w @ newline \<in> set refresh_words"
  using assms by (auto simp: short_line_def refresh_words_def)

lemma refresh_run:
  assumes "w \<in> {''Refresh'', ''refresh'', ''r'', ''R''}"
  shows "client_select_seat \<lparr>con_in = w @ newline @ rest, con_out = out\<rparr> =
    (Ret REFRESH_SEATS, \<lparr>con_in = rest, con_out = out @ ''Enter SEAT id, [R]efresh to reload or [B]ack to go back: ''\<rparr>)"
  using fgets_line [OF refresh_word(1) [OF assms]] refresh_word(2) [OF assms]
  by (simp add: client_select_seat_def)

text \<open>Refreshing: a seat update that arrives while a seat is to be chosen does not disturb the choice; when the user
  then asks to refresh, the seats of that update, and no others, are printed and shown from then on, the update is
  used up, and nothing is sent to the cinema; without an update, refreshing changes nothing.\<close>

theorem refresh_shows_update:
  assumes "w \<in> {''Refresh'', ''refresh'', ''r'', ''R''}" and "list_all (\<lambda>x. in_int32 (seat_no x)) seats"
    and "ui_console s = \<lparr>con_in = w @ newline @ rest, con_out = out\<rparr>"
  shows "(\<exists>v1 s1 v2 s2 s3 pre.
      client_trans T env mom_fd (Inl (Seat_Select, v), s) (Inl (Seat_Select, v1), s1)
      \<and> cv_update_args v1 = \<lparr>oua_seats = seats, an_update = True\<rparr>
      \<and> client_trans T env mom_fd (Inl (Seat_Select, v1), s1) (Inl (Print_Seats, v2), s2)
      \<and> client_trans T env mom_fd (Inl (Print_Seats, v2), s2) (Inl (Seat_Select, v2), s3)
      \<and> v2 = v\<lparr>cv_seats := seats, cv_update_args := \<lparr>oua_seats = seats, an_update = False\<rparr>\<rparr>
      \<and> ui_process s3 = ui_process s \<and> con_in (ui_console s3) = rest
      \<and> con_out (ui_console s3) = pre @ newline @ concat (map (\<lambda>l. l @ newline) (table_lines (seats_table seats))) @ newline)
    \<and> (\<not> an_update (cv_update_args v) \<longrightarrow> (\<exists>s'. client_step T env mom_fd (Seat_Select, v) s = (Ret (Inl (Seat_Select, v)), s')
          \<and> ui_process s' = ui_process s \<and> con_in (ui_console s') = rest))"
proof
  define v1 where "v1 = v\<lparr>cv_update_args := \<lparr>oua_seats = seats, an_update = True\<rparr>\<rparr>"
  define v2 where "v2 = v\<lparr>cv_seats := seats, cv_update_args := \<lparr>oua_seats = seats, an_update = False\<rparr>\<rparr>"
  obtain note1 where on: "on_update seats (cv_update_args v) \<lparr>con_in = w @ newline @ rest, con_out = out\<rparr>
      = (Ret \<lparr>oua_seats = seats, an_update = True\<rparr>, \<lparr>con_in = w @ newline @ rest, con_out = out @ note1\<rparr>)"
    by (simp add: on_update_def Let_def)
  define s1 where "s1 = s\<lparr>ui_console := \<lparr>con_in = w @ newline @ rest, con_out = out @ note1\<rparr>\<rparr>"
  define asked where "asked = out @ note1 @ ''Enter SEAT id, [R]efresh to reload or [B]ack to go back: ''"
  define s2 where "s2 = s\<lparr>ui_console := \<lparr>con_in = rest, con_out = asked\<rparr>\<rparr>"
  define s3 where "s3 = s\<lparr>ui_console := \<lparr>con_in = rest, con_out = asked @ newline
    @ concat (map (\<lambda>l. l @ newline) (table_lines (seats_table seats))) @ newline\<rparr>\<rparr>"
  have "terminal (on_update seats (cv_update_args v)) s = (Ret \<lparr>oua_seats = seats, an_update = True\<rparr>, s1)"
    using on assms(3) by (simp add: terminal_run s1_def)
  then have t1: "client_trans T env mom_fd (Inl (Seat_Select, v), s) (Inl (Seat_Select, v1), s1)"
    unfolding v1_def by (rule client_trans.update [OF disjI2 [OF refl]])
  have "client_step T env mom_fd (Seat_Select, v1) s1 = (Ret (Inl (Print_Seats, v2)), s2)"
    using refresh_run [OF assms(1), of rest "out @ note1"]
    by (simp add: seat_select_step_def terminal_run s1_def v1_def v2_def s2_def asked_def)
  then have t2: "client_trans T env mom_fd (Inl (Seat_Select, v1), s1) (Inl (Print_Seats, v2), s2)"
    by (rule client_trans.program)
  have "client_step T env mom_fd (Print_Seats, v2) s2 = (Ret (Inl (Seat_Select, v2)), s3)"
    using print_seats_run [OF assms(2), of "ui_console s2"]
    by (simp add: terminal_run s2_def s3_def v2_def)
  then have t3: "client_trans T env mom_fd (Inl (Print_Seats, v2), s2) (Inl (Seat_Select, v2), s3)"
    by (rule client_trans.program)
  show "\<exists>v1 s1 v2 s2 s3 pre.
      client_trans T env mom_fd (Inl (Seat_Select, v), s) (Inl (Seat_Select, v1), s1)
      \<and> cv_update_args v1 = \<lparr>oua_seats = seats, an_update = True\<rparr>
      \<and> client_trans T env mom_fd (Inl (Seat_Select, v1), s1) (Inl (Print_Seats, v2), s2)
      \<and> client_trans T env mom_fd (Inl (Print_Seats, v2), s2) (Inl (Seat_Select, v2), s3)
      \<and> v2 = v\<lparr>cv_seats := seats, cv_update_args := \<lparr>oua_seats = seats, an_update = False\<rparr>\<rparr>
      \<and> ui_process s3 = ui_process s \<and> con_in (ui_console s3) = rest
      \<and> con_out (ui_console s3) = pre @ newline @ concat (map (\<lambda>l. l @ newline) (table_lines (seats_table seats))) @ newline"
    using t1 t2 t3 by (intro exI conjI) (assumption | simp add: v1_def v2_def s3_def)+
  show "\<not> an_update (cv_update_args v) \<longrightarrow> (\<exists>s'. client_step T env mom_fd (Seat_Select, v) s = (Ret (Inl (Seat_Select, v)), s')
          \<and> ui_process s' = ui_process s \<and> con_in (ui_console s') = rest)"
    using refresh_run [OF assms(1), of rest out] assms(3)
    by (auto simp: seat_select_step_def terminal_run)
qed

lemma pay_exit_run:
  assumes "CLIENTS s k = Some c" and "connected c"
    and "std_copy (reservations c) (m7_list (as_m7 (msg_choice zero_message))) = Some rlist"
    and "send_message (mom_queue c) (zero_message\<lparr>q_message.client_id := cinema_id c,
        message_choice_number := CHOICE_PAY_RESERVATION_REQUEST, msg_choice := M7 ((as_m7 (msg_choice zero_message))
          \<lparr>m7_count := int32 (int (length (reservations c))), m7_list := rlist\<rparr>)\<rparr>) (set_client k (no_error c) s) = (Ret (), s1)"
    and "receive_message env (mom_queue c) s1 = (Ret m, s2)" and "CLIENTS s2 k = Some (no_error c)"
    and "message_choice_number m = CHOICE_EXIT"
  shows "\<exists>d. pay_seats T env k s = (Ret False, set_client k (c\<lparr>listener_extern_data := d, connected := False,
    client_error := \<lparr>err_type = ERROR_GENERAL_ERROR, err_info = ''Error on pay reservations''\<rparr>\<rparr>) s2)"
proof -
  obtain d where d: "cinema_closed T env (Some k) s2 = (Ret (), set_client k ((no_error c)\<lparr>listener_extern_data := d,
      connected := False, client_error := \<lparr>err_type = ERROR_CINEMA_CLOSE_CONNECTION, err_info = ''Cinema close connection''\<rparr>\<rparr>) s2)"
    using cinema_closed_run [OF assms(6)] by blast
  have "cinema_id (no_error c) = cinema_id c" by (simp add: no_error_def)
  with assms d show ?thesis
    by (intro exI [of _ d]) (simp add: pay_seats_def client_run Let_def no_error_def)
qed

lemma get_reservations_run:
  "CLIENTS s k = Some c \<Longrightarrow> connected c \<Longrightarrow> get_reservations k s = (Ret (reservations c), set_client k (no_error c) s)"
  "CLIENTS s k = Some c \<Longrightarrow> \<not> connected c \<Longrightarrow> get_reservations k s = (Ret [], s)"
  by (simp_all add: get_reservations_def client_run)

lemma option_lines: "line_option ''1'' = 1" "line_option ''3'' = 3"
  by code_simp+

lemma menu_make:
  assumes "ui_console s = \<lparr>con_in = ''1'' @ newline @ rest, con_out = out\<rparr>"
  shows "menu n s = (Ret 1, s\<lparr>ui_console := \<lparr>con_in = rest, con_out = out @ menu_text n\<rparr>\<rparr>)"
  using menu_run [of "''1''" n s rest out] assms by (simp add: short_line_def option_lines valid_option_def)

lemma menu_buy:
  assumes "ui_console s = \<lparr>con_in = ''3'' @ newline @ rest, con_out = out\<rparr>" and "0 < n"
  shows "menu n s = (Ret 3, s\<lparr>ui_console := \<lparr>con_in = rest, con_out = out @ menu_text n\<rparr>\<rparr>)"
  using menu_run [of "''3''" n s rest out] assms by (simp add: short_line_def option_lines valid_option_def)

text \<open>The menu of a client that is not connected any more.\<close>

lemma disconnected_menu:
  assumes "CLIENTS (ui_process s) k = Some c" and "\<not> connected c"
    and "ui_console s = \<lparr>con_in = ''1'' @ newline @ rest, con_out = out\<rparr>"
  shows "\<exists>s'. client_step T env k (Menu, v) s = (Ret (Inl (Room_Request, v)), s')
    \<and> fst (client_step T env k (Room_Request, v) s') = Undef"
proof -
  define s' where "s' = s\<lparr>ui_console := \<lparr>con_in = rest, con_out = out @ menu_text 0\<rparr>\<rparr>"
  have "library (get_reservations k) s = (Ret [], s)"
    using library_run [where m = "get_reservations k" and s = s] get_reservations_run(2) [OF assms(1,2)] by simp
  moreover have "menu 0 s = (Ret 1, s')" using menu_make [OF assms(3)] by (simp add: s'_def)
  ultimately have step: "client_step T env k (Menu, v) s = (Ret (Inl (Room_Request, v)), s')"
    by (simp add: menu_step_def Let_def int32_id)
  have "get_rooms T env k (ui_process s) = (Undef, ui_process s)"
    using assms(1,2) by (simp add: get_rooms_def end_listener_thread_def client_run)
  then have "library (get_rooms T env k) s' = (Undef, s')"
    by (simp add: library_def s'_def)
  then have "fst (client_step T env k (Room_Request, v) s') = Undef"
    by (simp add: room_request_step_def)
  with step show ?thesis by blast
qed

definition pay_request :: "Client \<Rightarrow> q_message" where
  "pay_request c = zero_message\<lparr>q_message.client_id := cinema_id c,
     message_choice_number := CHOICE_PAY_RESERVATION_REQUEST, msg_choice := M7 ((as_m7 (msg_choice zero_message))
       \<lparr>m7_count := int32 (int (length (reservations c))),
        m7_list := the (std_copy (reservations c) (m7_list (as_m7 (msg_choice zero_message))))\<rparr>)\<rparr>"

text \<open>C38. Paying after the cinema has closed the connection: the payment fails, the reason recorded for the close is
  overwritten with a general error, and the program goes back to its menu without looking at the connection, as it
  does after the other operations; the menu now offers no reservation, and choosing to make one follows the null
  pointer of the client that is not connected.\<close>

theorem payment_after_close:
  assumes "CLIENTS (ui_process s) k = Some c" and "connected c"
    and "reservations c \<noteq> []" and "length (reservations c) \<le> MAX_LENGTH_STRING"
    and "send_message (mom_queue c) (pay_request c) (set_client k (no_error c) (ui_process s)) = (Ret (), p1)"
    and "receive_message env (mom_queue c) p1 = (Ret m, p2)" and "CLIENTS p2 k = Some (no_error c)"
    and "message_choice_number m = CHOICE_EXIT"
    and "ui_console s = \<lparr>con_in = ''3'' @ newline @ ''1'' @ newline @ rest, con_out = out\<rparr>"
  shows "\<exists>s1 c1 s2. client_step T env k (Menu, v) s = (Ret (Inl (Menu, v)), s1)
    \<and> CLIENTS (ui_process s1) k = Some c1 \<and> \<not> connected c1 \<and> err_type (client_error c1) = ERROR_GENERAL_ERROR
    \<and> client_step T env k (Menu, v) s1 = (Ret (Inl (Room_Request, v)), s2)
    \<and> fst (client_step T env k (Room_Request, v) s2) = Undef"
proof -
  let ?n = "int (length (reservations c))"
  let ?p0 = "set_client k (no_error c) (ui_process s)"
  have n: "int32 ?n = ?n" "0 < ?n" using assms(3,4) by (simp_all add: int32_id MAX_LENGTH_STRING_def)
  obtain rlist where rlist: "std_copy (reservations c) (m7_list (as_m7 (msg_choice zero_message))) = Some rlist"
    using assms(4) by (auto simp: std_copy_def zero_message_def zero_m7_def simp del: as_m7.simps)
  have p0: "CLIENTS ?p0 k = Some (no_error c)" "connected (no_error c)"
    "set_client k (no_error (no_error c)) ?p0 = ?p0" using assms(2) by (simp_all add: no_error_def)
  have "reservations (no_error c) = reservations c" "cinema_id (no_error c) = cinema_id c"
    "mom_queue (no_error c) = mom_queue c" "no_error (no_error c) = no_error c" by (simp_all add: no_error_def)
  then obtain d where pay: "pay_seats T env k ?p0 = (Ret False, set_client k ((no_error c)\<lparr>listener_extern_data := d,
      connected := False, client_error := \<lparr>err_type = ERROR_GENERAL_ERROR, err_info = ''Error on pay reservations''\<rparr>\<rparr>) p2)"
    (is "_ = (_, ?p3)")
    using pay_exit_run [OF p0(1,2), of rlist p1 env m p2 T] rlist p0 assms(5-8) by (auto simp: pay_request_def)
  define s1 where "s1 = s\<lparr>ui_process := ?p3, ui_console := \<lparr>con_in = ''1'' @ newline @ rest, con_out = out @ menu_text ?n\<rparr>\<rparr>"
  have a1: "library (get_reservations k) s = (Ret (reservations c), s\<lparr>ui_process := ?p0\<rparr>)"
    by (rule library_run [where m = "get_reservations k" and s = s]) (rule get_reservations_run(1) [OF assms(1,2)])
  have a2: "menu ?n (s\<lparr>ui_process := ?p0\<rparr>) = (Ret 3, s\<lparr>ui_process := ?p0,
      ui_console := \<lparr>con_in = ''1'' @ newline @ rest, con_out = out @ menu_text ?n\<rparr>\<rparr>)"
    using menu_buy [of "s\<lparr>ui_process := ?p0\<rparr>" "''1'' @ newline @ rest" out ?n] assms(9) n(2) by simp
  have a3: "library (pay_seats T env k) (s\<lparr>ui_process := ?p0,
      ui_console := \<lparr>con_in = ''1'' @ newline @ rest, con_out = out @ menu_text ?n\<rparr>\<rparr>) = (Ret False, s1)"
    using pay by (simp add: library_def s1_def)
  have step: "client_step T env k (Menu, v) s = (Ret (Inl (Menu, v)), s1)"
    using a3 unfolding client_step.simps menu_step_def Let_def library_then [OF a1] n(1) menu_then [OF a2]
    by (simp add: library_then [where x = False] split del: if_split)
  have c1: "CLIENTS (ui_process s1) k = Some ((no_error c)\<lparr>listener_extern_data := d, connected := False,
      client_error := \<lparr>err_type = ERROR_GENERAL_ERROR, err_info = ''Error on pay reservations''\<rparr>\<rparr>)"
    by (simp add: s1_def)
  from disconnected_menu [OF this, of rest "out @ menu_text ?n" T env v] obtain s2 where
    "client_step T env k (Menu, v) s1 = (Ret (Inl (Room_Request, v)), s2)"
    "fst (client_step T env k (Room_Request, v) s2) = Undef" by (auto simp: s1_def)
  with step c1 show ?thesis by (intro exI conjI) (assumption | simp)+
qed

definition paying_client :: Client where
  "paying_client = client_example\<lparr>reservations := [\<lparr>res_room = 1, res_seat_num = 4\<rparr>]\<rparr>"

definition paying_ui :: ui where
  "paying_ui = \<lparr>ui_process = set_client 500 paying_client client_host,
     ui_console = \<lparr>con_in = ''3'' @ newline @ ''1'' @ newline @ [], con_out = []\<rparr>\<rparr>"

theorem payment_after_close_witness:
  "\<exists>s1 s2. client_step \<lparr>pthread_cancel = \<lambda>_. 3, pthread_create = (0, 5)\<rparr> (answers (zero_message\<lparr>message_choice_number := CHOICE_EXIT\<rparr>))
       500 (Menu, fresh_vars) paying_ui = (Ret (Inl (Menu, fresh_vars)), s1)
     \<and> client_step \<lparr>pthread_cancel = \<lambda>_. 3, pthread_create = (0, 5)\<rparr> (answers (zero_message\<lparr>message_choice_number := CHOICE_EXIT\<rparr>))
       500 (Menu, fresh_vars) s1 = (Ret (Inl (Room_Request, fresh_vars)), s2)"
proof -
  let ?m = "zero_message\<lparr>message_choice_number := CHOICE_EXIT\<rparr>" and ?r = "pay_request paying_client"
  define s0 where "s0 = set_client 500 (no_error paying_client) (ui_process paying_ui)"
  define s1 where "s1 = set_queue 2 [(500, stamp 500 ?r)] s0"
  have q: "msg_queues s0 2 = Some []" "msg_queues s0 1 = Some []"
    by (simp_all add: s0_def paying_ui_def set_client_def client_host_def)
  have same: "mom_queue paying_client = mom_queue client_example" by (simp add: paying_client_def)
  have send: "send_message (mom_queue paying_client) ?r s0 = (Ret (), s1)"
    using send_message_run [of "mom_queue client_example" 500 s0 "[]" ?r] q same
    by (simp add: client_example_def out_queue_def s1_def q_put_def)
  have receive: "receive_message (answers ?m) (mom_queue paying_client) s1 = (Ret ?m, set_queue 1 [] s1)"
    using q by (simp add: same receive_message_def receive_message_type_def client_example_def queue_receive_def
        try_receive_def s1_def answers_def msgrcv_def)
  have client: "CLIENTS (set_queue 1 [] s1) 500 = Some (no_error paying_client)"
    by (simp add: s1_def s0_def set_queue_def)
  have c: "CLIENTS (ui_process paying_ui) 500 = Some paying_client" "connected paying_client"
    "reservations paying_client \<noteq> []" "length (reservations paying_client) \<le> MAX_LENGTH_STRING"
    by (simp_all add: paying_ui_def paying_client_def client_example_def MAX_LENGTH_STRING_def)
  have console: "ui_console paying_ui = \<lparr>con_in = ''3'' @ newline @ ''1'' @ newline @ [], con_out = []\<rparr>"
    by (simp add: paying_ui_def)
  from payment_after_close [OF c send [unfolded s0_def] receive client _ console,
      of "\<lparr>pthread_cancel = \<lambda>_. 3, pthread_create = (0, 5)\<rparr>" fresh_vars]
  show ?thesis by auto
qed

theorem refresh_shows_update_witness:
  "\<exists>s'. client_step \<lparr>pthread_cancel = \<lambda>_. 3, pthread_create = (0, 5)\<rparr> (\<lambda>p. p) 500 (Seat_Select, fresh_vars)
       (paying_ui\<lparr>ui_console := \<lparr>con_in = ''R'' @ newline @ ''7'', con_out = []\<rparr>\<rparr>) = (Ret (Inl (Seat_Select, fresh_vars)), s')
     \<and> con_in (ui_console s') = ''7''"
  using refresh_shows_update [of "''R''" "[zero_Seat]" "paying_ui\<lparr>ui_console := \<lparr>con_in = ''R'' @ newline @ ''7'', con_out = []\<rparr>\<rparr>"
      "''7''" "[]" "\<lparr>pthread_cancel = \<lambda>_. 3, pthread_create = (0, 5)\<rparr>" "\<lambda>p. p" 500 fresh_vars]
  by (auto simp: zero_Seat_def fresh_vars_def)

end
