(* ===== verification/End_To_End.thy ===== *)
theory End_To_End
  imports Wire Cinema Client_Program
begin

text \<open>
  The components together: the answers of the administrator (src/admin/admin.cpp) as messages that
  can cross the network, and a reservation on its way from the client's library
  (client_interface.cpp) over the network bridges (socket.cpp) and the cinema's listener
  (cinema_handler.cpp) to the administrator and back.
\<close>

section \<open>The answers of the administrator\<close>

lemma yields_db_op: "yields (db_op q) (\<lambda>x. \<exists>d. x = fst (q d))"
  by (auto simp: yields_def db_op_pair)

lemmas yields_db_then [yields_intros] = yields_andThen [OF yields_db_op]

lemma query_rows_int32: "list_all in_int32 (fst (query_rows E q d))"
  by (auto simp: query_rows_def execute_query_def callback_foldl list_all_iff int32_range [simplified] split: prod.splits)

lemma insert_user_int32: "in_int32 (fst (db_insert_user E d))"
  by (auto simp: db_insert_user_def int32_range [simplified] split: prod.splits)

lemma strcpy_length: "strcpy dst src = Some d \<Longrightarrow> length d = length dst"
  by (auto simp: strcpy_def std_copy_def split: if_splits)

lemma list_all_copy: "std_copy src dst = Some d \<Longrightarrow> list_all P src \<Longrightarrow> list_all P dst \<Longrightarrow> list_all P d"
  by (auto simp: std_copy_def list_all_iff split: if_splits) (meson in_set_dropD)

lemma int32_length: "n \<le> 50 \<Longrightarrow> int32 (int n) = int n"
  by (simp add: int32_id)

lemma copied_ids:
  assumes "std_copy ids (m2_ids zero_m2) = Some d" and "list_all in_int32 ids"
  shows "wf_m2 (zero_m2\<lparr>m2_count := int32 (int (length ids)), m2_ids := d\<rparr>) \<and> int32 (int (length ids)) = int (length ids)
    \<and> length ids \<le> MAX_ROOMS"
proof -
  have "length ids \<le> 20" using assms(1) by (auto simp: std_copy_def zero_m2_def split: if_splits)
  with std_copy_take [OF assms(1)] list_all_copy [OF assms(1,2)] show ?thesis
    by (simp add: wf_m2_def zero_m2_def int32_length list_all_iff)
qed

lemma filled_seats:
  assumes "fill_seats seats status zero_m4 = Some m4" and "list_all in_int32 seats"
  shows "wf_m4 m4 \<and> 0 \<le> m4_count m4 \<and> m4_count m4 \<le> int MAX_SEATS"
proof -
  obtain ids sts where c: "std_copy seats (m4_seats_id zero_m4) = Some ids"
      "std_copy (map int8 status) (m4_seats_status zero_m4) = Some sts"
    and m4: "m4 = zero_m4\<lparr>m4_count := int32 (int (length seats)), m4_seats_id := ids, m4_seats_status := sts\<rparr>"
    using assms(1) by (auto simp: fill_seats_def split: option.splits)
  have "length seats \<le> 50" using c(1) by (auto simp: std_copy_def zero_m4_def split: if_splits)
  moreover have "list_all in_int8 (map int8 status)" by (simp add: list_all_iff int8_range [simplified])
  ultimately show ?thesis
    using std_copy_take [OF c(1)] std_copy_take [OF c(2)] list_all_copy [OF c(1) assms(2)] list_all_copy [OF c(2), of in_int8]
    by (simp add: m4 wf_m4_def zero_m4_def int32_length list_all_iff)
qed

definition transferable :: "q_message \<Rightarrow> q_message option \<Rightarrow> bool" where
  "transferable request reply \<longleftrightarrow>
     (case reply of None \<Rightarrow> True | Some r \<Rightarrow> wf_message r \<and> counts_ok r \<and> client_id r = client_id request)"

lemma pay_all_keeps:
  "yields (pay_all E c m7 i response) (\<lambda>r. message_type r = message_type response \<and>
    client_id r = client_id response \<and> msg_choice r = msg_choice response)"
proof (induction E c m7 i response rule: pay_all.induct)
  case (1 E c m7 i response)
  show ?case
    by (subst pay_all.simps) (auto intro!: yields_intros 1)
qed

lemma select_response_yields:
  assumes "as_m6 (msg_choice response) = zero_m6" and "in_int32 v" and "in_int32 (client_id response)"
    and "in_int32 (message_type response)" and "client_id response = client_id request"
  shows "yields (select_response response v info) (\<lambda>r. transferable request (Some r))"
  unfolding select_response_def Let_def
  by (intro yields_intros)
    (use assms in \<open>auto simp: transferable_def wf_message_def wf_m6_def counts_ok_def zero_m6_def dest: strcpy_length\<close>)

lemmas select_response_then = yields_andThen [OF select_response_yields]

lemma transferable_None [simp]: "transferable request None"
  by (simp add: transferable_def)

lemma new_response_choice [simp]:
  "wf_choice (msg_choice (new_response request))" "tagged n (msg_choice (new_response request))"
  by (simp_all add: new_response_def zero_message_def)

lemma transferable_refusal [simplified]:
  "in_int32 (client_id request) \<Longrightarrow>
    transferable request (Some ((new_response request)\<lparr>message_choice_number := CHOICE_INVALID_REQUEST\<rparr>))"
  by (simp add: transferable_def wf_message_def counts_ok_def new_response_def zero_message_def)

lemma yields_True: "yields m P \<Longrightarrow> (\<And>x. P x \<Longrightarrow> Q x) \<Longrightarrow> yields m Q"
  by (auto simp: yields_def)

lemma yields_admin_pay: "in_int32 (client_id request) \<Longrightarrow> yields (admin_pay E request) (transferable request)"
  unfolding admin_pay_def
  by (rule yields_andThen [OF pay_all_keeps], rule yields_ret)
    (auto simp: transferable_def wf_message_def wf_m6_def counts_ok_def zero_m6_def)

lemma yields_admin_exit: "yields (admin_exit E request) (transferable request)"
  unfolding admin_exit_def by (intro yields_intros) simp

lemma yields_admin_connect: "in_int32 (client_id request) \<Longrightarrow> yields (admin_connect E request) (transferable request)"
  unfolding admin_connect_def
  by (intro yields_intros) (auto simp: transferable_def wf_message_def counts_ok_def insert_user_int32 [simplified])

lemma yields_admin_rooms: "in_int32 (client_id request) \<Longrightarrow> yields (admin_rooms E request) (transferable request)"
  unfolding admin_rooms_def Let_def
  by (intro yields_intros)
    (auto simp: transferable_def wf_message_def counts_ok_def db_select_room_def query_rows_int32 [simplified]
      dest!: copied_ids simp del: wf_zero_members)

lemma yields_admin_seats: "in_int32 (client_id request) \<Longrightarrow> yields (admin_seats E request) (transferable request)"
  unfolding admin_seats_def Let_def
  by (intro yields_intros)
    (auto simp: transferable_refusal transferable_def wf_message_def counts_ok_def db_select_room_seats_def query_rows_int32 [simplified]
      dest!: filled_seats)

lemma yields_admin_select: "in_int32 (client_id request) \<Longrightarrow> yields (admin_select ftok E request) (transferable request)"
  unfolding admin_select_def Let_def
  by (intro yields_intros select_response_then yields_andThen [OF yields_any])
    (auto simp: transferable_refusal)

text \<open>C24. Every answer of the administrator can cross the network: whatever the database and however its statements end,
  an answer that \<open>admin_answer\<close> returns fits the types of \<open>q_message\<close>, its arrays are full and its counts
  within them, its union holds the member its choice number announces, and it is addressed to the client that asked.\<close>

theorem answers_well_formed:
  assumes "wf_message request" and "admin_answer ftok E request s = (Ret (Some r), s')"
  shows "wf_message r \<and> counts_ok r \<and> client_id r = client_id request"
proof -
  have client: "in_int32 (client_id request)" using assms(1) by (simp add: wf_message_def)
  have "yields (admin_answer ftok E request) (transferable request)"
    unfolding admin_answer_def Let_def
    by (intro yields_intros yields_admin_pay yields_admin_exit yields_admin_connect yields_admin_rooms
        yields_admin_seats yields_admin_select client)
      (use client in \<open>simp add: transferable_refusal\<close>)
  from yieldsD [OF this assms(2)] show ?thesis by (simp add: transferable_def)
qed

theorem answers_well_formed_witness:
  "\<exists>r s'. admin_answer small_ftok ref_engine (select_example 2) room_host = (Ret (Some r), s') \<and> wf_message r \<and> counts_ok r"
proof -
  have d: "db room_host = room_db" by (simp add: room_host_def)
  have "rooms_of (client_id (select_example 2)) (rd_tab (db room_host)) = [Some 1]"
    "set (users_in 1 (rd_tab (db room_host))) \<subseteq> {Some (client_id (select_example 2))}"
    by (simp_all add: d room_db_rooms)
  then obtain r s' where "admin_select small_ftok ref_engine (select_example 2) room_host = (Ret (Some r), s')"
    using admin_select_alone [OF ref.reliable_engine_axioms, of room_host "select_example 2" 1 2 small_ftok]
    by (fastforce simp: d room_db_facts)
  then have a: "admin_answer small_ftok ref_engine (select_example 2) room_host = (Ret (Some r), s')"
    by (simp add: admin_answer_def select_example_def)
  have "wf_message (select_example 2)" by (simp add: select_example_def wf_message_def zero_message_def)
  from answers_well_formed [OF this a] a show ?thesis by blast
qed

section \<open>Across the network\<close>

text \<open>A message written into the buffer \<open>buf\<close> on one host and read over the contents of \<open>rec_msg\<close> on the other,
  with the packet carried as \<open>send_packet\<close> and \<open>receive_packet\<close> carry it.\<close>

definition over_network :: "byte list \<Rightarrow> q_message \<Rightarrow> q_message \<Rightarrow> q_message option" where
  "over_network buf rec_msg m =
     (case serialize_message m buf of None \<Rightarrow> None | Some b \<Rightarrow> deserialize_message rec_msg b)"

definition net_buffers :: "byte list \<Rightarrow> q_message \<Rightarrow> bool" where
  "net_buffers buf rec_msg \<longleftrightarrow> PACKET_SIZE \<le> length buf \<and> wf_choice (msg_choice rec_msg)"

lemma over_network_run:
  assumes "wf_message m" and "counts_ok m" and "net_buffers buf rec_msg"
  shows "\<exists>r. over_network buf rec_msg m = Some r \<and> message_type r = message_type m
     \<and> client_id r = client_id m \<and> message_choice_number r = message_choice_number m
     \<and> payload r = on_wire (payload m)"
  using serialize_then_deserialize [OF assms(1,2)] assms(3) by (fastforce simp: net_buffers_def over_network_def)

lemma stamp_fields [simp]:
  "client_id (stamp t m) = client_id m" "message_choice_number (stamp t m) = message_choice_number m"
  "msg_choice (stamp t m) = msg_choice m"
  by (simp_all add: stamp_def)

lemma wf_stamp: "wf_message m \<Longrightarrow> in_int32 t \<Longrightarrow> wf_message (stamp t m)"
  by (auto simp: wf_message_def stamp_def)

lemma counts_ok_stamp [simp]: "counts_ok (stamp t m) = counts_ok m"
  by (simp add: counts_ok_def)

lemma payload_stamp [simp]: "payload (stamp t m) = payload m"
  by (simp add: payload_def)

text \<open>A request for a seat and the answer to it, before and after the network.\<close>

lemma seat_request_arrives:
  assumes "in_int32 (seat_no aSeat)" and "in_int32 t" and "net_buffers buf rec_msg"
  shows "\<exists>r. over_network buf rec_msg (stamp t (select_request aSeat)) = Some r
     \<and> message_choice_number r = CHOICE_SEAT_SELECT_REQUEST \<and> as_m5 (msg_choice r) = seat_no aSeat"
proof -
  have "wf_message (select_request aSeat)" "counts_ok (select_request aSeat)"
    using assms(1) by (simp_all add: select_request_def wf_message_def counts_ok_def zero_message_def)
  from over_network_run [OF wf_stamp [OF this(1) assms(2)] _ assms(3)] this(2)
  obtain r where r: "over_network buf rec_msg (stamp t (select_request aSeat)) = Some r"
    "message_choice_number r = CHOICE_SEAT_SELECT_REQUEST" "payload r = on_wire (payload (select_request aSeat))"
    by (auto simp: select_request_def)
  then show ?thesis by (auto simp: payload_def select_request_def as_m5_def Let_def)
qed

lemma atomic_answer_arrives:
  assumes "wf_message m" and "counts_ok m" and "in_int32 t" and "net_buffers buf rec_msg"
    and "message_choice_number m = CHOICE_SEAT_SELECT_RESPONSE \<or> message_choice_number m = CHOICE_PAY_RESERVATION_RESPONSE"
  shows "\<exists>r. over_network buf rec_msg (stamp t m) = Some r
     \<and> message_choice_number r = message_choice_number m
     \<and> m6_success (as_m6 (msg_choice r)) = swap_int (m6_success (as_m6 (msg_choice m)))"
proof -
  obtain r where r: "over_network buf rec_msg (stamp t m) = Some r"
    "message_choice_number r = message_choice_number m" "payload r = on_wire (payload m)"
    using over_network_run [OF wf_stamp [OF assms(1,3)] _ assms(4)] assms(2) by auto
  then show ?thesis using assms(5) by (auto simp: payload_def Let_def)
qed

section \<open>A reservation end to end\<close>

text \<open>A seat that can be reserved; the decision of the administrator, with nobody else in the room.\<close>

definition open_seat :: "((int \<times> int) \<rightharpoonup> (int \<times> int)) \<Rightarrow> int \<Rightarrow> int \<Rightarrow> bool" where
  "open_seat seats room n \<longleftrightarrow> 0 < n \<and> seats (room, n) = None"

lemma admin_decides:
  assumes "reliable_engine E tab fk" and "db_ok (tab (db s))" and "\<not> fk (db s)"
    and "rooms_of (client_id request) (tab (db s)) = [Some room]" and "in_int32 room" and "room \<noteq> 0"
    and "as_m5 (msg_choice request) = n"
    and "set (users_in room (tab (db s))) \<subseteq> {Some (client_id request)}"
    and "in_int32 (client_id request)" and "message_choice_number request = CHOICE_SEAT_SELECT_REQUEST"
  shows "\<exists>response d'. admin_answer ftok E request s = (Ret (Some response), s\<lparr>db := d'\<rparr>)
     \<and> message_choice_number response = CHOICE_SEAT_SELECT_RESPONSE
     \<and> wf_message response \<and> counts_ok response
     \<and> m6_success (as_m6 (msg_choice response)) = (if open_seat (seat_map (tab (db s))) room n then SUCCESS else NOT_SUCCESS)
     \<and> seat_map (tab d') = (if open_seat (seat_map (tab (db s))) room n
          then (seat_map (tab (db s)))((room, n) \<mapsto> (client_id request, 0)) else seat_map (tab (db s)))"
proof -
  have answer: "admin_answer ftok E request = admin_select ftok E request"
    using assms(10) by (simp add: admin_answer_def)
  have "\<exists>response d'. admin_select ftok E request s = (Ret (Some response), s\<lparr>db := d'\<rparr>)
     \<and> message_choice_number response = CHOICE_SEAT_SELECT_RESPONSE
     \<and> m6_success (as_m6 (msg_choice response)) = (if open_seat (seat_map (tab (db s))) room n then SUCCESS else NOT_SUCCESS)
     \<and> seat_map (tab d') = (if open_seat (seat_map (tab (db s))) room n
          then (seat_map (tab (db s)))((room, n) \<mapsto> (client_id request, 0)) else seat_map (tab (db s)))"
  proof (cases "open_seat (seat_map (tab (db s))) room n")
    case True
    then have n: "0 < n" "seat_map (tab (db s)) (room, n) = None" by (simp_all add: open_seat_def)
    show ?thesis
      using admin_select_alone [OF assms(1-6) assms(7) [symmetric] n assms(8), of ftok]
        admin_select_books [OF assms(1-6) assms(7) [symmetric] n, of ftok] True
      by fastforce
  next
    case False
    then have n: "n \<le> 0 \<or> seat_map (tab (db s)) (room, n) \<noteq> None" by (auto simp: open_seat_def)
    show ?thesis
      using admin_select_refusal [OF assms(1-6) assms(7) [symmetric] n, of ftok] False by fastforce
  qed
  then obtain response d' where run: "admin_select ftok E request s = (Ret (Some response), s\<lparr>db := d'\<rparr>)"
     "message_choice_number response = CHOICE_SEAT_SELECT_RESPONSE"
     "m6_success (as_m6 (msg_choice response)) = (if open_seat (seat_map (tab (db s))) room n then SUCCESS else NOT_SUCCESS)"
     "seat_map (tab d') = (if open_seat (seat_map (tab (db s))) room n
          then (seat_map (tab (db s)))((room, n) \<mapsto> (client_id request, 0)) else seat_map (tab (db s)))"
    by blast
  moreover have "wf_message response \<and> counts_ok response"
    using yieldsD [OF yields_admin_select [OF assms(9)] run(1)] by (simp add: transferable_def)
  ultimately show ?thesis unfolding answer by blast
qed

text \<open>C4. The client is told the truth: a request for a seat that \<open>reserve_seat\<close> sends, carried over the network with
  the identifier the cinema's listener puts in and relayed to the administrator, is answered; and when the answer,
  carried back over the network, is what \<open>reserve_seat\<close> receives, then it returns true, and remembers the reservation,
  exactly when the seat was open, in which case it is the client's in the database afterwards, and otherwise nothing
  there has changed.  This is of a client whom the database has in exactly the room that the seat names, and nobody
  else there; the engine is reliable and does not check foreign keys, and the queues between the listener and the
  administrator hold nothing else for them.  (In another room he is told the same of another seat: \<open>wrong_seat_reserved\<close>
  of theory Sessions.)\<close>

theorem reservation_agreement:
  assumes engine: "reliable_engine E tab fk" and "db_ok (tab (db s))" and "\<not> fk (db s)"
    and room: "rooms_of u (tab (db s)) = [Some (seat_room aSeat)]" "in_int32 (seat_room aSeat)" "seat_room aSeat \<noteq> 0"
      "set (users_in (seat_room aSeat) (tab (db s))) \<subseteq> {Some u}"
    and u: "0 < u" "in_int32 u" and n: "in_int32 (seat_no aSeat)"
    and queues: "channel_pair a adm" "cq_id a = ADMIN_REQUEST"
      "msg_queues s (id_secondqueue a) = Some qreq" "q_inbox qreq ADMIN_REQUEST = []"
      "msg_queues s (id_firstqueue a) = Some qresp" "q_inbox qresp u = []"
    and wires: "net_buffers buf1 rec1" "net_buffers buf2 rec2" "in_int32 t1" "in_int32 t2"
    and client: "CLIENTS p k = Some c" "connected c"
      "send_message (mom_queue c) (select_request aSeat) (set_client k (no_error c) p) = (Ret (), p1)"
  shows "\<exists>request response s1 r.
      over_network buf1 rec1 (stamp t1 (select_request aSeat)) = Some request
    \<and> cinema_handle (admin_serves ftok env E adm) a (request\<lparr>client_id := u\<rparr>) 0 s = (Ret (response, 0), s1)
    \<and> seat_map (tab (db s1)) = (if open_seat (seat_map (tab (db s))) (seat_room aSeat) (seat_no aSeat)
        then (seat_map (tab (db s)))((seat_room aSeat, seat_no aSeat) \<mapsto> (u, 0)) else seat_map (tab (db s)))
    \<and> over_network buf2 rec2 (stamp t2 response) = Some r
    \<and> (\<forall>T env' p2. receive_message env' (mom_queue c) p1 = (Ret r, p2) \<and> CLIENTS p2 k = Some (no_error c) \<longrightarrow>
        (\<exists>ok p3 c3. reserve_seat T env' k aSeat p = (Ret ok, p3) \<and> CLIENTS p3 k = Some c3
          \<and> (ok \<longleftrightarrow> open_seat (seat_map (tab (db s))) (seat_room aSeat) (seat_no aSeat))
          \<and> reservations c3 = reservations c
              @ (if ok then [\<lparr>res_room = seat_room aSeat, res_seat_num = seat_no aSeat\<rparr>] else [])))"
proof -
  obtain request where req: "over_network buf1 rec1 (stamp t1 (select_request aSeat)) = Some request"
    "message_choice_number request = CHOICE_SEAT_SELECT_REQUEST" "as_m5 (msg_choice request) = seat_no aSeat"
    using seat_request_arrives [OF n wires(3,1)] by blast
  let ?m = "stamp ADMIN_REQUEST (request\<lparr>client_id := u\<rparr>)"
  let ?free = "open_seat (seat_map (tab (db s))) (seat_room aSeat) (seat_no aSeat)"
  have m: "client_id ?m = u" "as_m5 (msg_choice ?m) = seat_no aSeat" "message_choice_number ?m = CHOICE_SEAT_SELECT_REQUEST"
    using req by simp_all
  obtain response d' where ans: "admin_answer ftok E ?m s = (Ret (Some response), s\<lparr>db := d'\<rparr>)"
     "message_choice_number response = CHOICE_SEAT_SELECT_RESPONSE" "wf_message response" "counts_ok response"
     "m6_success (as_m6 (msg_choice response)) = (if ?free then SUCCESS else NOT_SUCCESS)"
     "seat_map (tab d') = (if ?free then (seat_map (tab (db s)))((seat_room aSeat, seat_no aSeat) \<mapsto> (u, 0))
        else seat_map (tab (db s)))"
    using admin_decides [OF assms(1-3), of ?m, unfolded m, OF room(1-3) refl room(4) u(2) refl, of ftok] by blast
  have relay: "cinema_handle (admin_serves ftok env E adm) a (request\<lparr>client_id := u\<rparr>) 0 s
      = (Ret (stamp u response, 0), s\<lparr>db := d'\<rparr>)"
    using relay_run [OF queues(1,2) _ queues(3,4,5) _ _ ans(1), of env 0] queues(5,6) u(1) req(2) by simp
  obtain r where r: "over_network buf2 rec2 (stamp t2 (stamp u response)) = Some r"
    "message_choice_number r = CHOICE_SEAT_SELECT_RESPONSE"
    "m6_success (as_m6 (msg_choice r)) = swap_int (if ?free then SUCCESS else NOT_SUCCESS)"
    using atomic_answer_arrives [OF wf_stamp [OF ans(3) u(2)] _ wires(4,2)] ans(2,4,5) by auto
  have ok: "m6_success (as_m6 (msg_choice r)) = SUCCESS \<longleftrightarrow> ?free"
    by (simp add: r(3) swap_int_zero swap_int_one)
  have told: "\<exists>ok p3 c3. reserve_seat T env' k aSeat p = (Ret ok, p3) \<and> CLIENTS p3 k = Some c3 \<and> (ok \<longleftrightarrow> ?free)
      \<and> reservations c3 = reservations c @ (if ok then [\<lparr>res_room = seat_room aSeat, res_seat_num = seat_no aSeat\<rparr>] else [])"
    if "receive_message env' (mom_queue c) p1 = (Ret r, p2) \<and> CLIENTS p2 k = Some (no_error c)" for T env' p2
    using reserve_seat_run [OF client, of env' r p2 T] that ok r(2) by blast
  show ?thesis
    by (intro exI conjI, rule req(1), rule relay, simp add: ans(6), rule r(1), intro allI impI, rule told)
qed

theorem reservation_agreement_witness:
  "\<exists>request response s1 r p3.
      over_network (replicate PACKET_SIZE 0) zero_message
        (stamp 8 (select_request \<lparr>seat_no = 2, seat_room = 1, seat_status = 0\<rparr>)) = Some request
    \<and> cinema_handle (admin_serves small_ftok (\<lambda>s. s) ref_engine admin_channel)
        (admin_channel\<lparr>orientation := Some 1, cq_id := 1\<rparr>) (request\<lparr>client_id := 8\<rparr>) 0 room_host = (Ret (response, 0), s1)
    \<and> seat_map (rd_tab (db s1)) (1, 2) = Some (8, 0)
    \<and> over_network (replicate PACKET_SIZE 0) zero_message (stamp 8 response) = Some r
    \<and> reserve_seat \<lparr>pthread_cancel = \<lambda>_. 3, pthread_create = (0, 5)\<rparr> (answers r) 500
        \<lparr>seat_no = 2, seat_room = 1, seat_status = 0\<rparr> client_host = (Ret True, p3)"
proof -
  let ?seat = "\<lparr>seat_no = 2, seat_room = 1, seat_status = 0\<rparr> :: Seat"
  let ?a = "admin_channel\<lparr>orientation := Some 1, cq_id := 1\<rparr>"
  have d: "db room_host = room_db" by (simp add: room_host_def)
  have h: "rooms_of 8 (rd_tab (db room_host)) = [Some (seat_room ?seat)]" "in_int32 (seat_room ?seat)" "seat_room ?seat \<noteq> 0"
    "set (users_in (seat_room ?seat) (rd_tab (db room_host))) \<subseteq> {Some 8}"
    "(0 :: int) < 8" "in_int32 8" "in_int32 (seat_no ?seat)"
    "channel_pair ?a admin_channel" "cq_id ?a = ADMIN_REQUEST"
    "msg_queues room_host (id_secondqueue ?a) = Some []" "q_inbox [] ADMIN_REQUEST = ([] :: q_message list)"
    "msg_queues room_host (id_firstqueue ?a) = Some []" "q_inbox [] 8 = ([] :: q_message list)"
    "net_buffers (replicate PACKET_SIZE 0) zero_message"
    by (simp_all add: d room_db_rooms channel_pair_def admin_channel_def room_host_def small_host_def q_inbox_def
        net_buffers_def zero_message_def)
  have avail: "open_seat (seat_map (rd_tab (db room_host))) 1 2"
    by (simp add: d open_seat_def room_db_facts)
  obtain request response s1 r where
    x: "over_network (replicate PACKET_SIZE 0) zero_message (stamp 8 (select_request ?seat)) = Some request"
    "cinema_handle (admin_serves small_ftok (\<lambda>s. s) ref_engine admin_channel) ?a (request\<lparr>client_id := 8\<rparr>) 0 room_host = (Ret (response, 0), s1)"
    "seat_map (rd_tab (db s1)) = (seat_map (rd_tab (db room_host)))((1, 2) \<mapsto> (8, 0))"
    "over_network (replicate PACKET_SIZE 0) zero_message (stamp 8 response) = Some r"
    "\<forall>T env' p2. receive_message env' (mom_queue client_example) (set_queue 2 [(500, stamp 500 (select_request ?seat))]
          (set_client 500 (no_error client_example) client_host)) = (Ret r, p2) \<and> CLIENTS p2 500 = Some (no_error client_example) \<longrightarrow>
        (\<exists>ok p3. reserve_seat T env' 500 ?seat client_host = (Ret ok, p3) \<and> ok)"
    using reservation_agreement [OF ref.reliable_engine_axioms, of room_host 8 ?seat, OF _ _ h(1-13) h(14,14) h(6,6)
        client_host_exchange(4,5) client_host_exchange(1), of small_ftok "\<lambda>s. s"] avail
    by (auto simp: d room_db_facts) blast
  with client_host_exchange(2,3) show ?thesis by fastforce
qed

section \<open>Payments\<close>

lemma pay_seats_confirmed:
  assumes "CLIENTS s k = Some c" and "connected c" and "length (reservations c) \<le> MAX_LENGTH_STRING"
    and "send_message (mom_queue c) (pay_request c) (set_client k (no_error c) s) = (Ret (), s1)"
    and "receive_message env (mom_queue c) s1 = (Ret m, s2)"
    and "message_choice_number m = CHOICE_PAY_RESERVATION_RESPONSE" and "m6_success (as_m6 (msg_choice m)) \<noteq> NOT_SUCCESS"
  shows "pay_seats T env k s = (Ret True, s2)"
proof -
  obtain rlist where rlist: "std_copy (reservations c) (m7_list (as_m7 (msg_choice zero_message))) = Some rlist"
    using assms(3) by (simp add: std_copy_def zero_message_def zero_m7_def)
  have "cinema_id (no_error c) = cinema_id c" by (simp add: no_error_def)
  with assms(1,2,4-7) rlist show ?thesis
    by (simp add: pay_seats_def client_run Let_def pay_request_def no_error_def)
qed

text \<open>C25. A payment is always confirmed: whatever SQLite does, even when no statement succeeds and nothing is paid, every
  payment request is answered, the answer crosses the network, and when it is what \<open>pay_seats\<close> receives, \<open>pay_seats\<close>
  returns true.\<close>

theorem payment_always_confirmed:
  assumes "wf_message request" and "counts_ok request" and "message_choice_number request = CHOICE_PAY_RESERVATION_REQUEST"
    and "net_buffers buf rec_msg" and "in_int32 t"
    and "CLIENTS p k = Some c" and "connected c" and "length (reservations c) \<le> MAX_LENGTH_STRING"
    and "send_message (mom_queue c) (pay_request c) (set_client k (no_error c) p) = (Ret (), p1)"
  shows "\<exists>response s' r. admin_answer ftok E request s = (Ret (Some response), s')
     \<and> over_network buf rec_msg (stamp t response) = Some r
     \<and> (\<forall>T env p2. receive_message env (mom_queue c) p1 = (Ret r, p2) \<longrightarrow> pay_seats T env k p = (Ret True, p2))"
proof -
  have client: "in_int32 (client_id request)" using assms(1) by (simp add: wf_message_def)
  have "m7_count (as_m7 (msg_choice request)) \<le> int (length (m7_list (as_m7 (msg_choice request))))"
    using assms(1-3) by (simp add: counts_ok_def wf_message_def as_member_lengths Let_def)
  then obtain choice s1 where "pay_all E (client_id request) (as_m7 (msg_choice request)) 0 (new_response request) s
      = (Ret ((new_response request)\<lparr>message_choice_number := choice\<rparr>), s1)"
    using pay_all_returns [OF _ order.refl] by blast
  then obtain response s' where run: "admin_pay E request s = (Ret (Some response), s')"
      "message_choice_number response = CHOICE_PAY_RESERVATION_RESPONSE" "m6_success (as_m6 (msg_choice response)) = SUCCESS"
    by (simp add: admin_pay_def)
  then have answer: "admin_answer ftok E request s = (Ret (Some response), s')"
    using assms(3) by (simp add: admin_answer_def)
  have wf: "wf_message response" "counts_ok response"
    using yieldsD [OF yields_admin_pay [OF client] run(1)] by (simp_all add: transferable_def)
  obtain r where r: "over_network buf rec_msg (stamp t response) = Some r"
    "message_choice_number r = CHOICE_PAY_RESERVATION_RESPONSE" "m6_success (as_m6 (msg_choice r)) = swap_int SUCCESS"
    using atomic_answer_arrives [OF wf assms(5,4)] run(2,3) by auto
  have "m6_success (as_m6 (msg_choice r)) \<noteq> NOT_SUCCESS"
    using r(3) swap_int_zero [of 0] by simp
  then have "\<forall>T env p2. receive_message env (mom_queue c) p1 = (Ret r, p2) \<longrightarrow> pay_seats T env k p = (Ret True, p2)"
    using pay_seats_confirmed [OF assms(6-9) _ r(2)] by blast
  with answer r(1) show ?thesis by blast
qed

theorem payment_always_confirmed_witness:
  "\<exists>response s' r p2.
      admin_answer small_ftok (ref_engine\<lparr>sq_exec := \<lambda>q d. ((5, []), d)\<rparr>) pay_example small_host = (Ret (Some response), s')
    \<and> over_network (replicate PACKET_SIZE 0) zero_message (stamp 7 response) = Some r
    \<and> pay_seats \<lparr>pthread_cancel = \<lambda>_. 3, pthread_create = (0, 5)\<rparr> (answers r) 500 client_host = (Ret True, p2)"
proof -
  have h: "wf_message pay_example" "counts_ok pay_example" "message_choice_number pay_example = CHOICE_PAY_RESERVATION_REQUEST"
    "net_buffers (replicate PACKET_SIZE 0) zero_message" "in_int32 7"
    "length (reservations client_example) \<le> MAX_LENGTH_STRING"
    by (simp_all add: pay_example_def wf_message_def counts_ok_def wf_m7_def wf_reservation_def zero_Reservation_def
        zero_message_def net_buffers_def client_example_def list_all_iff)
  show ?thesis
    using payment_always_confirmed [OF h(1-5) client_host_exchange(4,5) h(6) client_host_exchange(1),
        of small_ftok "ref_engine\<lparr>sq_exec := \<lambda>q d. ((5, []), d)\<rparr>" small_host]
      client_host_exchange(2) [of _ "pay_request client_example"]
    by fastforce
qed

section \<open>An update of the seats\<close>

text \<open>The seats a message shows.\<close>

definition shown_seats :: "m4_seats \<Rightarrow> Seat list" where
  "shown_seats m4 = map (\<lambda>i. zero_Seat\<lparr>seat_no := m4_seats_id m4 ! i, seat_status := m4_seats_status m4 ! i\<rparr>)
     [0..<nat (m4_count m4)]"

text \<open>The client's library looks at the same place of the same segment, under the same mutex, as its service.\<close>

definition same_flag :: "Client \<Rightarrow> Mom \<Rightarrow> bool" where
  "same_flag c mom \<longleftrightarrow> listener_updates c = update_flag mom
     \<and> listener_updates_position c = update_flag_position mom \<and> listener_updates_mutex c = update_flag_mutex mom"

definition flag_value :: "Mom \<Rightarrow> 'a ipc_scheme \<Rightarrow> Seats_update" where
  "flag_value mom s = seg_updates (the (shm_segs s (update_flag mom))) ! nat (update_flag_position mom)"

definition flag_with :: "Mom \<Rightarrow> Seats_update \<Rightarrow> 'a ipc_scheme \<Rightarrow> 'a ipc_scheme" where
  "flag_with mom u s = set_update (update_flag mom) (update_flag_position mom) u s"

lemma flag_ready_with [simp]: "flag_ready mom s \<Longrightarrow> flag_ready mom (flag_with mom u s)"
  by (simp add: flag_with_def flag_ready_write)

lemma flag_value_with [simp]: "flag_ready mom s \<Longrightarrow> flag_value mom (flag_with mom u s) = u"
  by (auto simp: flag_value_def flag_with_def flag_ready_def nat_less_iff)

lemma listener_thread_run:
  assumes "flag_ready mom s" and "same_flag c mom"
  shows "su_update (flag_value mom s) = SUCCESS \<Longrightarrow> su_count (flag_value mom s) \<le> int (length (su_seats (flag_value mom s))) \<Longrightarrow>
      listener_thread_turn env c s = (Ret (Some (take (nat (su_count (flag_value mom s))) (su_seats (flag_value mom s))), True),
        flag_with mom ((flag_value mom s)\<lparr>su_update := NOT_SUCCESS\<rparr>) s)"
    and "su_update (flag_value mom s) = NOT_SUCCESS \<Longrightarrow>
      listener_thread_turn env c s = (Ret (None, True), flag_with mom ((flag_value mom s)\<lparr>su_update := NOT_SUCCESS\<rparr>) s)"
proof -
  obtain g where g: "sem_vals s (update_flag_mutex mom) = Some 1" "shm_segs s (update_flag mom) = Some g"
      "0 \<le> update_flag_position mom" "update_flag_position mom < int (length (seg_updates g))"
    using assms(1) by (auto simp: flag_ready_def)
  let ?u = "flag_value mom s" and ?s0 = "set_sem (update_flag_mutex mom) 0 s"
  let ?s1 = "set_update (update_flag mom) (update_flag_position mom) (?u\<lparr>su_update := NOT_SUCCESS\<rparr>) ?s0"
  have u: "?u = seg_updates g ! nat (update_flag_position mom)" by (simp add: flag_value_def g(2))
  have r: "shm_read_update (update_flag mom) (update_flag_position mom) ?s0 = (Ret ?u, ?s0)"
    using g by (simp add: shm_read_update_def u)
  have w: "shm_write_update (update_flag mom) (update_flag_position mom) (?u\<lparr>su_update := NOT_SUCCESS\<rparr>) ?s0 = (Ret (), ?s1)"
    using g by (simp add: shm_write_update_def set_update_def set_sem_def)
  have x: "semaphore_wait env (update_flag_mutex mom) s = (Ret (), ?s0)"
    "semaphore_signal env (update_flag_mutex mom) ?s1 = (Ret (), set_sem (update_flag_mutex mom) 1 ?s1)"
    using semaphore_run(1) [OF g(1), of env] semaphore_run(2) [of ?s1 "update_flag_mutex mom" env] by simp_all
  have freed: "set_sem (update_flag_mutex mom) 1 ?s1 = flag_with mom (?u\<lparr>su_update := NOT_SUCCESS\<rparr>) s"
    using g(1) by (simp add: flag_with_def set_sem_set_update set_sem_same)
  note run = listener_thread_turn_def Let_def assms(2) [unfolded same_flag_def]
  show "listener_thread_turn env c s = (Ret (Some (take (nat (su_count ?u)) (su_seats ?u)), True),
        flag_with mom (?u\<lparr>su_update := NOT_SUCCESS\<rparr>) s)"
    if "su_update ?u = SUCCESS" "su_count ?u \<le> int (length (su_seats ?u))"
    using that x r w freed by (simp add: run)
  show "listener_thread_turn env c s = (Ret (None, True), flag_with mom (?u\<lparr>su_update := NOT_SUCCESS\<rparr>) s)"
    if "su_update ?u = NOT_SUCCESS"
    using that x r w freed by (simp add: run)
qed

text \<open>What the network leaves of the seats of a message, and what the service makes of them.\<close>

lemma update_of_received:
  assumes "payload r = P_seats success (take (nat n) ids) (take (nat n) sts) info"
    and "message_choice_number r = CHOICE_SEATS_RESPONSE" and "wf_choice (msg_choice r)" and "counts_bounded r"
    and "length ids = MAX_SEATS" and "length sts = MAX_SEATS" and "n \<le> int MAX_SEATS"
  shows "\<exists>u. update_of (as_m4 (msg_choice r)) = Some u \<and> su_update u = SUCCESS
     \<and> su_count u \<le> int (length (su_seats u))
     \<and> take (nat (su_count u)) (su_seats u)
        = map (\<lambda>i. zero_Seat\<lparr>seat_no := ids ! i, seat_status := sts ! i\<rparr>) [0..<nat n]"
proof -
  let ?x = "as_m4 (msg_choice r)"
  have le: "m4_count ?x \<le> 50" using assms(2,4) by (simp add: counts_bounded_def Let_def)
  have p: "take (nat (m4_count ?x)) (m4_seats_id ?x) = take (nat n) ids"
    "take (nat (m4_count ?x)) (m4_seats_status ?x) = take (nat n) sts"
    using assms(1,2) by (simp_all add: payload_def Let_def)
  from arg_cong [OF p(1), of length] have len: "nat (m4_count ?x) = nat n"
    using le assms(5,7) as_member_lengths(3) [OF assms(3)] by (simp add: min_def split: if_splits)
  have eq: "m4_seats_id ?x ! i = ids ! i" "m4_seats_status ?x ! i = sts ! i" if "i < nat n" for i
    using p that len by (metis nth_take)+
  show ?thesis
    using le len eq by (simp add: update_of_def zero_Seats_update_def)
qed

text \<open>C11. An update of the seats is shown once: a message with the state of the seats of a room that the administrator
  sends to a user, carried over the network and stamped by the queue, is stored by the user's service, so that the
  next turn of the polling thread of his library passes exactly the seats of the message, in order and with
  their status, to the program, and the turn after that passes nothing and goes on polling.\<close>

theorem update_shown_once:
  fixes s :: client_process
  assumes m: "wf_message (seats_update_message u m4)" "0 \<le> m4_count m4" "m4_count m4 \<le> int MAX_SEATS"
    and wire: "net_buffers buf rec_msg" "in_int32 t"
    and flag: "flag_ready mom s" "same_flag c mom"
    and queue: "orientation (listener_queue mom) = Some COMMQUEUE_AS_CLIENT" "cq_id (listener_queue mom) = u" "0 < u"
      "msg_queues s (id_firstqueue (listener_queue mom)) = Some q"
  shows "\<exists>r. over_network buf rec_msg (stamp t (seats_update_message u m4)) = Some r
     \<and> (\<forall>q' env env'. q_get u q = Some (stamp u r, q') \<longrightarrow>
         (\<exists>s1 s2 s3. seat_listener_turn env mom s = (Ret False, s1)
            \<and> listener_thread_turn env' c s1 = (Ret (Some (shown_seats m4), True), s2)
            \<and> listener_thread_turn env' c s2 = (Ret (None, True), s3)))"
proof -
  let ?m = "seats_update_message u m4"
  have counts: "counts_ok ?m" and choice: "message_choice_number ?m = CHOICE_SEATS_RESPONSE" "msg_choice ?m = M4 m4"
    using m(2,3) by (simp_all add: counts_ok_def seats_update_message_def)
  have wf4: "wf_m4 m4" using m(1) choice(2) by (simp add: wf_message_def)
  obtain r where r: "over_network buf rec_msg (stamp t ?m) = Some r" "message_choice_number r = CHOICE_SEATS_RESPONSE"
      "payload r = on_wire (payload ?m)"
    using over_network_run [OF wf_stamp [OF m(1) wire(2)] _ wire(1)] counts choice(1) by auto
  have payload: "payload r = P_seats (if m4_success m4 < 0 then - 1 else 0) (take (nat (m4_count m4)) (m4_seats_id m4))
      (take (nat (m4_count m4)) (m4_seats_status m4)) (m4_information m4)"
    unfolding r(3) by (simp add: payload_def choice)
  have fits: "wf_choice (msg_choice r)" "counts_bounded r"
    using r(1) wire(1) deserialize_fits by (auto simp: over_network_def net_buffers_def split: option.splits)
  obtain up where up: "update_of (as_m4 (msg_choice r)) = Some up" "su_update up = SUCCESS"
      "su_count up \<le> int (length (su_seats up))" "take (nat (su_count up)) (su_seats up) = shown_seats m4"
    using update_of_received [OF payload r(2) fits] wf4 m(3) by (auto simp: wf_m4_def shown_seats_def)
  have "\<exists>s1 s2 s3. seat_listener_turn env mom s = (Ret False, s1)
      \<and> listener_thread_turn env' c s1 = (Ret (Some (shown_seats m4), True), s2)
      \<and> listener_thread_turn env' c s2 = (Ret (None, True), s3)"
    if got: "q_get u q = Some (stamp u r, q')" for q' env env'
  proof -
    let ?s0 = "set_queue (id_firstqueue (listener_queue mom)) q' s"
    let ?s1 = "flag_with mom up ?s0"
    let ?s2 = "flag_with mom (up\<lparr>su_update := NOT_SUCCESS\<rparr>) ?s1"
    have ready: "flag_ready mom ?s0" using flag(1) by simp
    have recv: "receive_message env (listener_queue mom) s = (Ret (stamp u r), ?s0)"
      using receive_message_run [of "listener_queue mom" u s q "stamp u r" q' env] queue got by (simp add: in_queue_def)
    have turn: "seat_listener_turn env mom s = (Ret False, ?s1)"
      using recv flag_write_run [OF ready, of env up] up(1) r(2) by (simp add: seat_listener_turn_def flag_with_def)
    have first: "listener_thread_turn env' c ?s1 = (Ret (Some (shown_seats m4), True), ?s2)"
      using listener_thread_run(1) [OF flag_ready_with [OF ready] flag(2), of up env'] up(2-4) ready by simp
    have "listener_thread_turn env' c ?s2 = (Ret (None, True), flag_with mom (up\<lparr>su_update := NOT_SUCCESS\<rparr>) ?s2)"
      using listener_thread_run(2) [OF flag_ready_with [OF flag_ready_with [OF ready]] flag(2), of "up\<lparr>su_update := NOT_SUCCESS\<rparr>" up env']
        ready by simp
    with turn first show ?thesis by blast
  qed
  with r(1) show ?thesis by blast
qed

definition update_host :: "q_message \<Rightarrow> client_process" where
  "update_host r = \<lparr>msg_ids = Map.empty, msg_queues = [1 \<mapsto> [(7, stamp 7 r)]], sem_ids = Map.empty, sem_vals = [9 \<mapsto> 1],
     shm_ids = Map.empty, shm_segs = [8 \<mapsto> \<lparr>seg_size = 30400, seg_nattch = 1, seg_ints = [],
     seg_updates = replicate 50 zero_Seats_update\<rparr>], next_id = 10, CLIENTS = Map.empty\<rparr>"

theorem update_shown_once_witness:
  "\<exists>r s1 s2. over_network (replicate PACKET_SIZE 0) zero_message (stamp 7 (seats_update_message 7 m4_example)) = Some r
     \<and> seat_listener_turn (\<lambda>s. s) (mom_example\<lparr>listener_queue := client_7_channel\<lparr>orientation := Some 1\<rparr>\<rparr>) (update_host r)
        = (Ret False, s1)
     \<and> listener_thread_turn (\<lambda>s. s) (client_example\<lparr>listener_updates_position := 7\<rparr>) s1
        = (Ret (Some (shown_seats m4_example), True), s2)"
proof -
  let ?mom = "mom_example\<lparr>listener_queue := client_7_channel\<lparr>orientation := Some 1\<rparr>\<rparr>"
  let ?c = "client_example\<lparr>listener_updates_position := 7\<rparr>"
  have m: "wf_message (seats_update_message 7 m4_example)" "counts_ok (seats_update_message 7 m4_example)"
    "0 \<le> m4_count m4_example" "m4_count m4_example \<le> int MAX_SEATS"
    by (simp_all add: seats_update_message_def wf_message_def counts_ok_def m4_example_def wf_m4_def zero_m4_def
        zero_message_def list_all_iff)
  have wire: "net_buffers (replicate PACKET_SIZE 0) zero_message" "in_int32 7"
    by (simp_all add: net_buffers_def zero_message_def)
  obtain r where r: "over_network (replicate PACKET_SIZE 0) zero_message (stamp 7 (seats_update_message 7 m4_example)) = Some r"
    using over_network_run [OF wf_stamp [OF m(1) wire(2)] _ wire(1)] m(2) by auto
  have flag: "flag_ready ?mom (update_host r)" "same_flag ?c ?mom"
    by (simp_all add: flag_ready_def update_host_def mom_example_def same_flag_def client_example_def)
  have queue: "orientation (listener_queue ?mom) = Some COMMQUEUE_AS_CLIENT" "cq_id (listener_queue ?mom) = 7" "0 < (7 :: int)"
    "msg_queues (update_host r) (id_firstqueue (listener_queue ?mom)) = Some [(7, stamp 7 r)]"
    by (simp_all add: client_7_channel_def update_host_def)
  have "q_get 7 [(7, stamp 7 r)] = Some (stamp 7 r, [])"
    by (simp add: q_get_def msgrcv_def)
  with update_shown_once [OF m(1,3,4) wire flag queue] r show ?thesis by fastforce
qed

end
