(* ===== verification/Sessions.thy ===== *)
theory Sessions
  imports End_To_End
begin

text \<open>
  A client's session with the cinema, from his library (src/middleware/client_interface.cpp) over
  the network (socket.cpp) and the cinema's listener (cinema_handler.cpp) to the administrator
  (admin.cpp) and its database (db_api.cpp), while other clients' requests are handled in between.

  \<^item> \<open>exchange\<close> is a request and its answer; \<open>session_step\<close> is one step of the program, with the event the
    client sees of it, and \<open>booking_step\<close> the specification it refines, event by event.
  \<^item> The administrator reserves a seat in the room the database says the client is in, whichever room his library
    asks for.  The refinement holds for all sessions and says so; that the library knows his seats holds of the
    sessions in which the two agree when he gets a seat (\<open>careful_step\<close>), and \<open>wrong_seat_reserved\<close> is what happens
    when they do not.
  \<^item> The program's steps may follow each other in any order and number; the database calls of
    half-finished handlers of other clients may come between them too.
\<close>

section \<open>The decision about a seat\<close>

text \<open>Which room the administrator takes the client to be in, and what it then decides, whoever else is there.\<close>

lemma front_tables:
  assumes "reliable_engine E tab fk" and "db_select_user_current_room E u d = (front, d1)"
  shows "tab d1 = tab d" and "fk d1 = fk d"
  using reliable_engine.current_room(1,2) [OF assms] by simp_all

lemma yields_booked:
  assumes "as_m6 (msg_choice response) = zero_m6"
  shows "yields (andThen (db_op (db_remove_user_in_room E u)) (\<lambda>_.
      andThen (update_users ftok E room) (\<lambda>_.
      andThen (db_op (db_remove_user_in_room E u)) (\<lambda>_.
      andThen (select_response response v info) (\<lambda>r. ret (Some r))))))
    (\<lambda>reply. \<exists>r. reply = Some r \<and> message_choice_number r = CHOICE_SEAT_SELECT_RESPONSE \<and> m6_success (as_m6 (msg_choice r)) = v)"
proof -
  have "yields (select_response response v info)
      (\<lambda>r. message_choice_number r = CHOICE_SEAT_SELECT_RESPONSE \<and> m6_success (as_m6 (msg_choice r)) = v)"
    unfolding select_response_def Let_def by (intro yields_intros) simp
  then show ?thesis
    by (intro yields_andThen [OF yields_any] yields_andThen [where Q = "\<lambda>r. message_choice_number r = CHOICE_SEAT_SELECT_RESPONSE \<and> m6_success (as_m6 (msg_choice r)) = v"]
        yields_ret) auto
qed

definition after_booking :: "ftok \<Rightarrow> 'db sqlite \<Rightarrow> int \<Rightarrow> q_message \<Rightarrow> (q_message option, ('k, 'db) cinema_host) prog" where
  "after_booking ftok E room request =
     andThen (db_op (db_remove_user_in_room E (client_id request))) (\<lambda>_.
     andThen (update_users ftok E room) (\<lambda>_.
     andThen (db_op (db_remove_user_in_room E (client_id request))) (\<lambda>_.
     andThen (select_response ((new_response request)\<lparr>client_id := client_id request\<rparr>) SUCCESS ''Succesfully made seat reservation'')
       (\<lambda>r. ret (Some r)))))"

definition refusal :: "q_message \<Rightarrow> (q_message option, ('k, 'db) cinema_host) prog" where
  "refusal request =
     andThen (select_response (new_response request) NOT_SUCCESS ''You have entered an invalid seat. '') (\<lambda>r. ret (Some r))"

text \<open>The room is the one the database names first.\<close>

definition taken_to_be_in :: "'db sqlite \<Rightarrow> int \<Rightarrow> 'db \<Rightarrow> int \<Rightarrow> bool" where
  "taken_to_be_in E u d room \<longleftrightarrow> fst (db_select_user_current_room E u d) = Some room \<and> room \<noteq> 0"

text \<open>The rooms the database says a client is in; the one it names first is one of them.\<close>

definition his_rooms :: "int \<Rightarrow> tables \<Rightarrow> int set" where
  "his_rooms u T = (int32 \<circ> the) ` set (rooms_of u T)"

lemma front_room:
  assumes "reliable_engine E tab fk" and "db_select_user_current_room E u d = (Some room, d1)"
  shows "room \<in> his_rooms u (tab d)"
proof -
  obtain xs d2 where q: "query_rows E (SelectFrom Col_room_id Clients_rooms [(Col_user_id, u)]) d = (xs, d2)"
    by (metis prod.exhaust)
  then have "room \<in> set xs"
    using assms(2) by (auto simp: db_select_user_current_room_def split: list.splits)
  moreover have "mset xs = mset (map (int32 \<circ> the) (rooms_of u (tab d)))"
    using reliable_engine.select_reliable(1) [OF assms(1) q] by (simp only: rooms_of_def map_map comp_def)
  then have "set xs = set (map (int32 \<circ> the) (rooms_of u (tab d)))" by (rule mset_eq_setD)
  ultimately show ?thesis by (simp only: his_rooms_def set_map)
qed

lemma select_splits:
  assumes engine: "reliable_engine E tab fk" and ok: "db_ok (tab (db s))" "\<not> fk (db s)"
    and front: "taken_to_be_in E (client_id request) (db s) room"
  shows "\<exists>d2. db_ok (tab d2) \<and> tab d2 Clients_rooms = tab (db s) Clients_rooms
    \<and> seat_map (tab d2) = (if open_seat (seat_map (tab (db s))) room (as_m5 (msg_choice request))
        then (seat_map (tab (db s)))((room, as_m5 (msg_choice request)) \<mapsto> (client_id request, 0)) else seat_map (tab (db s)))
    \<and> admin_select ftok E request s = (if open_seat (seat_map (tab (db s))) room (as_m5 (msg_choice request))
        then after_booking ftok E room request else refusal request) (s\<lparr>db := d2\<rparr>)"
proof -
  let ?u = "client_id request" and ?n = "as_m5 (msg_choice request)" and ?m = "seat_map (tab (db s))"
  obtain d1 where d1: "db_select_user_current_room E ?u (db s) = (Some room, d1)"
    using front by (metis prod.collapse taken_to_be_in_def)
  note tab1 = front_tables [OF engine d1]
  obtain res d2 where d2: "db_insert_reservation E ?u room ?n d1 = (res, d2)" by (metis prod.exhaust)
  have res: "res = of_bool (open_seat ?m room ?n)"
    and seats: "seat_map (tab d2) = (if open_seat ?m room ?n then ?m((room, ?n) \<mapsto> (?u, 0)) else ?m)"
    using reliable_engine.insert_reservation_reliable [OF engine, of d1 ?u room ?n] ok tab1 d2 by (auto simp: open_seat_def)
  have "db_ok (tab d2)"
    using sqlite_engine.perform_contract [OF reliable_engine.axioms(1) [OF engine], of d1 "Call_insert_reservation ?u room ?n"]
      ok tab1 d2 by simp
  moreover have "tab d2 Clients_rooms = tab (db s) Clients_rooms"
    using reliable_engine.insert_reservation_tables(2) [OF engine d2] tab1 by simp
  moreover have "admin_select ftok E request s
      = (if open_seat ?m room ?n then after_booking ftok E room request else refusal request) (s\<lparr>db := d2\<rparr>)"
    using d1 d2 res front
    by (simp add: admin_select_def Let_def db_op_run after_booking_def refusal_def taken_to_be_in_def)
  ultimately show ?thesis using seats by blast
qed

lemma select_decides:
  assumes engine: "reliable_engine E tab fk" and ok: "db_ok (tab (db s))" "\<not> fk (db s)"
    and front: "taken_to_be_in E (client_id request) (db s) room"
    and run: "admin_select ftok E request s = (Ret (Some response), s')"
  shows "message_choice_number response = CHOICE_SEAT_SELECT_RESPONSE"
    and "m6_success (as_m6 (msg_choice response))
      = (if open_seat (seat_map (tab (db s))) room (as_m5 (msg_choice request)) then SUCCESS else NOT_SUCCESS)"
    and "seat_map (tab (db s')) = (if open_seat (seat_map (tab (db s))) room (as_m5 (msg_choice request))
      then (seat_map (tab (db s)))((room, as_m5 (msg_choice request)) \<mapsto> (client_id request, 0)) else seat_map (tab (db s)))"
proof -
  let ?u = "client_id request" and ?n = "as_m5 (msg_choice request)" and ?m = "seat_map (tab (db s))"
  obtain d2 where ok2: "db_ok (tab d2)" and seats: "seat_map (tab d2) = (if open_seat ?m room ?n then ?m((room, ?n) \<mapsto> (?u, 0)) else ?m)"
    and split: "admin_select ftok E request s
      = (if open_seat ?m room ?n then after_booking ftok E room request else refusal request) (s\<lparr>db := d2\<rparr>)"
    using select_splits [OF engine ok front, of ftok] by blast
  have "message_choice_number response = CHOICE_SEAT_SELECT_RESPONSE
      \<and> m6_success (as_m6 (msg_choice response)) = (if open_seat ?m room ?n then SUCCESS else NOT_SUCCESS)
      \<and> seat_map (tab (db s')) = seat_map (tab d2)"
  proof (cases "open_seat ?m room ?n")
    case True
    then have r: "after_booking ftok E room request (s\<lparr>db := d2\<rparr>) = (Ret (Some response), s')" using run split by simp
    have calls: "db_calls E seat_neutral (after_booking ftok E room request)"
      unfolding after_booking_def by (rule db_calls_after_booking)
    obtain cs where cs: "list_all seat_neutral cs" "db s' = db_run E cs d2"
      using db_callsD [OF calls, of "s\<lparr>db := d2\<rparr>"] unfolding r by auto
    from yieldsD [OF yields_booked r [unfolded after_booking_def]] True
      run_neutral [OF reliable_engine.axioms(1) [OF engine] ok2 cs(1)] cs(2)
    show ?thesis by simp
  next
    case False
    then have "refusal request (s\<lparr>db := d2\<rparr>) = (Ret (Some response), s')" using run split by simp
    then show ?thesis
      using False by (auto simp: refusal_def andThen_Ret_iff select_response_def Let_def defined_def split: option.splits)
  qed
  with seats show "message_choice_number response = CHOICE_SEAT_SELECT_RESPONSE"
    and "m6_success (as_m6 (msg_choice response)) = (if open_seat ?m room ?n then SUCCESS else NOT_SUCCESS)"
    and "seat_map (tab (db s')) = (if open_seat ?m room ?n then ?m((room, ?n) \<mapsto> (?u, 0)) else ?m)"
    by simp_all
qed

text \<open>It answers when nobody else is in the room.\<close>

lemma select_returns:
  fixes s :: "('k, 'db) cinema_host"
  assumes engine: "reliable_engine E tab fk" and ok: "db_ok (tab (db s))" "\<not> fk (db s)"
    and front: "taken_to_be_in E (client_id request) (db s) room"
    and alone: "set (users_in room (tab (db s))) \<subseteq> {Some (client_id request)}"
  shows "\<exists>response s'. admin_select ftok E request s = (Ret (Some response), s')"
proof -
  let ?u = "client_id request"
  have fits: "\<exists>r. select_response response v info s1 = (Ret r, s1)"
    if "length info < MAX_LENGTH_STRING" "as_m6 (msg_choice response) = zero_m6" for response v info and s1 :: "('k, 'db) cinema_host"
    using that strcpy_fits [of info zero_chars] by (auto simp: select_response_def Let_def zero_m6_def)
  obtain d2 where d2: "tab d2 Clients_rooms = tab (db s) Clients_rooms"
    and split: "admin_select ftok E request s = (if open_seat (seat_map (tab (db s))) room (as_m5 (msg_choice request))
        then after_booking ftok E room request else refusal request) (s\<lparr>db := d2\<rparr>)"
    using select_splits [OF engine ok front, of ftok] by blast
  obtain res3 d3 where d3: "db_remove_user_in_room E ?u d2 = (res3, d3)" by (metis prod.exhaust)
  have "users_in room (tab d3) = []"
    using alone by (auto simp: users_in_def reliable_engine.leave_room [OF engine d3] d2 filter_empty_conv matches_def)
  then obtain d4 where d4: "update_users ftok E room (s\<lparr>db := d3\<rparr>) = (Ret (), s\<lparr>db := d4\<rparr>)"
    using update_users_nobody [OF engine, of room "s\<lparr>db := d3\<rparr>" ftok] by auto
  obtain res5 d5 where d5: "db_remove_user_in_room E ?u d4 = (res5, d5)" by (metis prod.exhaust)
  obtain r where "select_response ((new_response request)\<lparr>client_id := ?u\<rparr>) SUCCESS ''Succesfully made seat reservation'' (s\<lparr>db := d5\<rparr>)
      = (Ret r, s\<lparr>db := d5\<rparr>)"
    using fits [of "''Succesfully made seat reservation''" "(new_response request)\<lparr>client_id := ?u\<rparr>" SUCCESS "s\<lparr>db := d5\<rparr>"] by auto
  then have "after_booking ftok E room request (s\<lparr>db := d2\<rparr>) = (Ret (Some r), s\<lparr>db := d5\<rparr>)"
    using d3 d4 d5 by (simp add: after_booking_def db_op_run)
  moreover obtain r' where "select_response (new_response request) NOT_SUCCESS ''You have entered an invalid seat. '' (s\<lparr>db := d2\<rparr>)
      = (Ret r', s\<lparr>db := d2\<rparr>)"
    using fits [of "''You have entered an invalid seat. ''" "new_response request" NOT_SUCCESS "s\<lparr>db := d2\<rparr>"] by auto
  then have "refusal request (s\<lparr>db := d2\<rparr>) = (Ret (Some r'), s\<lparr>db := d2\<rparr>)" by (simp add: refusal_def)
  ultimately show ?thesis unfolding split by simp
qed

section \<open>A request and its answer\<close>

text \<open>
  A request \<open>m\<close> that a client's library sends, and the answer \<open>r\<close> it gets, when the client's
  identifier in the cinema is \<open>u\<close>: the request crosses the network, the cinema's listener puts the
  identifier in and relays it, which is a call of \<open>admin_answer\<close> (\<open>relay_run\<close>), and the answer
  crosses the network back.
\<close>

inductive exchange :: "ftok \<Rightarrow> 'db sqlite \<Rightarrow> int \<Rightarrow> q_message \<Rightarrow> ('k, 'db) cinema_host \<Rightarrow> q_message \<Rightarrow> ('k, 'db) cinema_host \<Rightarrow> bool"
  for ftok E u where
  exchangeI: "net_buffers buf1 rec1 \<Longrightarrow> in_int32 t1 \<Longrightarrow> over_network buf1 rec1 (stamp t1 m) = Some request \<Longrightarrow>
    admin_answer ftok E (stamp ADMIN_REQUEST (request\<lparr>client_id := u\<rparr>)) s = (Ret (Some response), s') \<Longrightarrow>
    net_buffers buf2 rec2 \<Longrightarrow> in_int32 t2 \<Longrightarrow> over_network buf2 rec2 (stamp t2 (stamp u response)) = Some r \<Longrightarrow>
    exchange ftok E u m s r s'"

lemma exchangeE:
  assumes "exchange ftok E u m s r s'"
  obtains buf1 rec1 t1 request response buf2 rec2 t2
  where "net_buffers buf1 rec1" "in_int32 t1" "over_network buf1 rec1 (stamp t1 m) = Some request"
    "admin_answer ftok E (stamp ADMIN_REQUEST (request\<lparr>client_id := u\<rparr>)) s = (Ret (Some response), s')"
    "net_buffers buf2 rec2" "in_int32 t2" "over_network buf2 rec2 (stamp t2 (stamp u response)) = Some r"
  using assms by (rule exchange.cases) (use that in blast)

text \<open>The tables stay well formed and the foreign keys unchecked, whatever calls are made.\<close>

lemma run_invariants:
  assumes "sqlite_engine E tab fk" and "db_ok (tab d)"
  shows "db_ok (tab (db_run E cs d))" and "fk (db_run E cs d) = fk d"
proof -
  show "db_ok (tab (db_run E cs d))"
    unfolding db_run_def
    by (rule seat_store.ok_run [OF sqlite_engine.is_seat_store [OF assms(1)] assms(2)])
  show "fk (db_run E cs d) = fk d"
    unfolding db_run_def by (induction cs arbitrary: d) (simp_all add: sqlite_engine.fk_perform [OF assms(1)] del: db_perform.simps)
qed

lemma db_calls_answer: "db_calls E (confined (client_id request)) (admin_answer ftok E request)"
  unfolding admin_answer_def Let_def by (intro db_calls_intros db_calls_handlers)

lemma answer_invariants:
  assumes "sqlite_engine E tab fk" and "db_ok (tab (db s))" and "admin_answer ftok E request s = (out, s')"
  shows "db_ok (tab (db s'))" and "fk (db s') = fk (db s)"
  using db_callsD [OF db_calls_answer [where request = request and E = E and ftok = ftok], of s] run_invariants [OF assms(1,2)] assms(3) by auto

lemma exchange_invariants:
  assumes "sqlite_engine E tab fk" and "db_ok (tab (db s))" and "exchange ftok E u m s r s'"
  shows "db_ok (tab (db s'))" and "fk (db s') = fk (db s)"
  using assms(3) answer_invariants [OF assms(1,2)] by (auto elim!: exchangeE)

lemma answer_transferable:
  assumes "in_int32 (client_id request)" and "admin_answer ftok E request s = (Ret (Some r), s')"
  shows "wf_message r" and "counts_ok r"
proof -
  have "yields (admin_answer ftok E request) (transferable request)"
    unfolding admin_answer_def Let_def
    by (intro yields_intros yields_admin_pay yields_admin_exit yields_admin_connect yields_admin_rooms
        yields_admin_seats yields_admin_select assms(1))
      (use assms(1) in \<open>simp add: transferable_refusal\<close>)
  from yieldsD [OF this assms(2)] show "wf_message r" "counts_ok r" by (simp_all add: transferable_def)
qed

text \<open>A selection.\<close>

lemma exchange_select:
  assumes engine: "reliable_engine E tab fk" and ok: "db_ok (tab (db s))" "\<not> fk (db s)"
    and front: "taken_to_be_in E u (db s) room"
    and int: "in_int32 u" "in_int32 (seat_no aSeat)" and x: "exchange ftok E u (select_request aSeat) s r s'"
  shows "message_choice_number r = CHOICE_SEAT_SELECT_RESPONSE"
    and "m6_success (as_m6 (msg_choice r)) = SUCCESS \<longleftrightarrow> open_seat (seat_map (tab (db s))) room (seat_no aSeat)"
    and "seat_map (tab (db s')) = (if open_seat (seat_map (tab (db s))) room (seat_no aSeat)
      then (seat_map (tab (db s)))((room, seat_no aSeat) \<mapsto> (u, 0)) else seat_map (tab (db s)))"
proof -
  let ?free = "open_seat (seat_map (tab (db s))) room (seat_no aSeat)"
  from x obtain buf1 rec1 t1 request response buf2 rec2 t2 where
    there: "net_buffers buf1 rec1" "in_int32 t1" "over_network buf1 rec1 (stamp t1 (select_request aSeat)) = Some request"
    and run: "admin_answer ftok E (stamp ADMIN_REQUEST (request\<lparr>client_id := u\<rparr>)) s = (Ret (Some response), s')"
    and home: "net_buffers buf2 rec2" "in_int32 t2" "over_network buf2 rec2 (stamp t2 (stamp u response)) = Some r"
    by (rule exchangeE)
  let ?m = "stamp ADMIN_REQUEST (request\<lparr>client_id := u\<rparr>)"
  have request: "message_choice_number request = CHOICE_SEAT_SELECT_REQUEST" "as_m5 (msg_choice request) = seat_no aSeat"
    using seat_request_arrives [OF int(2) there(2,1)] there(3) by auto
  then have m: "client_id ?m = u" "as_m5 (msg_choice ?m) = seat_no aSeat" and "admin_select ftok E ?m s = (Ret (Some response), s')"
    using run by (simp_all add: admin_answer_def)
  note decided = select_decides [OF engine ok, of ?m, unfolded m, OF front this(3)]
  show "seat_map (tab (db s')) = (if ?free then (seat_map (tab (db s)))((room, seat_no aSeat) \<mapsto> (u, 0)) else seat_map (tab (db s)))"
    by (rule decided(3))
  have wf: "wf_message response" "counts_ok response"
    using answer_transferable [OF _ run] int(1) by simp_all
  obtain r' where "over_network buf2 rec2 (stamp t2 (stamp u response)) = Some r'"
    "message_choice_number r' = CHOICE_SEAT_SELECT_RESPONSE"
    "m6_success (as_m6 (msg_choice r')) = swap_int (if ?free then SUCCESS else NOT_SUCCESS)"
    using atomic_answer_arrives [OF wf_stamp [OF wf(1) int(1)] _ home(2,1)] wf(2) decided(1,2) by auto
  then show "message_choice_number r = CHOICE_SEAT_SELECT_RESPONSE" "m6_success (as_m6 (msg_choice r)) = SUCCESS \<longleftrightarrow> ?free"
    using home(3) by (simp_all add: swap_int_zero swap_int_one)
qed

text \<open>Whatever rooms he is in: he gets the seat of that number in one of them, or none.\<close>

lemma exchange_select_somewhere:
  assumes engine: "reliable_engine E tab fk" and ok: "db_ok (tab (db s))" "\<not> fk (db s)"
    and int: "in_int32 u" "in_int32 (seat_no aSeat)" and x: "exchange ftok E u (select_request aSeat) s r s'"
  shows "\<exists>room \<in> his_rooms u (tab (db s)).
     (message_choice_number r = CHOICE_SEAT_SELECT_RESPONSE \<and> m6_success (as_m6 (msg_choice r)) = SUCCESS
        \<longleftrightarrow> room \<noteq> 0 \<and> open_seat (seat_map (tab (db s))) room (seat_no aSeat))
   \<and> message_choice_number r \<in> {CHOICE_SEAT_SELECT_RESPONSE, CHOICE_INVALID_REQUEST}
   \<and> seat_map (tab (db s')) = (if room \<noteq> 0 \<and> open_seat (seat_map (tab (db s))) room (seat_no aSeat)
        then (seat_map (tab (db s)))((room, seat_no aSeat) \<mapsto> (u, 0)) else seat_map (tab (db s)))"
proof -
  from x obtain buf1 rec1 t1 request response buf2 rec2 t2 where
    there: "net_buffers buf1 rec1" "in_int32 t1" "over_network buf1 rec1 (stamp t1 (select_request aSeat)) = Some request"
    and run: "admin_answer ftok E (stamp ADMIN_REQUEST (request\<lparr>client_id := u\<rparr>)) s = (Ret (Some response), s')"
    and home: "net_buffers buf2 rec2" "in_int32 t2" "over_network buf2 rec2 (stamp t2 (stamp u response)) = Some r"
    by (rule exchangeE)
  let ?m = "stamp ADMIN_REQUEST (request\<lparr>client_id := u\<rparr>)"
  have "message_choice_number request = CHOICE_SEAT_SELECT_REQUEST"
    using seat_request_arrives [OF int(2) there(2,1)] there(3) by auto
  then have select: "admin_select ftok E ?m s = (Ret (Some response), s')"
    using run by (simp add: admin_answer_def)
  obtain front d1 where front: "db_select_user_current_room E u (db s) = (front, d1)" by (metis prod.exhaust)
  then obtain room where room: "front = Some room"
    using select by (cases front) (simp_all add: admin_select_def Let_def db_op_run)
  note his = front_room [OF engine front [unfolded room]]
  show ?thesis
  proof (cases "room = 0")
    case True
    then have "response = (new_response ?m)\<lparr>message_choice_number := CHOICE_INVALID_REQUEST\<rparr>" "s' = s\<lparr>db := d1\<rparr>"
      using select front room by (simp_all add: admin_select_def Let_def db_op_run)
    moreover have "wf_message response" "counts_ok response"
      using answer_transferable [OF _ run] int(1) by simp_all
    then have "message_choice_number r = message_choice_number response"
      using over_network_run [OF wf_stamp [OF wf_stamp [OF _ int(1)] home(2)] _ home(1)] home(3) by fastforce
    ultimately have "message_choice_number r = CHOICE_INVALID_REQUEST" "seat_map (tab (db s')) = seat_map (tab (db s))"
      using front_tables(1) [OF engine front] by simp_all
    then show ?thesis using his True by (intro bexI [of _ room]) simp_all
  next
    case False
    then have "taken_to_be_in E u (db s) room" using front room by (simp add: taken_to_be_in_def)
    note x = exchange_select [OF engine ok this int x]
    then show ?thesis using his False by (intro bexI [of _ room]) simp_all
  qed
qed

text \<open>A payment.\<close>

lemma pay_request_parts:
  assumes "list_all wf_reservation (reservations c)" and "length (reservations c) \<le> MAX_LENGTH_STRING" and "in_int32 (cinema_id c)"
  shows "wf_message (pay_request c)" and "counts_ok (pay_request c)"
    and "message_choice_number (pay_request c) = CHOICE_PAY_RESERVATION_REQUEST"
    and "payload (pay_request c) = P_pay (reservations c)"
proof -
  obtain rlist where rlist: "std_copy (reservations c) (m7_list zero_m7) = Some rlist"
    using assms(2) by (simp add: std_copy_def zero_m7_def)
  have "list_all wf_reservation (m7_list zero_m7)" "length (m7_list zero_m7) = 500"
    by (simp_all add: zero_m7_def zero_Reservation_def wf_reservation_def list_all_iff)
  then have len: "length rlist = 500" "take (length (reservations c)) rlist = reservations c" "list_all wf_reservation rlist"
    using std_copy_take [OF rlist] list_all_copy [OF rlist] assms(1) by simp_all
  have "int32 (int (length (reservations c))) = int (length (reservations c))"
    using assms(2) by (simp add: int32_id)
  then have "pay_request c = zero_message\<lparr>q_message.client_id := cinema_id c,
      message_choice_number := CHOICE_PAY_RESERVATION_REQUEST,
      msg_choice := M7 \<lparr>m7_count = int (length (reservations c)), m7_list = rlist\<rparr>\<rparr>"
    using rlist by (simp add: pay_request_def zero_message_def zero_m7_def)
  then show "wf_message (pay_request c)" "counts_ok (pay_request c)"
    "message_choice_number (pay_request c) = CHOICE_PAY_RESERVATION_REQUEST"
    "payload (pay_request c) = P_pay (reservations c)"
    using assms len by (simp_all add: wf_message_def counts_ok_def payload_def zero_message_def wf_m7_def)
qed


lemma exchange_pay:
  assumes engine: "reliable_engine E tab fk" and ok: "db_ok (tab (db s))" and int: "in_int32 u" "in_int32 (cinema_id c)"
    and rvs: "list_all wf_reservation (reservations c)" "length (reservations c) \<le> MAX_LENGTH_STRING"
    and x: "exchange ftok E u (pay_request c) s r s'"
  shows "message_choice_number r = CHOICE_PAY_RESERVATION_RESPONSE" and "m6_success (as_m6 (msg_choice r)) \<noteq> NOT_SUCCESS"
    and "seat_map (tab (db s')) = mark_all_paid u (reservations c) (seat_map (tab (db s)))"
proof -
  from x obtain buf1 rec1 t1 request response buf2 rec2 t2 where
    there: "net_buffers buf1 rec1" "in_int32 t1" "over_network buf1 rec1 (stamp t1 (pay_request c)) = Some request"
    and run: "admin_answer ftok E (stamp ADMIN_REQUEST (request\<lparr>client_id := u\<rparr>)) s = (Ret (Some response), s')"
    and home: "net_buffers buf2 rec2" "in_int32 t2" "over_network buf2 rec2 (stamp t2 (stamp u response)) = Some r"
    by (rule exchangeE)
  let ?m = "stamp ADMIN_REQUEST (request\<lparr>client_id := u\<rparr>)" and ?m7 = "as_m7 (msg_choice request)"
  note parts = pay_request_parts [OF rvs int(2)]
  have request: "message_choice_number request = CHOICE_PAY_RESERVATION_REQUEST" "payload request = P_pay (reservations c)"
    using over_network_run [OF wf_stamp [OF parts(1) there(2)] _ there(1)] there(3) parts by auto
  have fits: "wf_choice (msg_choice request)" "counts_bounded request"
    using there(1,3) deserialize_fits by (auto simp: over_network_def net_buffers_def split: option.splits)
  have count: "m7_count ?m7 \<le> int (length (m7_list ?m7))"
    using fits request(1) as_member_lengths(6) [OF fits(1)] by (simp add: counts_bounded_def Let_def)
  have list: "to_pay ?m7 = reservations c"
    using request by (simp add: payload_def to_pay_def Let_def)
  have m: "client_id ?m = u" "msg_choice ?m = msg_choice request" and pay: "admin_pay E ?m s = (Ret (Some response), s')"
    using run request(1) by (simp_all add: admin_answer_def)
  obtain s1 where s1: "pay_all E u ?m7 0 (new_response ?m) s = (Ret (new_response ?m), s1)"
      "seat_map (tab (db s1)) = mark_all_paid u (reservations c) (seat_map (tab (db s)))"
    using pay_all_reliable [OF engine ok order.refl count, of u "new_response ?m"] list by auto
  then have resp: "response = (new_response ?m)\<lparr>message_choice_number := CHOICE_PAY_RESERVATION_RESPONSE,
      msg_choice := M6 (zero_m6\<lparr>m6_success := SUCCESS\<rparr>)\<rparr>" "s' = s1"
    using pay unfolding admin_pay_def m by simp_all
  then show "seat_map (tab (db s')) = mark_all_paid u (reservations c) (seat_map (tab (db s)))"
    using s1(2) by simp
  have wf: "wf_message response" "counts_ok response"
    using answer_transferable [OF _ run] int(1) by simp_all
  obtain r' where "over_network buf2 rec2 (stamp t2 (stamp u response)) = Some r'"
    "message_choice_number r' = CHOICE_PAY_RESERVATION_RESPONSE" "m6_success (as_m6 (msg_choice r')) = swap_int SUCCESS"
    using atomic_answer_arrives [OF wf_stamp [OF wf(1) int(1)] _ home(2,1)] wf(2) resp(1) by auto
  then show "message_choice_number r = CHOICE_PAY_RESERVATION_RESPONSE" "m6_success (as_m6 (msg_choice r)) \<noteq> NOT_SUCCESS"
    using home(3) swap_int_zero [of 0] by simp_all
qed

text \<open>Looking at the rooms and at the seats of a room.\<close>

definition looks :: "q_message \<Rightarrow> bool" where
  "looks m \<longleftrightarrow> wf_message m \<and> message_choice_number m \<in> {CHOICE_ROOMS_REQUEST, CHOICE_SEATS_REQUEST}"

lemma db_calls_look:
  assumes "message_choice_number request \<in> {CHOICE_ROOMS_REQUEST, CHOICE_SEATS_REQUEST}"
  shows "db_calls E seat_neutral (admin_answer ftok E request)"
proof -
  have "db_calls E seat_neutral (admin_rooms E request)" "db_calls E seat_neutral (admin_seats E request)"
    unfolding admin_rooms_def admin_seats_def Let_def
    by (intro db_calls_intros db_calls_functions; simp)+
  with assms show ?thesis by (auto simp: admin_answer_def)
qed

lemma exchange_looks:
  assumes engine: "sqlite_engine E tab fk" and ok: "db_ok (tab (db s))" and m: "looks m" and x: "exchange ftok E u m s r s'"
  shows "seat_map (tab (db s')) = seat_map (tab (db s))"
proof -
  from x obtain buf1 rec1 t1 request response where
    there: "net_buffers buf1 rec1" "in_int32 t1" "over_network buf1 rec1 (stamp t1 m) = Some request"
    and run: "admin_answer ftok E (stamp ADMIN_REQUEST (request\<lparr>client_id := u\<rparr>)) s = (Ret (Some response), s')"
    by (rule exchangeE)
  have "wf_message m" "counts_ok m" using m by (auto simp: looks_def counts_ok_def)
  then have "message_choice_number request = message_choice_number m"
    using over_network_run [OF wf_stamp [OF _ there(2)] _ there(1)] there(3) by fastforce
  then have "db_calls E seat_neutral (admin_answer ftok E (stamp ADMIN_REQUEST (request\<lparr>client_id := u\<rparr>)))"
    using m by (intro db_calls_look) (simp add: looks_def)
  from db_callsD [OF this, of s] obtain cs where "list_all seat_neutral cs" "db s' = db_run E cs (db s)"
    using run by auto
  with run_neutral [OF engine ok] show ?thesis by simp
qed

text \<open>Other clients.\<close>

lemma seat_step_others:
  "seat_step c m m' \<Longrightarrow> confined v c \<Longrightarrow> v \<noteq> u \<Longrightarrow> m' p = Some (u, f) \<longleftrightarrow> m p = Some (u, f)"
  by (erule seat_stepE) (auto simp: mark_paid_def drop_unpaid_def split: option.splits)

lemma others_calls:
  assumes "sqlite_engine E tab fk" and "db_ok (tab d)" and "list_all (\<lambda>c. \<exists>v. v \<noteq> u \<and> confined v c) cs"
  shows "seat_map (tab (db_run E cs d)) p = Some (u, f) \<longleftrightarrow> seat_map (tab d) p = Some (u, f)"
  unfolding db_run_def
  by (rule seat_store.run_keeps [OF sqlite_engine.is_seat_store [OF assms(1)] assms(2,3),
        where P = "\<lambda>x. x = Some (u, f) \<longleftrightarrow> seat_map (tab d) p = Some (u, f)"])
    (use seat_step_others in blast)+

lemma others_leave_seats:
  assumes "sqlite_engine E tab fk" and "db_ok (tab (db s))" and "client_id request \<noteq> u"
  shows "seat_map (tab (db (snd (admin_handle_request ftok E channel request s)))) p = Some (u, f)
     \<longleftrightarrow> seat_map (tab (db s)) p = Some (u, f)"
proof -
  obtain cs where cs: "list_all (confined (client_id request)) cs"
    "db (snd (admin_handle_request ftok E channel request s)) = db_run E cs (db s)"
    using db_callsD [OF db_calls_handle_request] by blast
  have "list_all (\<lambda>c. \<exists>v. v \<noteq> u \<and> confined v c) cs"
    using cs(1) assms(3) by (auto simp: list_all_iff simp del: confined.simps)
  from others_calls [OF assms(1,2) this] cs(2) show ?thesis by simp
qed

lemma others_invariants:
  assumes "sqlite_engine E tab fk" and "db_ok (tab (db s))"
  shows "db_ok (tab (db (snd (admin_handle_request ftok E channel request s))))"
    and "fk (db (snd (admin_handle_request ftok E channel request s))) = fk (db s)"
  using db_callsD [OF db_calls_handle_request [where request = request and E = E and ftok = ftok and channel = channel], of s]
    run_invariants [OF assms] by auto

section \<open>The library during a session\<close>

text \<open>The other processes and threads do not touch the map of the clients.\<close>

definition quiet_env :: "client_env \<Rightarrow> bool" where
  "quiet_env env \<longleftrightarrow> (\<forall>p. CLIENTS (env p) = CLIENTS p)"

lemma CLIENTS_set_queue [simp]: "CLIENTS (set_queue i q p) = CLIENTS p"
  by (simp add: set_queue_def)

lemma send_CLIENTS: "CLIENTS (snd (send_message ch m p)) = CLIENTS p"
  by (auto simp: send_message_def queue_send_def set_queue_def Let_def defined_def andThen_def split: option.splits)

lemma try_receive_CLIENTS: "CLIENTS (snd (try_receive i t p)) = CLIENTS p"
  by (auto simp: try_receive_def split: option.splits)

lemma receive_CLIENTS:
  assumes "quiet_env env"
  shows "CLIENTS (snd (receive_message env ch p)) = CLIENTS p"
proof -
  have "CLIENTS (snd (queue_receive env i t p)) = CLIENTS p" for i t
  proof -
    obtain out p1 where r: "try_receive i t p = (out, p1)" by (metis prod.exhaust)
    then have "CLIENTS p1 = CLIENTS p" using try_receive_CLIENTS [of i t p] by simp
    then show ?thesis
      using r assms try_receive_CLIENTS [of i t "env p1"] by (cases out) (simp_all add: queue_receive_def quiet_env_def)
  qed
  then show ?thesis
    by (cases "orientation ch") (simp_all add: receive_message_def receive_message_type_def andThen_def Let_def)
qed

text \<open>The client \<open>k\<close> is known to the cinema as \<open>u\<close> and remembers the reservations \<open>rvs\<close>.\<close>

definition remembers :: "int \<Rightarrow> int \<Rightarrow> Reservation list \<Rightarrow> client_process \<Rightarrow> bool" where
  "remembers k u rvs p \<longleftrightarrow> (\<exists>c. CLIENTS p k = Some c \<and> cinema_id c = u \<and> reservations c = rvs)"

lemma keeps_remembers [keeps_intros]:
  "keeps (remembers k u rvs) (deref q)" "keeps (remembers k u rvs) (get_client j b)"
  "keeps (remembers k u rvs) (send_message ch m)"
  by (auto simp: keeps_def remembers_def deref_def get_client_def defined_def send_CLIENTS split: option.splits)

lemma keeps_remembers_receive: "quiet_env env \<Longrightarrow> keeps (remembers k u rvs) (receive_message env ch)"
  by (simp add: keeps_def remembers_def receive_CLIENTS)

lemma keeps_remembers_assign:
  assumes "\<And>c. cinema_id (f c) = cinema_id c \<and> reservations (f c) = reservations c"
  shows "keeps (remembers k u rvs) (assign q f)"
  using assms by (auto simp: keeps_def remembers_def assign_def deref_def andThen_def defined_def split: option.splits)

lemma keeps_remembers_errors [keeps_intros]:
  "keeps (remembers k u rvs) (set_error q t i)" "keeps (remembers k u rvs) (clean_error q)"
  unfolding clean_error_def set_error_def by (intro keeps_intros keeps_remembers_assign; simp)+

lemma keeps_remembers_listener [keeps_intros]:
  "keeps (remembers k u rvs) (end_listener_thread T q)" "keeps (remembers k u rvs) (start_listener_thread T q)"
  unfolding start_listener_thread_def end_listener_thread_def
  by (intro keeps_intros keeps_remembers_assign; simp)+

lemma keeps_remembers_closed [keeps_intros]: "keeps (remembers k u rvs) (cinema_closed T env q)"
  unfolding cinema_closed_def disconnect_def by (simp, intro keeps_intros keeps_remembers_assign) simp_all

lemma looking_remembers:
  assumes "quiet_env env"
  shows "keeps (remembers k u rvs) (get_rooms T env j)" and "keeps (remembers k u rvs) (get_seats T env j aRoom data)"
    and "keeps (remembers k u rvs) (get_reservations j)"
  unfolding get_rooms_def get_seats_def get_reservations_def Let_def
  by (intro keeps_intros keeps_remembers_assign keeps_remembers_receive assms; simp)+

text \<open>What the library sends, and the answer \<open>r\<close> it gets.\<close>

definition told :: "client_env \<Rightarrow> int \<Rightarrow> (Client \<Rightarrow> q_message) \<Rightarrow> q_message \<Rightarrow> client_process \<Rightarrow> bool" where
  "told env k request r p \<longleftrightarrow> quiet_env env \<and> (\<exists>c p1 p2. CLIENTS p k = Some c \<and> connected c
     \<and> send_message (mom_queue c) (request c) (set_client k (no_error c) p) = (Ret (), p1)
     \<and> receive_message env (mom_queue c) p1 = (Ret r, p2))"

lemma no_error_cinema_id [simp]: "cinema_id (no_error c) = cinema_id c"
  by (simp add: no_error_def)

lemma told_client:
  assumes "told env k request r p" and "CLIENTS p k = Some c"
  obtains p1 p2 where "connected c" "send_message (mom_queue c) (request c) (set_client k (no_error c) p) = (Ret (), p1)"
    "receive_message env (mom_queue c) p1 = (Ret r, p2)" "CLIENTS p2 = (CLIENTS p)(k \<mapsto> no_error c)"
proof -
  obtain p1 p2 where x: "quiet_env env" "connected c" "send_message (mom_queue c) (request c) (set_client k (no_error c) p) = (Ret (), p1)"
    "receive_message env (mom_queue c) p1 = (Ret r, p2)"
    using assms by (auto simp: told_def)
  have "CLIENTS p1 = (CLIENTS p)(k \<mapsto> no_error c)"
    using send_CLIENTS [of "mom_queue c" "request c" "set_client k (no_error c) p"] x(3) by (simp add: set_client_def)
  moreover have "CLIENTS p2 = CLIENTS p1" using receive_CLIENTS [OF x(1), of "mom_queue c" p1] x(4) by simp
  ultimately show ?thesis using that x(2-4) by simp
qed

lemma reserve_told:
  assumes "remembers k u rvs p" and "told env k (\<lambda>_. select_request aSeat) r p"
    and "message_choice_number r = CHOICE_SEAT_SELECT_RESPONSE" and "reserve_seat T env k aSeat p = (Ret ok, p')"
  shows "ok \<longleftrightarrow> m6_success (as_m6 (msg_choice r)) = SUCCESS"
    and "remembers k u (rvs @ (if m6_success (as_m6 (msg_choice r)) = SUCCESS
      then [\<lparr>res_room = seat_room aSeat, res_seat_num = seat_no aSeat\<rparr>] else [])) p'"
proof -
  obtain c where c: "CLIENTS p k = Some c" "cinema_id c = u" "reservations c = rvs"
    using assms(1) by (auto simp: remembers_def)
  obtain p1 p2 where x: "connected c" "send_message (mom_queue c) (select_request aSeat) (set_client k (no_error c) p) = (Ret (), p1)"
    "receive_message env (mom_queue c) p1 = (Ret r, p2)" "CLIENTS p2 = (CLIENTS p)(k \<mapsto> no_error c)"
    using told_client [OF assms(2) c(1)] by blast
  have p2: "CLIENTS p2 k = Some (no_error c)" using x(4) by simp
  obtain d where d: "end_listener_thread T (Some k) p2 = (Ret (), set_client k ((no_error c)\<lparr>listener_extern_data := d\<rparr>) p2)"
    using end_listener_run [OF p2] by blast
  show "ok \<longleftrightarrow> m6_success (as_m6 (msg_choice r)) = SUCCESS"
    and "remembers k u (rvs @ (if m6_success (as_m6 (msg_choice r)) = SUCCESS
      then [\<lparr>res_room = seat_room aSeat, res_seat_num = seat_no aSeat\<rparr>] else [])) p'"
    using assms(3,4) c x(1-3) p2 d
    by (auto simp: reserve_seat_def client_run select_request_def Let_def remembers_def split: if_splits)
qed

lemma reserve_unexpected:
  assumes "remembers k u rvs p" and "told env k (\<lambda>_. select_request aSeat) r p"
    and "message_choice_number r = CHOICE_INVALID_REQUEST" and "reserve_seat T env k aSeat p = (Ret ok, p')"
  shows "\<not> ok" and "remembers k u rvs p'"
proof -
  obtain c where c: "CLIENTS p k = Some c" "cinema_id c = u" "reservations c = rvs"
    using assms(1) by (auto simp: remembers_def)
  obtain p1 p2 where x: "connected c" "send_message (mom_queue c) (select_request aSeat) (set_client k (no_error c) p) = (Ret (), p1)"
    "receive_message env (mom_queue c) p1 = (Ret r, p2)" "CLIENTS p2 = (CLIENTS p)(k \<mapsto> no_error c)"
    using told_client [OF assms(2) c(1)] by blast
  have "remembers k u rvs p2" using x(4) c by (simp add: remembers_def)
  from keepsD [OF keeps_remembers_errors(1) this] show "\<not> ok" and "remembers k u rvs p'"
    using assms(3,4) c x(1-3)
    by (auto simp: reserve_seat_def client_run select_request_def Let_def andThen_Ret_iff split: if_splits) (metis snd_conv)+
qed

lemma pay_fits:
  assumes "CLIENTS p k = Some c" and "told env k pay_request r p" and "pay_seats T env k p = (Ret ok, p')"
  shows "length (reservations c) \<le> MAX_LENGTH_STRING"
proof (rule ccontr)
  assume "\<not> length (reservations c) \<le> MAX_LENGTH_STRING"
  then have "std_copy (reservations c) (m7_list (as_m7 (msg_choice zero_message))) = None"
    by (simp add: std_copy_def zero_message_def zero_m7_def)
  moreover obtain p1 p2 where "connected c" using told_client [OF assms(2,1)] by blast
  ultimately have "fst (pay_seats T env k p) = Undef"
    using assms(1) by (simp add: pay_seats_def client_run Let_def)
  with assms(3) show False by simp
qed

lemma pay_told:
  assumes "remembers k u rvs p" and "told env k pay_request r p" and "message_choice_number r = CHOICE_PAY_RESERVATION_RESPONSE"
    and "m6_success (as_m6 (msg_choice r)) \<noteq> NOT_SUCCESS" and "pay_seats T env k p = (Ret ok, p')"
  shows "ok" and "remembers k u rvs p'"
proof -
  obtain c where c: "CLIENTS p k = Some c" "cinema_id c = u" "reservations c = rvs"
    using assms(1) by (auto simp: remembers_def)
  obtain p1 p2 where x: "connected c" "send_message (mom_queue c) (pay_request c) (set_client k (no_error c) p) = (Ret (), p1)"
    "receive_message env (mom_queue c) p1 = (Ret r, p2)" "CLIENTS p2 = (CLIENTS p)(k \<mapsto> no_error c)"
    using told_client [OF assms(2) c(1)] by blast
  have "pay_seats T env k p = (Ret True, p2)"
    by (rule pay_seats_confirmed [OF c(1) x(1) pay_fits [OF c(1) assms(2,5)] x(2,3) assms(3,4)])
  with assms(5) c x(4) show "ok" "remembers k u rvs p'" by (auto simp: remembers_def)
qed

section \<open>The specification of a session\<close>

text \<open>What the client sees: the seat he asked for and whether he was told that he has it, what he was told of a payment, or
  something else he did; and what he does not see.\<close>

datatype booking_event =
    Asked "int \<times> int" bool
  | Paid bool
  | Looked
  | Others_acted

text \<open>
  What a client may rely on: who holds each seat, the rooms he is in, and the seats he has been told are his, in
  the order he got them.  Asking for a seat gives him the seat of that number in a room he is in, if it is free
  there, and he is told so exactly then, but what he remembers is the seat he asked for.  Paying pays all the seats
  he remembers that are his; nothing anybody else does changes which seats are his or whether they are paid.
  Nothing is promised about the rooms he is in.
\<close>

type_synonym booking_state = "seat_map \<times> int set \<times> (int \<times> int) list"

inductive booking_step :: "int \<Rightarrow> booking_event \<Rightarrow> booking_state \<Rightarrow> booking_state \<Rightarrow> bool" for u where
  seat_given: "r \<in> rooms \<Longrightarrow> r \<noteq> 0 \<Longrightarrow> open_seat m r n \<Longrightarrow>
    booking_step u (Asked (q, n) True) (m, rooms, mine) (m((r, n) \<mapsto> (u, 0)), rooms', mine @ [(q, n)])"
| seat_refused: "r \<in> rooms \<Longrightarrow> r = 0 \<or> \<not> open_seat m r n \<Longrightarrow>
    booking_step u (Asked (q, n) False) (m, rooms, mine) (m, rooms', mine)"
| all_paid: "(\<And>p. m' p = (case m p of Some (v, f) \<Rightarrow> if v = u \<and> p \<in> set mine then Some (v, 1) else Some (v, f) | None \<Rightarrow> None)) \<Longrightarrow>
    booking_step u (Paid True) (m, rooms, mine) (m', rooms', mine)"
| looked: "booking_step u Looked (m, rooms, mine) (m, rooms', mine)"
| others_act: "(\<And>p f. m' p = Some (u, f) \<longleftrightarrow> m p = Some (u, f)) \<Longrightarrow>
    booking_step u Others_acted (m, rooms, mine) (m', rooms', mine)"

text \<open>The seats he was given are, each once, the seats he holds.\<close>

definition exactly_his :: "int \<Rightarrow> booking_state \<Rightarrow> bool" where
  "exactly_his u = (\<lambda>(m, rooms, mine). distinct mine \<and> set mine = {p. \<exists>f. m p = Some (u, f)})"

text \<open>They are when he is in no room but the one he asks in whenever he gets a seat.\<close>

definition asked_at_home :: "booking_event \<Rightarrow> int set \<Rightarrow> bool" where
  "asked_at_home e rooms \<longleftrightarrow> (\<forall>q n. e = Asked (q, n) True \<longrightarrow> rooms \<subseteq> {q})"

lemma booking_step_exact:
  "booking_step u e x y \<Longrightarrow> asked_at_home e (fst (snd x)) \<Longrightarrow> exactly_his u x \<Longrightarrow> exactly_his u y"
  by (induction rule: booking_step.induct)
    (auto simp: exactly_his_def open_seat_def asked_at_home_def split: option.splits if_splits)

text \<open>His paid seats stay his and paid.\<close>

lemma booking_step_paid: "booking_step u e x y \<Longrightarrow> fst x p = Some (u, 1) \<Longrightarrow> fst y p = Some (u, 1)"
  by (induction rule: booking_step.induct) (auto simp: open_seat_def)

section \<open>The program\<close>

text \<open>
  The steps of the program while the session of the client \<open>k\<close>, known as \<open>u\<close>, lasts: his calls of
  the library, each with the administrator's answer to its request, and the requests of the
  other clients, which the administrator may handle in between.
\<close>

type_synonym ('k, 'db) world = "('k, 'db) cinema_host \<times> client_process"

definition rooms_request :: q_message where
  "rooms_request = zero_message\<lparr>message_choice_number := CHOICE_ROOMS_REQUEST\<rparr>"

definition seats_request_of :: "Room \<Rightarrow> q_message" where
  "seats_request_of aRoom = zero_message\<lparr>message_choice_number := CHOICE_SEATS_REQUEST, msg_choice := M3 (room_no aRoom)\<rparr>"

text \<open>A call of the database's functions that a handler of another client may make.\<close>

definition of_others :: "int \<Rightarrow> db_call \<Rightarrow> bool" where
  "of_others u c \<longleftrightarrow> (\<exists>v. v \<noteq> u \<and> confined v c)"

inductive session_step ::
  "ftok \<Rightarrow> 'db sqlite \<Rightarrow> threads \<Rightarrow> int \<Rightarrow> int \<Rightarrow> booking_event \<Rightarrow> ('k, 'db) world \<Rightarrow> ('k, 'db) world \<Rightarrow> bool"
  for ftok E T u k where
  reserves: "in_int32 (seat_room aSeat) \<Longrightarrow> in_int32 (seat_no aSeat) \<Longrightarrow>
    exchange ftok E u (select_request aSeat) s r s' \<Longrightarrow> told env k (\<lambda>_. select_request aSeat) r p \<Longrightarrow>
    reserve_seat T env k aSeat p = (Ret ok, p') \<Longrightarrow>
    session_step ftok E T u k (Asked (seat_room aSeat, seat_no aSeat) ok) (s, p) (s', p')"
| pays: "CLIENTS p k = Some c \<Longrightarrow> exchange ftok E u (pay_request c) s r s' \<Longrightarrow>
    told env k pay_request r p \<Longrightarrow> pay_seats T env k p = (Ret ok, p') \<Longrightarrow> session_step ftok E T u k (Paid ok) (s, p) (s', p')"
| looks_at_rooms: "exchange ftok E u rooms_request s r s' \<Longrightarrow> quiet_env env \<Longrightarrow>
    get_rooms T env k p = (Ret rooms, p') \<Longrightarrow> session_step ftok E T u k Looked (s, p) (s', p')"
| looks_at_seats: "exchange ftok E u (seats_request_of aRoom) s r s' \<Longrightarrow> in_int32 (room_no aRoom) \<Longrightarrow> quiet_env env \<Longrightarrow>
    get_seats T env k aRoom data p = (Ret seats, p') \<Longrightarrow> session_step ftok E T u k Looked (s, p) (s', p')"
| lists: "get_reservations k p = (Ret rvs, p') \<Longrightarrow> session_step ftok E T u k Looked (s, p) (s, p')"
| others: "client_id request \<noteq> u \<Longrightarrow>
    session_step ftok E T u k Others_acted (s, p) (snd (admin_handle_request ftok E channel request s), p)"
| unfinished: "list_all (of_others u) cs \<Longrightarrow>
    session_step ftok E T u k Others_acted (s, p) (s\<lparr>db := db_run E cs (db s)\<rparr>, p)"

text \<open>The steps of a session in which, whenever he gets a seat, the database has the client in no room but the one his
  library asks for.\<close>

definition careful_step ::
  "('db \<Rightarrow> tables) \<Rightarrow> ftok \<Rightarrow> 'db sqlite \<Rightarrow> threads \<Rightarrow> int \<Rightarrow> int \<Rightarrow> booking_event \<Rightarrow> ('k, 'db) world \<Rightarrow> ('k, 'db) world \<Rightarrow> bool" where
  "careful_step tab ftok E T u k e w w' \<longleftrightarrow> session_step ftok E T u k e w w'
     \<and> asked_at_home e (his_rooms u (tab (db (fst w))))"

text \<open>The specification's view of the program, and what has to hold for it.\<close>

definition seat_place :: "Reservation \<Rightarrow> int \<times> int" where
  "seat_place rv = (res_room rv, res_seat_num rv)"

lemma seat_place_image: "seat_place ` R = (\<lambda>rv. (res_room rv, res_seat_num rv)) ` R"
  by (simp add: seat_place_def)

definition booking_of :: "('db \<Rightarrow> tables) \<Rightarrow> int \<Rightarrow> int \<Rightarrow> ('k, 'db) world \<Rightarrow> booking_state" where
  "booking_of tab u k = (\<lambda>(s, p). (seat_map (tab (db s)), his_rooms u (tab (db s)), map seat_place (reservations (the (CLIENTS p k)))))"

definition session_ok :: "('db \<Rightarrow> tables) \<Rightarrow> ('db \<Rightarrow> bool) \<Rightarrow> int \<Rightarrow> int \<Rightarrow> ('k, 'db) world \<Rightarrow> bool" where
  "session_ok tab fk u k = (\<lambda>(s, p). db_ok (tab (db s)) \<and> \<not> fk (db s)
     \<and> (\<exists>rvs. remembers k u rvs p \<and> list_all wf_reservation rvs))"

lemma booking_of_remembers:
  "remembers k u rvs p \<Longrightarrow> booking_of tab u k (s, p) = (seat_map (tab (db s)), his_rooms u (tab (db s)), map seat_place rvs)"
  by (auto simp: booking_of_def remembers_def)

lemma session_okI:
  "db_ok (tab (db s)) \<Longrightarrow> \<not> fk (db s) \<Longrightarrow> remembers k u rvs p \<Longrightarrow> list_all wf_reservation rvs \<Longrightarrow> session_ok tab fk u k (s, p)"
  by (auto simp: session_ok_def)

lemma session_okE:
  assumes "session_ok tab fk u k (s, p)"
  obtains rvs where "db_ok (tab (db s))" "\<not> fk (db s)" "remembers k u rvs p" "list_all wf_reservation rvs"
  using assms by (auto simp: session_ok_def)

lemma looks_requests: "looks rooms_request" "in_int32 (room_no aRoom) \<Longrightarrow> looks (seats_request_of aRoom)"
  by (simp_all add: looks_def rooms_request_def seats_request_of_def wf_message_def zero_message_def)

text \<open>One step.\<close>

lemma session_step_refines:
  assumes engine: "reliable_engine E tab fk" and u: "in_int32 u" and step: "session_step ftok E T u k e (s, p) (s', p')"
    and ok: "session_ok tab fk u k (s, p)"
  shows "session_ok tab fk u k (s', p') \<and> booking_step u e (booking_of tab u k (s, p)) (booking_of tab u k (s', p'))"
proof -
  note sqlite = reliable_engine.axioms(1) [OF engine]
  obtain rvs where h: "db_ok (tab (db s))" "\<not> fk (db s)" "remembers k u rvs p" "list_all wf_reservation rvs"
    using ok by (rule session_okE)
  have same: ?thesis if "db_ok (tab (db s'))" "fk (db s') = fk (db s)" "remembers k u rvs p'"
    "booking_step u e (seat_map (tab (db s)), his_rooms u (tab (db s)), map seat_place rvs)
       (seat_map (tab (db s')), his_rooms u (tab (db s')), map seat_place rvs)"
    using that h by (auto simp: booking_of_remembers intro: session_okI)
  have unchanged: ?thesis if "exchange ftok E u m s r s'" "looks m" "remembers k u rvs p'" "e = Looked" for m r
    using same exchange_invariants [OF sqlite h(1) that(1)] that(3,4) exchange_looks [OF sqlite h(1) that(2,1)] looked
    by simp
  show ?thesis
    using step
  proof (cases rule: session_step.cases)
    case (reserves aSeat r env ok)
    let ?free = "\<lambda>room. room \<noteq> 0 \<and> open_seat (seat_map (tab (db s))) room (seat_no aSeat)"
    let ?rv = "\<lparr>res_room = seat_room aSeat, res_seat_num = seat_no aSeat\<rparr>"
    obtain room where room: "room \<in> his_rooms u (tab (db s))"
      "message_choice_number r = CHOICE_SEAT_SELECT_RESPONSE \<and> m6_success (as_m6 (msg_choice r)) = SUCCESS \<longleftrightarrow> ?free room"
      "message_choice_number r \<in> {CHOICE_SEAT_SELECT_RESPONSE, CHOICE_INVALID_REQUEST}"
      "seat_map (tab (db s')) = (if ?free room then (seat_map (tab (db s)))((room, seat_no aSeat) \<mapsto> (u, 0)) else seat_map (tab (db s)))"
      using exchange_select_somewhere [OF engine h(1,2) u reserves(3,4)] by blast
    have rem: "ok = ?free room \<and> remembers k u (rvs @ (if ?free room then [?rv] else [])) p'"
    proof (cases "message_choice_number r = CHOICE_SEAT_SELECT_RESPONSE")
      case True
      then show ?thesis using reserve_told [OF h(3) reserves(5) True reserves(6)] room(2) by simp
    next
      case False
      then show ?thesis using reserve_unexpected [OF h(3) reserves(5) _ reserves(6)] room(2,3) by auto
    qed
    have "list_all wf_reservation (rvs @ (if ?free room then [?rv] else []))"
      using h(4) reserves(2,3) by (simp add: wf_reservation_def)
    moreover have "booking_step u e (seat_map (tab (db s)), his_rooms u (tab (db s)), map seat_place rvs)
        (seat_map (tab (db s')), his_rooms u (tab (db s')), map seat_place (rvs @ (if ?free room then [?rv] else [])))"
      using reserves(1) rem room(1,4) seat_given [OF room(1)] seat_refused [OF room(1)] by (auto simp: seat_place_def)
    ultimately show ?thesis
      using exchange_invariants [OF sqlite h(1) reserves(4)] h(2,3) rem by (auto simp: booking_of_remembers intro: session_okI)
  next
    case (pays c r env ok)
    have c: "cinema_id c = u" "reservations c = rvs" using h(3) pays(2) by (auto simp: remembers_def)
    have len: "length rvs \<le> MAX_LENGTH_STRING" using pay_fits [OF pays(2,4,5)] c by simp
    note x = exchange_pay [OF engine h(1) u, of c, unfolded c, OF u h(4) len pays(3)]
    note told = pay_told [OF h(3) pays(4) x(1,2) pays(5)]
    have "booking_step u (Paid True) (seat_map (tab (db s)), his_rooms u (tab (db s)), map seat_place rvs)
        (seat_map (tab (db s')), his_rooms u (tab (db s')), map seat_place rvs)"
      by (rule all_paid) (simp add: x(3) mark_all_paid seat_place_def [abs_def] split: option.splits)
    then show ?thesis using same exchange_invariants [OF sqlite h(1) pays(3)] told pays(1) by simp
  next
    case (looks_at_rooms r env rooms)
    have "remembers k u rvs p'"
      using keepsD [OF looking_remembers(1) [OF looks_at_rooms(3)] h(3), of T k] looks_at_rooms(4) by simp
    then show ?thesis using unchanged [OF looks_at_rooms(2) looks_requests(1)] looks_at_rooms(1) by simp
  next
    case (looks_at_seats aRoom r env data seats)
    have "remembers k u rvs p'"
      using keepsD [OF looking_remembers(2) [OF looks_at_seats(4)] h(3), of T k aRoom data] looks_at_seats(5) by simp
    then show ?thesis using unchanged [OF looks_at_seats(2) looks_requests(2) [OF looks_at_seats(3)]] looks_at_seats(1) by simp
  next
    case (lists rs)
    have "remembers k u rvs p'"
      using keepsD [OF looking_remembers(3) h(3), of "\<lambda>p. p" k] lists(3) by (simp add: quiet_env_def)
    then show ?thesis using same lists(1,2) h(1) looked by simp
  next
    case (others request channel)
    have "booking_step u Others_acted (seat_map (tab (db s)), his_rooms u (tab (db s)), map seat_place rvs)
        (seat_map (tab (db s')), his_rooms u (tab (db s')), map seat_place rvs)"
      using others_leave_seats [OF sqlite h(1) others(4)] others(2) by (intro others_act) simp
    then show ?thesis using same others(1-3) h(3) others_invariants [OF sqlite h(1)] by simp
  next
    case (unfinished cs)
    have "list_all (\<lambda>c. \<exists>v. v \<noteq> u \<and> confined v c) cs"
      using unfinished(4) by (simp add: list_all_iff of_others_def)
    from others_calls [OF sqlite h(1) this]
    have "booking_step u Others_acted (seat_map (tab (db s)), his_rooms u (tab (db s)), map seat_place rvs)
        (seat_map (tab (db s')), his_rooms u (tab (db s')), map seat_place rvs)"
      using unfinished(2) by (intro others_act) simp
    then show ?thesis using same unfinished(1-3) h(3) run_invariants [OF sqlite h(1), of cs] by simp
  qed
qed


text \<open>Any number of steps.\<close>

lemma session_ok_run:
  assumes "reliable_engine E tab fk" and "in_int32 u" and "path (session_step ftok E T u k) es w w'" and "session_ok tab fk u k w"
  shows "session_ok tab fk u k w' \<and> path (booking_step u) es (booking_of tab u k w) (booking_of tab u k w')"
  using assms(3,4)
proof (rule path_refines [where I = "session_ok tab fk u k" and f = "booking_of tab u k"])
  fix e w w'
  assume "session_ok tab fk u k w" and "session_step ftok E T u k e w w'"
  then show "session_ok tab fk u k w' \<and> booking_step u e (booking_of tab u k w) (booking_of tab u k w')"
    using session_step_refines [OF assms(1,2), of ftok T k e "fst w" "snd w" "fst w'" "snd w'"] by simp
qed

lemma careful_run_exact:
  assumes "reliable_engine E tab fk" and "in_int32 u" and "path (careful_step tab ftok E T u k) es w w'"
    and "session_ok tab fk u k w \<and> exactly_his u (booking_of tab u k w)"
  shows "session_ok tab fk u k w' \<and> exactly_his u (booking_of tab u k w')"
  using assms(3,4)
proof (rule path_keeps [where I = "\<lambda>w. session_ok tab fk u k w \<and> exactly_his u (booking_of tab u k w)"])
  fix e w w'
  assume ok: "session_ok tab fk u k w \<and> exactly_his u (booking_of tab u k w)" and step: "careful_step tab ftok E T u k e w w'"
  have "fst (snd (booking_of tab u k w)) = his_rooms u (tab (db (fst w)))" by (simp add: booking_of_def split: prod.splits)
  with step have "asked_at_home e (fst (snd (booking_of tab u k w)))" by (simp add: careful_step_def)
  moreover have "session_ok tab fk u k w' \<and> booking_step u e (booking_of tab u k w) (booking_of tab u k w')"
    using session_step_refines [OF assms(1,2), of ftok T k e "fst w" "snd w" "fst w'" "snd w'"] ok step
    by (simp add: careful_step_def)
  ultimately show "session_ok tab fk u k w' \<and> exactly_his u (booking_of tab u k w')"
    using booking_step_exact ok by blast
qed

lemma booking_run_paid: "path (booking_step u) es x y \<Longrightarrow> fst x p = Some (u, 1) \<Longrightarrow> fst y p = Some (u, 1)"
  by (induction rule: path.induct) (auto intro: booking_step_paid)

section \<open>An answer always comes\<close>

text \<open>When the administrator answers a request, the exchange takes place.\<close>

lemma exchange_exists:
  assumes "wf_message m" and "counts_ok m" and "in_int32 u"
    and "\<And>request. message_choice_number request = message_choice_number m \<Longrightarrow> payload request = on_wire (payload m) \<Longrightarrow>
      wf_choice (msg_choice request) \<Longrightarrow> counts_bounded request \<Longrightarrow>
      \<exists>response s'. admin_answer ftok E (stamp ADMIN_REQUEST (request\<lparr>client_id := u\<rparr>)) s = (Ret (Some response), s')"
  shows "\<exists>r s'. exchange ftok E u m s r s'"
proof -
  have net: "net_buffers (replicate PACKET_SIZE 0) zero_message" and t: "in_int32 7"
    by (simp_all add: net_buffers_def zero_message_def)
  obtain request where there: "over_network (replicate PACKET_SIZE 0) zero_message (stamp 7 m) = Some request"
    "message_choice_number request = message_choice_number m" "payload request = on_wire (payload m)"
    using over_network_run [OF wf_stamp [OF assms(1) t] _ net] assms(2) by auto
  have "wf_choice (msg_choice request) \<and> counts_bounded request"
    using there(1) net deserialize_fits by (auto simp: over_network_def net_buffers_def split: option.splits)
  then obtain response s' where
    run: "admin_answer ftok E (stamp ADMIN_REQUEST (request\<lparr>client_id := u\<rparr>)) s = (Ret (Some response), s')"
    using assms(4) there(2,3) by blast
  have wf: "wf_message response" "counts_ok response"
    using answer_transferable [OF _ run] assms(3) by simp_all
  obtain r where "over_network (replicate PACKET_SIZE 0) zero_message (stamp 7 (stamp u response)) = Some r"
    using over_network_run [OF wf_stamp [OF wf_stamp [OF wf(1) assms(3)] t] _ net] wf(2) by auto
  from exchangeI [OF net t there(1) run net t this] show ?thesis by blast
qed

lemma select_exchange_exists:
  assumes "reliable_engine E tab fk" and "db_ok (tab (db s))" and "\<not> fk (db s)" and "taken_to_be_in E u (db s) room"
    and "set (users_in room (tab (db s))) \<subseteq> {Some u}" and "in_int32 u" and "in_int32 (seat_no aSeat)"
  shows "\<exists>r s'. exchange ftok E u (select_request aSeat) s r s'"
proof (rule exchange_exists [OF _ _ assms(6)])
  show "wf_message (select_request aSeat)" "counts_ok (select_request aSeat)"
    using assms(7) by (simp_all add: select_request_def wf_message_def counts_ok_def zero_message_def)
  fix request :: q_message
  assume "message_choice_number request = message_choice_number (select_request aSeat)"
  then have "message_choice_number request = CHOICE_SEAT_SELECT_REQUEST"
    by (simp add: select_request_def)
  then show "\<exists>response s'. admin_answer ftok E (stamp ADMIN_REQUEST (request\<lparr>client_id := u\<rparr>)) s = (Ret (Some response), s')"
    using select_returns [OF assms(1-3), of "stamp ADMIN_REQUEST (request\<lparr>client_id := u\<rparr>)" room ftok] assms(4,5)
    by (simp add: admin_answer_def)
qed

lemma pay_exchange_exists:
  assumes "list_all wf_reservation (reservations c)" and "length (reservations c) \<le> MAX_LENGTH_STRING" and "in_int32 (cinema_id c)"
    and "in_int32 u"
  shows "\<exists>r s'. exchange ftok E u (pay_request c) s r s'"
proof (rule exchange_exists [OF pay_request_parts(1,2) [OF assms(1-3)] assms(4)])
  fix request :: q_message
  assume "message_choice_number request = message_choice_number (pay_request c)"
    and fits: "wf_choice (msg_choice request)" "counts_bounded request"
  then have choice: "message_choice_number request = CHOICE_PAY_RESERVATION_REQUEST"
    using pay_request_parts(3) [OF assms(1-3)] by simp
  then have "m7_count (as_m7 (msg_choice request)) \<le> int (length (m7_list (as_m7 (msg_choice request))))"
    using fits as_member_lengths(6) [OF fits(1)] by (simp add: counts_bounded_def Let_def)
  then obtain ch s1 where "pay_all E u (as_m7 (msg_choice request)) 0 (new_response (stamp ADMIN_REQUEST (request\<lparr>client_id := u\<rparr>))) s
      = (Ret ((new_response (stamp ADMIN_REQUEST (request\<lparr>client_id := u\<rparr>)))\<lparr>message_choice_number := ch\<rparr>), s1)"
    using pay_all_returns [OF _ order.refl] by blast
  with choice show "\<exists>response s'. admin_answer ftok E (stamp ADMIN_REQUEST (request\<lparr>client_id := u\<rparr>)) s = (Ret (Some response), s')"
    by (simp add: admin_answer_def admin_pay_def)
qed

section \<open>A session to look at\<close>

text \<open>Client 8, in room 1 of the small cinema, and his library, which has nothing waiting.\<close>

definition session_process :: client_process where
  "session_process = set_client 500 (client_example\<lparr>cinema_id := 8\<rparr>) client_host"

definition client_ready :: "client_process \<Rightarrow> bool" where
  "client_ready p \<longleftrightarrow> (\<exists>c q. CLIENTS p 500 = Some c \<and> connected c \<and> mom_queue c = mom_queue client_example
     \<and> msg_queues p 1 = Some [] \<and> msg_queues p 2 = Some q)"

definition idle_threads :: threads where
  "idle_threads = \<lparr>pthread_cancel = \<lambda>_. 3, pthread_create = (0, 5)\<rparr>"

lemma msg_queues_set_client [simp]: "msg_queues (set_client k c p) = msg_queues p"
  by (simp add: set_client_def)

lemma quiet_answers: "quiet_env (answers r)"
  by (simp add: quiet_env_def answers_def)

lemma ready_exchange:
  assumes "client_ready p" and "CLIENTS p 500 = Some c"
  shows "\<exists>q. send_message (mom_queue c) m (set_client 500 (no_error c) p)
        = (Ret (), set_queue 2 q (set_client 500 (no_error c) p))
      \<and> receive_message (answers r) (mom_queue c) (set_queue 2 q (set_client 500 (no_error c) p))
        = (Ret r, set_queue 1 [] (set_queue 2 q (set_client 500 (no_error c) p)))"
proof -
  let ?p0 = "set_client 500 (no_error c) p"
  obtain q0 where q0: "mom_queue c = mom_queue client_example" "msg_queues ?p0 1 = Some []" "msg_queues ?p0 2 = Some q0"
    using assms by (auto simp: client_ready_def)
  show ?thesis
    using send_message_run [of "mom_queue client_example" 500 ?p0 q0 m] q0
    by (intro exI [of _ "q_put 500 (stamp 500 m) q0"])
      (simp add: client_example_def out_queue_def receive_message_def receive_message_type_def queue_receive_def
        try_receive_def answers_def msgrcv_def)
qed

lemma ready_told: "client_ready p \<Longrightarrow> told (answers r) 500 request r p"
  using ready_exchange [of p _ _ r] quiet_answers by (fastforce simp: client_ready_def told_def)

lemma ready_reserve:
  assumes "client_ready p" and "message_choice_number r = CHOICE_SEAT_SELECT_RESPONSE"
  shows "\<exists>ok p'. reserve_seat T (answers r) 500 aSeat p = (Ret ok, p') \<and> client_ready p'"
proof -
  obtain c where c: "CLIENTS p 500 = Some c" "connected c" "mom_queue c = mom_queue client_example"
    using assms(1) by (auto simp: client_ready_def)
  obtain q where q: "send_message (mom_queue c) (select_request aSeat) (set_client 500 (no_error c) p)
      = (Ret (), set_queue 2 q (set_client 500 (no_error c) p))"
    "receive_message (answers r) (mom_queue c) (set_queue 2 q (set_client 500 (no_error c) p))
      = (Ret r, set_queue 1 [] (set_queue 2 q (set_client 500 (no_error c) p)))" (is "_ = (_, ?p2)")
    using ready_exchange [OF assms(1) c(1)] by blast
  have p2: "CLIENTS ?p2 500 = Some (no_error c)" "msg_queues ?p2 1 = Some []" "msg_queues ?p2 2 = Some q" by simp_all
  obtain d where d: "end_listener_thread T (Some 500) ?p2 = (Ret (), set_client 500 ((no_error c)\<lparr>listener_extern_data := d\<rparr>) ?p2)"
    using end_listener_run [OF p2(1)] by blast
  show ?thesis
    using c q p2 d assms(2)
    by (auto simp: reserve_seat_def client_run select_request_def Let_def client_ready_def no_error_def)
qed

lemma ready_pay:
  assumes "client_ready p" and "CLIENTS p 500 = Some c" and "length (reservations c) \<le> MAX_LENGTH_STRING"
    and "message_choice_number r = CHOICE_PAY_RESERVATION_RESPONSE" and "m6_success (as_m6 (msg_choice r)) \<noteq> NOT_SUCCESS"
  shows "\<exists>p'. pay_seats T (answers r) 500 p = (Ret True, p')"
proof -
  have "connected c" using assms(1,2) by (simp add: client_ready_def)
  with ready_exchange [OF assms(1,2), of "pay_request c" r] pay_seats_confirmed [OF assms(2) _ assms(3) _ _ assms(4,5)]
  show ?thesis by blast
qed

lemma session_process_ready: "client_ready session_process" "remembers 500 8 [] session_process"
  by (simp_all add: client_ready_def remembers_def session_process_def client_host_def)
    (simp_all add: client_example_def)

lemma room_host_ready:
  "db_ok (rd_tab (db room_host))" "\<not> rd_fk (db room_host)" "taken_to_be_in ref_engine 8 (db room_host) 1"
  "\<forall>q f. seat_map (rd_tab (db room_host)) q \<noteq> Some (8, f)"
  "set (users_in 1 (rd_tab (db room_host))) \<subseteq> {Some 8}" "open_seat (seat_map (rd_tab (db room_host))) 1 2"
proof -
  have d: "db room_host = room_db" by (simp add: room_host_def)
  obtain front d1 where f: "db_select_user_current_room ref_engine 8 room_db = (front, d1)" by (metis prod.exhaust)
  have "front = Some 1" using ref.current_room(4) [OF f room_db_rooms(1)] by simp
  then show "taken_to_be_in ref_engine 8 (db room_host) 1" using f d by (simp add: taken_to_be_in_def)
qed (simp_all add: room_host_def room_db_facts room_db_rooms open_seat_def)

lemma session_example:
  "\<exists>s' p'. careful_step rd_tab small_ftok ref_engine idle_threads 8 500 (Asked (1, 2) True) (room_host, session_process) (s', p')
    \<and> client_ready p' \<and> remembers 500 8 [\<lparr>res_room = 1, res_seat_num = 2\<rparr>] p' \<and> seat_map (rd_tab (db s')) (1, 2) = Some (8, 0)"
proof -
  let ?seat = "\<lparr>seat_no = 2, seat_room = 1, seat_status = 0\<rparr> :: Seat"
  have i: "in_int32 8" "in_int32 (seat_no ?seat)" "in_int32 (seat_room ?seat)" by simp_all
  obtain r s' where x: "exchange small_ftok ref_engine 8 (select_request ?seat) room_host r s'"
    using select_exchange_exists [OF ref.reliable_engine_axioms room_host_ready(1-3,5) i(1,2)] by blast
  note y = exchange_select [OF ref.reliable_engine_axioms room_host_ready(1-3) i(1,2) x]
  obtain ok p' where p': "reserve_seat idle_threads (answers r) 500 ?seat session_process = (Ret ok, p')" "client_ready p'"
    using ready_reserve [OF session_process_ready(1) y(1)] by blast
  have told: "ok" "remembers 500 8 [\<lparr>res_room = 1, res_seat_num = 2\<rparr>] p'"
    using reserve_told [OF session_process_ready(2) ready_told [OF session_process_ready(1)] y(1) p'(1)] y(2) room_host_ready(6)
    by simp_all
  have "his_rooms 8 (rd_tab (db room_host)) = {1}"
    by (simp add: his_rooms_def room_host_def room_db_rooms int32_id)
  then show ?thesis
    using reserves [OF i(3,2) x ready_told [OF session_process_ready(1)] p'(1)] told p'(2) y(3) room_host_ready(6)
    by (fastforce simp: careful_step_def asked_at_home_def)
qed

section \<open>What a client can rely on\<close>

text \<open>C5. The program does what \<open>booking_step\<close> promises: while his session lasts, each of his calls of the library, with
  the exchange over the network and the administrator's work behind it, and each request of another client or part of
  it, is a step of the specification with the same event, on who holds each seat, the rooms the database has him in and
  the seats his library remembers.  So a seat he asks for is given to him, and he is told so, exactly when the seat of that
  number is free in the room of his that the administrator goes by, whichever room he asked in; a payment
  returns true and pays the remembered seats that are his.  (The engine is reliable and foreign keys are not checked.)\<close>

theorem session_refines_booking:
  assumes "reliable_engine E tab fk" and "in_int32 u" and "session_ok tab fk u k w"
    and "path (session_step ftok E T u k) es w w'"
  shows "session_ok tab fk u k w' \<and> path (booking_step u) es (booking_of tab u k w) (booking_of tab u k w')"
  by (rule session_ok_run [OF assms(1,2,4,3)])

theorem session_refines_booking_witness:
  "\<exists>w'. path (session_step small_ftok ref_engine idle_threads 8 500) [Asked (1, 2) True] (room_host, session_process) w'
     \<and> session_ok rd_tab rd_fk 8 500 w'
     \<and> path (booking_step 8) [Asked (1, 2) True] (booking_of rd_tab 8 500 (room_host, session_process)) (booking_of rd_tab 8 500 w')"
proof -
  have "in_int32 8" by simp
  moreover have "session_ok rd_tab rd_fk 8 500 (room_host, session_process)"
    by (rule session_okI [where tab = rd_tab and fk = rd_fk, OF room_host_ready(1,2) session_process_ready(2)]) simp
  moreover obtain w' where "path (session_step small_ftok ref_engine idle_threads 8 500) [Asked (1, 2) True] (room_host, session_process) w'"
    using session_example by (blast intro: path_one dest: careful_step_def [THEN iffD1])
  ultimately show ?thesis using session_refines_booking [OF ref.reliable_engine_axioms] by blast
qed

text \<open>C6. The library and the database agree: a client who starts with nothing, and is in no room but the one he asks in
  whenever he gets a seat (\<open>careful_step\<close>), remembers at every moment of his session, each once, exactly the seats that
  the database says are his, whatever else he does and whatever the other clients do in between.  Without that
  condition it is not so: see \<open>wrong_seat_reserved\<close>.  (The engine is reliable and foreign keys are not checked.)\<close>

theorem library_knows_his_seats:
  assumes "reliable_engine E tab fk" and "in_int32 u" and "db_ok (tab (db s))" and "\<not> fk (db s)"
    and "remembers k u [] p" and "\<forall>q f. seat_map (tab (db s)) q \<noteq> Some (u, f)"
    and "path (careful_step tab ftok E T u k) es (s, p) (s', p')"
  shows "\<exists>rvs. remembers k u rvs p' \<and> distinct (map seat_place rvs)
     \<and> set (map seat_place rvs) = {q. \<exists>f. seat_map (tab (db s')) q = Some (u, f)}"
proof -
  have ok: "session_ok tab fk u k (s, p)" by (rule session_okI [where tab = tab and fk = fk, OF assms(3-5)]) simp
  have "exactly_his u (booking_of tab u k (s, p))"
    using assms(5,6) by (simp add: booking_of_remembers exactly_his_def)
  with ok have run: "session_ok tab fk u k (s', p')" "exactly_his u (booking_of tab u k (s', p'))"
    using careful_run_exact [OF assms(1,2,7)] by blast+
  from run(1) obtain rvs where rvs: "remembers k u rvs p'" by (rule session_okE)
  with run(2) show ?thesis by (auto simp: booking_of_remembers [OF rvs] exactly_his_def)
qed

theorem library_knows_his_seats_witness:
  "\<exists>es s' p' rvs. path (careful_step rd_tab small_ftok ref_engine idle_threads 8 500) es (room_host, session_process) (s', p')
     \<and> remembers 500 8 rvs p' \<and> (1, 2) \<in> set (map seat_place rvs)"
proof -
  obtain s' p' where r: "path (careful_step rd_tab small_ftok ref_engine idle_threads 8 500) [Asked (1, 2) True]
      (room_host, session_process) (s', p')" "seat_map (rd_tab (db s')) (1, 2) = Some (8, 0)"
    using session_example by (blast intro: path_one)
  have "in_int32 8" by simp
  from library_knows_his_seats [OF ref.reliable_engine_axioms this room_host_ready(1,2) session_process_ready(2) room_host_ready(4) r(1)]
    r show ?thesis by blast
qed

text \<open>C7. A payment pays everything, for good: when such a client pays, at any moment of his session, he is told that it
  succeeded, every seat he holds is then paid, and through whatever follows the reservations he paid are his and paid.
  (He started with nothing, and until then he was in no room but the one he asked in whenever he got a seat; what follows
  may be any session.  The engine is reliable and foreign keys are not checked.)\<close>

theorem payment_is_complete:
  assumes "reliable_engine E tab fk" and "in_int32 u" and "db_ok (tab (db s))" and "\<not> fk (db s)"
    and "remembers k u [] p" and "\<forall>q f. seat_map (tab (db s)) q \<noteq> Some (u, f)"
    and "path (careful_step tab ftok E T u k) es (s, p) (s1, p1)"
    and "CLIENTS p1 k = Some c" and "exchange ftok E u (pay_request c) s1 r s2" and "told env k pay_request r p1"
    and "pay_seats T env k p1 = (Ret ok, p2)"
    and "path (session_step ftok E T u k) es' (s2, p2) (s3, p3)"
  shows "ok \<and> (\<forall>q f. seat_map (tab (db s2)) q = Some (u, f) \<longrightarrow> f = 1)
     \<and> (\<forall>rv \<in> set (reservations c). seat_map (tab (db s3)) (seat_place rv) = Some (u, 1))"
proof -
  have start: "session_ok tab fk u k (s, p)" by (rule session_okI [where tab = tab and fk = fk, OF assms(3-5)]) simp
  have "exactly_his u (booking_of tab u k (s, p))"
    using assms(5,6) by (simp add: booking_of_remembers exactly_his_def)
  with start have run1: "session_ok tab fk u k (s1, p1)" "exactly_his u (booking_of tab u k (s1, p1))"
    using careful_run_exact [OF assms(1,2,7)] by blast+
  from run1(1) obtain rvs where h: "db_ok (tab (db s1))" "\<not> fk (db s1)" "remembers k u rvs p1" "list_all wf_reservation rvs"
    by (rule session_okE)
  have his: "seat_place ` set rvs = {q. \<exists>f. seat_map (tab (db s1)) q = Some (u, f)}"
    using run1(2) by (simp add: booking_of_remembers [OF h(3)] exactly_his_def)
  have c: "cinema_id c = u" "reservations c = rvs" using h(3) assms(8) by (auto simp: remembers_def)
  have "length rvs \<le> MAX_LENGTH_STRING" using pay_fits [OF assms(8,10,11)] c by simp
  note x = exchange_pay [OF assms(1) h(1) assms(2), of c, unfolded c, OF assms(2) h(4) this assms(9)]
  have told: "ok" by (rule pay_told(1) [OF h(3) assms(10) x(1,2) assms(11)])
  have paid: "seat_map (tab (db s2)) q = (case seat_map (tab (db s1)) q of
      Some (v, f) \<Rightarrow> if v = u \<and> q \<in> seat_place ` set rvs then Some (v, 1) else Some (v, f) | None \<Rightarrow> None)" for q
    unfolding x(3) mark_all_paid seat_place_image by (rule refl)
  have all: "f = 1" if "seat_map (tab (db s2)) q = Some (u, f)" for q f
    using that his by (auto simp: paid split: option.splits if_splits)
  have "seat_map (tab (db s2)) (seat_place rv) = Some (u, 1)" if "rv \<in> set rvs" for rv
    using that his by (force simp: paid)
  moreover have "session_ok tab fk u k (s2, p2)"
    using session_step_refines [OF assms(1,2) pays [OF assms(8-11)]] run1(1) by blast
  ultimately have "seat_map (tab (db s3)) (seat_place rv) = Some (u, 1)" if "rv \<in> set rvs" for rv
    using that session_ok_run [OF assms(1,2,12)] booking_run_paid [of u es' "booking_of tab u k (s2, p2)" "booking_of tab u k (s3, p3)" "seat_place rv"]
    by (simp add: booking_of_def)
  with told all c(2) show ?thesis by blast
qed

theorem payment_is_complete_witness:
  "\<exists>es s1 p1 r s2 p2 c. path (careful_step rd_tab small_ftok ref_engine idle_threads 8 500) es (room_host, session_process) (s1, p1)
     \<and> seat_map (rd_tab (db s1)) (1, 2) = Some (8, 0) \<and> CLIENTS p1 500 = Some c
     \<and> exchange small_ftok ref_engine 8 (pay_request c) s1 r s2 \<and> pay_seats idle_threads (answers r) 500 p1 = (Ret True, p2)
     \<and> (\<forall>q f. seat_map (rd_tab (db s2)) q = Some (8, f) \<longrightarrow> f = 1)"
proof -
  have u: "in_int32 8" by simp
  obtain s1 p1 where r1: "path (careful_step rd_tab small_ftok ref_engine idle_threads 8 500) [Asked (1, 2) True]
      (room_host, session_process) (s1, p1)"
    "client_ready p1" "seat_map (rd_tab (db s1)) (1, 2) = Some (8, 0)"
    and h: "remembers 500 8 [\<lparr>res_room = 1, res_seat_num = 2\<rparr>] p1"
    using session_example by (blast intro: path_one)
  have start: "session_ok rd_tab rd_fk 8 500 (room_host, session_process)"
    by (rule session_okI [where tab = rd_tab and fk = rd_fk, OF room_host_ready(1,2) session_process_ready(2)]) simp
  then have "session_ok rd_tab rd_fk 8 500 (s1, p1)"
    using session_ok_run [OF ref.reliable_engine_axioms u path_mono [OF r1(1)]] careful_step_def by blast
  then have ok: "db_ok (rd_tab (db s1))" by (simp add: session_ok_def)
  obtain c where c: "CLIENTS p1 500 = Some c" "cinema_id c = 8" "reservations c = [\<lparr>res_room = 1, res_seat_num = 2\<rparr>]" "connected c"
    using h r1(2) by (auto simp: remembers_def client_ready_def)
  have rv: "list_all wf_reservation [\<lparr>res_room = 1, res_seat_num = 2\<rparr>]" "length [\<lparr>res_room = 1, res_seat_num = 2\<rparr>] \<le> MAX_LENGTH_STRING"
    by (simp_all add: wf_reservation_def)
  obtain r s2 where x: "exchange small_ftok ref_engine 8 (pay_request c) s1 r s2"
    using pay_exchange_exists [of c 8 small_ftok ref_engine s1] rv c(2,3) by auto
  note y = exchange_pay [OF ref.reliable_engine_axioms ok u, of c, unfolded c, OF u rv x]
  obtain p2 where pay: "pay_seats idle_threads (answers r) 500 p1 = (Ret True, p2)"
    using ready_pay [OF r1(2) c(1) _ y(1,2)] rv(2) c(3) by auto
  from payment_is_complete [OF ref.reliable_engine_axioms u room_host_ready(1,2) session_process_ready(2) room_host_ready(4)
      r1(1) c(1) x ready_told [OF r1(2)] pay path_Nil]
    r1(1,3) c(1) x pay show ?thesis by blast
qed

text \<open>C9. The wrong seat: a client whom the administrator takes to be in another room than the one he is looking at (he has
  looked at both, and the database names the other one first) is told that he has the seat he asked for, and that he
  has paid it; but the seat that is his is the one of that number in the other room, unpaid, and the one he paid is free.\<close>

theorem wrong_seat_reserved:
  assumes "reliable_engine E tab fk" and "in_int32 u" and "db_ok (tab (db s))" and "\<not> fk (db s)" and "remembers k u [] p"
    and "taken_to_be_in E u (db s) room" and "room \<noteq> seat_room aSeat"
    and "open_seat (seat_map (tab (db s))) room (seat_no aSeat)"
    and "seat_map (tab (db s)) (seat_room aSeat, seat_no aSeat) = None"
    and "in_int32 (seat_no aSeat)" and "in_int32 (seat_room aSeat)"
    and "exchange ftok E u (select_request aSeat) s r1 s1" and "told env1 k (\<lambda>_. select_request aSeat) r1 p"
    and "reserve_seat T env1 k aSeat p = (Ret reserved, p1)"
    and "CLIENTS p1 k = Some c" and "exchange ftok E u (pay_request c) s1 r2 s2" and "told env2 k pay_request r2 p1"
    and "pay_seats T env2 k p1 = (Ret paid, p2)"
  shows "reserved \<and> paid
     \<and> reservations c = [\<lparr>res_room = seat_room aSeat, res_seat_num = seat_no aSeat\<rparr>]
     \<and> seat_map (tab (db s2)) (room, seat_no aSeat) = Some (u, 0)
     \<and> seat_map (tab (db s2)) (seat_room aSeat, seat_no aSeat) = None"
proof -
  let ?rv = "\<lparr>res_room = seat_room aSeat, res_seat_num = seat_no aSeat\<rparr>"
  note sqlite = reliable_engine.axioms(1) [OF assms(1)]
  note x = exchange_select [OF assms(1,3,4,6,2,10,12)]
  have ok: "reserved" and rem: "remembers k u [?rv] p1"
    using reserve_told [OF assms(5,13) x(1) assms(14)] x(2) assms(8) by simp_all
  have c: "cinema_id c = u" "reservations c = [?rv]" using rem assms(15) by (auto simp: remembers_def)
  have rv: "list_all wf_reservation [?rv]" "length [?rv] \<le> MAX_LENGTH_STRING"
    using assms(10,11) by (simp_all add: wf_reservation_def)
  have ok1: "db_ok (tab (db s1))" using exchange_invariants [OF sqlite assms(3,12)] by simp
  note y = exchange_pay [OF assms(1) ok1 assms(2), of c, unfolded c, OF assms(2) rv assms(16)]
  have "paid" by (rule pay_told(1) [OF rem assms(17) y(1,2) assms(18)])
  moreover have "seat_map (tab (db s2)) (room, seat_no aSeat) = Some (u, 0)"
    "seat_map (tab (db s2)) (seat_room aSeat, seat_no aSeat) = None"
    using assms(7-9) by (simp_all add: y(3) mark_all_paid x(3))
  ultimately show ?thesis using ok c(2) by blast
qed

text \<open>Client 8 after he has looked at the seats of room 1 and then at those of room 2.\<close>

definition two_rooms_db :: ref_db where
  "two_rooms_db = snd (db_insert_user_in_room ref_engine 8 2 room_db)"

lemma two_rooms_facts:
  "db_ok (rd_tab two_rooms_db)" "\<not> rd_fk two_rooms_db" "seat_map (rd_tab two_rooms_db) = [(1, 1) \<mapsto> (7, 0)]"
  "taken_to_be_in ref_engine 8 two_rooms_db 1" "users_in 1 (rd_tab two_rooms_db) = [Some 8]"
proof -
  have p: "two_rooms_db = db_perform ref_engine (Call_insert_user_in_room 8 2) room_db" by (simp add: two_rooms_db_def)
  show "db_ok (rd_tab two_rooms_db)" unfolding p using ref.perform_contract [OF room_db_facts(1)] by blast
  show "\<not> rd_fk two_rooms_db" unfolding p by (simp add: ref.fk_perform room_db_facts(2) del: db_perform.simps)
  have "map seat_entry (rd_tab two_rooms_db Reservations) = [((1, 1), (7, 0))]" by code_simp
  then show "seat_map (rd_tab two_rooms_db) = [(1, 1) \<mapsto> (7, 0)]" by (simp add: seat_map_def)
  have "sql_answer (rd_tab two_rooms_db) (SelectFrom Col_room_id Clients_rooms [(Col_user_id, 8)]) = [1, 2]" by code_simp
  then have "query_rows ref_engine (SelectFrom Col_room_id Clients_rooms [(Col_user_id, 8)]) two_rooms_db = ([1, 2], two_rooms_db)"
    by (simp add: query_rows_def execute_query_def ref_engine_def callback_foldl int32_id)
  then show "taken_to_be_in ref_engine 8 two_rooms_db 1"
    by (simp add: taken_to_be_in_def db_select_user_current_room_def)
  show "users_in 1 (rd_tab two_rooms_db) = [Some 8]" by code_simp
qed

theorem wrong_seat_reserved_witness:
  "\<exists>r1 s1 p1 c r2 s2 p2. exchange small_ftok ref_engine 8 (select_request \<lparr>seat_no = 2, seat_room = 2, seat_status = 0\<rparr>)
       (room_host\<lparr>db := two_rooms_db\<rparr>) r1 s1
     \<and> reserve_seat idle_threads (answers r1) 500 \<lparr>seat_no = 2, seat_room = 2, seat_status = 0\<rparr> session_process = (Ret True, p1)
     \<and> CLIENTS p1 500 = Some c \<and> exchange small_ftok ref_engine 8 (pay_request c) s1 r2 s2
     \<and> pay_seats idle_threads (answers r2) 500 p1 = (Ret True, p2)
     \<and> seat_map (rd_tab (db s2)) (1, 2) = Some (8, 0) \<and> seat_map (rd_tab (db s2)) (2, 2) = None"
proof -
  let ?seat = "\<lparr>seat_no = 2, seat_room = 2, seat_status = 0\<rparr> :: Seat" and ?s = "room_host\<lparr>db := two_rooms_db\<rparr>"
  let ?rvs = "[\<lparr>res_room = seat_room ?seat, res_seat_num = seat_no ?seat\<rparr>] :: Reservation list"
  have u: "in_int32 8" "in_int32 (seat_no ?seat)" "in_int32 (seat_room ?seat)" by simp_all
  have d: "db_ok (rd_tab (db ?s))" "\<not> rd_fk (db ?s)" "taken_to_be_in ref_engine 8 (db ?s) 1"
    "set (users_in 1 (rd_tab (db ?s))) \<subseteq> {Some 8}" "1 \<noteq> seat_room ?seat"
    "open_seat (seat_map (rd_tab (db ?s))) 1 (seat_no ?seat)" "seat_map (rd_tab (db ?s)) (seat_room ?seat, seat_no ?seat) = None"
    by (simp_all add: two_rooms_facts open_seat_def)
  obtain r1 s1 where x1: "exchange small_ftok ref_engine 8 (select_request ?seat) ?s r1 s1"
    using select_exchange_exists [OF ref.reliable_engine_axioms d(1-4) u(1,2)] by blast
  note y1 = exchange_select [OF ref.reliable_engine_axioms d(1-3) u(1,2) x1]
  obtain ok p1 where p1: "reserve_seat idle_threads (answers r1) 500 ?seat session_process = (Ret ok, p1)" "client_ready p1"
    using ready_reserve [OF session_process_ready(1) y1(1)] by blast
  have rem: "ok" "remembers 500 8 ?rvs p1"
    using reserve_told [OF session_process_ready(2) ready_told [OF session_process_ready(1)] y1(1) p1(1)] y1(2) d(6) by simp_all
  obtain c where c: "CLIENTS p1 500 = Some c" "cinema_id c = 8" "reservations c = ?rvs" "connected c"
    using rem(2) p1(2) by (auto simp: remembers_def client_ready_def)
  have rv: "list_all wf_reservation ?rvs" "length ?rvs \<le> MAX_LENGTH_STRING" by (simp_all add: wf_reservation_def)
  obtain r2 s2 where x2: "exchange small_ftok ref_engine 8 (pay_request c) s1 r2 s2"
    using pay_exchange_exists [of c 8 small_ftok ref_engine s1] rv c(2,3) by auto
  have "db_ok (rd_tab (db s1))" using exchange_invariants [OF ref.sqlite_engine_axioms d(1) x1] by simp
  note y2 = exchange_pay [OF ref.reliable_engine_axioms this u(1), of c, unfolded c, OF u(1) rv x2]
  obtain p2 where pay: "pay_seats idle_threads (answers r2) 500 p1 = (Ret True, p2)"
    using ready_pay [OF p1(2) c(1) _ y2(1,2)] rv(2) c(3) by auto
  have "seat_map (rd_tab (db s2)) (1, 2) = Some (8, 0)" "seat_map (rd_tab (db s2)) (2, 2) = None"
    using wrong_seat_reserved [OF ref.reliable_engine_axioms u(1) d(1,2) session_process_ready(2) d(3,5,6,7) u(2,3) x1
      ready_told [OF session_process_ready(1)] p1(1) c(1) x2 ready_told [OF p1(2)] pay] by simp_all
  moreover have "reserve_seat idle_threads (answers r1) 500 ?seat session_process = (Ret True, p1)"
    using p1(1) rem(1) by simp
  ultimately show ?thesis using x1 c(1) x2 pay by blast
qed

end
