(* ===== verification/Views.thy ===== *)
theory Views
  imports Sessions
begin

text \<open>
  What a client is shown: the rooms and the seats his library returns (\<open>get_rooms\<close> and
  \<open>get_seats\<close> of src/middleware/client_interface.cpp), against the database they come from.
\<close>

section \<open>The library asks\<close>

text \<open>The library ends its polling thread before it sends the request and takes the answer \<open>r\<close>.\<close>

definition asked :: "threads \<Rightarrow> client_env \<Rightarrow> int \<Rightarrow> q_message \<Rightarrow> q_message \<Rightarrow> client_process \<Rightarrow> bool" where
  "asked T env k m r p \<longleftrightarrow> quiet_env env \<and> (\<exists>c p0 p1 p2. CLIENTS p k = Some c \<and> connected c
     \<and> end_listener_thread T (Some k) (set_client k (no_error c) p) = (Ret (), p0)
     \<and> send_message (mom_queue c) m p0 = (Ret (), p1) \<and> receive_message env (mom_queue c) p1 = (Ret r, p2))"

lemma asked_client:
  assumes "asked T env k m r p"
  obtains c c0 p0 p1 p2 where "CLIENTS p k = Some c" "connected c" "mom_queue c0 = mom_queue c"
    "end_listener_thread T (Some k) (set_client k (no_error c) p) = (Ret (), p0)" "CLIENTS p0 k = Some c0"
    "send_message (mom_queue c) m p0 = (Ret (), p1)" "receive_message env (mom_queue c) p1 = (Ret r, p2)"
    "CLIENTS p2 k = Some c0"
proof -
  obtain c p0 p1 p2 where x: "quiet_env env" "CLIENTS p k = Some c" "connected c"
    "end_listener_thread T (Some k) (set_client k (no_error c) p) = (Ret (), p0)"
    "send_message (mom_queue c) m p0 = (Ret (), p1)" "receive_message env (mom_queue c) p1 = (Ret r, p2)"
    using assms by (auto simp: asked_def)
  obtain d where d: "p0 = set_client k ((no_error c)\<lparr>listener_extern_data := d\<rparr>) p"
    using end_listener_run [of "set_client k (no_error c) p" k "no_error c" T] x(4) by auto
  have "CLIENTS p1 = CLIENTS p0" using send_CLIENTS [of "mom_queue c" m p0] x(5) by simp
  moreover have "CLIENTS p2 = CLIENTS p1" using receive_CLIENTS [OF x(1), of "mom_queue c" p1] x(6) by simp
  ultimately show ?thesis using that [of c "(no_error c)\<lparr>listener_extern_data := d\<rparr>" p0 p1 p2] x(2-6) d by simp
qed

lemma rooms_asked:
  assumes "asked T env k rooms_request r p" and "message_choice_number r = CHOICE_ROOMS_RESPONSE"
    and "get_rooms T env k p = (Ret rooms, p')"
  shows "rooms_of_message (as_m2 (msg_choice r)) = Some rooms"
proof -
  obtain c c0 p0 p1 p2 where x: "CLIENTS p k = Some c" "connected c" "mom_queue c0 = mom_queue c"
    "end_listener_thread T (Some k) (set_client k (no_error c) p) = (Ret (), p0)" "CLIENTS p0 k = Some c0"
    "send_message (mom_queue c) rooms_request p0 = (Ret (), p1)" "receive_message env (mom_queue c) p1 = (Ret r, p2)"
    using asked_client [OF assms(1)] by metis
  have "get_rooms T env k p = defined (rooms_of_message (as_m2 (msg_choice r))) p2"
    using x assms(2) by (simp add: get_rooms_def client_run rooms_request_def)
  with assms(3) show ?thesis by (cases "rooms_of_message (as_m2 (msg_choice r))") simp_all
qed

lemma seats_asked:
  assumes "asked T env k (seats_request_of aRoom) r p" and "message_choice_number r = CHOICE_SEATS_RESPONSE"
    and "m4_success (as_m4 (msg_choice r)) \<noteq> NOT_SUCCESS" and "get_seats T env k aRoom data p = (Ret seats, p')"
  shows "seat_to_vector (as_m4 (msg_choice r)) = Some seats"
proof -
  obtain c c0 p0 p1 p2 where x: "CLIENTS p k = Some c" "connected c" "mom_queue c0 = mom_queue c"
    "end_listener_thread T (Some k) (set_client k (no_error c) p) = (Ret (), p0)" "CLIENTS p0 k = Some c0"
    "send_message (mom_queue c) (seats_request_of aRoom) p0 = (Ret (), p1)" "receive_message env (mom_queue c) p1 = (Ret r, p2)"
    using asked_client [OF assms(1)] by metis
  have "get_seats T env k aRoom data p = andThen (if data \<noteq> None
      then andThen (assign (Some k) (\<lambda>c. c\<lparr>listener_extern_data := data\<rparr>)) (\<lambda>_. start_listener_thread T (Some k))
      else ret ()) (\<lambda>_. defined (seat_to_vector (as_m4 (msg_choice r)))) p2"
    using x assms(2,3) by (simp add: get_seats_def client_run seats_request_of_def Let_def)
  with assms(4) show ?thesis
    by (cases "seat_to_vector (as_m4 (msg_choice r))") (auto simp: andThen_Ret_iff)
qed

section \<open>The answers\<close>

lemma rooms_answered:
  assumes "db_select_room E (db s) = (xs, d1)" and "length xs \<le> MAX_ROOMS"
  shows "\<exists>response ids. admin_rooms E request s = (Ret (Some response), s\<lparr>db := d1\<rparr>)
     \<and> message_choice_number response = CHOICE_ROOMS_RESPONSE \<and> payload response = P_rooms xs"
proof -
  obtain ids where ids: "std_copy xs (m2_ids zero_m2) = Some ids"
    using assms(2) by (simp add: std_copy_def zero_m2_def)
  have "int32 (int (length xs)) = int (length xs)" "take (length xs) ids = xs"
    using assms(2) std_copy_take [OF ids] by (simp_all add: int32_id)
  then show ?thesis
    using assms(1) ids by (simp add: admin_rooms_def db_op_run payload_def)
qed

lemma seats_of_payload:
  assumes "payload r = P_seats success ids sts info" and "message_choice_number r = CHOICE_SEATS_RESPONSE"
    and "wf_choice (msg_choice r)" and "counts_bounded r" and "length sts = length ids"
  shows "seat_to_vector (as_m4 (msg_choice r)) = Some (map (\<lambda>(i, st). zero_Seat\<lparr>seat_no := i, seat_status := st\<rparr>) (zip ids sts))"
    and "m4_success (as_m4 (msg_choice r)) = success"
proof -
  let ?x = "as_m4 (msg_choice r)"
  have le: "m4_count ?x \<le> 50" using assms(2,4) by (simp add: counts_bounded_def Let_def)
  have p: "take (nat (m4_count ?x)) (m4_seats_id ?x) = ids" "take (nat (m4_count ?x)) (m4_seats_status ?x) = sts"
    "m4_success ?x = success"
    using assms(1,2) by (simp_all add: payload_def Let_def)
  then show "m4_success ?x = success" by simp
  have "take (nat (m4_count ?x)) (zip (m4_seats_id ?x) (m4_seats_status ?x)) = zip ids sts"
    using p by (simp add: take_zip)
  then show "seat_to_vector ?x = Some (map (\<lambda>(i, st). zero_Seat\<lparr>seat_no := i, seat_status := st\<rparr>) (zip ids sts))"
    using le as_member_lengths(3,4) [OF assms(3)] by (simp add: seat_to_vector_def)
qed


section \<open>What he sees is what there is\<close>

lemma request_arrives:
  assumes "wf_message m" and "counts_ok m" and "net_buffers buf rec_msg" and "in_int32 t"
    and "over_network buf rec_msg (stamp t m) = Some r"
  shows "message_choice_number r = message_choice_number m" and "payload r = on_wire (payload m)"
    and "wf_choice (msg_choice r)" and "counts_bounded r"
  using over_network_run [OF wf_stamp [OF assms(1,4)] _ assms(3)] assms(2,5) deserialize_fits assms(3)
  by (auto simp: over_network_def net_buffers_def split: option.splits)

lemma exchange_messages:
  assumes "exchange ftok E u m s r s'" and "wf_message m" and "counts_ok m" and "in_int32 u"
  obtains request response where
    "message_choice_number request = message_choice_number m" "payload request = on_wire (payload m)"
    "admin_answer ftok E (stamp ADMIN_REQUEST (request\<lparr>client_id := u\<rparr>)) s = (Ret (Some response), s')"
    "wf_message response" "message_choice_number r = message_choice_number response" "payload r = on_wire (payload response)"
    "wf_choice (msg_choice r)" "counts_bounded r"
proof -
  obtain buf1 rec1 t1 request response buf2 rec2 t2 where
    there: "net_buffers buf1 rec1" "in_int32 t1" "over_network buf1 rec1 (stamp t1 m) = Some request"
    and run: "admin_answer ftok E (stamp ADMIN_REQUEST (request\<lparr>client_id := u\<rparr>)) s = (Ret (Some response), s')"
    and home: "net_buffers buf2 rec2" "in_int32 t2" "over_network buf2 rec2 (stamp t2 (stamp u response)) = Some r"
    using assms(1) by (rule exchangeE)
  have wf: "wf_message response" "counts_ok response" using answer_transferable [OF _ run] assms(4) by simp_all
  have "wf_message (stamp u response)" "counts_ok (stamp u response)" using wf_stamp [OF wf(1) assms(4)] wf(2) by simp_all
  from request_arrives [OF this home] request_arrives [OF assms(2,3) there] show ?thesis
    using that run wf(1) by simp
qed

text \<open>The example client asks.\<close>

lemma ready_asks:
  assumes "client_ready p"
  obtains c q where "CLIENTS p 500 = Some c" "connected c"
    "end_listener_thread idle_threads (Some 500) (set_client 500 (no_error c) p) = (Ret (), set_client 500 (no_error c) p)"
    "send_message (mom_queue c) m (set_client 500 (no_error c) p) = (Ret (), set_queue 2 q (set_client 500 (no_error c) p))"
    "receive_message (answers r) (mom_queue c) (set_queue 2 q (set_client 500 (no_error c) p))
      = (Ret r, set_queue 1 [] (set_queue 2 q (set_client 500 (no_error c) p)))"
proof -
  obtain c where c: "CLIENTS p 500 = Some c" "connected c" using assms by (auto simp: client_ready_def)
  have "end_listener_thread idle_threads (Some 500) (set_client 500 (no_error c) p) = (Ret (), set_client 500 (no_error c) p)"
    by (simp add: end_listener_thread_def client_run idle_threads_def)
  with ready_exchange [OF assms c(1), of m r] c that show ?thesis by blast
qed

lemma ready_asked: "client_ready p \<Longrightarrow> asked idle_threads (answers r) 500 m r p"
  by (rule ready_asks [of p m r]) (auto simp: asked_def quiet_answers)

lemma ready_get_rooms:
  assumes "client_ready p" and "message_choice_number r = CHOICE_ROOMS_RESPONSE" and "wf_choice (msg_choice r)" and "counts_bounded r"
  shows "\<exists>rooms p'. get_rooms idle_threads (answers r) 500 p = (Ret rooms, p')"
proof -
  obtain c q where x: "CLIENTS p 500 = Some c" "connected c"
    "end_listener_thread idle_threads (Some 500) (set_client 500 (no_error c) p) = (Ret (), set_client 500 (no_error c) p)"
    "send_message (mom_queue c) rooms_request (set_client 500 (no_error c) p) = (Ret (), set_queue 2 q (set_client 500 (no_error c) p))"
    "receive_message (answers r) (mom_queue c) (set_queue 2 q (set_client 500 (no_error c) p))
      = (Ret r, set_queue 1 [] (set_queue 2 q (set_client 500 (no_error c) p)))"
    using ready_asks [OF assms(1), of rooms_request r] by metis
  have "m2_count (as_m2 (msg_choice r)) \<le> 20" using assms(2,4) by (simp add: counts_bounded_def Let_def)
  then obtain rooms where "rooms_of_message (as_m2 (msg_choice r)) = Some rooms"
    using as_member_lengths(1) [OF assms(3)] by (simp add: rooms_of_message_def)
  with x assms(2) show ?thesis by (simp add: get_rooms_def client_run rooms_request_def)
qed

lemma ready_get_seats:
  assumes "client_ready p" and "message_choice_number r = CHOICE_SEATS_RESPONSE" and "m4_success (as_m4 (msg_choice r)) \<noteq> NOT_SUCCESS"
    and "wf_choice (msg_choice r)" and "counts_bounded r"
  shows "\<exists>seats p'. get_seats idle_threads (answers r) 500 aRoom None p = (Ret seats, p')"
proof -
  obtain c q where x: "CLIENTS p 500 = Some c" "connected c"
    "end_listener_thread idle_threads (Some 500) (set_client 500 (no_error c) p) = (Ret (), set_client 500 (no_error c) p)"
    "send_message (mom_queue c) (seats_request_of aRoom) (set_client 500 (no_error c) p) = (Ret (), set_queue 2 q (set_client 500 (no_error c) p))"
    "receive_message (answers r) (mom_queue c) (set_queue 2 q (set_client 500 (no_error c) p))
      = (Ret r, set_queue 1 [] (set_queue 2 q (set_client 500 (no_error c) p)))"
    using ready_asks [OF assms(1), of "seats_request_of aRoom" r] by metis
  have "m4_count (as_m4 (msg_choice r)) \<le> 50" using assms(2,5) by (simp add: counts_bounded_def Let_def)
  then obtain seats where "seat_to_vector (as_m4 (msg_choice r)) = Some seats"
    using as_member_lengths(3,4) [OF assms(4)] by (simp add: seat_to_vector_def)
  with x assms(2,3) show ?thesis by (simp add: get_seats_def client_run seats_request_of_def Let_def)
qed

text \<open>The rooms a client is shown are the rooms of the cinema: when there are at most \<open>MAX_ROOMS\<close> of them, what
  \<open>get_rooms\<close> returns on the administrator's answer to its request lists the identifier of every room of the
  database exactly once, and asking changes nobody's reservation.\<close>

theorem rooms_shown:
  assumes "reliable_engine E tab fk" and "db_ok (tab (db s))" and "in_int32 u"
    and "length (tab (db s) Rooms) \<le> MAX_ROOMS"
    and "exchange ftok E u rooms_request s r s'" and "asked T env k rooms_request r p"
    and "get_rooms T env k p = (Ret rooms, p')"
  shows "mset (map room_no rooms) = mset (map (\<lambda>row. int32 (the (row Col_id))) (tab (db s) Rooms))
     \<and> seat_map (tab (db s')) = seat_map (tab (db s))"
proof -
  obtain xs d1 where d1: "db_select_room E (db s) = (xs, d1)" by (metis prod.exhaust)
  then have q: "query_rows E (SelectFrom Col_id Rooms []) (db s) = (xs, d1)" by (simp add: db_select_room_def)
  have xs: "mset xs = mset (map (\<lambda>row. int32 (the (row Col_id))) (tab (db s) Rooms))"
    using reliable_engine.select_reliable(1) [OF assms(1) q] by (simp add: matches_def comp_def)
  have len: "length xs \<le> MAX_ROOMS" using arg_cong [OF xs, of size] assms(4) by simp
  have m: "wf_message rooms_request" "counts_ok rooms_request"
    "message_choice_number rooms_request = CHOICE_ROOMS_REQUEST"
    by (simp_all add: rooms_request_def wf_message_def counts_ok_def zero_message_def)
  obtain request response where
    x: "message_choice_number request = CHOICE_ROOMS_REQUEST" 
    "admin_answer ftok E (stamp ADMIN_REQUEST (request\<lparr>client_id := u\<rparr>)) s = (Ret (Some response), s')"
    "message_choice_number r = message_choice_number response" "payload r = on_wire (payload response)"
    "wf_choice (msg_choice r)" "counts_bounded r"
    using exchange_messages [OF assms(5) m(1,2) assms(3)] m(3) by metis
  have "message_choice_number response = CHOICE_ROOMS_RESPONSE" "payload response = P_rooms xs"
    using rooms_answered [OF d1 len, of "stamp ADMIN_REQUEST (request\<lparr>client_id := u\<rparr>)"] x(1,2)
    by (auto simp: admin_answer_def)
  then have r: "message_choice_number r = CHOICE_ROOMS_RESPONSE" "payload r = P_rooms xs" using x(3,4) by simp_all
  have "rooms_of_message (as_m2 (msg_choice r)) = Some rooms"
    by (rule rooms_asked [OF assms(6) r(1) assms(7)])
  then have "map room_no rooms = xs"
    using r by (auto simp: rooms_of_message_def payload_def Let_def comp_def split: if_splits)
  moreover have "seat_map (tab (db s')) = seat_map (tab (db s))"
    by (rule exchange_looks [OF reliable_engine.axioms(1) [OF assms(1)] assms(2) looks_requests(1) assms(5)])
  ultimately show ?thesis using xs by simp
qed

theorem rooms_shown_witness:
  "\<exists>r s' rooms p'. exchange small_ftok ref_engine 8 rooms_request room_host r s'
     \<and> get_rooms idle_threads (answers r) 500 session_process = (Ret rooms, p') \<and> mset (map room_no rooms) = {#1, 2#}"
proof -
  have u: "in_int32 8" by simp
  have tab: "map (\<lambda>row. the (row Col_id)) (rd_tab (db room_host) Rooms) = [1, 2]" by code_simp
  have rooms: "map (\<lambda>row. int32 (the (row Col_id))) (rd_tab (db room_host) Rooms) = [1, 2]"
  proof -
    have "map (\<lambda>row. int32 (the (row Col_id))) (rd_tab (db room_host) Rooms)
        = map int32 (map (\<lambda>row. the (row Col_id)) (rd_tab (db room_host) Rooms))"
      by (simp only: map_map comp_def)
    then show ?thesis unfolding tab by (simp add: int32_id)
  qed
  have len: "length (rd_tab (db room_host) Rooms) \<le> MAX_ROOMS" using arg_cong [OF tab, of length] by simp
  obtain xs d1 where d1: "db_select_room ref_engine (db room_host) = (xs, d1)" by (metis prod.exhaust)
  then have q: "query_rows ref_engine (SelectFrom Col_id Rooms []) (db room_host) = (xs, d1)" by (simp add: db_select_room_def)
  have xs: "length xs \<le> MAX_ROOMS" using ref.select_set(2) [OF q] len by (simp add: matches_def)
  have m: "wf_message rooms_request" "counts_ok rooms_request" "message_choice_number rooms_request = CHOICE_ROOMS_REQUEST"
    by (simp_all add: rooms_request_def wf_message_def counts_ok_def zero_message_def)
  have ans: "\<exists>response s'. admin_answer small_ftok ref_engine (stamp ADMIN_REQUEST (request\<lparr>client_id := 8\<rparr>)) room_host = (Ret (Some response), s')
      \<and> message_choice_number response = CHOICE_ROOMS_RESPONSE"
    if "message_choice_number request = CHOICE_ROOMS_REQUEST" for request :: q_message
    using rooms_answered [OF d1 xs, of "stamp ADMIN_REQUEST (request\<lparr>client_id := 8\<rparr>)"] that by (auto simp: admin_answer_def)
  obtain r s' where x: "exchange small_ftok ref_engine 8 rooms_request room_host r s'"
    using exchange_exists [OF m(1,2) u, of small_ftok ref_engine room_host] ans m(3) by metis
  obtain request response where y: "message_choice_number request = CHOICE_ROOMS_REQUEST"
    "admin_answer small_ftok ref_engine (stamp ADMIN_REQUEST (request\<lparr>client_id := 8\<rparr>)) room_host = (Ret (Some response), s')"
    "message_choice_number r = message_choice_number response" "wf_choice (msg_choice r)" "counts_bounded r"
    using exchange_messages [OF x m(1,2) u] m(3) by metis
  then have "message_choice_number r = CHOICE_ROOMS_RESPONSE" using ans [OF y(1)] by auto
  then obtain rooms p' where g: "get_rooms idle_threads (answers r) 500 session_process = (Ret rooms, p')"
    using ready_get_rooms [OF session_process_ready(1) _ y(4,5)] by blast
  from rooms_shown [OF ref.reliable_engine_axioms room_host_ready(1) u len x ready_asked [OF session_process_ready(1)] g] rooms
  have "mset (map room_no rooms) = mset [1, 2]" by simp
  then show ?thesis using x g by auto
qed

text \<open>The seats, in whatever order the engine gives them.\<close>

definition status_shown :: "seat_map \<Rightarrow> int \<Rightarrow> int \<Rightarrow> int" where
  "status_shown m room n = (if m (room, n) = None then SEAT_STATUS_FREE else SEAT_STATUS_OCCUPED)"

lemma seats_shown_run:
  assumes "reliable_engine E tab fk" and "db_ok (tab (db s))" and "in_int32 u" and "in_int32 (room_no aRoom)"
    and "fst (db_select_room_seats E (room_no aRoom) (db s)) = xs" and "0 < length xs" and "length xs \<le> MAX_SEATS"
    and "\<forall>n. seat_map (tab (db s)) (room_no aRoom, n) \<noteq> None \<longrightarrow> 1 \<le> n \<and> n \<le> int (length xs)"
    and "exchange ftok E u (seats_request_of aRoom) s r s'" and "asked T env k (seats_request_of aRoom) r p"
    and "get_seats T env k aRoom data p = (Ret seats, p')"
  shows "map seat_no seats = xs
    \<and> map seat_status seats = map (\<lambda>i. status_shown (seat_map (tab (db s))) (room_no aRoom) (int i + 1)) [0..<length xs]
    \<and> seat_map (tab (db s')) = seat_map (tab (db s))"
proof -
  have m: "wf_message (seats_request_of aRoom)" "counts_ok (seats_request_of aRoom)"
    "message_choice_number (seats_request_of aRoom) = CHOICE_SEATS_REQUEST" "payload (seats_request_of aRoom) = P_room (room_no aRoom)"
    using assms(4) by (simp_all add: seats_request_of_def wf_message_def counts_ok_def payload_def zero_message_def as_m3_def)
  obtain request response where
    x: "message_choice_number request = CHOICE_SEATS_REQUEST" "payload request = P_room (room_no aRoom)"
    "admin_answer ftok E (stamp ADMIN_REQUEST (request\<lparr>client_id := u\<rparr>)) s = (Ret (Some response), s')"
    "wf_message response" "message_choice_number r = message_choice_number response" "payload r = on_wire (payload response)"
    "wf_choice (msg_choice r)" "counts_bounded r"
    using exchange_messages [OF assms(9) m(1,2) assms(3)] m(3,4) by (metis on_wire.simps(6))
  let ?m = "stamp ADMIN_REQUEST (request\<lparr>client_id := u\<rparr>)"
  have room: "room_no aRoom = as_m3 (msg_choice ?m)" using x(1,2) by (simp add: payload_def Let_def)
  have run: "admin_seats E ?m s = (Ret (Some response), s')" using x(1,3) by (simp add: admin_answer_def)
  obtain m4 where m4: "message_choice_number response = CHOICE_SEATS_RESPONSE" "msg_choice response = M4 m4"
    "m4_count m4 = int (length xs)" "m4_success m4 = SUCCESS" "take (length xs) (m4_seats_id m4) = xs"
    "\<forall>i < length xs. m4_seats_status m4 ! i = status_shown (seat_map (tab (db s))) (room_no aRoom) (int i + 1)"
    using seats_request_run [OF assms(1,2) room assms(5-8)] run by (auto simp: status_shown_def)
  let ?sts = "take (length xs) (m4_seats_status m4)"
  have wf4: "length (m4_seats_status m4) = 50" using x(4) m4(2) by (simp add: wf_message_def wf_m4_def)
  have sts: "?sts = map (\<lambda>i. status_shown (seat_map (tab (db s))) (room_no aRoom) (int i + 1)) [0..<length xs]"
    using m4(6) wf4 assms(7) by (intro nth_equalityI) simp_all
  have r: "message_choice_number r = CHOICE_SEATS_RESPONSE" "payload r = P_seats 0 xs ?sts (m4_information m4)"
    using x(5,6) m4(1-5) by (simp_all add: payload_def)
  note vector = seats_of_payload [OF r(2,1) x(7,8)]
  have len: "length ?sts = length xs" using wf4 assms(7) by simp
  have "seat_to_vector (as_m4 (msg_choice r)) = Some seats"
    by (rule seats_asked [OF assms(10) r(1) _ assms(11)]) (simp add: vector(2) [OF len])
  with vector(1) [OF len] have "seats = map (\<lambda>(i, st). zero_Seat\<lparr>seat_no := i, seat_status := st\<rparr>) (zip xs ?sts)" by simp
  then have "map seat_no seats = map fst (zip xs ?sts)" "map seat_status seats = map snd (zip xs ?sts)"
    by (simp_all add: split_beta comp_def)
  moreover have "seat_map (tab (db s')) = seat_map (tab (db s))"
    by (rule exchange_looks [OF reliable_engine.axioms(1) [OF assms(1)] assms(2) looks_requests(2) [OF assms(4)] assms(9)])
  ultimately show ?thesis using len sts by simp
qed


text \<open>C8. The seats a client is shown are as they are: when the seats of a room are numbered from 1, as the initial data are,
  the engine gives them in this order and only they are reserved, \<open>get_seats\<close> returns every seat of the room, in this
  order, marked occupied exactly when the database says that somebody holds it.\<close>

theorem seats_shown:
  assumes "reliable_engine E tab fk" and "db_ok (tab (db s))" and "in_int32 u" and "in_int32 (room_no aRoom)"
    and "fst (db_select_room_seats E (room_no aRoom) (db s)) = map int [1..<Suc n]" and "0 < n" and "n \<le> MAX_SEATS"
    and "\<forall>i. seat_map (tab (db s)) (room_no aRoom, i) \<noteq> None \<longrightarrow> 1 \<le> i \<and> i \<le> int n"
    and "exchange ftok E u (seats_request_of aRoom) s r s'" and "asked T env k (seats_request_of aRoom) r p"
    and "get_seats T env k aRoom data p = (Ret seats, p')"
  shows "map (\<lambda>seat. (seat_no seat, seat_status seat)) seats
    = map (\<lambda>i. (i, status_shown (seat_map (tab (db s))) (room_no aRoom) i)) (map int [1..<Suc n])"
proof -
  have len: "length (map int [1..<Suc n]) = n" by simp
  note run = seats_shown_run [OF assms(1-5), unfolded len, OF assms(6-11)]
  have "map (\<lambda>seat. (seat_no seat, seat_status seat)) seats = zip (map seat_no seats) (map seat_status seats)"
    by (simp add: zip_map_map zip_same_conv_map)
  also have "\<dots> = zip (map int [1..<Suc n])
      (map (\<lambda>i. status_shown (seat_map (tab (db s))) (room_no aRoom) (int i + 1)) [0..<n])"
    using run by simp
  also have "\<dots> = map (\<lambda>i. (i, status_shown (seat_map (tab (db s))) (room_no aRoom) i)) (map int [1..<Suc n])"
    by (intro nth_equalityI) (simp_all add: add.commute del: upt_Suc)
  finally show ?thesis .
qed

theorem seats_shown_witness:
  "\<exists>r s' seats p'. exchange small_ftok ref_engine 8 (seats_request_of \<lparr>room_no = 1\<rparr>) room_host r s'
     \<and> get_seats idle_threads (answers r) 500 \<lparr>room_no = 1\<rparr> None session_process = (Ret seats, p')
     \<and> map (\<lambda>seat. (seat_no seat, seat_status seat)) seats = [(1, SEAT_STATUS_OCCUPED), (2, SEAT_STATUS_FREE)]"
proof -
  let ?room = "\<lparr>room_no = 1\<rparr> :: Room"
  have u: "in_int32 8" "in_int32 (room_no ?room)" by simp_all
  have "fst (db_select_room_seats ref_engine 1 room_db) = [1, 2]" by code_simp
  moreover have upt: "[1, 2] = map int [1..<Suc 2]" by code_simp
  ultimately have sel: "fst (db_select_room_seats ref_engine (room_no ?room) (db room_host)) = map int [1..<Suc 2]"
    by (simp add: room_host_def del: upt_Suc)
  have held: "seat_map (rd_tab (db room_host)) = [(1, 1) \<mapsto> (7, 0)]" by (simp add: room_host_def room_db_facts)
  then have bounds: "(0 :: nat) < 2" "(2 :: nat) \<le> MAX_SEATS"
    "\<forall>i. seat_map (rd_tab (db room_host)) (room_no ?room, i) \<noteq> None \<longrightarrow> 1 \<le> i \<and> i \<le> int 2"
    by auto
  have m: "wf_message (seats_request_of ?room)" "counts_ok (seats_request_of ?room)"
    "message_choice_number (seats_request_of ?room) = CHOICE_SEATS_REQUEST" "payload (seats_request_of ?room) = P_room 1"
    by (simp_all add: seats_request_of_def wf_message_def counts_ok_def payload_def zero_message_def as_m3_def)
  have ans: "\<exists>response s' m4. admin_answer small_ftok ref_engine (stamp ADMIN_REQUEST (request\<lparr>client_id := 8\<rparr>)) room_host = (Ret (Some response), s')
      \<and> message_choice_number response = CHOICE_SEATS_RESPONSE \<and> msg_choice response = M4 m4 \<and> m4_success m4 = SUCCESS"
    if "message_choice_number request = CHOICE_SEATS_REQUEST" "payload request = P_room 1" for request :: q_message
  proof -
    have "room_no ?room = as_m3 (msg_choice (stamp ADMIN_REQUEST (request\<lparr>client_id := 8\<rparr>)))"
      using that by (simp add: payload_def Let_def)
    from seats_request_run [OF ref.reliable_engine_axioms room_host_ready(1) this sel] bounds that show ?thesis
      by (fastforce simp: admin_answer_def)
  qed
  obtain r s' where x: "exchange small_ftok ref_engine 8 (seats_request_of ?room) room_host r s'"
    using exchange_exists [OF m(1,2) u(1), of small_ftok ref_engine room_host] ans m(3,4) by (metis on_wire.simps(6))
  obtain request response where y: "message_choice_number request = CHOICE_SEATS_REQUEST" "payload request = P_room 1"
    "admin_answer small_ftok ref_engine (stamp ADMIN_REQUEST (request\<lparr>client_id := 8\<rparr>)) room_host = (Ret (Some response), s')"
    "message_choice_number r = message_choice_number response" "payload r = on_wire (payload response)"
    "wf_choice (msg_choice r)" "counts_bounded r"
    using exchange_messages [OF x m(1,2) u(1)] m(3,4) by (metis on_wire.simps(6))
  then have r: "message_choice_number r = CHOICE_SEATS_RESPONSE" "m4_success (as_m4 (msg_choice r)) \<noteq> NOT_SUCCESS"
    using ans [OF y(1,2)] by (auto simp: payload_def Let_def)
  then obtain seats p' where g: "get_seats idle_threads (answers r) 500 ?room None session_process = (Ret seats, p')"
    using ready_get_seats [OF session_process_ready(1) _ _ y(6,7)] by blast
  from seats_shown [OF ref.reliable_engine_axioms room_host_ready(1) u sel bounds x ready_asked [OF session_process_ready(1)] g]
  have "map (\<lambda>seat. (seat_no seat, seat_status seat)) seats = [(1, SEAT_STATUS_OCCUPED), (2, SEAT_STATUS_FREE)]"
    unfolding upt [symmetric] by (simp add: status_shown_def held)
  with x g show ?thesis by (intro exI conjI)
qed

text \<open>Were they given in another order, which no \<open>ORDER BY\<close> excludes, the marks would be on the wrong seats: the mark of the
  seat shown at a place is the one of the seat whose number is the place.\<close>

lemma seats_out_of_order:
  assumes "reliable_engine E tab fk" and "db_ok (tab (db s))" and "in_int32 u" and "in_int32 (room_no aRoom)"
    and "fst (db_select_room_seats E (room_no aRoom) (db s)) = [2, 1]"
    and "seat_map (tab (db s)) (room_no aRoom, 1) = Some h"
    and "\<forall>i. i \<noteq> 1 \<longrightarrow> seat_map (tab (db s)) (room_no aRoom, i) = None"
    and "exchange ftok E u (seats_request_of aRoom) s r s'" and "asked T env k (seats_request_of aRoom) r p"
    and "get_seats T env k aRoom data p = (Ret seats, p')"
  shows "map (\<lambda>seat. (seat_no seat, seat_status seat)) seats = [(2, SEAT_STATUS_OCCUPED), (1, SEAT_STATUS_FREE)]"
proof -
  have len: "0 < length [2, 1 :: int]" "length [2, 1 :: int] \<le> MAX_SEATS" by simp_all
  have held: "\<forall>n. seat_map (tab (db s)) (room_no aRoom, n) \<noteq> None \<longrightarrow> 1 \<le> n \<and> n \<le> int (length [2, 1 :: int])"
  proof (intro allI impI)
    fix n
    assume n: "seat_map (tab (db s)) (room_no aRoom, n) \<noteq> None"
    have "n = 1"
    proof (rule ccontr)
      assume "n \<noteq> 1"
      with assms(7) have "seat_map (tab (db s)) (room_no aRoom, n) = None" by (elim allE [of _ n] impE)
      with n show False by simp
    qed
    then show "1 \<le> n \<and> n \<le> int (length [2, 1 :: int])" by simp
  qed
  have none: "seat_map (tab (db s)) (room_no aRoom, 2) = None" using assms(7) by (elim allE [of _ 2] impE) simp_all
  note run = seats_shown_run [OF assms(1-5) len held assms(8-10)]
  have "map seat_no seats = [2, 1]" using run by blast
  moreover have "map seat_status seats = [SEAT_STATUS_OCCUPED, SEAT_STATUS_FREE]"
  proof -
    have "map seat_status seats = map (\<lambda>i. status_shown (seat_map (tab (db s))) (room_no aRoom) (int i + 1)) [0..<length [2, 1 :: int]]"
      using run by blast
    also have "[0..<length [2, 1 :: int]] = [0, 1]" by (simp add: upt_rec)
    finally show ?thesis using assms(6) none by (simp add: status_shown_def)
  qed
  moreover have "map (\<lambda>seat. (seat_no seat, seat_status seat)) seats = zip (map seat_no seats) (map seat_status seats)"
    by (simp add: zip_map_map zip_same_conv_map)
  ultimately show ?thesis by simp
qed

end
