(* ===== verification/Db_Tables.thy ===== *)
theory Db_Tables
  imports Db_Api
begin

text \<open>
  The functions of src/db/db_api.cpp as functions on the tables: with a reliable engine that does
  not check foreign keys (the program never switches them on) the tables after a call are determined
  by the tables before it, but for the identifiers the engine chooses for new users and rooms.
\<close>

definition insert_row :: "table \<Rightarrow> (column \<times> int option) list \<Rightarrow> tables \<Rightarrow> tables" where
  "insert_row t vals T = (let r = new_row t vals 0 in if pk_clash T t r then T else T(t := T t @ [r]))"

fun call_tables :: "db_call \<Rightarrow> tables \<Rightarrow> tables" where
  "call_tables (Call_remove_user_unpaid u) T = sql_effect 0 (statement_of (Call_remove_user_unpaid u)) T"
| "call_tables Call_remove_unpaid T = sql_effect 0 (statement_of Call_remove_unpaid) T"
| "call_tables (Call_pay u rv) T = sql_effect 0 (statement_of (Call_pay u rv)) T"
| "call_tables (Call_logout u) T = sql_effect 0 (statement_of (Call_logout u)) T"
| "call_tables (Call_login u) T = insert_row Active_clients [(Col_user_id, Some u)] T"
| "call_tables (Call_insert_reservation u r s) T =
     (if 0 < s then insert_row Reservations (reservation_values u r s) T else T)"
| "call_tables (Call_insert_seats r s) T = insert_row Seats [(Col_room_id, Some r), (Col_seat_id, Some s)] T"
| "call_tables (Call_insert_user_in_room u r) T =
     insert_row Clients_rooms [(Col_user_id, Some u), (Col_room_id, Some r)] T"
| "call_tables (Call_remove_user_in_room u) T = sql_effect 0 (statement_of (Call_remove_user_in_room u)) T"
| "call_tables Call_remove_users_in_room T = sql_effect 0 (statement_of Call_remove_users_in_room) T"
| "call_tables _ T = T"

definition run_tables :: "db_call list \<Rightarrow> tables \<Rightarrow> tables" where
  "run_tables cs T = fold call_tables cs T"

text \<open>Agreement on the tables whose rows the program gives in full.\<close>

definition agree :: "tables \<Rightarrow> tables \<Rightarrow> bool" where
  "agree T T' \<longleftrightarrow> T Seats = T' Seats \<and> T Reservations = T' Reservations
     \<and> T Clients_rooms = T' Clients_rooms \<and> T Active_clients = T' Active_clients"

lemma agree_refl [simp]: "agree T T"
  by (simp add: agree_def)

lemma agree_trans: "agree T T' \<Longrightarrow> agree T' T'' \<Longrightarrow> agree T T''"
  by (simp add: agree_def)

lemma agree_insert_row:
  "t \<in> {Seats, Reservations, Clients_rooms, Active_clients} \<Longrightarrow> agree T T' \<Longrightarrow>
     agree (insert_row t vals T) (insert_row t vals T')"
  by (auto simp: agree_def insert_row_def pk_clash_def Let_def)

lemma agree_call: "agree T T' \<Longrightarrow> agree (call_tables c T) (call_tables c T')"
  by (cases c) (simp_all add: agree_insert_row, simp_all add: agree_def)

context reliable_engine
begin

lemma insert_exec:
  assumes "\<not> fk d" and "no_nulls vals" and "sq_exec E (InsertInto t vals) d = ((rc, rows), d')"
  shows "tab d' = insert_row t vals (tab d)"
    and "rc = SQLITE_OK \<longleftrightarrow> \<not> pk_clash (tab d) t (new_row t vals 0)"
proof -
  define r where "r = new_row t vals 0"
  have row: "new_row t vals i = r" for i
    unfolding r_def by (rule new_row_no_nulls [OF assms(2)])
  have rc: "rc = SQLITE_OK \<longleftrightarrow> \<not> pk_clash (tab d) t r"
    using exec_key [OF assms(3)] exec_constraint [OF assms(3,2)] exec_reliable [OF assms(3)] assms(1)
    by (auto simp: row)
  show "tab d' = insert_row t vals (tab d)"
    using rc exec_ok [OF assms(3)] exec_failed [OF assms(3)]
    by (cases "rc = SQLITE_OK") (simp_all add: insert_row_def Let_def row)
  show "rc = SQLITE_OK \<longleftrightarrow> \<not> pk_clash (tab d) t (new_row t vals 0)"
    using rc by (simp only: r_def)
qed

lemma other_exec:
  assumes "\<not> is_insert q" and "sq_exec E q d = ((rc, rows), d')"
  shows "tab d' = sql_effect 0 q (tab d)"
proof -
  have "rc = SQLITE_OK" using exec_reliable [OF assms(2)] assms(1) by simp
  from exec_ok [OF assms(2) this] assms(1) show ?thesis by (cases q) simp_all
qed

lemma call_runs_tables:
  assumes "\<not> fk d"
  shows "agree (tab (db_perform E c d)) (call_tables c (tab d))"
proof (cases "c = Call_initialize \<or> (\<exists>u r s. c = Call_insert_reservation u r s \<and> \<not> 0 < s)")
  case True
  then show ?thesis by (auto simp: db_initialize_tables snd_insert_reservation)
next
  case False
  then have exact: "db_perform E c d = snd (sq_exec E (statement_of c) d)"
    by (intro db_perform_exact) (auto simp: prepare_reliable)
  obtain rc rows d' where e: "sq_exec E (statement_of c) d = ((rc, rows), d')" by (metis prod.exhaust)
  have d': "tab (db_perform E c d) = tab d'" by (simp only: exact e snd_conv)
  show ?thesis
  proof (cases "is_insert (statement_of c)")
    case False
    with other_exec [OF False e] d' show ?thesis
      by (cases c) (simp_all del: db_perform.simps)
  next
    case True
    then consider (user) "c = Call_insert_user" | (room) "c = Call_insert_room"
      | (row) t vals where "statement_of c = InsertInto t vals" "no_nulls vals" "call_tables c (tab d) = insert_row t vals (tab d)"
      using False by (cases c) (auto simp: no_nulls_def reservation_values_def)
    then show ?thesis
    proof cases
      case user
      then show ?thesis
        using d' exec_ok [OF e] exec_failed [OF e] by (cases "rc = SQLITE_OK") (simp_all add: agree_def del: db_perform.simps)
    next
      case room
      then show ?thesis
        using d' exec_ok [OF e] exec_failed [OF e] by (cases "rc = SQLITE_OK") (simp_all add: agree_def del: db_perform.simps)
    next
      case row
      with insert_exec(1) [OF assms row(2)] e d' show ?thesis by simp
    qed
  qed
qed

lemma run_runs_tables:
  assumes "\<not> fk d" and "agree (tab d) T"
  shows "agree (tab (db_run E cs d)) (run_tables cs T)"
  using assms
proof (induction cs arbitrary: d T)
  case (Cons c cs)
  have "agree (tab (db_perform E c d)) (call_tables c T)"
    using agree_trans [OF call_runs_tables [OF Cons.prems(1)] agree_call [OF Cons.prems(2)]] .
  moreover have "\<not> fk (db_perform E c d)" using Cons.prems(1) by (simp add: fk_perform del: db_perform.simps)
  ultimately show ?case using Cons.IH by (simp add: db_run_def run_tables_def del: db_perform.simps)
qed (simp add: db_run_def run_tables_def)

end

text \<open>C28. The database does not depend on the engine: through any calls of the functions of db_api.cpp, on any reliable
  engine that does not check foreign keys, the seats, the reservations, the rooms the clients are in and the
  active clients are the rows \<open>run_tables\<close> computes, in the same order; two engines that start alike stay alike.\<close>

theorem tables_determined:
  assumes "reliable_engine E tab fk" and "\<not> fk d" and "agree (tab d) T"
  shows "agree (tab (db_run E cs d)) (run_tables cs T)"
  by (rule reliable_engine.run_runs_tables [OF assms])

theorem tables_determined_witness:
  "agree (rd_tab (db_run ref_engine [Call_insert_seats 1 4, Call_insert_reservation 7 1 4] ref_empty))
     (run_tables [Call_insert_seats 1 4, Call_insert_reservation 7 1 4] (\<lambda>_. []))"
  using tables_determined [OF ref.reliable_engine_axioms, of ref_empty "\<lambda>_. []"] by (simp add: ref_empty_def)

end
