(* ===== verification/Processes.thy ===== *)
theory Processes
  imports Hosts
begin

text \<open>
  A host as a system of processes that run at the same time.

  \<^item> \<open>system\<close> is a host (System V objects, sockets) with what only some of its processes work on
    (\<open>store\<close>: the database of the cinema) and the table of its processes: \<open>fork_as\<close> and
    \<open>kill_process\<close> are the calls of \<open>fork\<close> and \<open>kill\<close> with the identifier as the kernel gives it.
  \<^item> A process is a value of a datatype: the place of a daemon's loop it is at, with its local
    variables.  What it does until it is at such a place again is its turn.
  \<^item> \<open>runs\<close> interleaves the turns: processes take turns in any order, and while a call of a turn
    waits, the others run, for which the environment of the call stands.  A process that ends,
    fails, or is never woken leaves the table.
\<close>

section \<open>The table of processes\<close>

record ('k, 'd, 'p) system = "'k host" +
  store :: 'd
  procs :: "int \<Rightarrow> 'p option"
  busy :: "int set"                \<comment> \<open>the processes in a turn\<close>

text \<open>\<open>fork\<close>: the child is at the place it starts from; -1 where the kernel has no identifier to give.\<close>

definition fork_as :: "int \<Rightarrow> 'p \<Rightarrow> (int, ('k, 'd, 'p) system) prog" where
  "fork_as pid child = (\<lambda>s.
     if 1 < pid \<and> procs s pid = None \<and> pid \<notin> busy s then (Ret pid, s\<lparr>procs := (procs s)(pid \<mapsto> child)\<rparr>)
     else (Ret (- 1), s))"

text \<open>\<open>kill(pid, SIGKILL)\<close> by the process \<open>self\<close>: -1 is every other process.\<close>

definition kill_process :: "int \<Rightarrow> int \<Rightarrow> (unit, ('k, 'd, 'p) system) prog" where
  "kill_process self pid = (\<lambda>s.
     if pid = - 1 then (Ret (), s\<lparr>procs := (\<lambda>p. if p = self then procs s p else None)\<rparr>)
     else (Ret (), s\<lparr>procs := (procs s)(pid := None)\<rparr>))"

definition begin_turn :: "int \<Rightarrow> ('k, 'd, 'p) system \<Rightarrow> ('k, 'd, 'p) system" where
  "begin_turn pid s = s\<lparr>busy := insert pid (busy s)\<rparr>"

definition after_turn :: "'p option outcome \<Rightarrow> 'p option" where
  "after_turn out = (case out of Ret next \<Rightarrow> next | _ \<Rightarrow> None)"

text \<open>A process killed in its turn does not go on after it.\<close>

definition end_turn :: "int \<Rightarrow> 'p option outcome \<Rightarrow> ('k, 'd, 'p) system \<Rightarrow> ('k, 'd, 'p) system" where
  "end_turn pid out s = s\<lparr>busy := busy s - {pid},
     procs := (if procs s pid = None then procs s else (procs s)(pid := after_turn out))\<rparr>"

text \<open>\<open>turn pid env P m\<close>: the turn \<open>m\<close> is one that the process \<open>P\<close> may take.\<close>

type_synonym ('k, 'd, 'p) turns =
  "int \<Rightarrow> (('k, 'd, 'p) system \<Rightarrow> ('k, 'd, 'p) system) \<Rightarrow> 'p \<Rightarrow> ('p option, ('k, 'd, 'p) system) prog \<Rightarrow> bool"

inductive runs :: "('k, 'd, 'p) turns \<Rightarrow> ('k, 'd, 'p) system \<Rightarrow> ('k, 'd, 'p) system \<Rightarrow> bool" for turn where
  at_rest: "runs turn s s"
| takes_turn: "procs s pid = Some P \<Longrightarrow> pid \<notin> busy s \<Longrightarrow> turn pid env P m \<Longrightarrow> (\<And>t. runs turn t (env t)) \<Longrightarrow>
    m (begin_turn pid s) = (out, s1) \<Longrightarrow> runs turn (end_turn pid out s1) s2 \<Longrightarrow> runs turn s s2"

lemma runs_trans: "runs turn s s1 \<Longrightarrow> runs turn s1 s2 \<Longrightarrow> runs turn s s2"
  by (induction rule: runs.induct) (auto intro: takes_turn)

text \<open>One turn in which nobody else has to act.\<close>

lemma runs_turn:
  assumes "procs s pid = Some P" and "pid \<notin> busy s" and "turn pid (\<lambda>t. t) P m"
    and "m (begin_turn pid s) = (out, s1)"
  shows "runs turn s (end_turn pid out s1)"
  using assms by (auto intro: takes_turn at_rest)

section \<open>What turns keep, runs keep\<close>

lemma table_updates [simp]:
  "store (begin_turn pid s) = store s" "procs (begin_turn pid s) = procs s" "busy (begin_turn pid s) = insert pid (busy s)"
  "msg_ids (begin_turn pid s) = msg_ids s" "msg_queues (begin_turn pid s) = msg_queues s"
  "store (end_turn pid out s) = store s" "busy (end_turn pid out s) = busy s - {pid}"
  "msg_ids (end_turn pid out s) = msg_ids s" "msg_queues (end_turn pid out s) = msg_queues s"
  by (simp_all add: begin_turn_def end_turn_def)

lemma procs_end_turn:
  "procs (end_turn pid out s) p = (if p = pid \<and> procs s pid \<noteq> None then after_turn out else procs s p)"
  by (auto simp: end_turn_def)

lemma runs_keeps:
  assumes "runs turn s s'" and "I s"
    and "\<And>s pid env P m out s1. I s \<Longrightarrow> procs s pid = Some P \<Longrightarrow> pid \<notin> busy s \<Longrightarrow> turn pid env P m \<Longrightarrow>
      (\<And>t. runs turn t (env t)) \<Longrightarrow> (\<And>t. I t \<Longrightarrow> I (env t)) \<Longrightarrow> m (begin_turn pid s) = (out, s1) \<Longrightarrow> I (end_turn pid out s1)"
  shows "I s'"
  using assms(1,2)
proof (induction rule: runs.induct)
  case (takes_turn s pid P env m out s1 s2)
  have "I (end_turn pid out s1)"
    by (rule assms(3)) (use takes_turn in blast)+
  then show ?case by (rule takes_turn.IH(2))
qed

text \<open>
  The table while a process is in its turn: the entries of the processes that are in theirs stay, or
  go when they are killed.
\<close>

definition table_of :: "int set \<Rightarrow> (int \<Rightarrow> 'p option) \<Rightarrow> ('k, 'd, 'p) system \<Rightarrow> bool" where
  "table_of B f s \<longleftrightarrow> busy s = B \<and> (\<forall>p \<in> B. procs s p = f p \<or> procs s p = None)"

lemma keeps_table_fork: "keeps (table_of B f) (fork_as pid child)"
  by (auto simp: keeps_def table_of_def fork_as_def)

lemma keeps_table_kill: "keeps (table_of B f) (kill_process self pid)"
  by (auto simp: keeps_def table_of_def kill_process_def)

lemma runs_table:
  assumes "runs turn s s'" and "table_of B f s"
    and "\<And>pid env P m B f. turn pid env P m \<Longrightarrow> (\<And>t B f. table_of B f t \<Longrightarrow> table_of B f (env t)) \<Longrightarrow> keeps (table_of B f) m"
  shows "table_of B f s'"
  using assms(1,2)
proof (induction arbitrary: B f rule: runs.induct)
  case (takes_turn s pid P env m out s1 s2)
  let ?f = "f(pid := Some P)"
  have fresh: "pid \<notin> B" using takes_turn.hyps(2) takes_turn.prems by (simp add: table_of_def)
  have env: "table_of B' f' (env t)" if "table_of B' f' t" for t B' f'
    using takes_turn.IH(1) that by blast
  have "table_of (insert pid B) ?f (begin_turn pid s)"
    using takes_turn.prems takes_turn.hyps(1) fresh by (auto simp: table_of_def)
  then have "table_of (insert pid B) ?f s1"
    using keepsD [OF assms(3) [OF takes_turn.hyps(3) env]] takes_turn.hyps(5) by (metis snd_conv)
  then have "table_of B f (end_turn pid out s1)"
    using fresh by (fastforce simp: table_of_def procs_end_turn split: if_splits)
  then show ?case by (rule takes_turn.IH(2))
qed

section \<open>What the calls of the kernel leave alone\<close>

text \<open>A property of the store and the table, and one that looks at the queues too.\<close>

definition rests_on_table :: "(('k, 'd, 'p) system \<Rightarrow> bool) \<Rightarrow> bool" where
  "rests_on_table P \<longleftrightarrow> (\<forall>s s'. store s = store s' \<longrightarrow> procs s = procs s' \<longrightarrow> busy s = busy s' \<longrightarrow> P s \<longrightarrow> P s')"

definition rests_on_queues :: "(('k, 'd, 'p) system \<Rightarrow> bool) \<Rightarrow> bool" where
  "rests_on_queues P \<longleftrightarrow> (\<forall>s s'. store s = store s' \<longrightarrow> procs s = procs s' \<longrightarrow> busy s = busy s' \<longrightarrow>
     msg_ids s = msg_ids s' \<longrightarrow> msg_queues s = msg_queues s' \<longrightarrow> P s \<longrightarrow> P s')"

lemma rests_on_queues_weaker: "rests_on_table P \<Longrightarrow> rests_on_queues P"
  unfolding rests_on_table_def rests_on_queues_def by blast

lemma rests_table_of: "rests_on_table (table_of B f)"
  by (simp add: rests_on_table_def table_of_def)

text \<open>Semaphores, shared memory and sockets.\<close>

lemma keeps_queues_if:
  assumes "rests_on_queues P"
    and "\<And>s. store (snd (m s)) = store s \<and> procs (snd (m s)) = procs s \<and> busy (snd (m s)) = busy s
      \<and> msg_ids (snd (m s)) = msg_ids s \<and> msg_queues (snd (m s)) = msg_queues s"
  shows "keeps P m"
  unfolding keeps_def
proof (intro allI impI)
  fix s
  assume "P s"
  with assms(1) assms(2) [of s] show "P (snd (m s))" unfolding rests_on_queues_def by metis
qed

lemma keeps_queues_kernel:
  assumes "rests_on_queues P"
  shows "keeps P (semaphore_get ftok file letter)" "keeps P (semop i b)"
    "keeps P (shm_create ftok file letter n)" "keeps P (shm_dettach i)" "keeps P (net_op q)" "keeps P (packet_op r)"
  by (rule keeps_queues_if [OF assms],
      auto simp: semaphore_get_def semop_def shm_create_def shm_dettach_def net_op_def packet_op_def Let_def
        split: option.splits prod.splits)+

lemma keeps_queues_shm_get_data:
  assumes "rests_on_queues P"
  shows "keeps P (shm_get_data ftok file letter n)"
proof -
  have "keeps P (\<lambda>s. case shm_segs s i of None \<Rightarrow> throw_util s
      | Some g \<Rightarrow> (Ret i, s\<lparr>shm_segs := (shm_segs s)(i \<mapsto> g\<lparr>seg_nattch := seg_nattch g + 1\<rparr>)\<rparr>))" for i
    by (rule keeps_queues_if [OF assms]) (auto split: option.splits)
  then show ?thesis
    unfolding shm_get_data_def by (intro keeps_andThen keeps_queues_kernel [OF assms])
qed

lemma keeps_sem_op:
  assumes "rests_on_queues P" and "\<And>t. P t \<Longrightarrow> P (env t)"
  shows "keeps P (sem_op env i v)"
  unfolding keeps_def
proof (intro allI impI)
  fix s
  assume P: "P s"
  note k = keepsD [OF keeps_queues_kernel(2) [OF assms(1)], of _ i "sem_operation v"]
  have "P (snd (semop i (sem_operation v) (env (snd (semop i (sem_operation v) s)))))" by (intro k assms(2) P)
  with k [OF P] show "P (snd (sem_op env i v s))"
    by (auto simp: sem_op_def Let_def split: prod.splits outcome.splits)
qed

lemma keeps_semaphores:
  assumes "rests_on_queues P" and "\<And>t. P t \<Longrightarrow> P (env t)"
  shows "keeps P (semaphore_wait env i)" "keeps P (semaphore_signal env i)"
  unfolding semaphore_wait_def semaphore_signal_def by (intro keeps_sem_op assms; assumption)+

text \<open>The queues.\<close>

lemma keeps_table_if:
  assumes "rests_on_table P"
    and "\<And>s. store (snd (m s)) = store s \<and> procs (snd (m s)) = procs s \<and> busy (snd (m s)) = busy s"
  shows "keeps P m"
  unfolding keeps_def
proof (intro allI impI)
  fix s
  assume "P s"
  with assms(1) assms(2) [of s] show "P (snd (m s))" unfolding rests_on_table_def by metis
qed

lemma system_set_queue [simp]:
  "store (set_queue i q s) = store s" "procs (set_queue i q s) = procs s" "busy (set_queue i q s) = busy s"
  by (simp_all add: set_queue_def)

lemma keeps_table_queues:
  assumes "rests_on_table P"
  shows "keeps P (queue_create ftok file letter)" "keeps P (queue_send i m t)" "keeps P (try_receive i t)"
  by (rule keeps_table_if [OF assms],
      auto simp: queue_create_def queue_send_def try_receive_def Let_def split: option.splits)+

lemma keeps_queue_receive:
  assumes "keeps P (try_receive i t)" and "\<And>t. P t \<Longrightarrow> P (env t)"
  shows "keeps P (queue_receive env i t)"
  unfolding keeps_def
proof (intro allI impI)
  fix s
  assume P: "P s"
  have "P (snd (try_receive i t (env (snd (try_receive i t s)))))" by (intro keepsD [OF assms(1)] assms(2) P)
  with keepsD [OF assms(1) P] show "P (snd (queue_receive env i t s))"
    by (auto simp: queue_receive_def split: prod.splits outcome.splits)
qed

lemma keeps_table_channels:
  assumes "rests_on_table P"
  shows "keeps P (create_commqueue ftok file letter)" "keeps P (send_message ch m)"
  unfolding create_commqueue_def send_message_def Let_def by (intro keeps_intros keeps_table_queues [OF assms])+

lemma keeps_table_receives:
  assumes "rests_on_table P" and "\<And>t. P t \<Longrightarrow> P (env t)"
  shows "keeps P (receive_message_type env ch t)" "keeps P (receive_message env ch)"
proof -
  show *: "keeps P (receive_message_type env ch t)" for t
    unfolding receive_message_type_def Let_def
    by (intro keeps_intros keeps_queue_receive keeps_table_queues [OF assms(1)] assms(2); assumption)
  show "keeps P (receive_message env ch)"
    unfolding receive_message_def by (intro keeps_intros *)
qed

section \<open>A calculus of states before and after\<close>

text \<open>Started where \<open>P\<close> holds, a computation ends where \<open>Q\<close> holds of its result and state, or fails where \<open>I\<close> holds.\<close>

definition carries ::
  "('s \<Rightarrow> bool) \<Rightarrow> ('s \<Rightarrow> bool) \<Rightarrow> ('a, 's) prog \<Rightarrow> ('a \<Rightarrow> 's \<Rightarrow> bool) \<Rightarrow> bool" where
  "carries I P m Q \<longleftrightarrow> (\<forall>s. P s \<longrightarrow> (case m s of (Ret x, s') \<Rightarrow> Q x s' | (_, s') \<Rightarrow> I s'))"

lemma carries_ret: "(\<And>s. P s \<Longrightarrow> Q x s) \<Longrightarrow> carries I P (ret x) Q"
  by (simp add: carries_def)

lemma carries_throw: "(\<And>s. P s \<Longrightarrow> I s) \<Longrightarrow> carries I P throw_util Q"
  by (simp add: carries_def)

lemma carries_andThen:
  assumes "carries I P m R" and "\<And>x. carries I (R x) (f x) Q"
  shows "carries I P (andThen m f) Q"
  unfolding carries_def
proof (intro allI impI)
  fix s
  assume "P s"
  with assms(1) have *: "case m s of (Ret x, s') \<Rightarrow> R x s' | (_, s') \<Rightarrow> I s'" by (simp add: carries_def)
  show "case andThen m f s of (Ret x, s') \<Rightarrow> Q x s' | (_, s') \<Rightarrow> I s'"
  proof (cases "m s")
    case (Pair out s')
    with * assms(2) show ?thesis by (cases out) (auto simp: carries_def)
  qed
qed

lemma carries_keeps: "keeps P m \<Longrightarrow> (\<And>s. P s \<Longrightarrow> I s) \<Longrightarrow> carries I P m (\<lambda>_. P)"
  by (fastforce simp: carries_def keeps_def split: prod.split outcome.split)

lemma carries_weaken:
  assumes "carries I P m Q" and "\<And>x s. Q x s \<Longrightarrow> R x s"
  shows "carries I P m R"
  unfolding carries_def
proof (intro allI impI)
  fix s
  assume "P s"
  with assms(1) have *: "case m s of (Ret x, s') \<Rightarrow> Q x s' | (_, s') \<Rightarrow> I s'" by (simp add: carries_def)
  show "case m s of (Ret x, s') \<Rightarrow> R x s' | (_, s') \<Rightarrow> I s'"
  proof (cases "m s")
    case (Pair out s')
    with * assms(2) show ?thesis by (cases out) auto
  qed
qed

lemma carries_pure: "(A \<Longrightarrow> carries I P m Q) \<Longrightarrow> carries I (\<lambda>s. A \<and> P s) m Q"
  by (auto simp: carries_def)

lemma keeps_carries:
  assumes "carries P P m (\<lambda>_. P)"
  shows "keeps P m"
  unfolding keeps_def
proof (intro allI impI)
  fix s
  assume "P s"
  with assms have "case m s of (Ret x, s') \<Rightarrow> P s' | (_, s') \<Rightarrow> P s'" by (simp add: carries_def)
  then show "P (snd (m s))" by (cases "m s"; cases "fst (m s)") auto
qed

lemma carriesD:
  assumes "carries I P m Q" and "P s" and "m s = (out, s')"
  shows "out = Ret x \<Longrightarrow> Q x s'" and "(\<And>x. out \<noteq> Ret x) \<Longrightarrow> I s'"
proof -
  have *: "case m s of (Ret x, s') \<Rightarrow> Q x s' | (_, s') \<Rightarrow> I s'" using assms(1,2) by (simp add: carries_def)
  show "Q x s'" if "out = Ret x" using * assms(3) that by simp
  show "I s'" if "\<And>x. out \<noteq> Ret x" using * assms(3) that by (cases out) auto
qed

lemma carries_step: "keeps I m \<Longrightarrow> (\<And>x. carries I I (f x) Q) \<Longrightarrow> carries I I (andThen m f) Q"
  by (rule carries_andThen [OF carries_keeps])

lemma carries_yields:
  assumes "keeps P m" and "yields m A"
  shows "carries P P m (\<lambda>x s. A x \<and> P s)"
  unfolding carries_def
proof (intro allI impI)
  fix s
  assume "P s"
  then have "P (snd (m s))" by (rule keepsD [OF assms(1)])
  then show "case m s of (Ret x, s') \<Rightarrow> A x \<and> P s' | (_, s') \<Rightarrow> P s'"
    using yieldsD [OF assms(2), of s] by (cases "m s"; cases "fst (m s)") auto
qed

end
