(* ===== verification/Cinema_Processes.thy ===== *)
theory Cinema_Processes
  imports Processes Cinema
begin

text \<open>
  The cinema's host (src/cinema/cinema.cpp with src/admin/admin.cpp) as a system of processes:
  \<open>main\<close> forks the administrator and the acceptor of connections and becomes the taker of
  clients; the administrator forks the sender of updates and a handler for every request; the
  acceptor forks a bridge for every connection; the taker forks a listener for every client, which
  forks his timer.

  \<^item> \<open>cinema_process\<close> names the places; \<open>cinema_turn\<close> is the turn from each, made of the functions
    of the theories Admin and Cinema.  Everything that differs from run to run and is not in the
    state (the clock, what \<open>fork\<close> returns, old bytes on the stack) is the record \<open>chance\<close>.
  \<^item> The handler of a request does not wait, and its turn is the whole of it.
\<close>

section \<open>The processes and their turns\<close>

datatype cinema_process =
    Cinema_main
  | Admin_child
  | Admin_loop commqueue
  | Request_handler commqueue q_message
  | Update_child
  | Update_loop network_comm commqueue
  | Accept_loop Cinema
  | Connection_loop network_comm Cinema
  | Take_loop Cinema
  | Listener_child Cinema
  | Listener_loop Cinema int int int
  | Timer_loop int commqueue int

record chance =
  clock :: int
  forked :: int
  forked_next :: int
  old_bytes :: "byte list"

type_synonym ('k, 'db) cinema_system = "('k, 'db, cinema_process) system"

text \<open>A function of the administrator on the host and its database.\<close>

definition on_cinema :: "('a, ('k, 'db) cinema_host) prog \<Rightarrow> ('a, ('k, 'db) cinema_system) prog" where
  "on_cinema m = (\<lambda>s.
     case m (host.extend (host.truncate s) (cinema_host.fields (store s))) of
       (out, h) \<Rightarrow> (out, host.extend (host.truncate h) (system.fields (db h) (procs s) (busy s))))"

text \<open>\<open>admin_start\<close>, the daemon up to its loop with the child of \<open>init_update_network\<close>, and its loop.\<close>

definition admin_start :: "int \<Rightarrow> (unit, ('k, 'db) cinema_system) prog" where
  "admin_start pid = andThen (fork_as pid Admin_child) (\<lambda>_. ret ())"

definition init_update_network :: "int \<Rightarrow> (unit, ('k, 'db) cinema_system) prog" where
  "init_update_network pid = andThen (fork_as pid Update_child) (\<lambda>_. ret ())"

definition admin_daemon :: "ftok \<Rightarrow> 'db sqlite \<Rightarrow> int \<Rightarrow> (commqueue, ('k, 'db) cinema_system) prog" where
  "admin_daemon ftok E pid =
     andThen (on_cinema (admin_daemon_start ftok E)) (\<lambda>admin_channel.
     andThen (init_update_network pid) (\<lambda>_. ret admin_channel))"

definition listen_request ::
  "(('k, 'db) cinema_system \<Rightarrow> ('k, 'db) cinema_system) \<Rightarrow> int \<Rightarrow> commqueue \<Rightarrow> (unit, ('k, 'db) cinema_system) prog" where
  "listen_request env pid channel =
     andThen (receive_message_type env channel ADMIN_REQUEST) (\<lambda>client_req.
     andThen (fork_as pid (Request_handler channel client_req)) (\<lambda>_. ret ()))"

text \<open>\<open>network_listen\<close>, the loop of its child, and that of the child of a connection.\<close>

definition network_listen :: "int \<Rightarrow> Cinema \<Rightarrow> (unit, ('k, 'db) cinema_system) prog" where
  "network_listen pid cinema = andThen (fork_as pid (Accept_loop cinema)) (\<lambda>_. ret ())"

definition accept_connection_turn :: "'k sock_api \<Rightarrow> int \<Rightarrow> Cinema \<Rightarrow> (unit, ('k, 'db) cinema_system) prog" where
  "accept_connection_turn K pid cinema =
     andThen (network_listen_accept K cinema) (\<lambda>accept_fd.
     andThen (fork_as pid (Connection_loop accept_fd cinema)) (\<lambda>_. ret ()))"

text \<open>\<open>cinema_start\<close> up to its loop, the loop, and \<open>main\<close>.\<close>

definition cinema_start :: "ftok \<Rightarrow> 'k sock_api \<Rightarrow> int \<Rightarrow> (Cinema, ('k, 'db) cinema_system) prog" where
  "cinema_start ftok K pid =
     andThen (cinema_setup ftok K) (\<lambda>cinema.
     andThen (network_listen pid cinema) (\<lambda>_. ret cinema))"

definition take_client_turn ::
  "(('k, 'db) cinema_system \<Rightarrow> ('k, 'db) cinema_system) \<Rightarrow> int \<Rightarrow> Cinema \<Rightarrow> (unit, ('k, 'db) cinema_system) prog" where
  "take_client_turn env pid cinema =
     andThen (cinema_take_client env cinema) (\<lambda>client.
     andThen (fork_as pid (Listener_child (cinema\<lparr>cinema_client_id := client\<rparr>))) (\<lambda>_. ret ()))"

definition cinema_main :: "ftok \<Rightarrow> 'k sock_api \<Rightarrow> int \<Rightarrow> int \<Rightarrow> (Cinema, ('k, 'db) cinema_system) prog" where
  "cinema_main ftok K pid pid' = andThen (admin_start pid) (\<lambda>_. cinema_start ftok K pid')"

text \<open>\<open>cinema_listen_client\<close> up to its loop: the timer is forked, and -1 is its identifier where it is not.\<close>

definition listener_begin ::
  "ftok \<Rightarrow> (('k, 'db) cinema_system \<Rightarrow> ('k, 'db) cinema_system) \<Rightarrow> int \<Rightarrow> int \<Rightarrow> Cinema \<Rightarrow>
     (cinema_process option, ('k, 'db) cinema_system) prog" where
  "listener_begin ftok env now pid cinema =
     (let cinema = cinema\<lparr>client_comm := (client_comm cinema)\<lparr>cq_id := cinema_client_id cinema\<rparr>\<rparr> in
      andThen (semaphore_get ftok MUTEX_CINEMA_FILE MUTEX_CINEMA_CHAR) (\<lambda>mutex_shared_memory.
      andThen (start_timer ftok env (client_comm cinema) mutex_shared_memory now) (\<lambda>timer.
      andThen (fork_as pid (Timer_loop timer (client_comm cinema) mutex_shared_memory)) (\<lambda>timer_pid.
        ret (Some (Listener_loop cinema timer mutex_shared_memory timer_pid))))))"

text \<open>A turn of its loop, and its end when \<open>exit\<close> is set.\<close>

definition listener_again ::
  "(('k, 'db) cinema_system \<Rightarrow> ('k, 'db) cinema_system) \<Rightarrow> int \<Rightarrow> int \<Rightarrow> Cinema \<Rightarrow> int \<Rightarrow> int \<Rightarrow> int \<Rightarrow>
     (cinema_process option, ('k, 'db) cinema_system) prog" where
  "listener_again env now self cinema timer mutex timer_pid =
     andThen (listen_turn env cinema timer mutex now) (\<lambda>exit.
       if exit = 0 then ret (Some (Listener_loop cinema timer mutex timer_pid))
       else andThen (kill_process self timer_pid) (\<lambda>_.
            andThen (listen_end env cinema timer mutex) (\<lambda>_. ret None)))"

definition timer_again ::
  "(('k, 'db) cinema_system \<Rightarrow> ('k, 'db) cinema_system) \<Rightarrow> int \<Rightarrow> int \<Rightarrow> commqueue \<Rightarrow> int \<Rightarrow>
     (cinema_process option, ('k, 'db) cinema_system) prog" where
  "timer_again env now timer communication mutex =
     andThen (timer_turn env timer communication mutex now) (\<lambda>stop.
       if stop = True then andThen (shm_dettach timer) (\<lambda>_. ret None)
       else ret (Some (Timer_loop timer communication mutex)))"

fun cinema_turn ::
  "ftok \<Rightarrow> 'db sqlite \<Rightarrow> 'k sock_api \<Rightarrow> chance \<Rightarrow> int \<Rightarrow> (('k, 'db) cinema_system \<Rightarrow> ('k, 'db) cinema_system) \<Rightarrow>
     cinema_process \<Rightarrow> (cinema_process option, ('k, 'db) cinema_system) prog" where
  "cinema_turn ftok E K c self env Cinema_main =
     andThen (cinema_main ftok K (forked c) (forked_next c)) (\<lambda>cinema. ret (Some (Take_loop cinema)))"
| "cinema_turn ftok E K c self env Admin_child =
     andThen (admin_daemon ftok E (forked c)) (\<lambda>admin_channel. ret (Some (Admin_loop admin_channel)))"
| "cinema_turn ftok E K c self env (Admin_loop channel) =
     andThen (listen_request env (forked c) channel) (\<lambda>_. ret (Some (Admin_loop channel)))"
| "cinema_turn ftok E K c self env (Request_handler channel request) =
     andThen (on_cinema (admin_handle_request ftok E channel request)) (\<lambda>_. ret None)"
| "cinema_turn ftok E K c self env Update_child =
     andThen (update_network_start ftok K) (\<lambda>(accept_fd, client_channel). ret (Some (Update_loop accept_fd client_channel)))"
| "cinema_turn ftok E K c self env (Update_loop accept_fd client_channel) =
     andThen (update_network_turn env K (old_bytes c) accept_fd client_channel) (\<lambda>_.
       ret (Some (Update_loop accept_fd client_channel)))"
| "cinema_turn ftok E K c self env (Accept_loop cinema) =
     andThen (accept_connection_turn K (forked c) cinema) (\<lambda>_. ret (Some (Accept_loop cinema)))"
| "cinema_turn ftok E K c self env (Connection_loop accept_fd cinema) =
     andThen (cinema_network_turn env K (old_bytes c) accept_fd cinema) (\<lambda>_. ret (Some (Connection_loop accept_fd cinema)))"
| "cinema_turn ftok E K c self env (Take_loop cinema) =
     andThen (take_client_turn env (forked c) cinema) (\<lambda>_. ret (Some (Take_loop cinema)))"
| "cinema_turn ftok E K c self env (Listener_child cinema) = listener_begin ftok env (clock c) (forked c) cinema"
| "cinema_turn ftok E K c self env (Listener_loop cinema timer mutex timer_pid) =
     listener_again env (clock c) self cinema timer mutex timer_pid"
| "cinema_turn ftok E K c self env (Timer_loop timer communication mutex) =
     timer_again env (clock c) timer communication mutex"

definition cinema_turns :: "ftok \<Rightarrow> 'db sqlite \<Rightarrow> 'k sock_api \<Rightarrow> ('k, 'db, cinema_process) turns" where
  "cinema_turns ftok E K = (\<lambda>self env P m. \<exists>c. m = cinema_turn ftok E K c self env P)"

lemma cinema_runs_turn:
  assumes "procs s pid = Some P" and "pid \<notin> busy s"
    and "cinema_turn ftok E K c pid (\<lambda>t. t) P (begin_turn pid s) = (out, s1)"
  shows "runs (cinema_turns ftok E K) s (end_turn pid out s1)"
  by (rule runs_turn [where m = "cinema_turn ftok E K c pid (\<lambda>t. t) P"]) (use assms in \<open>auto simp: cinema_turns_def\<close>)

section \<open>What the turns do to the table and to the database\<close>

lemma keeps_table_timers:
  assumes "rests_on_queues P" and "\<And>t. P t \<Longrightarrow> P (env t)"
  shows "keeps P (update_timestamp env p i x v)" "keeps P (get_timestamp env p i x)"
    "keeps P (start_timer ftok env ch x v)"
proof -
  have rw: "keeps P (shm_write_int p i v)" "keeps P (shm_read_int p i)" for p i v
    by (rule keeps_queues_if [OF assms(1)], auto simp: shm_write_int_def shm_read_int_def split: option.splits)+
  show *: "keeps P (update_timestamp env p i x v)" "keeps P (get_timestamp env p i x)" for p i x v
    unfolding update_timestamp_def get_timestamp_def
    by (intro keeps_intros keeps_semaphores [OF assms] rw; assumption)+
  show "keeps P (start_timer ftok env ch x v)"
    unfolding start_timer_def by (intro keeps_intros * keeps_queues_shm_get_data [OF assms(1)])
qed

lemmas cinema_turn_defs = cinema_main_def admin_daemon_def listen_request_def update_network_start_def update_network_turn_def
  accept_connection_turn_def cinema_network_turn_def take_client_turn_def listener_begin_def listener_again_def timer_again_def

lemma keeps_pair: "(\<And>x y. keeps P (f x y)) \<Longrightarrow> keeps P (case p of (x, y) \<Rightarrow> f x y)"
  by (simp split: prod.split)

text \<open>A property of the table and the database that forks, kills and the administrator's calls keep.\<close>

lemma keeps_table_turn:
  assumes P: "rests_on_table P" and fork: "\<And>pid child. keeps P (fork_as pid child)"
    and kill: "\<And>self pid. keeps P (kill_process self pid)"
    and admin: "keeps P (on_cinema (admin_daemon_start ftok E))"
      "\<And>ch request. keeps P (on_cinema (admin_handle_request ftok E ch request))"
    and env: "\<And>t. P t \<Longrightarrow> P (env t)"
  shows "keeps P (cinema_turn ftok E K c self env Q)"
proof -
  note k = keeps_intros keeps_pair fork kill admin
    keeps_queues_kernel [OF rests_on_queues_weaker [OF P]] keeps_table_channels [OF P]
    keeps_table_receives [OF P env] keeps_semaphores [OF rests_on_queues_weaker [OF P] env]
    keeps_table_timers [OF rests_on_queues_weaker [OF P] env]
  note unfold = admin_start_def cinema_start_def cinema_setup_def network_listen_def init_update_network_def
    network_listen_accept_def cinema_take_client_def send_confirmation_def
    listen_turn_def listen_end_def cinema_handle_def timer_turn_def Let_def
  show ?thesis
    by (cases Q) (simp_all only: cinema_turn.simps cinema_turn_defs unfold, (intro k; assumption)+)
qed

section \<open>The database of the host\<close>

lemma on_cinema_parts:
  fixes m :: "('a, ('k, 'db) cinema_host) prog" and s :: "('k, 'db) cinema_system"
  defines "h \<equiv> host.extend (host.truncate s) (cinema_host.fields (store s))"
  shows "db h = store s" "msg_ids h = msg_ids s" "msg_queues h = msg_queues s"
    "store (snd (on_cinema m s)) = db (snd (m h))" "procs (snd (on_cinema m s)) = procs s"
    "busy (snd (on_cinema m s)) = busy s" "msg_ids (snd (on_cinema m s)) = msg_ids (snd (m h))"
    "msg_queues (snd (on_cinema m s)) = msg_queues (snd (m h))" "fst (on_cinema m s) = fst (m h)"
  unfolding on_cinema_def h_def
  by (auto simp: host.defs cinema_host.defs system.defs split: prod.splits)

definition changed_by_calls :: "'db sqlite \<Rightarrow> 'db \<Rightarrow> ('k, 'db) cinema_system \<Rightarrow> bool" where
  "changed_by_calls E d s \<longleftrightarrow> (\<exists>cs. store s = db_run E cs d)"

lemma rests_changed_by_calls: "rests_on_table (changed_by_calls E d)"
  by (simp add: rests_on_table_def changed_by_calls_def)

lemma keeps_changed_by_calls:
  "keeps (changed_by_calls E d) (fork_as pid child)" "keeps (changed_by_calls E d) (kill_process self pid)"
  by (auto simp: keeps_def changed_by_calls_def fork_as_def kill_process_def)

lemma keeps_changed_admin:
  fixes m :: "('a, ('k, 'db) cinema_host) prog"
  assumes "db_calls E A m"
  shows "keeps (changed_by_calls E d) (on_cinema m)"
  unfolding keeps_def
proof (intro allI impI)
  fix s :: "('k, 'db) cinema_system"
  let ?h = "host.extend (host.truncate s) (cinema_host.fields (store s))"
  assume "changed_by_calls E d s"
  then obtain cs where cs: "store s = db_run E cs d" by (auto simp: changed_by_calls_def)
  obtain cs' where cs': "db (snd (m ?h)) = db_run E cs' (db ?h)" using db_callsD [OF assms] by blast
  have "store (snd (on_cinema m s)) = db (snd (m ?h))" by (rule on_cinema_parts(4))
  also have "\<dots> = db_run E cs' (store s)" unfolding cs' on_cinema_parts(1) ..
  also have "\<dots> = db_run E (cs @ cs') d" by (simp only: cs db_run_append)
  finally have "store (snd (on_cinema m s)) = db_run E (cs @ cs') d" .
  then show "changed_by_calls E d (snd (on_cinema m s))"
    unfolding changed_by_calls_def by blast
qed

lemma db_calls_daemon_start: "
  db_calls E (\<lambda>c. c \<noteq> Call_insert_user) (admin_daemon_start ftok E)"
  unfolding admin_daemon_start_def clean_db_tables_def
  by (intro db_calls_intros db_calls_functions) simp_all

lemma cinema_host_run:
  assumes "runs (cinema_turns ftok E K) s s'"
  shows "\<exists>cs. store s' = db_run E cs (store s)"
proof -
  have "changed_by_calls E (store s) s'"
  proof (rule runs_keeps [OF assms])
    have "store s = db_run E [] (store s)" by (simp add: db_run_def)
    then show "changed_by_calls E (store s) s" unfolding changed_by_calls_def by blast
    fix s1 pid env P m out s2
    assume inv: "changed_by_calls E (store s) s1" and turn: "cinema_turns ftok E K pid env P m"
      and env: "\<And>t. changed_by_calls E (store s) t \<Longrightarrow> changed_by_calls E (store s) (env t)"
      and m: "m (begin_turn pid s1) = (out, s2)"
    obtain c where mc: "m = cinema_turn ftok E K c pid env P" using turn by (auto simp: cinema_turns_def)
    have "keeps (changed_by_calls E (store s)) m"
      unfolding mc
      by (rule keeps_table_turn [OF rests_changed_by_calls keeps_changed_by_calls
            keeps_changed_admin [OF db_calls_daemon_start]
            keeps_changed_admin [OF db_calls_handle_request] env]) simp_all
    from keepsD [OF this, of "begin_turn pid s1"] inv m show "changed_by_calls E (store s) (end_turn pid out s2)"
      by (simp add: changed_by_calls_def)
  qed
  then show ?thesis by (simp add: changed_by_calls_def)
qed

text \<open>C2. The whole of the cinema's host keeps paid seats: whatever its processes do, from \<open>main\<close> on, in any interleaving of
  their turns, with any of them failing, being killed or started again, at any speed of the clock and whatever the
  network delivers, the tables stay consistent and a paid seat stays with its user, paid.\<close>

theorem cinema_host_keeps_paid:
  assumes "sqlite_engine E tab fk" and "db_ok (tab (store s))"
    and "runs (cinema_turns ftok E K) s s'"
  shows "db_ok (tab (store s'))
     \<and> (seat_map (tab (store s)) (r, n) = Some (u, 1) \<longrightarrow> seat_map (tab (store s')) (r, n) = Some (u, 1))"
proof -
  obtain cs where cs: "store s' = fold (db_perform E) cs (store s)"
    using cinema_host_run [OF assms(3)] by (auto simp: db_run_def)
  note seats = sqlite_engine.is_seat_store [OF assms(1)]
  show ?thesis
    unfolding cs using seat_store.ok_run [OF seats assms(2)] seat_store.paid_stays [OF seats assms(2)] by blast
qed

text \<open>An example: a handler takes its turn on the exit of the client who has paid.\<close>

definition exit_system :: "(unit, ref_db) cinema_system" where
  "exit_system = host.extend (host.truncate small_host)
     (system.fields (db_run ref_engine [Call_pay 7 \<lparr>res_room = 1, res_seat_num = 1\<rparr>] small_db)
       [5 \<mapsto> Request_handler admin_channel (zero_message\<lparr>client_id := 7, message_choice_number := CHOICE_EXIT\<rparr>)] {})"

theorem cinema_host_keeps_paid_witness:
  "\<forall>K. \<exists>s'. runs (cinema_turns small_ftok ref_engine K) exit_system s' \<and> procs s' 5 = None
     \<and> seat_map (rd_tab (store s')) (1, 1) = Some (7, 1)"
proof (intro allI)
  fix K :: "unit sock_api"
  let ?turn = "cinema_turns small_ftok ref_engine K"
  let ?P = "Request_handler admin_channel (zero_message\<lparr>client_id := 7, message_choice_number := CHOICE_EXIT\<rparr>)"
  have start: "procs exit_system 5 = Some ?P" "5 \<notin> busy exit_system"
    "store exit_system = db_run ref_engine [Call_pay 7 \<lparr>res_room = 1, res_seat_num = 1\<rparr>] small_db"
    by (simp_all add: exit_system_def host.defs system.defs)
  have ok: "db_ok (rd_tab (store exit_system))"
    unfolding start(3) db_run_def by (rule ref.store.ok_run [OF db_ok_small])
  obtain c :: chance where True by blast
  let ?m = "cinema_turn small_ftok ref_engine K c 5 (\<lambda>t. t) ?P"
  obtain out s1 where m: "?m (begin_turn 5 exit_system) = (out, s1)" by (metis prod.exhaust)
  have run: "runs ?turn exit_system (end_turn 5 out s1)" by (rule cinema_runs_turn [OF start(1,2) m])
  have "yields ?m (\<lambda>next. next = None)"
    by (simp only: cinema_turn.simps, intro yields_andThen [OF yields_any] yields_ret refl)
  then have "out = Ret next \<longrightarrow> next = None" for "next" using yieldsD [of ?m] m by blast
  then have "after_turn out = None" by (cases out) (simp_all add: after_turn_def)
  then have "procs (end_turn 5 out s1) 5 = None" by (auto simp: procs_end_turn)
  moreover have "seat_map (rd_tab (store (end_turn 5 out s1))) (1, 1) = Some (7, 1)"
    using cinema_host_keeps_paid [OF ref.sqlite_engine_axioms ok run, of 1 1 7] seat_map_small_paid start(3) by metis
  ultimately show "\<exists>s'. runs (cinema_turns small_ftok ref_engine K) exit_system s' \<and> procs s' 5 = None
     \<and> seat_map (rd_tab (store s')) (1, 1) = Some (7, 1)" using run by blast
qed

end
