(* ===== verification/Cinema_Identities.thy ===== *)
theory Cinema_Identities
  imports Cinema_Processes
begin

text \<open>
  Who is who on the cinema's host: the administrator gives every client that connects an
  identifier of its own, and the taker of clients forks a listener for it.  Shown here: however the
  processes run, no two listeners ever serve the same client, and whom they serve is a user of the
  database.

  \<^item> \<open>wired_host\<close> and \<open>wired\<close> say which queues the processes use, \<open>identified\<close> that the identifiers
    in the acceptances on their way from the administrator, and those of the listeners, are users
    and all different.
  \<^item> The calculus \<open>carries\<close> goes through the steps in which an identifier is in the hands of the
    taker, between the message that brought it and the listener it is given to.
\<close>

section \<open>The queues the processes use\<close>

record queue_ids =
  requests_in :: int      \<comment> \<open>the clients' channel: its first and its second queue\<close>
  requests_out :: int
  answers :: int          \<comment> \<open>the administrator's channel\<close>
  questions :: int
  updates :: int          \<comment> \<open>the channel of the updates\<close>
  updates_back :: int

definition wired_host :: "ftok \<Rightarrow> queue_ids \<Rightarrow> ('k, 'db) cinema_system \<Rightarrow> bool" where
  "wired_host ftok W s \<longleftrightarrow>
     msg_ids s (ftok QUEUE_COMMUNICATION_FILE QUEUE_COMMUNICATION_CHAR) = Some (requests_in W)
   \<and> msg_ids s (ftok QUEUE_COMMUNICATION_FILE (next_char QUEUE_COMMUNICATION_CHAR)) = Some (requests_out W)
   \<and> msg_ids s (ftok QUEUE_CINEMA_ADMIN_FILE QUEUE_CINEMA_ADMIN_CHAR) = Some (answers W)
   \<and> msg_ids s (ftok QUEUE_CINEMA_ADMIN_FILE (next_char QUEUE_CINEMA_ADMIN_CHAR)) = Some (questions W)
   \<and> msg_ids s (ftok QUEUE_ACTIVITY_FILE QUEUE_ACTIVITY_CHAR) = Some (updates W)
   \<and> msg_ids s (ftok QUEUE_ACTIVITY_FILE (next_char QUEUE_ACTIVITY_CHAR)) = Some (updates_back W)
   \<and> answers W \<notin> {requests_in W, requests_out W, questions W, updates W, updates_back W}"

definition made_of :: "commqueue \<Rightarrow> int \<Rightarrow> int \<Rightarrow> bool" where
  "made_of ch first second \<longleftrightarrow> id_firstqueue ch = first \<and> id_secondqueue ch = second"

definition wired_cinema :: "queue_ids \<Rightarrow> Cinema \<Rightarrow> bool" where
  "wired_cinema W cinema \<longleftrightarrow> made_of (client_comm cinema) (requests_in W) (requests_out W)
     \<and> made_of (admin_comm cinema) (answers W) (questions W) \<and> orientation (admin_comm cinema) = Some COMMQUEUE_AS_CLIENT"

fun wired :: "queue_ids \<Rightarrow> cinema_process \<Rightarrow> bool" where
  "wired W (Admin_loop ch) = (made_of ch (answers W) (questions W) \<and> orientation ch = Some COMMQUEUE_AS_SERVER)"
| "wired W (Request_handler ch request) = (made_of ch (answers W) (questions W) \<and> orientation ch = Some COMMQUEUE_AS_SERVER)"
| "wired W (Update_loop fd ch) = made_of ch (updates W) (updates_back W)"
| "wired W (Accept_loop cinema) = wired_cinema W cinema"
| "wired W (Connection_loop fd cinema) = wired_cinema W cinema"
| "wired W (Take_loop cinema) = wired_cinema W cinema"
| "wired W (Listener_child cinema) = wired_cinema W cinema"
| "wired W (Listener_loop cinema timer mutex timer_pid) = wired_cinema W cinema"
| "wired W (Timer_loop timer ch mutex) = made_of ch (requests_in W) (requests_out W)"
| "wired W P = True"

text \<open>The client a process listens to.\<close>

fun serves :: "cinema_process \<Rightarrow> int option" where
  "serves (Listener_child cinema) = Some (cinema_client_id cinema)"
| "serves (Listener_loop cinema timer mutex timer_pid) = Some (cinema_client_id cinema)"
| "serves P = None"

section \<open>The identifiers\<close>

definition user_ids :: "tables \<Rightarrow> int set" where
  "user_ids T = {i. \<exists>r \<in> set (T Users). r Col_id = Some i}"

text \<open>The identifiers in the acceptances that wait in a queue.\<close>

definition granted :: "(int \<times> q_message) list \<Rightarrow> int list" where
  "granted q = map (\<lambda>x. as_m1 (msg_choice (snd x)))
     (filter (\<lambda>x. message_choice_number (snd x) = CHOICE_CONNECTION_ACCEPTED) q)"

text \<open>\<open>ids\<close> are the identifiers given and not yet passed on; they are none of those in the table.\<close>

definition apart :: "int set \<Rightarrow> int list \<Rightarrow> (int \<Rightarrow> cinema_process option) \<Rightarrow> bool" where
  "apart users ids ps \<longleftrightarrow> distinct ids \<and> set ids \<subseteq> users
     \<and> (\<forall>pid P c. ps pid = Some P \<longrightarrow> serves P = Some c \<longrightarrow> c \<in> users \<and> c \<notin> set ids)
     \<and> (\<forall>pid pid' P P' c. ps pid = Some P \<longrightarrow> ps pid' = Some P' \<longrightarrow> serves P = Some c \<longrightarrow> serves P' = Some c \<longrightarrow> pid = pid')"

text \<open>The identifiers are \<open>int\<close>s in the program and 64-bit numbers in the database.\<close>

definition ids_fit :: "tables \<Rightarrow> bool" where
  "ids_fit T \<longleftrightarrow> (\<forall>i \<in> user_ids T. i < 2 ^ 31)"

text \<open>The invariant, with the identifiers \<open>hand\<close> that the taker has in hand.\<close>

definition identified ::
  "('db \<Rightarrow> tables) \<Rightarrow> ftok \<Rightarrow> queue_ids \<Rightarrow> int list \<Rightarrow> ('k, 'db) cinema_system \<Rightarrow> bool" where
  "identified tab ftok W hand s \<longleftrightarrow> wired_host ftok W s
     \<and> (\<forall>pid P. procs s pid = Some P \<longrightarrow> wired W P)
     \<and> (\<exists>q. msg_queues s (answers W) = Some q
          \<and> (ids_fit (tab (store s)) \<longrightarrow> apart (user_ids (tab (store s))) (hand @ granted q) (procs s)))"

lemma rests_identified: "rests_on_queues (identified tab ftok W hand)"
  by (simp add: rests_on_queues_def identified_def wired_host_def)

lemma apart_fewer:
  assumes "apart users ids ps" and "mset ids' \<subseteq># mset ids" and "\<And>pid. ps' pid = ps pid \<or> ps' pid = None"
  shows "apart users ids' ps'"
proof -
  have "set ids' \<subseteq> set ids" using set_mset_mono [OF assms(2)] by simp
  moreover have "distinct ids'"
  proof -
    have "count (mset ids') x \<le> (if x \<in> set ids' then 1 else 0)" for x
    proof (cases "x \<in> set ids'")
      case True
      have "count (mset ids') x \<le> count (mset ids) x" by (rule mset_subset_eq_count [OF assms(2)])
      also have "\<dots> \<le> 1" using assms(1) by (simp add: apart_def distinct_count_atmost_1)
      finally show ?thesis using True by simp
    qed (simp add: count_mset_0_iff)
    moreover have "(if x \<in> set ids' then 1 else 0) \<le> count (mset ids') x" for x
      by (simp add: Suc_leI)
    ultimately show ?thesis unfolding distinct_count_atmost_1 by (intro allI antisym)
  qed
  moreover have "ps pid = Some P" if "ps' pid = Some P" for pid P
    using assms(3) [of pid] that by auto
  ultimately show ?thesis using assms(1) unfolding apart_def by blast
qed

section \<open>Operations of the host\<close>

lemma identified_queue:
  assumes "identified tab ftok W hand s" and "msg_queues s (answers W) = Some q"
    and "msg_queues s' (answers W) = Some q'" and "mset (granted q') \<subseteq># mset (granted q)"
    and "msg_ids s' = msg_ids s" and "store s' = store s" and "\<And>pid. procs s' pid = procs s pid \<or> procs s' pid = None"
  shows "identified tab ftok W hand s'"
proof -
  have *: "apart (user_ids (tab (store s'))) (hand @ granted q') (procs s')"
    if "apart (user_ids (tab (store s))) (hand @ granted q) (procs s)"
  proof (rule apart_fewer [OF _ _ assms(7)])
    show "apart (user_ids (tab (store s'))) (hand @ granted q) (procs s)" using that assms(6) by simp
    show "mset (hand @ granted q') \<subseteq># mset (hand @ granted q)" using assms(4) by simp
  qed
  have "wired W P" if "procs s' pid = Some P" for pid P
    using assms(1) assms(7) [of pid] that by (auto simp: identified_def)
  with assms * show ?thesis by (auto simp: identified_def wired_host_def)
qed

lemma identified_answers: "identified tab ftok W hand s \<Longrightarrow> \<exists>q. msg_queues s (answers W) = Some q"
  by (auto simp: identified_def)

lemma keeps_identified_send:
  assumes "i \<noteq> answers W \<or> message_choice_number m \<noteq> CHOICE_CONNECTION_ACCEPTED"
  shows "keeps (identified tab ftok W hand) (queue_send i m t)"
  unfolding keeps_def
proof (intro allI impI)
  fix s
  assume inv: "identified tab ftok W hand s"
  then obtain q where q: "msg_queues s (answers W) = Some q" by (auto dest: identified_answers)
  have inside: "identified tab ftok W hand (set_queue i (q' @ [(t, m)]) s)" if "msg_queues s i = Some q'" for q'
    by (rule identified_queue [where q' = "if i = answers W then q' @ [(t, m)] else q", OF inv q])
      (use q assms that in \<open>auto simp: granted_def\<close>)
  then show "identified tab ftok W hand (snd (queue_send i m t s))"
    using inv by (auto simp: queue_send_def split: option.splits)
qed

lemma msgrcv_mset:
  assumes "msgrcv t q = Some (m, q')"
  shows "mset q = add_mset m (mset q')"
proof -
  consider "take_first (\<lambda>_. True) q = Some (m, q')" | "take_first (\<lambda>m. fst m = t) q = Some (m, q')"
    | "take_first (\<lambda>m. fst m = Min (set (filter (\<lambda>u. u \<le> - t) (map fst q)))) q = Some (m, q')"
    using assms by (simp only: msgrcv_def Let_def option.distinct split: if_splits)
  then obtain P where "take_first P q = Some (m, q')" by cases blast+
  from take_first_Some [OF this] obtain pre post where "q = pre @ m # post" "q' = pre @ post" by blast
  then show ?thesis by simp
qed

lemma granted_taken:
  assumes "mset q = add_mset m (mset q')"
  shows "mset (granted q) = mset (if message_choice_number (snd m) = CHOICE_CONNECTION_ACCEPTED
    then [as_m1 (msg_choice (snd m))] else []) + mset (granted q')"
  using assms by (simp add: granted_def)

text \<open>What a message that is taken leaves, and what it puts into the hands of its receiver.\<close>

definition granted_by :: "q_message \<Rightarrow> int list" where
  "granted_by m = (if message_choice_number m = CHOICE_CONNECTION_ACCEPTED then [as_m1 (msg_choice m)] else [])"

lemma carries_try_receive:
  "carries (identified tab ftok W []) (identified tab ftok W []) (try_receive (answers W) t)
     (\<lambda>m. identified tab ftok W (granted_by m))"
  unfolding carries_def
proof (intro allI impI)
  fix s
  assume inv: "identified tab ftok W [] s"
  then obtain q where q: "msg_queues s (answers W) = Some q" by (auto dest: identified_answers)
  have "identified tab ftok W (granted_by (snd m)) (set_queue (answers W) q' s)" if "msgrcv t q = Some (m, q')" for m q'
  proof -
    have "mset (granted_by (snd m) @ granted q') \<subseteq># mset (granted q)"
      using granted_taken [OF msgrcv_mset [OF that]] by (simp add: granted_by_def)
    then have "apart (user_ids (tab (store s))) (granted_by (snd m) @ granted q') (procs s)"
      if "apart (user_ids (tab (store s))) (granted q) (procs s)"
      using apart_fewer [OF that] by blast
    with inv q show ?thesis by (auto simp: identified_def wired_host_def)
  qed
  then show "case try_receive (answers W) t s of (Ret m, s') \<Rightarrow> identified tab ftok W (granted_by m) s'
      | (_, s') \<Rightarrow> identified tab ftok W [] s'"
    using inv q by (auto simp: try_receive_def split: option.split prod.split)
qed

lemma identified_hand: "identified tab ftok W hand s \<Longrightarrow> identified tab ftok W [] s"
proof -
  assume inv: "identified tab ftok W hand s"
  then obtain q where q: "msg_queues s (answers W) = Some q" by (auto dest: identified_answers)
  have "apart users ([] @ granted q) ps" if "apart users (hand @ granted q) ps" for users ps
    by (rule apart_fewer [OF that]) simp_all
  with inv q show ?thesis unfolding identified_def by auto
qed

lemma keeps_identified_try_receive: "keeps (identified tab ftok W []) (try_receive i t)"
proof (cases "i = answers W")
  case True
  have "carries (identified tab ftok W []) (identified tab ftok W []) (try_receive (answers W) t) (\<lambda>_. identified tab ftok W [])"
    by (rule carries_weaken [OF carries_try_receive]) (rule identified_hand)
  then show ?thesis unfolding True by (rule keeps_carries)
next
  case False
  show ?thesis
    unfolding keeps_def
  proof (intro allI impI)
    fix s
    assume inv: "identified tab ftok W [] s"
    then obtain q where q: "msg_queues s (answers W) = Some q" by (auto dest: identified_answers)
    have "identified tab ftok W [] (set_queue i q' s)" for q'
      by (rule identified_queue [OF inv q, where q' = q]) (use q False in simp_all)
    with inv show "identified tab ftok W [] (snd (try_receive i t s))"
      by (auto simp: try_receive_def split: option.split prod.split)
  qed
qed

text \<open>Channels.\<close>

lemma carries_create:
  assumes "\<And>s. I s \<Longrightarrow> msg_ids s (ftok file letter) = Some a \<and> msg_ids s (ftok file (next_char letter)) = Some b"
  shows "carries I I (create_commqueue ftok file letter) (\<lambda>ch s. made_of ch a b \<and> I s)"
  unfolding carries_def
proof (intro allI impI)
  fix s
  assume I: "I s"
  have "msg_ids s (ftok file letter) = Some a" "msg_ids s (ftok file (next_char letter)) = Some b" using assms I by auto
  then have "queue_create ftok file letter s \<in> {(Ret a, s), (Exit 1, s)}"
    "queue_create ftok file (next_char letter) s \<in> {(Ret b, s), (Exit 1, s)}"
    by (simp_all add: queue_create_def Let_def)
  then show "case create_commqueue ftok file letter s of (Ret ch, s') \<Rightarrow> made_of ch a b \<and> I s' | (_, s') \<Rightarrow> I s'"
    using I by (auto simp: create_commqueue_def made_of_def)
qed

lemma keeps_possible: "(\<And>s. P s \<Longrightarrow> keeps P m) \<Longrightarrow> keeps P m"
  by (auto simp: keeps_def)

lemma send_message_oriented:
  assumes "orientation ch = Some ori"
  shows "\<exists>m' t. send_message ch m = queue_send (if ori = 0 then id_firstqueue ch else id_secondqueue ch) m' t
    \<and> message_choice_number m' = message_choice_number m \<and> msg_choice m' = msg_choice m"
proof -
  let ?t = "if cq_id ch \<noteq> UNDEFINED_CHANNEL_ID then cq_id ch else message_type m"
  let ?m = "if message_type m \<noteq> TYPE_CONNECTION_CINEMA_REQUEST then m\<lparr>message_type := ?t\<rparr> else m"
  show ?thesis
    using assms by (intro exI [of _ ?m] exI [of _ ?t]) (simp add: send_message_def Let_def defined_def andThen_ret_left)
qed

lemma keeps_send_channel:
  fixes P :: "'a ipc_scheme \<Rightarrow> bool"
  assumes "\<And>ori m' t. orientation ch = Some ori \<Longrightarrow> message_choice_number m' = message_choice_number m \<Longrightarrow>
    keeps P (queue_send (if ori = 0 then id_firstqueue ch else id_secondqueue ch) m' t)"
  shows "keeps P (send_message ch m)"
proof (cases "orientation ch")
  case None
  then show ?thesis by (simp add: send_message_def keeps_def)
next
  case (Some ori)
  from send_message_oriented [OF this, of m] obtain m' t where
    m': "(send_message ch m :: (unit, 'a ipc_scheme) prog) = queue_send (if ori = 0 then id_firstqueue ch else id_secondqueue ch) m' t"
    "message_choice_number m' = message_choice_number m" by blast
  show ?thesis unfolding m'(1) by (rule assms [OF Some m'(2)])
qed

definition parted :: "queue_ids \<Rightarrow> bool" where
  "parted W \<longleftrightarrow> answers W \<notin> {requests_in W, requests_out W, questions W, updates W, updates_back W}"

lemma identified_parted: "identified tab ftok W hand s \<Longrightarrow> parted W"
  by (simp add: identified_def wired_host_def parted_def)

lemma keeps_identified_channels:
  assumes "made_of ch (requests_in W) (requests_out W) \<or> made_of ch (updates W) (updates_back W)
    \<or> (made_of ch (answers W) (questions W) \<and> orientation ch = Some COMMQUEUE_AS_CLIENT)"
  shows "keeps (identified tab ftok W hand) (send_message ch m)"
proof (rule keeps_possible)
  fix s
  assume "identified tab ftok W hand s"
  then have W: "parted W" by (rule identified_parted)
  show ?thesis
    by (rule keeps_send_channel, rule keeps_identified_send)
      (use W assms in \<open>auto simp: parted_def made_of_def\<close>)
qed

lemma carries_queue_receive:
  assumes "carries I I (try_receive i t) Q" and "\<And>s. I s \<Longrightarrow> I (env s)"
  shows "carries I I (queue_receive env i t) Q"
  unfolding carries_def
proof (intro allI impI)
  fix s
  assume I: "I s"
  obtain out s1 where r: "try_receive i t s = (out, s1)" by (metis prod.exhaust)
  show "case queue_receive env i t s of (Ret x, s') \<Rightarrow> Q x s' | (_, s') \<Rightarrow> I s'"
  proof (cases "out = Blocked")
    case True
    have "I (env s1)" using carriesD(2) [OF assms(1) I r] True assms(2) by simp
    with assms(1) have "case try_receive i t (env s1) of (Ret x, s') \<Rightarrow> Q x s' | (_, s') \<Rightarrow> I s'" by (simp add: carries_def)
    with r True show ?thesis by (simp add: queue_receive_def)
  next
    case False
    then have "queue_receive env i t s = (out, s1)" using r by (cases out) (simp_all add: queue_receive_def)
    moreover have "case try_receive i t s of (Ret x, s') \<Rightarrow> Q x s' | (_, s') \<Rightarrow> I s'" using assms(1) I by (simp add: carries_def)
    ultimately show ?thesis using r by simp
  qed
qed

lemma keeps_identified_receives:
  assumes "\<And>t. identified tab ftok W [] t \<Longrightarrow> identified tab ftok W [] (env t)"
  shows "keeps (identified tab ftok W []) (receive_message_type env ch t)"
    and "keeps (identified tab ftok W []) (receive_message env ch)"
proof -
  show *: "keeps (identified tab ftok W []) (receive_message_type env ch t)" for t
    unfolding receive_message_type_def Let_def
    by (intro keeps_intros keeps_queue_receive keeps_identified_try_receive assms; assumption)
  show "keeps (identified tab ftok W []) (receive_message env ch)"
    unfolding receive_message_def by (intro keeps_intros *)
qed

lemma carries_receive_answer:
  assumes "made_of ch (answers W) (questions W)" and "orientation ch = Some COMMQUEUE_AS_CLIENT"
    and "\<And>t. identified tab ftok W [] t \<Longrightarrow> identified tab ftok W [] (env t)"
  shows "carries (identified tab ftok W []) (identified tab ftok W []) (receive_message env ch)
    (\<lambda>m. identified tab ftok W (granted_by m))"
proof -
  have "carries (identified tab ftok W []) (identified tab ftok W []) (queue_receive env (answers W) t)
    (\<lambda>m. identified tab ftok W (granted_by m))" for t
    by (rule carries_queue_receive [OF carries_try_receive assms(3)])
  moreover have "receive_message env ch = (if cq_id ch = UNDEFINED_CHANNEL_ID then throw_util
      else queue_receive env (answers W) (cq_id ch))"
    using assms(1,2) by (auto simp: receive_message_def receive_message_type_def made_of_def defined_def andThen_ret_left)
  ultimately show ?thesis by (simp add: carries_throw)
qed

text \<open>The table.\<close>

lemma keeps_identified_kill: "keeps (identified tab ftok W hand) (kill_process self pid)"
  unfolding keeps_def
proof (intro allI impI)
  fix s
  assume inv: "identified tab ftok W hand s"
  then obtain q where q: "msg_queues s (answers W) = Some q" by (auto dest: identified_answers)
  show "identified tab ftok W hand (snd (kill_process self pid s))"
    by (rule identified_queue [OF inv q, where q' = q]) (use q in \<open>auto simp: kill_process_def\<close>)
qed

lemma apart_fork:
  assumes "apart users (ids @ ids') ps" and "ps pid = None" and "ids = (case serves child of None \<Rightarrow> [] | Some c \<Rightarrow> [c])"
  shows "apart users ids' (ps(pid \<mapsto> child))"
proof (cases "serves child")
  case None
  with assms show ?thesis by (auto simp: apart_def)
next
  case (Some c)
  with assms show ?thesis by (auto simp: apart_def)
qed

lemma carries_fork:
  assumes "wired W child" and "hand = (case serves child of None \<Rightarrow> [] | Some c \<Rightarrow> [c])"
  shows "carries (identified tab ftok W []) (identified tab ftok W hand) (fork_as pid child) (\<lambda>_. identified tab ftok W [])"
  unfolding carries_def
proof (intro allI impI)
  fix s
  assume inv: "identified tab ftok W hand s"
  show "case fork_as pid child s of (Ret x, s') \<Rightarrow> identified tab ftok W [] s' | (_, s') \<Rightarrow> identified tab ftok W [] s'"
  proof (cases "1 < pid \<and> procs s pid = None \<and> pid \<notin> busy s")
    case True
    then have "apart users ([] @ ids) ((procs s)(pid \<mapsto> child))" if "apart users (hand @ ids) (procs s)" for users ids
      using apart_fork [OF that _ assms(2)] by simp
    with inv True assms(1) show ?thesis
      by (auto simp: fork_as_def identified_def wired_host_def)
  next
    case False
    with identified_hand [OF inv] show ?thesis by (auto simp: fork_as_def)
  qed
qed

lemma keeps_identified_fork:
  assumes "wired W child" and "serves child = None"
  shows "keeps (identified tab ftok W []) (fork_as pid child)"
  by (rule keeps_carries, rule carries_fork) (use assms in simp_all)

section \<open>The handler of a request\<close>

text \<open>Of all calls of the functions of db_api.cpp only one changes the users.\<close>

context reliable_engine
begin

lemma call_users:
  assumes "c \<noteq> Call_insert_user"
  shows "tab (db_perform E c d) Users = tab d Users"
proof (cases "c = Call_initialize \<or> db_perform E c d = d")
  case True
  then show ?thesis by (auto simp: db_initialize_tables)
next
  case False
  then have exact: "db_perform E c d = snd (sq_exec E (statement_of c) d)"
    using db_perform_statement [of c E d] by blast
  obtain rc rows d' where e: "sq_exec E (statement_of c) d = ((rc, rows), d')" by (metis prod.exhaust)
  have "tab d' Users = tab d Users"
    using exec_ok [OF e] exec_failed [OF e] assms False by (cases "rc = SQLITE_OK"; cases c) simp_all
  then show ?thesis by (simp only: exact e snd_conv)
qed

lemma run_users:
  assumes "list_all (\<lambda>c. c \<noteq> Call_insert_user) cs"
  shows "tab (db_run E cs d) Users = tab d Users"
  using assms by (induction cs arbitrary: d) (simp_all add: db_run_def call_users del: db_perform.simps)

lemma insert_user_new:
  assumes "db_insert_user E d = (i, d')"
  shows "\<exists>j. i = int32 j \<and> 0 < j \<and> j \<notin> user_ids (tab d) \<and> user_ids (tab d') = insert j (user_ids (tab d))"
proof -
  obtain rc rows d1 where e: "sq_exec E (InsertInto Users [(Col_id, None)]) d = ((rc, rows), d1)" by (metis prod.exhaust)
  have rc: "rc = SQLITE_OK" by (rule exec_new_row [OF e]) simp_all
  have i: "i = int32 (sq_last_insert_rowid E d')" "d1 = d'" using assms e by (auto simp: db_insert_user_def execute_query_def)
  let ?j = "sq_last_insert_rowid E d'"
  have t: "tab d' Users = tab d Users @ [new_row Users [(Col_id, None)] ?j]"
    using exec_ok [OF e rc] by (simp add: i(2))
  have "0 < ?j" "\<forall>r \<in> set (tab d Users). \<forall>i. r Col_id = Some i \<longrightarrow> i < ?j"
    using exec_rowid [OF e rc] by (simp_all add: i(2))
  then have "?j \<notin> user_ids (tab d)" by (auto simp: user_ids_def)
  moreover have "user_ids (tab d') = insert ?j (user_ids (tab d))"
    using t by (auto simp: user_ids_def new_row_def)
  ultimately show ?thesis using i(1) \<open>0 < ?j\<close> by blast
qed

end

text \<open>What an answer leaves of the administrator's own queue, and what it says.\<close>

definition quiet_queue :: "(int \<Rightarrow> int option) \<Rightarrow> int \<Rightarrow> (int \<times> q_message) list \<Rightarrow> ('k, 'db) cinema_host \<Rightarrow> bool" where
  "quiet_queue ids a q h \<longleftrightarrow> msg_ids h = ids \<and> msg_queues h a = Some q"

lemma keeps_quiet_db: "keeps (quiet_queue ids a q) (db_op m)"
  by (auto simp: keeps_def quiet_queue_def db_op_def split: prod.splits)

lemma keeps_quiet_send: "i \<noteq> a \<Longrightarrow> keeps (quiet_queue ids a q) (queue_send i m t)"
  by (auto simp: keeps_def quiet_queue_def queue_send_def split: option.splits)

lemma keeps_quiet_pay:
  "keeps (quiet_queue ids a q) (pay_all E c m7 i response)"
proof (induction E c m7 i response rule: pay_all.induct)
  case (1 E c m7 i response)
  show ?case
    unfolding pay_all.simps [of E c m7 i response]
    by (intro keeps_intros keeps_quiet_db) (simp_all add: 1)
qed

lemma keeps_quiet_update:
  assumes "made_of ch u v" and "u \<noteq> a" and "v \<noteq> a"
  shows "keeps (quiet_queue ids a q) (update_user ch seats status userid)"
  unfolding update_user_def Let_def
  by (intro keeps_intros keeps_send_channel keeps_quiet_send) (use assms in \<open>auto simp: made_of_def\<close>)

lemma keeps_quiet_updates:
  assumes "ids (ftok QUEUE_ACTIVITY_FILE QUEUE_ACTIVITY_CHAR) = Some u"
    and "ids (ftok QUEUE_ACTIVITY_FILE (next_char QUEUE_ACTIVITY_CHAR)) = Some v" and "u \<noteq> a" and "v \<noteq> a"
  shows "keeps (quiet_queue ids a q) (update_users ftok E room)"
proof -
  let ?I = "quiet_queue ids a q"
  have create: "carries ?I ?I (create_commqueue ftok QUEUE_ACTIVITY_FILE QUEUE_ACTIVITY_CHAR) (\<lambda>ch s. made_of ch u v \<and> ?I s)"
    by (rule carries_create) (use assms in \<open>simp add: quiet_queue_def\<close>)
  have rest: "keeps ?I (andThen (db_op (db_select_room_seats E room)) (\<lambda>seats.
      andThen (db_op (db_select_reservations E room)) (\<lambda>taken.
      andThen (defined (mark_taken taken (replicate (length seats) SEAT_STATUS_FREE))) (\<lambda>status.
        for_each users (update_user (ch\<lparr>orientation := Some COMMQUEUE_AS_SERVER\<rparr>) seats status)))))"
    if "made_of ch u v" for ch users
    by (intro keeps_intros keeps_quiet_db keeps_quiet_update [OF _ assms(3,4)]) (use that in \<open>simp add: made_of_def\<close>)
  have "keeps ?I (andThen (create_commqueue ftok QUEUE_ACTIVITY_FILE QUEUE_ACTIVITY_CHAR) (\<lambda>ch.
      andThen (db_op (db_select_room_seats E room)) (\<lambda>seats.
      andThen (db_op (db_select_reservations E room)) (\<lambda>taken.
      andThen (defined (mark_taken taken (replicate (length seats) SEAT_STATUS_FREE))) (\<lambda>status.
        for_each users (update_user (ch\<lparr>orientation := Some COMMQUEUE_AS_SERVER\<rparr>) seats status))))))" for users
    by (rule keeps_carries, rule carries_andThen [OF create], rule carries_pure, rule carries_keeps [OF rest])
  then show ?thesis
    unfolding update_users_def Let_def
    by (intro keeps_andThen [OF keeps_quiet_db] keeps_if keeps_ret)
qed

lemma keeps_quiet_answer:
  assumes "ids (ftok QUEUE_ACTIVITY_FILE QUEUE_ACTIVITY_CHAR) = Some u"
    and "ids (ftok QUEUE_ACTIVITY_FILE (next_char QUEUE_ACTIVITY_CHAR)) = Some v" and "u \<noteq> a" and "v \<noteq> a"
  shows "keeps (quiet_queue ids a q) (admin_answer ftok E request)"
  unfolding admin_answer_def admin_pay_def admin_exit_def admin_connect_def admin_rooms_def admin_seats_def
    admin_select_def select_response_def Let_def
  by (intro keeps_intros keeps_quiet_db keeps_quiet_pay keeps_quiet_updates [where u = u and v = v] assms)

lemma yields_other_answer:
  assumes "message_choice_number request \<noteq> CHOICE_CONNECTION_ACCEPTED"
  shows "yields (admin_answer ftok E request)
    (\<lambda>reply. \<forall>r. reply = Some r \<longrightarrow> message_choice_number r \<noteq> CHOICE_CONNECTION_ACCEPTED)"
  unfolding admin_answer_def admin_pay_def admin_exit_def admin_rooms_def admin_seats_def
    admin_select_def select_response_def Let_def andThen_assoc andThen_ret_left
  by (intro yields_if yields_andThen [OF yields_any] yields_ret yields_intros) (use assms in auto)

lemma db_calls_other_answer:
  assumes "message_choice_number request \<noteq> CHOICE_CONNECTION_ACCEPTED"
  shows "db_calls E (\<lambda>c. c \<noteq> Call_insert_user) (admin_answer ftok E request)"
  unfolding admin_answer_def admin_pay_def admin_exit_def admin_rooms_def admin_seats_def admin_select_def Let_def
  by (intro db_calls_intros db_calls_functions db_calls_pay_all db_calls_update_users db_calls_select_response)
    (use assms in simp_all)

text \<open>The response is put into the administrator's queue, or is not.\<close>

lemma response_sent:
  fixes h :: "'a ipc_scheme"
  assumes "made_of ch a b" and "orientation ch = Some COMMQUEUE_AS_SERVER" and "msg_queues h a = Some q"
  shows "\<exists>q'. msg_queues (snd (send_message ch r h)) a = Some q' \<and> msg_ids (snd (send_message ch r h)) = msg_ids h
     \<and> (granted q' = granted q \<or> granted q' = granted q @ granted_by r)"
proof -
  obtain m' t where "(send_message ch r :: (unit, 'a ipc_scheme) prog)
      = queue_send (if COMMQUEUE_AS_SERVER = 0 then id_firstqueue ch else id_secondqueue ch) m' t"
    and m': "message_choice_number m' = message_choice_number r" "msg_choice m' = msg_choice r"
    using send_message_oriented [OF assms(2), of r] by blast
  then have "send_message ch r h = queue_send a m' t h" using assms(1) by (simp add: made_of_def)
  with m' assms(3) show ?thesis by (auto simp: queue_send_def granted_def granted_by_def)
qed

lemma apart_new:
  "apart users ids ps \<Longrightarrow> j \<notin> users \<Longrightarrow> apart (insert j users) (ids @ [j]) ps"
  "apart users ids ps \<Longrightarrow> apart (insert j users) ids ps"
  by (auto simp: apart_def)

lemma handler_leaves:
  fixes h :: "('k, 'db) cinema_host"
  assumes engine: "reliable_engine E tab fk" and ch: "made_of ch a b" "orientation ch = Some COMMQUEUE_AS_SERVER"
    and h: "msg_queues h a = Some q" "msg_ids h (ftok QUEUE_ACTIVITY_FILE QUEUE_ACTIVITY_CHAR) = Some u"
      "msg_ids h (ftok QUEUE_ACTIVITY_FILE (next_char QUEUE_ACTIVITY_CHAR)) = Some v" "u \<noteq> a" "v \<noteq> a"
    and h': "h' = snd (admin_handle_request ftok E ch request h)"
  shows "\<exists>q'. msg_queues h' a = Some q' \<and> msg_ids h' = msg_ids h
     \<and> (ids_fit (tab (db h')) \<longrightarrow> ids_fit (tab (db h)) \<and>
          (\<forall>ps. apart (user_ids (tab (db h))) (granted q) ps \<longrightarrow> apart (user_ids (tab (db h'))) (granted q') ps))"
proof -
  obtain out h1 where ans: "admin_answer ftok E request h = (out, h1)" by (metis prod.exhaust)
  have "quiet_queue (msg_ids h) a q h1"
    using keepsD [OF keeps_quiet_answer [where ftok = ftok and a = a and u = u and v = v and ids = "msg_ids h" and q = q and E = E and request = request, OF h(2-5)], of h] ans h(1)
    by (simp add: quiet_queue_def)
  then have h1: "msg_ids h1 = msg_ids h" "msg_queues h1 a = Some q" by (simp_all add: quiet_queue_def)
  let ?ch = "ch\<lparr>cq_id := client_id (new_response request)\<rparr>"
  have ch': "made_of ?ch a b" "orientation ?ch = Some COMMQUEUE_AS_SERVER" using ch by (simp_all add: made_of_def)
  obtain q' where q': "msg_queues h' a = Some q'" "msg_ids h' = msg_ids h" "db h' = db h1"
    "granted q' = granted q \<or> (\<exists>r. out = Ret (Some r) \<and> granted q' = granted q @ granted_by r)"
  proof (cases "\<exists>r. out = Ret (Some r)")
    case True
    then obtain r where r: "out = Ret (Some r)" by blast
    then have "h' = snd (send_message ?ch r h1)" using ans h' by (simp add: admin_handle_request_def Let_def)
    with response_sent [OF ch' h1(2), of r] r h1(1) that show ?thesis by (auto simp: db_keeps_sends)
  next
    case False
    then have "h' = h1" using ans h' by (cases out) (auto simp: admin_handle_request_def Let_def split: option.splits)
    with False h1 that [of q] show ?thesis by simp
  qed
  show ?thesis
  proof (cases "message_choice_number request = CHOICE_CONNECTION_ACCEPTED")
    case False
    obtain cs where "list_all (\<lambda>c. c \<noteq> Call_insert_user) cs" "db h1 = db_run E cs (db h)"
      using db_callsD [OF db_calls_other_answer [OF False], of ftok E h] ans by auto
    then have users: "user_ids (tab (db h')) = user_ids (tab (db h))"
      using reliable_engine.run_users [OF engine] q'(3) by (simp add: user_ids_def)
    have "granted q' = granted q"
      using q'(4) yieldsD [OF yields_other_answer [OF False], of ftok E h] ans by (auto simp: granted_by_def)
    with q'(1,2) users show ?thesis by (auto simp: ids_fit_def)
  next
    case True
    obtain i d1 where i: "db_insert_user E (db h) = (i, d1)" by (metis prod.exhaust)
    obtain res d2 where l: "db_login_user E i d1 = (res, d2)" by (metis prod.exhaust)
    have run: "out = Ret (Some ((new_response request)\<lparr>message_choice_number := CHOICE_CONNECTION_ACCEPTED, msg_choice := M1 i\<rparr>))"
      "db h1 = d2"
      using ans True i l by (auto simp: admin_answer_def admin_connect_def db_op_run)
    obtain j where j: "i = int32 j" "0 < j" "j \<notin> user_ids (tab (db h))" "user_ids (tab d1) = insert j (user_ids (tab (db h)))"
      using reliable_engine.insert_user_new [OF engine i] by blast
    have "tab d2 Users = tab d1 Users"
      using reliable_engine.call_users [OF engine, of "Call_login i" d1] l by simp
    then have users: "user_ids (tab (db h')) = insert j (user_ids (tab (db h)))" using j(4) run(2) q'(3) by (simp add: user_ids_def)
    have fit: "ids_fit (tab (db h)) \<and> i = j" if "ids_fit (tab (db h'))"
      using that users j(1,2) by (simp add: ids_fit_def int32_id)
    have "granted q' = granted q \<or> granted q' = granted q @ [i]"
      using q'(4) run(1) by (auto simp: granted_by_def as_m1_def)
    then have "apart (user_ids (tab (db h'))) (granted q') ps"
      if "apart (user_ids (tab (db h))) (granted q) ps" "ids_fit (tab (db h'))" for ps
      using apart_new [OF that(1), of j] fit that(2) j(3) users by auto
    with q'(1,2) fit show ?thesis by blast
  qed
qed

lemma keeps_identified_handler:
  fixes E :: "'db sqlite"
  assumes "reliable_engine E tab fk" and "made_of ch (answers W) (questions W)" and "orientation ch = Some COMMQUEUE_AS_SERVER"
  shows "keeps (identified tab ftok W []) (on_cinema (admin_handle_request ftok E ch request))"
  unfolding keeps_def
proof (intro allI impI)
  fix s :: "('k, 'db) cinema_system"
  let ?m = "admin_handle_request ftok E ch request :: (unit, ('k, 'db) cinema_host) prog"
  let ?h = "host.extend (host.truncate s) (cinema_host.fields (store s))"
  assume inv: "identified tab ftok W [] s"
  then obtain q where q: "msg_queues s (answers W) = Some q" by (auto dest: identified_answers)
  have W: "msg_ids ?h (ftok QUEUE_ACTIVITY_FILE QUEUE_ACTIVITY_CHAR) = Some (updates W)"
    "msg_ids ?h (ftok QUEUE_ACTIVITY_FILE (next_char QUEUE_ACTIVITY_CHAR)) = Some (updates_back W)"
    "updates W \<noteq> answers W" "updates_back W \<noteq> answers W"
    using inv by (auto simp: identified_def wired_host_def on_cinema_parts)
  have hq: "msg_queues ?h (answers W) = Some q" using q by (simp only: on_cinema_parts)
  from handler_leaves [where ftok = ftok and h = ?h and request = request, OF assms hq W refl]
  show "identified tab ftok W [] (snd (on_cinema ?m s))"
    using inv q by (auto simp: identified_def wired_host_def on_cinema_parts)
qed

section \<open>The turns\<close>

text \<open>What the administrator's daemon does before its loop.\<close>

lemma keeps_identified_admin:
  fixes m :: "('a, ('k, 'db) cinema_host) prog"
  assumes "reliable_engine E tab fk" and "db_calls E (\<lambda>c. c \<noteq> Call_insert_user) m"
    and "\<And>(s :: ('k, 'db) cinema_system) q. wired_host ftok W s \<Longrightarrow> keeps (quiet_queue (msg_ids s) (answers W) q) m"
  shows "keeps (identified tab ftok W []) (on_cinema m)"
  unfolding keeps_def
proof (intro allI impI)
  fix s :: "('k, 'db) cinema_system"
  let ?h = "host.extend (host.truncate s) (cinema_host.fields (store s))"
  assume inv: "identified tab ftok W [] s"
  then obtain q where q: "msg_queues s (answers W) = Some q" by (auto dest: identified_answers)
  have "quiet_queue (msg_ids s) (answers W) q ?h" using q unfolding quiet_queue_def on_cinema_parts(2,3) by simp
  then have h: "quiet_queue (msg_ids s) (answers W) q (snd (m ?h))"
    by (rule keepsD [OF assms(3), rotated]) (use inv in \<open>simp add: identified_def\<close>)
  obtain cs where "list_all (\<lambda>c. c \<noteq> Call_insert_user) cs" "db (snd (m ?h)) = db_run E cs (db ?h)"
    using db_callsD [OF assms(2)] by blast
  then have "tab (db (snd (m ?h))) Users = tab (store s) Users"
    using reliable_engine.run_users [OF assms(1)] by (metis on_cinema_parts(1))
  then have users: "user_ids (tab (store (snd (on_cinema m s)))) = user_ids (tab (store s))"
    by (simp add: user_ids_def on_cinema_parts)
  have "msg_ids (snd (on_cinema m s)) = msg_ids s" "msg_queues (snd (on_cinema m s)) (answers W) = Some q"
    using h by (simp_all add: quiet_queue_def on_cinema_parts)
  with users inv q show "identified tab ftok W [] (snd (on_cinema m s))"
    by (auto simp: identified_def wired_host_def ids_fit_def on_cinema_parts)
qed

lemma daemon_start_yields:
  fixes h :: "('k, 'db) cinema_host"
  assumes "admin_daemon_start ftok E h = (Ret ch, h')"
    and "msg_ids h (ftok QUEUE_CINEMA_ADMIN_FILE QUEUE_CINEMA_ADMIN_CHAR) = Some a"
    and "msg_ids h (ftok QUEUE_CINEMA_ADMIN_FILE (next_char QUEUE_CINEMA_ADMIN_CHAR)) = Some b"
  shows "made_of ch a b \<and> orientation ch = Some COMMQUEUE_AS_SERVER"
proof -
  let ?I = "\<lambda>h :: ('k, 'db) cinema_host. msg_ids h (ftok QUEUE_CINEMA_ADMIN_FILE QUEUE_CINEMA_ADMIN_CHAR) = Some a
     \<and> msg_ids h (ftok QUEUE_CINEMA_ADMIN_FILE (next_char QUEUE_CINEMA_ADMIN_CHAR)) = Some b"
  have db: "keeps ?I (db_op q)" for q :: "('x, 'db) query"
    by (auto simp: keeps_def db_op_def split: prod.splits)
  have "carries ?I ?I (admin_daemon_start ftok E) (\<lambda>ch h. made_of ch a b \<and> orientation ch = Some COMMQUEUE_AS_SERVER)"
    unfolding admin_daemon_start_def clean_db_tables_def andThen_assoc andThen_ret_left
    by (rule carries_step [OF db] carries_andThen [OF carries_create [where a = a and b = b]] carries_ret | simp add: made_of_def)+
  from carriesD(1) [OF this _ assms(1)] assms(2,3) show ?thesis by simp
qed

lemma quiet_daemon_start:
  assumes "ids (ftok QUEUE_CINEMA_ADMIN_FILE QUEUE_CINEMA_ADMIN_CHAR) = Some a"
    and "ids (ftok QUEUE_CINEMA_ADMIN_FILE (next_char QUEUE_CINEMA_ADMIN_CHAR)) = Some b"
  shows "keeps (quiet_queue ids c q) (admin_daemon_start ftok E)"
proof -
  let ?I = "quiet_queue ids c q"
  have "carries ?I ?I (create_commqueue ftok QUEUE_CINEMA_ADMIN_FILE QUEUE_CINEMA_ADMIN_CHAR) (\<lambda>ch s. made_of ch a b \<and> ?I s)"
    by (rule carries_create) (use assms in \<open>simp add: quiet_queue_def\<close>)
  then have "keeps ?I (create_commqueue ftok QUEUE_CINEMA_ADMIN_FILE QUEUE_CINEMA_ADMIN_CHAR)"
    by (rule keeps_carries [OF carries_weaken]) simp
  then show ?thesis
    unfolding admin_daemon_start_def clean_db_tables_def by (intro keeps_intros keeps_quiet_db)
qed

lemma carries_daemon_start:
  fixes E :: "'db sqlite"
  assumes "reliable_engine E tab fk"
  shows "carries (identified tab ftok W []) (identified tab ftok W [])
    (on_cinema (admin_daemon_start ftok E) :: (commqueue, ('k, 'db) cinema_system) prog)
    (\<lambda>ch s. (made_of ch (answers W) (questions W) \<and> orientation ch = Some COMMQUEUE_AS_SERVER) \<and> identified tab ftok W [] s)"
  unfolding carries_def
proof (intro allI impI)
  fix s :: "('k, 'db) cinema_system"
  let ?h = "host.extend (host.truncate s) (cinema_host.fields (store s))"
  let ?m = "admin_daemon_start ftok E :: (commqueue, ('k, 'db) cinema_host) prog"
  assume inv: "identified tab ftok W [] s"
  have "keeps (identified tab ftok W []) (on_cinema ?m)"
    by (rule keeps_identified_admin [OF assms db_calls_daemon_start], rule quiet_daemon_start)
      (auto simp: wired_host_def)
  then have inv': "identified tab ftok W [] (snd (on_cinema ?m s))" using inv by (rule keepsD)
  have ids: "msg_ids ?h (ftok QUEUE_CINEMA_ADMIN_FILE QUEUE_CINEMA_ADMIN_CHAR) = Some (answers W)"
    "msg_ids ?h (ftok QUEUE_CINEMA_ADMIN_FILE (next_char QUEUE_CINEMA_ADMIN_CHAR)) = Some (questions W)"
    unfolding on_cinema_parts(2) using inv by (simp_all add: identified_def wired_host_def)
  obtain out h' where m: "?m ?h = (out, h')" by (metis prod.exhaust)
  have out: "fst (on_cinema ?m s) = out" unfolding on_cinema_parts(9) m by simp
  have "made_of ch (answers W) (questions W) \<and> orientation ch = Some COMMQUEUE_AS_SERVER" if "out = Ret ch" for ch
    using daemon_start_yields [where ftok = ftok and h = ?h, OF _ ids] m that by blast
  then show "case on_cinema ?m s of
      (Ret ch, s') \<Rightarrow> (made_of ch (answers W) (questions W) \<and> orientation ch = Some COMMQUEUE_AS_SERVER) \<and> identified tab ftok W [] s'
    | (_, s') \<Rightarrow> identified tab ftok W [] s'"
    using inv' out by (cases "on_cinema ?m s"; cases out) auto
qed

text \<open>Each turn keeps the invariant and goes on as a process that uses the same queues and serves the same client.\<close>

definition goes_on :: "queue_ids \<Rightarrow> cinema_process \<Rightarrow> cinema_process option \<Rightarrow> bool" where
  "goes_on W P next \<longleftrightarrow> (\<forall>P'. next = Some P' \<longrightarrow> wired W P' \<and> (serves P' = None \<or> serves P' = serves P))"

lemma goes_on_intros: "goes_on W P None" "wired W P \<Longrightarrow> goes_on W P (Some P)"
  by (simp_all add: goes_on_def)

lemma carries_goes_on:
  "goes_on W P next \<Longrightarrow> carries I I (ret next) (\<lambda>next s. goes_on W P next \<and> I s)"
  by (simp add: carries_ret)

lemma keeps_identified_calls:
  assumes env: "\<And>t. identified tab ftok W [] t \<Longrightarrow> identified tab ftok W [] (env t)" and "wired_cinema W cinema"
  shows "keeps (identified tab ftok W []) (listen_turn env cinema timer mutex now)"
    and "keeps (identified tab ftok W []) (listen_end env cinema timer mutex)"
    and "keeps (identified tab ftok W []) (cinema_network_turn env K junk fd cinema)"
proof -
  have ch: "keeps (identified tab ftok W []) (send_message (client_comm cinema) m)"
    "keeps (identified tab ftok W []) (send_message ((client_comm cinema)\<lparr>orientation := o1, cq_id := i\<rparr>) m)"
    "keeps (identified tab ftok W []) (send_message (admin_comm cinema) m)" for m o1 i
    by (rule keeps_identified_channels, use assms(2) in \<open>simp add: wired_cinema_def made_of_def\<close>)+
  note k = keeps_intros keeps_pair ch keeps_queues_kernel [OF rests_identified] keeps_identified_receives [OF env]
    keeps_table_timers [OF rests_identified env]
  show "keeps (identified tab ftok W []) (listen_turn env cinema timer mutex now)"
    unfolding listen_turn_def cinema_handle_def Let_def by (intro k; assumption)
  show "keeps (identified tab ftok W []) (listen_end env cinema timer mutex)"
    unfolding listen_end_def Let_def by (intro k; assumption)
  show "keeps (identified tab ftok W []) (cinema_network_turn env K junk fd cinema)"
    unfolding cinema_network_turn_def Let_def by (intro k; assumption)
qed

lemma keeps_identified_timer:
  assumes env: "\<And>t. identified tab ftok W [] t \<Longrightarrow> identified tab ftok W [] (env t)"
    and "made_of ch (requests_in W) (requests_out W)"
  shows "keeps (identified tab ftok W []) (timer_turn env timer ch mutex now)"
proof -
  have send: "keeps (identified tab ftok W []) (send_message (ch\<lparr>orientation := o1\<rparr>) m)" for m o1
    by (rule keeps_identified_channels) (use assms(2) in \<open>simp add: made_of_def\<close>)
  show ?thesis
    unfolding timer_turn_def Let_def
    by (intro keeps_intros send keeps_table_timers [OF rests_identified env]; assumption)
qed

text \<open>The taker: from the message of the administrator to the fork of the listener.\<close>

lemma carries_take_client:
  assumes env: "\<And>t. identified tab ftok W [] t \<Longrightarrow> identified tab ftok W [] (env t)" and W: "wired_cinema W cinema"
  shows "carries (identified tab ftok W []) (identified tab ftok W []) (cinema_take_client env cinema)
    (\<lambda>client. identified tab ftok W [client])"
proof -
  let ?I = "identified tab ftok W"
  have ask: "keeps (?I []) (send_message (admin_comm cinema) m)" for m
    by (rule keeps_identified_channels) (use W in \<open>simp add: wired_cinema_def\<close>)
  have confirm: "keeps (?I hand) (send_confirmation (cinema\<lparr>client_comm := (client_comm cinema)\<lparr>cq_id := i\<rparr>,
      admin_comm := a, cinema_client_id := c\<rparr>))" for hand i a c
    unfolding send_confirmation_def
    by (rule keeps_identified_channels) (use W in \<open>simp add: wired_cinema_def made_of_def\<close>)
  have answer: "carries (?I []) (?I []) (receive_message env ((admin_comm cinema)\<lparr>cq_id := i\<rparr>)) (\<lambda>m. ?I (granted_by m))" for i
    by (rule carries_receive_answer [OF _ _ env]) (use W in \<open>simp_all add: wired_cinema_def made_of_def\<close>)
  have rest: "carries (?I []) (?I (granted_by m))
      (if message_choice_number m \<noteq> CHOICE_CONNECTION_ACCEPTED then throw_util
       else andThen (send_confirmation (cinema\<lparr>client_comm := (client_comm cinema)\<lparr>cq_id := i\<rparr>,
            admin_comm := a, cinema_client_id := as_m1 (msg_choice m)\<rparr>)) (\<lambda>_. ret (as_m1 (msg_choice m))))
      (\<lambda>client. ?I [client])" for m i a
    by (auto simp: granted_by_def intro: identified_hand intro!: carries_throw carries_ret
        carries_andThen [OF carries_keeps [OF confirm]])
  have "cinema_take_client env cinema =
      andThen (receive_message_type env (client_comm cinema) TYPE_CONNECTION_CINEMA_REQUEST) (\<lambda>message.
      let client = as_m1 (msg_choice message) in
      andThen (send_message (admin_comm cinema)
        (zero_message\<lparr>client_id := client, message_choice_number := CHOICE_CONNECTION_ACCEPTED\<rparr>)) (\<lambda>_.
      andThen (receive_message env ((admin_comm cinema)\<lparr>cq_id := client\<rparr>)) (\<lambda>m.
        if message_choice_number m \<noteq> CHOICE_CONNECTION_ACCEPTED then throw_util
        else andThen (send_confirmation (cinema\<lparr>client_comm := (client_comm cinema)\<lparr>cq_id := client\<rparr>,
            admin_comm := (admin_comm cinema)\<lparr>cq_id := client\<rparr>, cinema_client_id := as_m1 (msg_choice m)\<rparr>))
          (\<lambda>_. ret (as_m1 (msg_choice m))))))"
    by (simp add: cinema_take_client_def Let_def cong: if_cong)
  then show ?thesis
    unfolding Let_def
    by (simp only:) (rule carries_step [OF keeps_identified_receives(1) [OF env]], assumption,
        rule carries_step [OF ask], rule carries_andThen [OF answer], rule rest)
qed

lemma carries_setup:
  "carries (identified tab ftok W []) (identified tab ftok W []) (cinema_setup ftok K)
    (\<lambda>cinema s. wired_cinema W cinema \<and> identified tab ftok W [] s)"
proof -
  let ?I = "identified tab ftok W []"
  have create: "carries ?I ?I (create_commqueue ftok QUEUE_COMMUNICATION_FILE QUEUE_COMMUNICATION_CHAR)
      (\<lambda>ch s. made_of ch (requests_in W) (requests_out W) \<and> ?I s)"
    "carries ?I ?I (create_commqueue ftok QUEUE_CINEMA_ADMIN_FILE QUEUE_CINEMA_ADMIN_CHAR)
      (\<lambda>ch s. made_of ch (answers W) (questions W) \<and> ?I s)"
    by (rule carries_create, simp add: identified_def wired_host_def)+
  note net = keeps_queues_kernel(5) [OF rests_identified]
  show ?thesis
    unfolding cinema_setup_def
    by (rule carries_andThen [OF create(1)], rule carries_pure, rule carries_andThen [OF create(2)], rule carries_pure,
        rule carries_step [OF net], rule carries_step [OF net], rule carries_ret)
      (simp add: wired_cinema_def made_of_def)
qed

lemma carries_update_start:
  "carries (identified tab ftok W []) (identified tab ftok W []) (update_network_start ftok K)
    (\<lambda>(fd, ch) s. made_of ch (updates W) (updates_back W) \<and> identified tab ftok W [] s)"
proof -
  let ?I = "identified tab ftok W []"
  have create: "carries ?I ?I (create_commqueue ftok QUEUE_ACTIVITY_FILE QUEUE_ACTIVITY_CHAR)
      (\<lambda>ch s. made_of ch (updates W) (updates_back W) \<and> ?I s)"
    by (rule carries_create, simp add: identified_def wired_host_def)
  note net = keeps_queues_kernel(5) [OF rests_identified]
  show ?thesis
    unfolding update_network_start_def
    by (rule carries_step [OF net], rule carries_step [OF net], rule carries_step [OF net],
        rule carries_andThen [OF create], rule carries_pure, rule carries_ret)
      (simp add: made_of_def)
qed

lemma carries_turn:
  fixes E :: "'db sqlite" and env :: "('k, 'db) cinema_system \<Rightarrow> ('k, 'db) cinema_system"
  assumes engine: "reliable_engine E tab fk" and W: "wired W P"
    and env: "\<And>t. identified tab ftok W [] t \<Longrightarrow> identified tab ftok W [] (env t)"
  shows "carries (identified tab ftok W []) (identified tab ftok W []) (cinema_turn ftok E K c self env P)
    (\<lambda>next s. goes_on W P next \<and> identified tab ftok W [] s)"
proof (cases P)
  case Cinema_main
  have fork: "keeps (identified tab ftok W []) (network_listen pid cinema :: (unit, ('k, 'db) cinema_system) prog)"
    if "wired_cinema W cinema" for pid cinema
    unfolding network_listen_def using that by (intro keeps_intros keeps_identified_fork) simp_all
  have "keeps (identified tab ftok W []) (admin_start pid :: (unit, ('k, 'db) cinema_system) prog)" for pid
    unfolding admin_start_def by (intro keeps_intros keeps_identified_fork) simp_all
  note k = carries_step [OF this]
  show ?thesis
    unfolding Cinema_main cinema_turn.simps cinema_main_def cinema_start_def andThen_assoc andThen_ret_left
    by (rule k, rule carries_andThen [OF carries_setup], rule carries_pure, rule carries_step [OF fork], assumption,
        rule carries_goes_on) (simp add: goes_on_def)
next
  case Admin_child
  have fork: "keeps (identified tab ftok W []) (init_update_network pid :: (unit, ('k, 'db) cinema_system) prog)" for pid
    unfolding init_update_network_def by (intro keeps_intros keeps_identified_fork) simp_all
  show ?thesis
    unfolding Admin_child cinema_turn.simps admin_daemon_def andThen_assoc andThen_ret_left
    by (rule carries_andThen [OF carries_daemon_start [OF engine]], rule carries_pure, rule carries_step [OF fork],
        rule carries_goes_on) (simp add: goes_on_def)
next
  case (Admin_loop ch)
  have ch: "wired W (Request_handler ch m)" for m using W by (simp add: Admin_loop)
  show ?thesis
    unfolding Admin_loop cinema_turn.simps listen_request_def andThen_assoc andThen_ret_left
    by (rule carries_step [OF keeps_identified_receives(1) [OF env]], assumption,
        rule carries_step [OF keeps_identified_fork [OF ch]], simp, rule carries_goes_on)
      (use W in \<open>simp add: goes_on_def Admin_loop\<close>)
next
  case (Request_handler ch request)
  then have ch: "made_of ch (answers W) (questions W)" "orientation ch = Some COMMQUEUE_AS_SERVER" using W by simp_all
  show ?thesis
    unfolding Request_handler cinema_turn.simps
    by (rule carries_step [OF keeps_identified_handler [OF engine ch]], rule carries_goes_on) (simp add: goes_on_def)
next
  case Update_child
  show ?thesis
    unfolding Update_child cinema_turn.simps
    by (rule carries_andThen [OF carries_update_start]) (auto intro!: carries_pure carries_ret simp: goes_on_def)
next
  case (Update_loop fd ch)
  have "keeps (identified tab ftok W []) (update_network_turn env K junk fd ch)" for junk
    unfolding update_network_turn_def
    by (intro keeps_intros keeps_identified_receives [OF env] keeps_queues_kernel [OF rests_identified]; assumption)
  note k = carries_step [OF this]
  show ?thesis
    unfolding Update_loop cinema_turn.simps
    by (rule k, rule carries_goes_on) (use W in \<open>simp add: goes_on_def Update_loop\<close>)
next
  case (Accept_loop cinema)
  have ch: "wired W (Connection_loop fd cinema)" for fd using W by (simp add: Accept_loop)
  show ?thesis
    unfolding Accept_loop cinema_turn.simps accept_connection_turn_def network_listen_accept_def andThen_assoc andThen_ret_left
    by (rule carries_step [OF keeps_queues_kernel(5) [OF rests_identified]],
        rule carries_step [OF keeps_identified_fork [OF ch]], simp, rule carries_goes_on)
      (use W in \<open>simp add: goes_on_def Accept_loop\<close>)
next
  case (Connection_loop fd cinema)
  then have cinema: "wired_cinema W cinema" using W by simp
  show ?thesis
    unfolding Connection_loop cinema_turn.simps
    by (rule carries_step [OF keeps_identified_calls(3) [OF env cinema]], assumption, rule carries_goes_on)
      (use W in \<open>simp add: goes_on_def Connection_loop\<close>)
next
  case (Take_loop cinema)
  then have cinema: "wired_cinema W cinema" using W by simp
  have fork: "carries (identified tab ftok W []) (identified tab ftok W [client])
      (fork_as pid (Listener_child (cinema\<lparr>cinema_client_id := client\<rparr>))) (\<lambda>_. identified tab ftok W [])" for pid client
    by (rule carries_fork) (use cinema in \<open>simp_all add: wired_cinema_def\<close>)
  show ?thesis
    unfolding Take_loop cinema_turn.simps take_client_turn_def andThen_assoc andThen_ret_left
    by (rule carries_andThen [OF carries_take_client [OF env cinema]], assumption, rule carries_andThen [OF fork],
        rule carries_goes_on) (use W in \<open>simp add: goes_on_def Take_loop\<close>)
next
  case (Listener_child cinema)
  let ?cinema = "cinema\<lparr>client_comm := (client_comm cinema)\<lparr>cq_id := cinema_client_id cinema\<rparr>\<rparr>"
  have cinema: "wired_cinema W ?cinema" using W by (simp add: Listener_child wired_cinema_def made_of_def)
  have fork: "keeps (identified tab ftok W []) (fork_as pid (Timer_loop timer (client_comm ?cinema) mutex) :: (int, ('k, 'db) cinema_system) prog)"
    for pid timer mutex
    by (rule keeps_identified_fork) (use cinema in \<open>simp_all add: wired_cinema_def\<close>)
  show ?thesis
    unfolding Listener_child cinema_turn.simps listener_begin_def Let_def
    by (rule carries_step [OF keeps_queues_kernel(1) [OF rests_identified]],
        rule carries_step [OF keeps_table_timers(3) [OF rests_identified env]], assumption,
        rule carries_step [OF fork], rule carries_goes_on) (use cinema in \<open>simp add: goes_on_def\<close>)
next
  case (Listener_loop cinema timer mutex timer_pid)
  then have cinema: "wired_cinema W cinema" using W by simp
  have stop: "carries (identified tab ftok W []) (identified tab ftok W [])
      (if exit = 0 then ret (Some P) else andThen (kill_process self timer_pid) (\<lambda>_.
         andThen (listen_end env cinema timer mutex) (\<lambda>_. ret None)))
      (\<lambda>next s. goes_on W P next \<and> identified tab ftok W [] s)" for exit :: int
    using W by (auto intro!: goes_on_intros carries_goes_on carries_step [OF keeps_identified_kill]
        carries_step [OF keeps_identified_calls(2) [OF env cinema]])
  show ?thesis
    unfolding Listener_loop cinema_turn.simps listener_again_def
    by (rule carries_step [OF keeps_identified_calls(1) [OF env cinema]], assumption, rule stop [unfolded Listener_loop])
next
  case (Timer_loop timer ch mutex)
  then have ch: "made_of ch (requests_in W) (requests_out W)" using W by simp
  have stop: "carries (identified tab ftok W []) (identified tab ftok W [])
      (if stop = True then andThen (shm_dettach timer) (\<lambda>_. ret None) else ret (Some P))
      (\<lambda>next s. goes_on W P next \<and> identified tab ftok W [] s)" for stop
    using W by (auto intro!: goes_on_intros carries_goes_on carries_step [OF keeps_queues_kernel(4) [OF rests_identified]])
  show ?thesis
    unfolding Timer_loop cinema_turn.simps timer_again_def
    by (rule carries_step [OF keeps_identified_timer [OF env ch]], assumption, rule stop [unfolded Timer_loop])
qed

section \<open>One listener for each client\<close>

text \<open>The place in the table of a process in its turn is its own, or it has been killed.\<close>

lemma keeps_table_cinema:
  assumes turn: "cinema_turns ftok E K pid env P m" and env: "\<And>t. table_of B f t \<Longrightarrow> table_of B f (env t)"
  shows "keeps (table_of B f) m"
proof -
  obtain c where m: "m = cinema_turn ftok E K c pid env P" using turn by (auto simp: cinema_turns_def)
  show ?thesis
    unfolding m by (rule keeps_table_turn [OF rests_table_of keeps_table_fork keeps_table_kill _ _ env])
      (simp_all add: keeps_def table_of_def on_cinema_parts)
qed

lemma place_in_turn:
  assumes "cinema_turns ftok E K pid env P m" and "\<And>t. runs (cinema_turns ftok E K) t (env t)"
    and "procs s pid = Some P" and "m (begin_turn pid s) = (out, s1)"
  shows "procs s1 pid = Some P \<or> procs s1 pid = None"
proof -
  have "table_of (insert pid (busy s)) (procs s) s1"
  proof -
    have "keeps (table_of (insert pid (busy s)) (procs s)) m"
      by (rule keeps_table_cinema [OF assms(1)], rule runs_table [OF assms(2)], assumption, rule keeps_table_cinema)
    from keepsD [OF this, of "begin_turn pid s"] assms(4) show ?thesis by (simp add: table_of_def)
  qed
  then show ?thesis using assms(3) by (auto simp: table_of_def)
qed

lemma apart_served:
  assumes "apart users ids ps" and "\<And>pid P c. ps' pid = Some P \<Longrightarrow> serves P = Some c \<Longrightarrow> \<exists>Q. ps pid = Some Q \<and> serves Q = Some c"
  shows "apart users ids ps'"
  unfolding apart_def
proof (intro conjI allI impI)
  show "distinct ids" "set ids \<subseteq> users" using assms(1) by (simp_all add: apart_def)
next
  fix pid P c
  assume "ps' pid = Some P" "serves P = Some c"
  then obtain Q where "ps pid = Some Q" "serves Q = Some c" using assms(2) by blast
  with assms(1) show "c \<in> users" "c \<notin> set ids" by (auto simp: apart_def)
next
  fix pid pid' P P' c
  assume "ps' pid = Some P" "ps' pid' = Some P'" "serves P = Some c" "serves P' = Some c"
  then obtain Q Q' where "ps pid = Some Q" "serves Q = Some c" "ps pid' = Some Q'" "serves Q' = Some c"
    using assms(2) by meson
  with assms(1) show "pid = pid'" unfolding apart_def by blast
qed

lemma identified_end_turn:
  assumes inv: "identified tab ftok W [] s" and place: "procs s pid = Some P \<or> procs s pid = None"
    and goes: "goes_on W P (after_turn out)"
  shows "identified tab ftok W [] (end_turn pid out s)"
proof -
  have "\<exists>Q. procs s p = Some Q \<and> serves Q = Some c"
    if "procs (end_turn pid out s) p = Some P'" "serves P' = Some c" for p P' c
    using place goes that by (auto simp: goes_on_def procs_end_turn split: if_splits)
  then have "apart users ids (procs (end_turn pid out s))" if "apart users ids (procs s)" for users ids
    using that by (rule apart_served [rotated])
  moreover have "wired W P'" if "procs (end_turn pid out s) p = Some P'" for p P'
    using inv place goes that by (auto simp: identified_def goes_on_def procs_end_turn split: if_splits)
  ultimately show ?thesis using inv by (auto simp: identified_def wired_host_def)
qed

lemma identified_run:
  assumes "reliable_engine E tab fk" and "runs (cinema_turns ftok E K) s s'" and "identified tab ftok W [] s"
  shows "identified tab ftok W [] s'"
proof (rule runs_keeps [where I = "identified tab ftok W []", OF assms(2,3)])
  fix s pid env P m out s1
  assume inv: "identified tab ftok W [] s" and P: "procs s pid = Some P" and turn: "cinema_turns ftok E K pid env P m"
    and others: "\<And>t. runs (cinema_turns ftok E K) t (env t)"
    and env: "\<And>t. identified tab ftok W [] t \<Longrightarrow> identified tab ftok W [] (env t)"
    and m: "m (begin_turn pid s) = (out, s1)"
  obtain c where c: "m = cinema_turn ftok E K c pid env P" using turn by (auto simp: cinema_turns_def)
  have P': "wired W P" using inv P by (simp add: identified_def)
  have turn': "carries (identified tab ftok W []) (identified tab ftok W []) m
      (\<lambda>next s. goes_on W P next \<and> identified tab ftok W [] s)"
    unfolding c by (rule carries_turn [OF assms(1) P']) (rule env)
  have inv0: "identified tab ftok W [] (begin_turn pid s)" using inv by (simp add: identified_def wired_host_def)
  have "identified tab ftok W [] s1 \<and> goes_on W P (after_turn out)"
    using carriesD [OF turn' inv0 m] by (cases out) (auto simp: after_turn_def goes_on_intros)
  then show "identified tab ftok W [] (end_turn pid out s1)"
    using identified_end_turn place_in_turn [OF turn others P m] by blast
qed

text \<open>A host as \<open>main\<close> finds it: the queues are there and hold no acceptance, and no listener is left.\<close>

definition starts_clean :: "ftok \<Rightarrow> queue_ids \<Rightarrow> ('k, 'db) cinema_system \<Rightarrow> bool" where
  "starts_clean ftok W s \<longleftrightarrow> wired_host ftok W s
     \<and> (\<forall>pid P. procs s pid = Some P \<longrightarrow> wired W P \<and> serves P = None)
     \<and> (\<exists>q. msg_queues s (answers W) = Some q \<and> granted q = [])"

text \<open>C3. Everybody has a listener of his own: on a reliable engine, and as long as the identifiers of the users fit into an
  \<open>int\<close>, however the processes of the cinema's host run, from \<open>main\<close> on with no answer left in the queues, however they
  interleave and whichever of their forks, network calls and other calls fail or are killed, no two listeners ever serve
  the same identifier, and each serves one that the administrator has made a user of the database.  (Where the
  insertion of the user may fail this is not so: \<open>db_insert_user\<close> then returns the row number of the insertion before.)\<close>

theorem one_listener_per_client:
  assumes "reliable_engine E tab fk" and "starts_clean ftok W s" and "runs (cinema_turns ftok E K) s s'"
    and "ids_fit (tab (store s'))"
    and "procs s' pid = Some P" and "procs s' pid' = Some P'" and "serves P = Some c" and "serves P' = Some c"
  shows "pid = pid' \<and> c \<in> user_ids (tab (store s'))"
proof -
  have "identified tab ftok W [] s"
    using assms(2) by (fastforce simp: identified_def starts_clean_def apart_def)
  from identified_run [OF assms(1,3) this] assms(4-)
  show ?thesis by (fastforce simp: identified_def apart_def)
qed

text \<open>An example: a client has asked to be connected and the taker has registered him; the handler gives him the
  identifier 1, and the taker forks his listener.\<close>

definition small_queues :: queue_ids where
  "small_queues = \<lparr>requests_in = 1, requests_out = 2, answers = 3, questions = 4, updates = 5, updates_back = 6\<rparr>"

definition registration :: q_message where
  "registration = zero_message\<lparr>client_id := 500, message_choice_number := CHOICE_CONNECTION_ACCEPTED\<rparr>"

definition connecting_system :: "(unit, ref_db) cinema_system" where
  "connecting_system = host.extend (host.truncate (set_queue 2 [(1, connect_example)] small_host))
     (system.fields small_db [2 \<mapsto> Take_loop small_cinema, 5 \<mapsto> Request_handler admin_channel registration] {})"

lemma connecting_parts:
  "procs connecting_system = [2 \<mapsto> Take_loop small_cinema, 5 \<mapsto> Request_handler admin_channel registration]"
  "busy connecting_system = {}" "store connecting_system = small_db"
  "msg_queues connecting_system = [1 \<mapsto> [], 2 \<mapsto> [(1, connect_example)], 3 \<mapsto> [], 4 \<mapsto> [], 5 \<mapsto> [], 6 \<mapsto> []]"
  "msg_ids connecting_system = [97 \<mapsto> 1, 98 \<mapsto> 2, 101 \<mapsto> 3, 102 \<mapsto> 4, 104 \<mapsto> 5, 105 \<mapsto> 6]"
  by (auto simp: connecting_system_def host.defs system.defs small_host_def set_queue_def)

lemma connecting_clean: "starts_clean small_ftok small_queues connecting_system"
  by (simp add: starts_clean_def wired_host_def connecting_parts small_ftok_def QUEUE_COMMUNICATION_CHAR_def
      QUEUE_CINEMA_ADMIN_CHAR_def QUEUE_ACTIVITY_CHAR_def next_char_letters small_queues_def granted_def
      wired_cinema_def made_of_def small_cinema_def admin_channel_def)

lemma registration_id:
  "fst (db_insert_user ref_engine small_db) = 1"
  "map (\<lambda>r. r Col_id) (rd_tab (snd (db_login_user ref_engine 1 (snd (db_insert_user ref_engine small_db)))) Users) = [Some 1]"
  by code_simp+

text \<open>The handler's turn.\<close>

lemma registration_handled:
  "\<exists>s1. runs (cinema_turns small_ftok ref_engine K) connecting_system s1
     \<and> procs s1 = [2 \<mapsto> Take_loop small_cinema] \<and> busy s1 = {}
     \<and> msg_queues s1 = [1 \<mapsto> [], 2 \<mapsto> [(1, connect_example)], 3 \<mapsto> [(500, stamp 500 ((connection_accepted 1)\<lparr>client_id := 500\<rparr>))],
          4 \<mapsto> [], 5 \<mapsto> [], 6 \<mapsto> []]
     \<and> user_ids (rd_tab (store s1)) = {1}"
proof -
  let ?s = "connecting_system :: (unit, ref_db) cinema_system"
  let ?m = "admin_handle_request small_ftok ref_engine admin_channel registration :: (unit, (unit, ref_db) cinema_host) prog"
  let ?answer = "stamp 500 ((connection_accepted 1)\<lparr>client_id := 500\<rparr>)"
  let ?r = "(new_response registration)\<lparr>message_choice_number := CHOICE_CONNECTION_ACCEPTED, msg_choice := M1 1\<rparr>"
  define h where "h = host.extend (host.truncate (begin_turn 5 ?s)) (cinema_host.fields (store (begin_turn 5 ?s)))"
  note parts = on_cinema_parts [where s = "begin_turn 5 ?s", folded h_def]
  have h: "db h = small_db" "msg_queues h = msg_queues ?s" unfolding parts by (simp_all add: connecting_parts)
  obtain d1 where i: "db_insert_user ref_engine small_db = (1, d1)"
    by (metis prod.collapse registration_id)
  obtain res d2 where l: "db_login_user ref_engine 1 d1 = (res, d2)" by (metis prod.exhaust)
  have "admin_answer small_ftok ref_engine registration h = (Ret (Some ?r), h\<lparr>db := d2\<rparr>)"
    using i l h(1) by (simp add: admin_answer_def admin_connect_def db_op_run registration_def)
  then have "?m h = send_message (admin_channel\<lparr>cq_id := 500\<rparr>) ?r (h\<lparr>db := d2\<rparr>)"
    by (simp add: admin_handle_request_def Let_def new_response_def registration_def)
  also have "\<dots> = (Ret (), set_queue 3 [(500, ?answer)] (h\<lparr>db := d2\<rparr>))"
    using h(2) by (simp add: connecting_parts send_message_def queue_send_def admin_channel_def stamp_def
        connection_accepted_def new_response_def registration_def zero_message_def Let_def)
  finally have m: "?m h = (Ret (), set_queue 3 [(500, ?answer)] (h\<lparr>db := d2\<rparr>))" .
  let ?s1 = "snd (on_cinema ?m (begin_turn 5 ?s))"
  have s1: "procs ?s1 = procs ?s" "busy ?s1 = {5}" "store ?s1 = d2" "msg_queues ?s1 = (msg_queues ?s)(3 \<mapsto> [(500, ?answer)])"
    "fst (on_cinema ?m (begin_turn 5 ?s)) = Ret ()"
    unfolding parts m by (simp_all add: connecting_parts set_queue_def h)
  have "cinema_turn small_ftok ref_engine K undefined 5 (\<lambda>t. t) (Request_handler admin_channel registration) (begin_turn 5 ?s)
      = (Ret None, ?s1)"
    using s1(5) by (cases "on_cinema ?m (begin_turn 5 ?s)") simp
  then have run: "runs (cinema_turns small_ftok ref_engine K) ?s (end_turn 5 (Ret None) ?s1)"
    by (rule cinema_runs_turn [rotated 2]) (simp_all add: connecting_parts)
  have "map (\<lambda>r. r Col_id) (rd_tab d2 Users) = [Some 1]"
    using registration_id(2) i l by simp
  then have "user_ids (rd_tab d2) = {1}" by (auto simp: user_ids_def)
  moreover have "procs (end_turn 5 (Ret None) ?s1) = [2 \<mapsto> Take_loop small_cinema]"
    by (rule ext) (simp add: procs_end_turn s1(1) connecting_parts after_turn_def)
  ultimately show ?thesis
    using run s1 by (intro exI [of _ "end_turn 5 (Ret None) ?s1"]) (simp add: connecting_parts fun_upd_twist)
qed

text \<open>The taker's turn.\<close>

lemma listener_forked:
  fixes s :: "(unit, ref_db) cinema_system"
  assumes "procs s = [2 \<mapsto> Take_loop small_cinema]" and "busy s = {}"
    and "msg_queues s = [1 \<mapsto> [], 2 \<mapsto> [(1, connect_example)], 3 \<mapsto> [(500, stamp 500 ((connection_accepted 1)\<lparr>client_id := 500\<rparr>))],
          4 \<mapsto> [], 5 \<mapsto> [], 6 \<mapsto> []]"
  shows "\<exists>s'. runs (cinema_turns ftok E K) s s' \<and> procs s' 9 = Some (Listener_child (small_cinema\<lparr>cinema_client_id := 1\<rparr>))
     \<and> store s' = store s"
proof -
  let ?c = "\<lparr>clock = 0, forked = 9, forked_next = 0, old_bytes = []\<rparr>"
  let ?L = "Listener_child (small_cinema\<lparr>cinema_client_id := 1\<rparr>)"
  obtain s1 where taken: "cinema_take_client (\<lambda>t. t) small_cinema (begin_turn 2 s) = (Ret 1, s1)"
    "procs s1 = procs s" "busy s1 = {2}" "store s1 = store s"
    using assms by (auto simp: cinema_take_client_def receive_message_def receive_message_type_def queue_receive_def
        try_receive_def msgrcv_def send_message_def queue_send_def send_confirmation_def small_cinema_def
        connect_example_def connection_accepted_def stamp_def zero_message_def as_m1_def Let_def)
  let ?s2 = "s1\<lparr>procs := (procs s1)(9 \<mapsto> ?L)\<rparr>"
  have "cinema_turn ftok E K ?c 2 (\<lambda>t. t) (Take_loop small_cinema) (begin_turn 2 s) = (Ret (Some (Take_loop small_cinema)), ?s2)"
    using taken assms(1) by (simp add: take_client_turn_def fork_as_def)
  then have "runs (cinema_turns ftok E K) s (end_turn 2 (Ret (Some (Take_loop small_cinema))) ?s2)"
    by (rule cinema_runs_turn [rotated 2]) (simp_all add: assms)
  then show ?thesis
    using taken by (intro exI [of _ "end_turn 2 (Ret (Some (Take_loop small_cinema))) ?s2"]) (simp add: procs_end_turn)
qed

theorem one_listener_per_client_witness:
  "\<forall>K. \<exists>s'. runs (cinema_turns small_ftok ref_engine K) connecting_system s'
     \<and> procs s' 9 = Some (Listener_child (small_cinema\<lparr>cinema_client_id := 1\<rparr>)) \<and> 1 \<in> user_ids (rd_tab (store s'))"
proof (intro allI)
  fix K :: "unit sock_api"
  obtain s1 where s1: "runs (cinema_turns small_ftok ref_engine K) connecting_system s1"
    "procs s1 = [2 \<mapsto> Take_loop small_cinema]" "busy s1 = {}"
    "msg_queues s1 = [1 \<mapsto> [], 2 \<mapsto> [(1, connect_example)], 3 \<mapsto> [(500, stamp 500 ((connection_accepted 1)\<lparr>client_id := 500\<rparr>))],
          4 \<mapsto> [], 5 \<mapsto> [], 6 \<mapsto> []]" "user_ids (rd_tab (store s1)) = {1}"
    using registration_handled by blast
  obtain s' where s': "runs (cinema_turns small_ftok ref_engine K) s1 s'"
    "procs s' 9 = Some (Listener_child (small_cinema\<lparr>cinema_client_id := 1\<rparr>))" "store s' = store s1"
    using listener_forked [OF s1(2-4)] by blast
  have run: "runs (cinema_turns small_ftok ref_engine K) connecting_system s'" by (rule runs_trans [OF s1(1) s'(1)])
  have "ids_fit (rd_tab (store s'))" using s1(5) s'(3) by (simp add: ids_fit_def)
  from one_listener_per_client [OF ref.reliable_engine_axioms connecting_clean run this s'(2,2), of 1]
  show "\<exists>s'. runs (cinema_turns small_ftok ref_engine K) connecting_system s'
     \<and> procs s' 9 = Some (Listener_child (small_cinema\<lparr>cinema_client_id := 1\<rparr>)) \<and> 1 \<in> user_ids (rd_tab (store s'))" using run s'(2) by (intro exI [of _ s']) simp
qed

section \<open>A timer that could not be forked\<close>

text \<open>Where \<open>fork\<close> fails in \<open>start_timer\<close> the listener goes on with -1 for its timer, and the \<open>kill\<close> at the end of the
  session, meant for the timer, ends every other process of the host.\<close>

lemma failed_fork_kills_all:
  assumes "listen_turn (\<lambda>t. t) cinema timer mutex now s = (Ret exit, s1)" and "exit \<noteq> 0"
    and "listener_again (\<lambda>t. t) now self cinema timer mutex (- 1) s = (out, s2)" and "pid \<noteq> self"
  shows "procs s2 pid = None"
proof -
  let ?P = "\<lambda>t :: ('a, 'b) cinema_system. procs t pid = None"
  have P: "rests_on_queues ?P" "rests_on_table ?P" by (simp_all add: rests_on_queues_def rests_on_table_def)
  let ?s = "s1\<lparr>procs := (\<lambda>p. if p = self then procs s1 p else None)\<rparr>"
  have "keeps ?P (listen_end (\<lambda>t. t) cinema timer mutex)"
    unfolding listen_end_def Let_def
    by (intro keeps_intros keeps_table_receives [OF P(2)] keeps_table_timers [OF P(1)] keeps_queues_kernel [OF P(1)]; assumption)
  then have "keeps ?P (andThen (listen_end (\<lambda>t. t) cinema timer mutex) (\<lambda>_. ret (None :: cinema_process option)))"
    by (intro keeps_andThen keeps_ret)
  from keepsD [OF this, of ?s] assms(4)
  have "procs (snd (andThen (listen_end (\<lambda>t. t) cinema timer mutex) (\<lambda>_. ret (None :: cinema_process option)) ?s)) pid = None"
    by simp
  then show ?thesis
    using assms(1-3) by (simp add: listener_again_def kill_process_def)
qed

end
