(* ===== verification/Mom_Processes.thy ===== *)
theory Mom_Processes
  imports Cinema_Processes Mom
begin

text \<open>
  The host of the middleware (src/middleware/mom.cpp) as a system of processes: \<open>main\<close> forks the
  two bridges to the cinema and becomes the taker of local clients, forks a service for each, and a
  service forks a listener for the updates of the seats.

  The calls of \<open>kill\<close> have their arguments the wrong way round: the process 9 is sent the signal
  whose number is the identifier of the listener.
\<close>

datatype mom_process =
    Mom_main
  | Bridge_loop Mom
  | Updates_loop Mom
  | Connect_loop Mom
  | Service_loop Mom
  | Seat_listener_child Mom
  | Seat_listener_loop Mom

type_synonym 'k mom_system = "('k, unit, mom_process) system"

text \<open>\<open>kill(pid, sig)\<close> where the kernel has 64 signals: the process ends, or there is none or no such signal.\<close>

definition signal_process :: "int \<Rightarrow> int \<Rightarrow> (unit, 'k mom_system) prog" where
  "signal_process pid sig = (\<lambda>s.
     if 1 \<le> sig \<and> sig \<le> 64 then (Ret (), s\<lparr>procs := (procs s)(pid := None)\<rparr>) else (Ret (), s))"

text \<open>\<open>process_message\<close> with the calls it makes: \<open>fork\<close> when a listener is started, \<open>kill\<close> when it is to end.\<close>

definition process_response :: "int \<Rightarrow> Mom \<Rightarrow> q_message \<Rightarrow> (Mom \<times> bool, 'k mom_system) prog" where
  "process_response pid mom response =
     andThen (if message_choice_number response = CHOICE_SEATS_RESPONSE \<and> listener_pid mom = LISTENER_NOT_INITIALIZED
              then fork_as pid (Seat_listener_child mom) else ret LISTENER_NOT_INITIALIZED) (\<lambda>listener.
       case process_message listener mom response False of ((mom', kills), exit) \<Rightarrow>
         andThen (for_each kills (\<lambda>(pid, sig). signal_process pid sig)) (\<lambda>_. ret (mom', exit)))"

definition service_turn ::
  "('k mom_system \<Rightarrow> 'k mom_system) \<Rightarrow> int \<Rightarrow> Mom \<Rightarrow> (mom_process option, 'k mom_system) prog" where
  "service_turn env pid mom =
     andThen (receive_message env (client_queue mom)) (\<lambda>client_request.
     andThen (send_message (cinema_queue mom) client_request) (\<lambda>_.
     andThen (if client_cinema_id mom \<noteq> UNDEFINED_CINEMA_CLIENT_ID then receive_message env (cinema_queue mom)
              else receive_message_type env (cinema_queue mom) (client_local_id mom)) (\<lambda>cinema_response.
     andThen (send_message (client_queue mom) cinema_response) (\<lambda>_.
     andThen (process_response pid mom cinema_response) (\<lambda>(mom', exit_listener).
       ret (if exit_listener then None else Some (Service_loop mom')))))))"

definition mom_listen :: "int \<Rightarrow> int \<Rightarrow> Mom \<Rightarrow> (unit, 'k mom_system) prog" where
  "mom_listen pid pid' mom =
     andThen (fork_as pid (Bridge_loop mom)) (\<lambda>_. andThen (fork_as pid' (Updates_loop mom)) (\<lambda>_. ret ()))"

definition mom_start :: "ftok \<Rightarrow> 'k sock_api \<Rightarrow> int \<Rightarrow> int \<Rightarrow> (Mom, 'k mom_system) prog" where
  "mom_start ftok K pid pid' =
     andThen (start_mom ftok) (\<lambda>mom.
     andThen (start_network K mom) (\<lambda>mom.
     andThen (mom_listen pid pid' mom) (\<lambda>_. ret mom)))"

definition connect_turn :: "('k mom_system \<Rightarrow> 'k mom_system) \<Rightarrow> int \<Rightarrow> Mom \<Rightarrow> (unit, 'k mom_system) prog" where
  "connect_turn env pid mom =
     andThen (connect_client env mom) (\<lambda>local_id.
     andThen (fork_as pid (Service_loop (fork_client_start mom local_id))) (\<lambda>_. ret ()))"

definition seat_listener_again ::
  "('k mom_system \<Rightarrow> 'k mom_system) \<Rightarrow> Mom \<Rightarrow> (mom_process option, 'k mom_system) prog" where
  "seat_listener_again env mom =
     andThen (seat_listener_turn env mom) (\<lambda>close_listener.
       if close_listener then andThen (shm_dettach (update_flag mom)) (\<lambda>_. ret None)
       else ret (Some (Seat_listener_loop mom)))"

text \<open>\<open>old\<close> is what the message variable of a bridge holds before it is read into.\<close>

fun mom_turn ::
  "ftok \<Rightarrow> 'k sock_api \<Rightarrow> chance \<Rightarrow> q_message \<Rightarrow> ('k mom_system \<Rightarrow> 'k mom_system) \<Rightarrow> mom_process \<Rightarrow>
     (mom_process option, 'k mom_system) prog" where
  "mom_turn ftok K c old env Mom_main =
     andThen (mom_start ftok K (forked c) (forked_next c)) (\<lambda>mom. ret (Some (Connect_loop mom)))"
| "mom_turn ftok K c old env (Bridge_loop mom) =
     andThen (mom_network_turn env K (old_bytes c) old mom) (\<lambda>_. ret (Some (Bridge_loop mom)))"
| "mom_turn ftok K c old env (Updates_loop mom) =
     andThen (mom_updates_turn K old mom) (\<lambda>_. ret (Some (Updates_loop mom)))"
| "mom_turn ftok K c old env (Connect_loop mom) =
     andThen (connect_turn env (forked c) mom) (\<lambda>_. ret (Some (Connect_loop mom)))"
| "mom_turn ftok K c old env (Service_loop mom) = service_turn env (forked c) mom"
| "mom_turn ftok K c old env (Seat_listener_child mom) =
     andThen (seat_listener_start env mom) (\<lambda>_. ret (Some (Seat_listener_loop mom)))"
| "mom_turn ftok K c old env (Seat_listener_loop mom) = seat_listener_again env mom"

definition mom_turns :: "ftok \<Rightarrow> 'k sock_api \<Rightarrow> ('k, unit, mom_process) turns" where
  "mom_turns ftok K = (\<lambda>self env P m. \<exists>c old. m = mom_turn ftok K c old env P)"

section \<open>Every service keeps to its client\<close>

text \<open>
  A service receives what its client sends and reads and writes the flag at his place, and both
  queues to the cinema use the identifier the cinema gave him; so do the listeners it has forked.
\<close>

definition own :: "Mom \<Rightarrow> bool" where
  "own mom \<longleftrightarrow> ids_agree mom \<and> cq_id (client_queue mom) = client_local_id mom
     \<and> update_flag_position mom = client_local_id mom smod MAX_CLIENTS_HOST"

fun consistent :: "mom_process \<Rightarrow> bool" where
  "consistent Mom_main = True"
| "consistent (Service_loop mom) = own mom"
| "consistent (Seat_listener_child mom) = own mom"
| "consistent (Seat_listener_loop mom) = own mom"
| "consistent (Bridge_loop mom) = ids_agree mom"
| "consistent (Updates_loop mom) = ids_agree mom"
| "consistent (Connect_loop mom) = ids_agree mom"

definition all_consistent :: "'k mom_system \<Rightarrow> bool" where
  "all_consistent s \<longleftrightarrow> (\<forall>pid P. procs s pid = Some P \<longrightarrow> consistent P)"

lemma rests_all_consistent: "rests_on_table all_consistent"
  by (simp add: rests_on_table_def all_consistent_def)

lemma keeps_consistent_fork: "consistent child \<Longrightarrow> keeps all_consistent (fork_as pid child)"
  by (auto simp: keeps_def all_consistent_def fork_as_def)

lemma keeps_consistent_signal: "keeps all_consistent (signal_process pid sig)"
  by (auto simp: keeps_def all_consistent_def signal_process_def)

lemma own_process: "own mom \<Longrightarrow> own (fst (fst (process_message p mom m e)))"
  using process_ids(1) [of mom p m e]
  by (simp add: own_def) (simp add: process_message_def Let_def start_async_seat_listener_def finish_async_seat_listener_def)

lemma own_service: "ids_agree mom \<Longrightarrow> own (fork_client_start mom local_id)"
  by (simp add: own_def ids_agree_def fork_client_start_def)

lemma keeps_shm_update:
  assumes "rests_on_queues P"
  shows "keeps P (shm_write_update p i v)"
  by (rule keeps_queues_if [OF assms]) (auto simp: shm_write_update_def split: option.splits)

lemma yields_start_mom: "yields (start_mom ftok) ids_agree"
proof -
  have "yields (create_commqueue ftok name letter) (\<lambda>ch. cq_id ch = UNDEFINED_CHANNEL_ID)" for name letter
    unfolding create_commqueue_def by (intro yields_andThen [OF yields_any] yields_ret) simp
  note k = yields_andThen [OF this]
  show ?thesis
    unfolding start_mom_def
    by (rule yields_andThen [OF yields_any], rule k, rule k, rule yields_andThen [OF yields_any],
        rule yields_andThen [OF yields_any], rule yields_ret) (simp add: ids_agree_def)
qed

lemma yields_start_network: "ids_agree mom \<Longrightarrow> yields (start_network K mom) ids_agree"
  unfolding start_network_def by (intro yields_andThen [OF yields_any] yields_ret) (simp add: ids_agree_def)

text \<open>What a turn keeps, and as what the process goes on.\<close>

definition goes_on_consistent :: "mom_process option \<Rightarrow> 'k mom_system \<Rightarrow> bool" where
  "goes_on_consistent next s \<longleftrightarrow> (\<forall>P. next = Some P \<longrightarrow> consistent P) \<and> all_consistent s"

lemma carries_consistent:
  "next = None \<or> (\<exists>P. next = Some P \<and> consistent P) \<Longrightarrow> carries all_consistent all_consistent (ret next) goes_on_consistent"
  by (rule carries_ret) (auto simp: goes_on_consistent_def)

lemma carries_process_response:
  assumes "own mom"
  shows "carries all_consistent all_consistent (process_response pid mom response)
    (\<lambda>(mom', exit) s. own mom' \<and> all_consistent s)"
proof -
  have kills: "keeps all_consistent (for_each kills (\<lambda>(pid, sig). signal_process pid sig))" for kills
    by (intro keeps_for_each keeps_pair keeps_consistent_signal)
  have "keeps all_consistent (if message_choice_number response = CHOICE_SEATS_RESPONSE \<and> listener_pid mom = LISTENER_NOT_INITIALIZED
      then fork_as pid (Seat_listener_child mom) else ret LISTENER_NOT_INITIALIZED)"
    by (intro keeps_if keeps_ret keeps_consistent_fork) (simp add: assms)
  note fork = carries_step [OF this]
  have "carries all_consistent all_consistent
      (case process_message listener mom response False of ((mom', kills), exit) \<Rightarrow>
         andThen (for_each kills (\<lambda>(pid, sig). signal_process pid sig)) (\<lambda>_. ret (mom', exit)))
      (\<lambda>(mom', exit) s. own mom' \<and> all_consistent s)" for listener
  proof -
    obtain mom' kills exit where m: "process_message listener mom response False = ((mom', kills), exit)"
      by (metis prod.exhaust)
    have "own mom'" using own_process [OF assms, of listener response False] m by simp
    then show ?thesis
      unfolding m by (simp del: for_each.simps) (rule carries_step [OF kills], rule carries_ret, simp)
  qed
  then show ?thesis unfolding process_response_def by (rule fork)
qed

lemma carries_mom_turn:
  assumes P: "consistent P" and env: "\<And>t. all_consistent t \<Longrightarrow> all_consistent (env t)"
  shows "carries all_consistent all_consistent (mom_turn ftok K c old env P) goes_on_consistent"
proof -
  note queues = rests_on_queues_weaker [OF rests_all_consistent]
  note k = keeps_intros keeps_queues_kernel [OF queues] keeps_table_channels [OF rests_all_consistent]
    keeps_table_receives [OF rests_all_consistent env] keeps_semaphores [OF queues env] keeps_shm_update [OF queues]
    keeps_queues_shm_get_data [OF queues]
  have loops: "keeps all_consistent (mom_network_turn env K junk old mom)" "keeps all_consistent (mom_updates_turn K old mom)"
    "keeps all_consistent (seat_listener_start env mom)" "keeps all_consistent (seat_listener_turn env mom)"
    "keeps all_consistent (connect_client env mom)" for mom junk
    unfolding mom_network_turn_def mom_updates_turn_def seat_listener_start_def seat_listener_turn_def
      connect_client_def flag_update_write_def Let_def
    by (intro k; assumption)+
  show ?thesis
  proof (cases P)
    case Mom_main
    have "keeps all_consistent (start_mom ftok)" unfolding start_mom_def by (intro k)
    note mom = carries_yields [OF this yields_start_mom]
    have "keeps all_consistent (start_network K mom)" for mom unfolding start_network_def by (intro k)
    note net = carries_yields [OF this yields_start_network]
    have "keeps all_consistent (mom_listen pid pid' mom)" if "ids_agree mom" for pid pid' mom
      unfolding mom_listen_def by (intro keeps_intros keeps_consistent_fork) (use that in simp_all)
    note listen = carries_step [OF this]
    show ?thesis
      unfolding Mom_main mom_turn.simps mom_start_def andThen_assoc andThen_ret_left
      by (rule carries_andThen [OF mom], rule carries_pure, rule carries_andThen [OF net], assumption, rule carries_pure,
          rule listen, assumption, rule carries_consistent) simp
  next
    case (Bridge_loop mom)
    show ?thesis unfolding Bridge_loop mom_turn.simps
      by (rule carries_step [OF loops(1)], rule carries_consistent) (use P in \<open>simp add: Bridge_loop\<close>)
  next
    case (Updates_loop mom)
    show ?thesis unfolding Updates_loop mom_turn.simps
      by (rule carries_step [OF loops(2)], rule carries_consistent) (use P in \<open>simp add: Updates_loop\<close>)
  next
    case (Connect_loop mom)
    then have "ids_agree mom" using P by simp
    then have "consistent (Service_loop (fork_client_start mom i))" for i by (simp add: own_service)
    note fork = carries_step [OF keeps_consistent_fork [OF this]]
    show ?thesis
      unfolding Connect_loop mom_turn.simps connect_turn_def andThen_assoc andThen_ret_left
      by (rule carries_step [OF loops(5)], rule fork, rule carries_consistent) (use P in \<open>simp add: Connect_loop\<close>)
  next
    case (Service_loop mom)
    then have mom: "own mom" using P by simp
    have "keeps all_consistent (if client_cinema_id mom \<noteq> UNDEFINED_CINEMA_CLIENT_ID then receive_message env (cinema_queue mom)
        else receive_message_type env (cinema_queue mom) (client_local_id mom))"
      by (intro k; assumption)
    note receive = carries_step [OF this]
    note channels = carries_step [OF keeps_table_receives(2) [OF rests_all_consistent env]]
      carries_step [OF keeps_table_channels(2) [OF rests_all_consistent]]
    have last: "carries all_consistent (case x of (mom', exit) \<Rightarrow> \<lambda>s. own mom' \<and> all_consistent s)
        (case x of (mom', exit) \<Rightarrow> ret (if exit then None else Some (Service_loop mom'))) goes_on_consistent" for x
      by (cases x) (auto intro!: carries_pure carries_consistent)
    show ?thesis
      unfolding Service_loop mom_turn.simps service_turn_def
      by (rule channels(1), assumption, rule channels(2), rule receive, rule channels(2),
          rule carries_andThen [OF carries_process_response [OF mom]], rule last)
  next
    case (Seat_listener_child mom)
    show ?thesis unfolding Seat_listener_child mom_turn.simps
      by (rule carries_step [OF loops(3)], rule carries_consistent) (use P in \<open>simp add: Seat_listener_child\<close>)
  next
    case (Seat_listener_loop mom)
    have stop: "carries all_consistent all_consistent
        (if b then andThen (shm_dettach (update_flag mom)) (\<lambda>_. ret None) else ret (Some (Seat_listener_loop mom)))
        goes_on_consistent" for b
      using P by (auto simp: Seat_listener_loop intro!: carries_consistent carries_step [OF keeps_queues_kernel(4) [OF queues]])
    show ?thesis unfolding Seat_listener_loop mom_turn.simps seat_listener_again_def
      by (rule carries_step [OF loops(4)], rule stop)
  qed
qed

lemma consistent_run:
  assumes "runs (mom_turns ftok K) s s'" and "all_consistent s"
  shows "all_consistent s'"
proof (rule runs_keeps [where I = all_consistent, OF assms])
  fix s pid env P m out s1
  assume inv: "all_consistent s" and P: "procs s pid = Some P" and turn: "mom_turns ftok K pid env P m"
    and env: "\<And>t. all_consistent t \<Longrightarrow> all_consistent (env t)" and m: "m (begin_turn pid s) = (out, s1)"
  obtain c old where c: "m = mom_turn ftok K c old env P" using turn by (auto simp: mom_turns_def)
  have P': "consistent P" using inv P by (simp add: all_consistent_def)
  have turn': "carries all_consistent all_consistent m goes_on_consistent"
    unfolding c by (rule carries_mom_turn [OF P']) (rule env)
  have "all_consistent (begin_turn pid s)" using inv by (simp add: all_consistent_def)
  from carriesD [OF turn' this m] have "all_consistent s1 \<and> (\<forall>P. after_turn out = Some P \<longrightarrow> consistent P)"
    by (cases out) (auto simp: after_turn_def goes_on_consistent_def)
  then show "all_consistent (end_turn pid out s1)"
    by (auto simp: all_consistent_def procs_end_turn split: if_splits)
qed

lemma process_response_identifier:
  assumes "ids_agree mom" and "process_response child mom response t = (Ret (mom2, exit), t2)"
  shows "client_cinema_id mom2 = (if accepts response then as_m1 (msg_choice response) else client_cinema_id mom)"
    and "ids_agree mom2"
proof -
  from assms(2) obtain p t1 where r: "(case process_message p mom response False of ((mom', kills), exit) \<Rightarrow>
      andThen (for_each kills (\<lambda>(pid, sig). signal_process pid sig)) (\<lambda>_. ret (mom', exit))) t1 = (Ret (mom2, exit), t2)"
    unfolding process_response_def andThen_Ret_iff by blast
  obtain mom' kills e where m: "process_message p mom response False = ((mom', kills), e)" by (metis prod.exhaust)
  with r have "mom2 = fst (fst (process_message p mom response False))" by (auto simp: andThen_Ret_iff)
  then show "client_cinema_id mom2 = (if accepts response then as_m1 (msg_choice response) else client_cinema_id mom)"
    and "ids_agree mom2"
    using process_ids(1) [OF assms(1)] process_ids(2) by (simp_all add: accepts_def)
qed

text \<open>C33. Every service of the middleware keeps to its client: however the processes of its host run, from \<open>main\<close> on, a
  service and the listeners it has forked use one and the same identifier at the cinema for their queues, receive the
  requests of one local client, and read and write the flag at the place of this client only.  And that identifier is
  the one the cinema gives: when the service processes its next response, whatever it is, both queues and the service
  itself go on with the identifier in it if it accepts the connection, and with the one they had if not.\<close>

theorem services_keep_to_clients:
  assumes "runs (mom_turns ftok K) s s'"
    and "\<forall>pid P. procs s pid = Some P \<longrightarrow> P = Mom_main \<or> (\<exists>mom. P = Connect_loop mom \<and> ids_agree mom)"
    and "procs s' pid \<in> {Some (Service_loop mom), Some (Seat_listener_child mom), Some (Seat_listener_loop mom)}"
  shows "cq_id (client_queue mom) = client_local_id mom \<and> update_flag_position mom = client_local_id mom smod MAX_CLIENTS_HOST
     \<and> cq_id (cinema_queue mom) = client_cinema_id mom \<and> cq_id (listener_queue mom) = client_cinema_id mom
     \<and> (\<forall>child response mom2 exit s2. process_response child mom response s' = (Ret (mom2, exit), s2) \<longrightarrow>
          client_cinema_id mom2 = (if accepts response then as_m1 (msg_choice response) else client_cinema_id mom)
        \<and> cq_id (cinema_queue mom2) = client_cinema_id mom2 \<and> cq_id (listener_queue mom2) = client_cinema_id mom2)"
proof -
  have "all_consistent s" using assms(2) by (fastforce simp: all_consistent_def)
  note run = consistent_run [OF assms(1) this]
  then have "own mom" using assms(3) unfolding all_consistent_def by (auto dest!: spec [of _ pid])
  then have own: "ids_agree mom" "cq_id (client_queue mom) = client_local_id mom"
    "update_flag_position mom = client_local_id mom smod MAX_CLIENTS_HOST" by (simp_all add: own_def)
  note goes_on = process_response_identifier [OF own(1)]
  from own goes_on show ?thesis unfolding ids_agree_def by blast
qed

text \<open>An example: a client connects and his service is forked.\<close>

definition connect_system :: "unit mom_system" where
  "connect_system = \<lparr>msg_ids = Map.empty,
     msg_queues = [1 \<mapsto> [], 2 \<mapsto> [(2, zero_message\<lparr>message_type := 2, msg_choice := M1 77\<rparr>)]],
     sem_ids = Map.empty, sem_vals = Map.empty, shm_ids = Map.empty, shm_segs = Map.empty, next_id = 3, net = (),
     store = (), procs = [2 \<mapsto> Connect_loop mom_example], busy = {}\<rparr>"

theorem services_keep_to_clients_witness:
  "\<forall>ftok K. \<exists>s'. runs (mom_turns ftok K) connect_system s' \<and> procs s' 9 = Some (Service_loop (fork_client_start mom_example 77))
     \<and> cq_id (client_queue (fork_client_start mom_example 77)) = 77
     \<and> (\<forall>mom2 exit s2. process_response 10 (fork_client_start mom_example 77) (connection_accepted 3) s' = (Ret (mom2, exit), s2) \<longrightarrow>
          cq_id (cinema_queue mom2) = 3)"
proof (intro allI)
  fix ftok and K :: "unit sock_api"
  let ?c = "\<lparr>clock = 0, forked = 9, forked_next = 0, old_bytes = []\<rparr>"
  obtain s1 where s1: "connect_client (\<lambda>t. t) mom_example (begin_turn 2 connect_system) = (Ret 77, s1)"
    "procs s1 = procs connect_system" "busy s1 = {2}"
    by (auto simp: connect_client_def receive_message_type_def queue_receive_def try_receive_def msgrcv_def
        send_message_def queue_send_def mom_example_def client_7_channel_def connect_system_def begin_turn_def
        zero_message_def as_m1_def set_queue_def Let_def)
  let ?S = "Service_loop (fork_client_start mom_example 77)"
  let ?s2 = "s1\<lparr>procs := (procs s1)(9 \<mapsto> ?S)\<rparr>"
  have turn: "mom_turn ftok K ?c zero_message (\<lambda>t. t) (Connect_loop mom_example) (begin_turn 2 connect_system)
      = (Ret (Some (Connect_loop mom_example)), ?s2)"
    using s1 by (simp add: connect_turn_def fork_as_def connect_system_def)
  have run: "runs (mom_turns ftok K) connect_system (end_turn 2 (Ret (Some (Connect_loop mom_example))) ?s2)"
  proof (rule runs_turn [where m = "mom_turn ftok K ?c zero_message (\<lambda>t. t) (Connect_loop mom_example)", OF _ _ _ turn])
    show "mom_turns ftok K 2 (\<lambda>t. t) (Connect_loop mom_example) (mom_turn ftok K ?c zero_message (\<lambda>t. t) (Connect_loop mom_example))"
      unfolding mom_turns_def by blast
  qed (simp_all add: connect_system_def)
  have place: "procs (end_turn 2 (Ret (Some (Connect_loop mom_example))) ?s2) 9 = Some ?S"
    by (simp add: procs_end_turn)
  have start: "\<forall>pid P. procs connect_system pid = Some P \<longrightarrow> P = Mom_main \<or> (\<exists>mom. P = Connect_loop mom \<and> ids_agree mom)"
    by (simp add: connect_system_def mom_example_def ids_agree_def client_7_channel_def)
  have "procs (end_turn 2 (Ret (Some (Connect_loop mom_example))) ?s2) 9 \<in> {Some ?S,
      Some (Seat_listener_child (fork_client_start mom_example 77)), Some (Seat_listener_loop (fork_client_start mom_example 77))}"
    using place by simp
  note t = services_keep_to_clients [OF run start this]
  have "accepts (connection_accepted 3)" "as_m1 (msg_choice (connection_accepted 3)) = 3"
    by (simp_all add: accepts_def connection_accepted_def as_m1_def)
  with t have "\<forall>mom2 exit s2. process_response 10 (fork_client_start mom_example 77) (connection_accepted 3)
      (end_turn 2 (Ret (Some (Connect_loop mom_example))) ?s2) = (Ret (mom2, exit), s2) \<longrightarrow> cq_id (cinema_queue mom2) = 3"
    by presburger
  moreover have "cq_id (client_queue (fork_client_start mom_example 77)) = 77"
    using t by (simp add: fork_client_start_def)
  ultimately show "\<exists>s'. runs (mom_turns ftok K) connect_system s' \<and> procs s' 9 = Some (Service_loop (fork_client_start mom_example 77))
     \<and> cq_id (client_queue (fork_client_start mom_example 77)) = 77
     \<and> (\<forall>mom2 exit s2. process_response 10 (fork_client_start mom_example 77) (connection_accepted 3) s' = (Ret (mom2, exit), s2) \<longrightarrow>
          cq_id (cinema_queue mom2) = 3)"
    using run place by (intro exI conjI)
qed

section \<open>Listeners that are not ended\<close>

text \<open>C34. The seat listeners pile up: when the client goes from the seats back to the rooms the service means to end his
  listener, but it does not, the arguments of \<open>kill\<close> being swapped, and when he looks at seats again a second one is
  forked: from then on two processes wait for the same messages and write the same flag.\<close>

theorem listeners_pile_up:
  assumes "listener_pid mom = l" and "64 < l" and "procs s l = Some (Seat_listener_loop mom0)"
    and "message_choice_number rooms = CHOICE_ROOMS_RESPONSE" and "message_choice_number seats = CHOICE_SEATS_RESPONSE"
    and "1 < l'" and "procs s l' = None" and "l' \<notin> busy s"
  shows "\<exists>mom1 s1 mom2 s2. process_response p mom rooms s = (Ret (mom1, False), s1)
     \<and> process_response l' mom1 seats s1 = (Ret (mom2, False), s2)
     \<and> procs s2 l = Some (Seat_listener_loop mom0) \<and> procs s2 l' = Some (Seat_listener_child mom1)
     \<and> listener_queue mom1 = listener_queue mom \<and> update_flag_position mom1 = update_flag_position mom \<and> listener_pid mom2 = l'"
proof -
  have first: "process_response p mom rooms s = (Ret (mom\<lparr>listener_pid := 0\<rparr>, False), s)"
    using assms(1,2,4) by (simp add: process_response_def process_message_def finish_async_seat_listener_def
        signal_process_def Let_def)
  let ?mom1 = "mom\<lparr>listener_pid := 0\<rparr>"
  let ?s2 = "s\<lparr>procs := (procs s)(l' \<mapsto> Seat_listener_child ?mom1)\<rparr>"
  have "process_response l' ?mom1 seats s = (Ret (mom\<lparr>listener_pid := l'\<rparr>, False), ?s2)"
    using assms(5-8) by (simp add: process_response_def process_message_def start_async_seat_listener_def fork_as_def Let_def)
  with first assms(3,7) show ?thesis by (intro exI conjI) (assumption | force)+
qed

definition listening_system :: "unit mom_system" where
  "listening_system = connect_system\<lparr>procs := [80 \<mapsto> Seat_listener_loop mom_example]\<rparr>"

theorem listeners_pile_up_witness:
  "\<exists>mom1 s1 mom2 s2. process_response 90 (mom_example\<lparr>listener_pid := 80\<rparr>)
       (zero_message\<lparr>message_choice_number := CHOICE_ROOMS_RESPONSE\<rparr>) listening_system = (Ret (mom1, False), s1)
     \<and> process_response 81 mom1 (zero_message\<lparr>message_choice_number := CHOICE_SEATS_RESPONSE\<rparr>) s1 = (Ret (mom2, False), s2)
     \<and> procs s2 80 = Some (Seat_listener_loop mom_example) \<and> procs s2 81 = Some (Seat_listener_child mom1)"
proof -
  let ?mom = "mom_example\<lparr>listener_pid := 80\<rparr>"
  have "listener_pid ?mom = 80" "(64 :: int) < 80" "procs listening_system 80 = Some (Seat_listener_loop mom_example)"
    "procs listening_system 81 = None" "(81 :: int) \<notin> busy listening_system" "(1 :: int) < 81"
    by (simp_all add: listening_system_def connect_system_def)
  from listeners_pile_up [OF this(1-3) _ _ this(6,4,5), of "zero_message\<lparr>message_choice_number := CHOICE_ROOMS_RESPONSE\<rparr>"
      "zero_message\<lparr>message_choice_number := CHOICE_SEATS_RESPONSE\<rparr>" 90]
  show ?thesis by (auto simp del: q_message.simps)
qed

end
