(* ===== verification/Polling.thy ===== *)
theory Polling
  imports Sessions
begin

text \<open>
  The polling thread of the library as a whole, \<open>_listener_thread\<close> of src/middleware/client_interface.cpp,
  beside the operations that start and cancel it.  The thread of the client \<open>p\<close> runs over a list of turns:
  what the other threads of the process do while it sleeps, and the environment of its waits.
\<close>

text \<open>The data of the client are followed three times in a turn: before the sleep, for the flag and to hand
  over the seats.  The result is the lists of seats given to \<open>on_seat_update\<close>.\<close>

primrec listener_loop :: "(client_env \<times> client_env) list \<Rightarrow> int option \<Rightarrow> (Seat list list, client_process) prog" where
  "listener_loop [] p = ret []"
| "listener_loop (t # ts) p =
     andThen (deref p) (\<lambda>client.
     andThen (defined (listener_extern_data client)) (\<lambda>_.
     andThen (modify (fst t)) (\<lambda>_.
     andThen (deref p) (\<lambda>client.
     andThen (listener_thread_turn (snd t) client) (\<lambda>(seats, poll).
     andThen (case seats of
         None \<Rightarrow> ret []
       | Some vector \<Rightarrow> andThen (deref p) (\<lambda>client.
           andThen (defined (listener_extern_data client)) (\<lambda>_. ret [vector]))) (\<lambda>shown.
     andThen (if poll then listener_loop ts p else ret []) (\<lambda>later.
       ret (shown @ later))))))))"

definition run_listener_thread :: "(client_env \<times> client_env) list \<Rightarrow> int option \<Rightarrow> (Seat list list, client_process) prog" where
  "run_listener_thread ts p =
     andThen (deref p) (\<lambda>client.
       if listener_extern_data client = None then ret [] else listener_loop ts p)"

section \<open>The data are gone when the thread starts\<close>

definition no_data :: "int \<Rightarrow> client_process \<Rightarrow> bool" where
  "no_data k s \<longleftrightarrow> (\<exists>c. CLIENTS s k = Some c \<and> listener_extern_data c = None)"

lemma keeps_no_data [keeps_intros]:
  "keeps (no_data k) (deref q)" "keeps (no_data k) (get_client j b)" "keeps (no_data k) (send_message ch m)"
  by (auto simp: keeps_def no_data_def deref_def get_client_def defined_def send_CLIENTS split: option.splits)

lemma keeps_no_data_receive: "quiet_env env \<Longrightarrow> keeps (no_data k) (receive_message env ch)"
  by (simp add: keeps_def no_data_def receive_CLIENTS)

lemma keeps_no_data_assign:
  assumes "\<And>c. listener_extern_data c = None \<Longrightarrow> listener_extern_data (f c) = None"
  shows "keeps (no_data k) (assign q f)"
  using assms by (auto simp: keeps_def no_data_def assign_def deref_def andThen_def defined_def split: option.splits)

lemma keeps_no_data_errors [keeps_intros]:
  "keeps (no_data k) (set_error q t i)" "keeps (no_data k) (clean_error q)"
  unfolding clean_error_def set_error_def by (intro keeps_intros keeps_no_data_assign; simp)+

lemma keeps_no_data_listener [keeps_intros]:
  "keeps (no_data k) (end_listener_thread T q)" "keeps (no_data k) (cinema_closed T env q)"
  unfolding end_listener_thread_def cinema_closed_def disconnect_def
  by (simp_all, (intro keeps_intros keeps_no_data_assign; simp)+)

text \<open>\<open>start_listener_thread\<close> cancels the thread there was, which resets the data that \<open>get_seats\<close> has just set.\<close>

lemma start_loses_data [keeps_intros]:
  assumes "\<And>t. pthread_cancel T t = 0"
  shows "keeps (no_data k) (andThen (assign q (\<lambda>c. c\<lparr>listener_extern_data := d\<rparr>)) (\<lambda>_. start_listener_thread T q))"
  using assms
  by (cases q) (auto simp: keeps_def no_data_def start_listener_thread_def end_listener_thread_def assign_def deref_def
      set_error_def andThen_def defined_def split: option.splits)

lemma end_listener_no_data:
  assumes "CLIENTS s k = Some c" and "pthread_cancel T (listener_thread c) = 0"
  shows "\<exists>s'. end_listener_thread T (Some k) s = (Ret (), s') \<and> no_data k s'"
  using assms by (simp add: end_listener_thread_def client_run no_data_def)

lemma get_seats_no_data:
  assumes "\<And>t. pthread_cancel T t = 0" and "quiet_env env"
    and "CLIENTS s k = Some c" and "connected c"
  shows "no_data k (snd (get_seats T env k aRoom on_update_data s))"
proof -
  define rest where "rest client = (if client = None then ret []
       else andThen (deref client) (\<lambda>c.
         andThen (send_message (mom_queue c) (zero_message\<lparr>message_choice_number := CHOICE_SEATS_REQUEST,
             msg_choice := M3 (room_no aRoom)\<rparr>)) (\<lambda>_.
         andThen (receive_message env (mom_queue c)) (\<lambda>room_information.
           let m4 = as_m4 (msg_choice room_information) in
           if message_choice_number room_information \<noteq> CHOICE_SEATS_RESPONSE
           then if message_choice_number room_information = CHOICE_EXIT
                then andThen (cinema_closed T env client) (\<lambda>_. ret [])
                else andThen (set_error client ERROR_GENERAL_ERROR ''Unexpected Error after CHOICE_SEATS_REQUEST'') (\<lambda>_. ret [])
           else if m4_success m4 = NOT_SUCCESS
           then andThen (set_error client ERROR_GENERAL_ERROR
                  (''Not succes after select room: '' @ [CHR 0x22] @ c_string (m4_information m4) @ [CHR 0x22])) (\<lambda>_. ret [])
           else andThen (if on_update_data \<noteq> None
                    then andThen (assign client (\<lambda>c. c\<lparr>listener_extern_data := on_update_data\<rparr>)) (\<lambda>_.
                         start_listener_thread T client)
                    else ret ()) (\<lambda>_.
                  defined (seat_to_vector m4))))))" for client
  have "keeps (no_data k) (rest client)" for client
    unfolding rest_def Let_def by (intro keeps_intros keeps_no_data_receive assms(1,2))
  moreover obtain s' where "end_listener_thread T (Some k) (set_client k (no_error c) s) = (Ret (), s')" "no_data k s'"
    using end_listener_no_data [of "set_client k (no_error c) s" k "no_error c" T] assms(1) by auto
  ultimately show ?thesis
    using assms(3,4) by (simp add: get_seats_def client_run rest_def [symmetric] keepsD)
qed

text \<open>C12. Updates that are asked for and never shown.  Where \<open>pthread_cancel\<close> succeeds for the thread of the client, which
  POSIX lets it do for every thread that was not joined, \<open>get_seats\<close> starts the polling thread with no data, and the
  thread returns at once: however many updates come, \<open>on_seat_update\<close> is not called.\<close>

theorem updates_never_shown:
  assumes "\<And>t. pthread_cancel T t = 0" and "quiet_env env"
    and "CLIENTS s k = Some c" and "connected c"
  shows "fst (run_listener_thread ts (Some k) (snd (get_seats T env k aRoom on_update_data s))) = Ret []"
  using get_seats_no_data [OF assms, of aRoom on_update_data]
  by (auto simp: run_listener_thread_def no_data_def deref_run)

definition posix_threads :: threads where
  "posix_threads = \<lparr>pthread_cancel = (\<lambda>_. 0), pthread_create = (0, 12)\<rparr>"

definition seats_answer :: q_message where
  "seats_answer = zero_message\<lparr>message_choice_number := CHOICE_SEATS_RESPONSE, msg_choice := M4 (zero_m4\<lparr>m4_count := 2\<rparr>)\<rparr>"

lemma get_seats_answered:
  "fst (get_seats posix_threads (answers seats_answer) 500 \<lparr>room_no = 1\<rparr> (Some \<lparr>polling_interval_sec = 2\<rparr>) client_host)
     = Ret [zero_Seat, zero_Seat]"
  by code_simp

text \<open>With two seats in the answer the user is shown them, and no update ever.\<close>

theorem updates_never_shown_witness:
  "fst (get_seats posix_threads (answers seats_answer) 500 \<lparr>room_no = 1\<rparr> (Some \<lparr>polling_interval_sec = 2\<rparr>) client_host)
     = Ret [zero_Seat, zero_Seat]
   \<and> (\<forall>ts. fst (run_listener_thread ts (Some 500) (snd (get_seats posix_threads (answers seats_answer) 500 \<lparr>room_no = 1\<rparr>
       (Some \<lparr>polling_interval_sec = 2\<rparr>) client_host))) = Ret [])"
  using get_seats_answered
    updates_never_shown [of posix_threads "answers seats_answer" client_host 500 client_example _ "\<lparr>room_no = 1\<rparr>" "Some \<lparr>polling_interval_sec = 2\<rparr>"]
  by (simp add: posix_threads_def quiet_env_def answers_def client_host_exchange(4,5))

text \<open>Where the cancellation fails, as for a thread that has ended and been forgotten, the thread starts with the data.\<close>

lemma updates_awaited:
  assumes "\<And>t. pthread_cancel T t \<noteq> 0" and "fst (pthread_create T) = 0" and "CLIENTS s k = Some c"
  shows "andThen (assign (Some k) (\<lambda>c. c\<lparr>listener_extern_data := d\<rparr>)) (\<lambda>_. start_listener_thread T (Some k)) s
    = (Ret (), set_client k (c\<lparr>listener_extern_data := d, listener_thread := snd (pthread_create T)\<rparr>) s)"
  using assms by (simp add: start_listener_thread_def end_listener_thread_def client_run)

text \<open>A cancellation while the thread is between its sleeps: it goes on to the next point where it can be cancelled,
  and before that follows the pointer to the data that are gone, whether an update has come or not.\<close>

lemma cancelled_turn_undefined:
  assumes "CLIENTS s k = Some c" and "listener_extern_data c \<noteq> None"
    and "CLIENTS (fst t s) k = Some c'" and "listener_extern_data c' = None"
    and "listener_thread_turn (snd t) c' (fst t s) = (Ret (seats, True), s2)" and "CLIENTS s2 k = Some c'"
  shows "fst (listener_loop (t # t' # ts) (Some k) s) = Undef"
  using assms by (cases seats) (auto simp: client_run modify_run defined_def)

end
