(* ===== verification/Updates.thy ===== *)
theory Updates
  imports Polling
begin

text \<open>
  Updates of the seats over many turns of the polling thread: the messages of the cinema arrive in the queue of the
  service, the service's listener (src/middleware/mom.cpp) puts each into the shared segment, over the one
  before, and the thread of the library looks at it when its sleep is over.
\<close>

text \<open>While the thread sleeps, the updates \<open>ms\<close> arrive for the client \<open>u\<close> and his listener takes them.\<close>

definition updates_arrive :: "Mom \<Rightarrow> int \<Rightarrow> m4_seats list \<Rightarrow> client_process \<Rightarrow> client_process" where
  "updates_arrive mom u ms s =
     (case msg_queues s (id_firstqueue (listener_queue mom)) of
        None \<Rightarrow> s
      | Some q \<Rightarrow> set_queue (id_firstqueue (listener_queue mom)) (sysv.put_all u (map (seats_update_message u) ms) q) s)"

definition during_sleep :: "client_env \<Rightarrow> Mom \<Rightarrow> int \<Rightarrow> m4_seats list \<Rightarrow> client_env" where
  "during_sleep env mom u ms s = snd (seat_listener (length ms) env mom (updates_arrive mom u ms s))"

text \<open>What he should see: the last update of each sleep.\<close>

definition last_updates :: "m4_seats list list \<Rightarrow> Seat list list" where
  "last_updates mss = map (\<lambda>ms. shown_seats (last ms)) (filter (\<lambda>ms. ms \<noteq> []) mss)"

section \<open>The listener of the service\<close>

definition served :: "Mom \<Rightarrow> int \<Rightarrow> q_message list \<Rightarrow> client_process \<Rightarrow> bool" where
  "served mom u ms s \<longleftrightarrow> flag_ready mom s
     \<and> (\<exists>q. msg_queues s (id_firstqueue (listener_queue mom)) = Some q \<and> q_inbox q u = ms)"

definition his_service :: "Mom \<Rightarrow> int \<Rightarrow> bool" where
  "his_service mom u \<longleftrightarrow> orientation (listener_queue mom) = Some COMMQUEUE_AS_CLIENT \<and> cq_id (listener_queue mom) = u \<and> 0 < u"

definition update_of_seats :: "m4_seats \<Rightarrow> Seats_update" where
  "update_of_seats m4 = the (update_of m4)"

lemma CLIENTS_flag_with [simp]: "CLIENTS (flag_with mom u s) = CLIENTS s"
  by (simp add: flag_with_def set_update_def)

lemma msg_queues_flag_with [simp]: "msg_queues (flag_with mom u s) = msg_queues s"
  by (simp add: flag_with_def set_update_def)

lemma update_taken:
  assumes "his_service mom u" and "served mom u (seats_update_message u m4 # ms) s" and "m4_count m4 \<le> int MAX_SEATS"
  shows "\<exists>s'. seat_listener_turn env mom s = (Ret False, s') \<and> served mom u ms s'
     \<and> flag_value mom s' = update_of_seats m4 \<and> CLIENTS s' = CLIENTS s"
proof -
  let ?i = "id_firstqueue (listener_queue mom)"
  obtain q where q: "msg_queues s ?i = Some q" "q_inbox q u = seats_update_message u m4 # ms"
    using assms(2) by (auto simp: served_def)
  obtain q' where q': "q_get u q = Some (seats_update_message u m4, q')" "q_inbox q' u = ms"
    using sysv.get_head [OF _ q(2)] assms(1) by (auto simp: his_service_def)
  let ?s0 = "set_queue ?i q' s"
  have ready: "flag_ready mom ?s0" using assms(2) by (simp add: served_def)
  have recv: "receive_message env (listener_queue mom) s = (Ret (seats_update_message u m4), ?s0)"
    using receive_message_run [of "listener_queue mom" u s q _ q' env] q(1) q'(1) assms(1)
    by (simp add: in_queue_def his_service_def)
  have up: "update_of m4 = Some (update_of_seats m4)"
    using assms(3) by (simp add: update_of_seats_def update_of_def)
  have "seat_listener_turn env mom s = (Ret False, flag_with mom (update_of_seats m4) ?s0)"
    using recv flag_write_run [OF ready, of env "update_of_seats m4"] up
    by (simp add: seat_listener_turn_def flag_with_def seats_update_message_def)
  with ready q'(2) show ?thesis by (simp add: served_def)
qed

lemma updates_taken:
  assumes "his_service mom u" and "served mom u (map (seats_update_message u) ms) s"
    and "list_all (\<lambda>m4. m4_count m4 \<le> int MAX_SEATS) ms"
  shows "\<exists>s'. seat_listener (length ms) env mom s = (Ret False, s') \<and> served mom u [] s' \<and> CLIENTS s' = CLIENTS s
     \<and> flag_value mom s' = (if ms = [] then flag_value mom s else update_of_seats (last ms))"
  using assms(2,3)
proof (induction ms arbitrary: s)
  case (Cons m4 ms)
  obtain s1 where s1: "seat_listener_turn env mom s = (Ret False, s1)" "served mom u (map (seats_update_message u) ms) s1"
    "flag_value mom s1 = update_of_seats m4" "CLIENTS s1 = CLIENTS s"
    using update_taken [OF assms(1), of m4 "map (seats_update_message u) ms" s env] Cons.prems by auto
  moreover have "seat_listener (length (m4 # ms)) env mom s = seat_listener (length ms) env mom s1"
    using s1(1) by (simp add: andThen_def)
  ultimately show ?case using Cons.IH [OF s1(2)] Cons.prems(2) by (auto simp del: seat_listener.simps)
qed (auto simp: ret_run)

section \<open>The thread\<close>

text \<open>The thread's data are there, its place in the segment is the service's, and it holds no news.\<close>

definition watching :: "Mom \<Rightarrow> int \<Rightarrow> int \<Rightarrow> Client \<Rightarrow> client_process \<Rightarrow> bool" where
  "watching mom u k c s \<longleftrightarrow> served mom u [] s \<and> CLIENTS s k = Some c \<and> su_update (flag_value mom s) = NOT_SUCCESS"

lemma slept:
  assumes "his_service mom u" and "watching mom u k c s" and "list_all (\<lambda>m4. m4_count m4 \<le> int MAX_SEATS) ms"
  shows "served mom u [] (during_sleep env mom u ms s) \<and> CLIENTS (during_sleep env mom u ms s) k = Some c
     \<and> flag_value mom (during_sleep env mom u ms s) = (if ms = [] then flag_value mom s else update_of_seats (last ms))"
proof -
  have "served mom u (map (seats_update_message u) ms) (updates_arrive mom u ms s)"
    and "CLIENTS (updates_arrive mom u ms s) = CLIENTS s" and "flag_value mom (updates_arrive mom u ms s) = flag_value mom s"
    using assms(2) by (auto simp: watching_def served_def updates_arrive_def sysv.inbox_put_all flag_value_def)
  with updates_taken [OF assms(1) _ assms(3), of "updates_arrive mom u ms s" env] assms(2)
  show ?thesis by (auto simp: during_sleep_def watching_def)
qed

lemma update_of_seats_shown:
  "m4_count m4 \<le> int MAX_SEATS \<Longrightarrow> su_update (update_of_seats m4) = SUCCESS
     \<and> su_count (update_of_seats m4) \<le> int (length (su_seats (update_of_seats m4)))
     \<and> take (nat (su_count (update_of_seats m4))) (su_seats (update_of_seats m4)) = shown_seats m4"
  by (simp add: update_of_seats_def update_of_def shown_seats_def zero_Seats_update_def)

lemma turn_shows:
  assumes "his_service mom u" and "same_flag c mom" and "watching mom u k c s"
    and "list_all (\<lambda>m4. m4_count m4 \<le> int MAX_SEATS) ms"
  shows "\<exists>s'. listener_thread_turn env' c (during_sleep env mom u ms s)
      = (Ret (if ms = [] then None else Some (shown_seats (last ms)), True), s') \<and> watching mom u k c s'"
proof -
  let ?s = "during_sleep env mom u ms s"
  note sl = slept [OF assms(1,3,4), of env]
  have ready: "flag_ready mom ?s" using sl by (simp add: served_def)
  have after: "watching mom u k c (flag_with mom (v\<lparr>su_update := NOT_SUCCESS\<rparr>) ?s)" for v
    using sl ready by (auto simp: watching_def served_def)
  show ?thesis
  proof (cases "ms = []")
    case True
    then have "su_update (flag_value mom ?s) = NOT_SUCCESS" using sl assms(3) by (simp add: watching_def)
    from listener_thread_run(2) [OF ready assms(2) this, of env'] after True show ?thesis by auto
  next
    case False
    then have "m4_count (last ms) \<le> int MAX_SEATS" using assms(4) by (simp add: list_all_iff)
    from update_of_seats_shown [OF this] sl False listener_thread_run(1) [OF ready assms(2), of env'] after
    show ?thesis by auto
  qed
qed

text \<open>C10. His view of the room is that of the cinema whenever he looks: whatever updates come while the polling thread sleeps,
  and however many sleeps there are, the thread passes to \<open>on_seat_update\<close> the last update of each sleep in which one
  came, whole and once, in order, and nothing else; an update that another overtakes before the sleep is over is not shown.\<close>

theorem last_updates_shown:
  assumes "his_service mom u" and "same_flag c mom" and "watching mom u k c s"
    and "listener_extern_data c \<noteq> None"
    and "list_all (list_all (\<lambda>m4. m4_count m4 \<le> int MAX_SEATS)) mss"
  shows "fst (run_listener_thread (map (\<lambda>ms. (during_sleep env mom u ms, env')) mss) (Some k) s) = Ret (last_updates mss)"
  using assms(3,5)
proof -
  have "\<exists>s'. listener_loop (map (\<lambda>ms. (during_sleep env mom u ms, env')) mss) (Some k) s = (Ret (last_updates mss), s')"
    using assms(3,5)
  proof (induction mss arbitrary: s)
    case (Cons ms mss)
    let ?s = "during_sleep env mom u ms s"
    obtain d where d: "listener_extern_data c = Some d" using assms(4) by auto
    have c: "CLIENTS s k = Some c" "CLIENTS ?s k = Some c"
      using Cons.prems slept [OF assms(1) Cons.prems(1), of ms env] by (simp_all add: watching_def)
    obtain s' where s': "listener_thread_turn env' c ?s = (Ret (if ms = [] then None else Some (shown_seats (last ms)), True), s')"
        "watching mom u k c s'"
      using turn_shows [OF assms(1,2) Cons.prems(1), of ms env' env] Cons.prems(2) by auto
    then have "CLIENTS s' k = Some c" by (simp add: watching_def)
    with Cons.IH [OF s'(2)] Cons.prems(2) c d s'(1) show ?case
      by (cases "ms = []") (auto simp: client_run modify_run defined_def last_updates_def)
  qed (simp add: last_updates_def)
  moreover have "CLIENTS s k = Some c" using assms(3) by (simp add: watching_def)
  ultimately show ?thesis using assms(4) by (auto simp: run_listener_thread_def client_run)
qed

definition watched_service :: Mom where
  "watched_service = mom_example\<lparr>listener_queue := client_7_channel\<lparr>orientation := Some 1\<rparr>\<rparr>"

definition watching_client :: Client where
  "watching_client = client_example\<lparr>listener_updates_position := 7, listener_extern_data := Some \<lparr>polling_interval_sec = 2\<rparr>\<rparr>"

definition watching_host :: client_process where
  "watching_host = \<lparr>msg_ids = Map.empty, msg_queues = [1 \<mapsto> []], sem_ids = Map.empty, sem_vals = [9 \<mapsto> 1],
     shm_ids = Map.empty, shm_segs = [8 \<mapsto> \<lparr>seg_size = 30400, seg_nattch = 1, seg_ints = [],
     seg_updates = replicate 50 (zero_Seats_update\<lparr>su_update := NOT_SUCCESS\<rparr>)\<rparr>], next_id = 10, CLIENTS = [500 \<mapsto> watching_client]\<rparr>"

text \<open>Three sleeps: one update, none, and two of which the second overtakes the first.\<close>

theorem last_updates_shown_witness:
  "fst (run_listener_thread (map (\<lambda>ms. (during_sleep (\<lambda>s. s) watched_service 7 ms, \<lambda>s. s))
       [[zero_m4], [], [zero_m4, m4_example]]) (Some 500) watching_host)
     = Ret [[], [zero_Seat\<lparr>seat_no := 1, seat_status := 1\<rparr>, zero_Seat\<lparr>seat_no := 2\<rparr>]]"
proof -
  have "his_service watched_service 7" "same_flag watching_client watched_service"
    "watching watched_service 7 500 watching_client watching_host" "listener_extern_data watching_client \<noteq> None"
    by (simp_all add: his_service_def watched_service_def client_7_channel_def same_flag_def watching_client_def
        client_example_def mom_example_def watching_def served_def watching_host_def flag_ready_def q_inbox_def flag_value_def)
  moreover have "list_all (list_all (\<lambda>m4. m4_count m4 \<le> int MAX_SEATS)) [[zero_m4], [], [zero_m4, m4_example]]"
    by (simp add: zero_m4_def m4_example_def)
  ultimately have "fst (run_listener_thread (map (\<lambda>ms. (during_sleep (\<lambda>s. s) watched_service 7 ms, \<lambda>s. s))
       [[zero_m4], [], [zero_m4, m4_example]]) (Some 500) watching_host) = Ret (last_updates [[zero_m4], [], [zero_m4, m4_example]])"
    by (rule last_updates_shown)
  moreover have "last_updates [[zero_m4], [], [zero_m4, m4_example]]
      = [[], [zero_Seat\<lparr>seat_no := 1, seat_status := 1\<rparr>, zero_Seat\<lparr>seat_no := 2\<rparr>]]"
    by code_simp
  ultimately show ?thesis by simp
qed

end
