(* ===== verification/Database_Tests.thy ===== *)
theory Database_Tests
  imports Db_Tables
begin

text \<open>
  The program test/db_test/db_test.cpp, which its authors ran to look at the database: what each test
  prints, on every reliable engine that does not check foreign keys.  A test is a list of statements
  on a database its first line has created (\<open>db_create\<close>) and its last line deletes (\<open>db_delete\<close>); these
  two lines, the texts printed around the values and the values of the tests themselves, which most of
  them do not return, are left out.
\<close>

section \<open>The tests\<close>

text \<open>
  What a test prints: the engine's last error (\<open>sqlite3_errmsg\<close> or \<open>sqlite3_errcode\<close>), a number, the
  numbers of \<open>show_vector\<close>, and what the callback prints of the rows of a \<open>SELECT *\<close>: user, room, seat and
  paid flag, \<open>None\<close> for a column the table lacks (the date of a reservation is left out).
\<close>

type_synonym shown_row = "int option \<times> int option \<times> int option \<times> int option"

datatype shown =
    Last_error
  | Number int
  | Vector "int list"
  | Rows "shown_row list"

type_synonym 'db test = "'db \<Rightarrow> shown list \<times> 'db"

definition silently :: "('a, 'db) query \<Rightarrow> 'db test" where
  "silently q d = (case q d of (_, d') \<Rightarrow> ([], d'))"

definition printing :: "('a \<Rightarrow> shown) \<Rightarrow> ('a, 'db) query \<Rightarrow> 'db test" where
  "printing out q d = (case q d of (a, d') \<Rightarrow> ([out a], d'))"

text \<open>\<open>if (call) std::cout << sqlite3_errmsg(handle)\<close>.\<close>

definition error_if :: "('a \<Rightarrow> bool) \<Rightarrow> ('a, 'db) query \<Rightarrow> 'db test" where
  "error_if bad q d = (case q d of (a, d') \<Rightarrow> (if bad a then [Last_error] else [], d'))"

text \<open>\<open>db_insert_room(handle) != SQLITE_OK || db_insert_user(handle)\<close>.\<close>

definition room_or_user :: "'db sqlite \<Rightarrow> (bool, 'db) query" where
  "room_or_user E d =
     (case db_insert_room E d of (r, d') \<Rightarrow>
        if r \<noteq> SQLITE_OK then (True, d')
        else (case db_insert_user E d' of (u, d'') \<Rightarrow> (u \<noteq> 0, d'')))"

definition show_select_reservations_callback :: "row \<Rightarrow> shown_row" where
  "show_select_reservations_callback r = (r Col_user_id, r Col_room_id, r Col_seat_id, r Col_paid_flag)"

text \<open>\<open>SELECT * FROM t\<close> is the parameter \<open>select_all\<close>.\<close>

definition show_table :: "(table \<Rightarrow> 'db \<Rightarrow> row list) \<Rightarrow> table \<Rightarrow> 'db test" where
  "show_table select_all t d = ([Rows (map show_select_reservations_callback (select_all t d))], d)"

primrec steps :: "'db test list \<Rightarrow> 'db test" where
  "steps [] d = ([], d)"
| "steps (s # ss) d = (case s d of (out, d') \<Rightarrow> case steps ss d' of (out', d'') \<Rightarrow> (out @ out', d''))"

definition db_insert_seats_test :: "'db sqlite \<Rightarrow> (table \<Rightarrow> 'db \<Rightarrow> row list) \<Rightarrow> 'db test" where
  "db_insert_seats_test E select_all = steps (
     [silently (db_initialize E)]
     @ map (\<lambda>i. error_if (\<lambda>r. r \<noteq> SQLITE_OK) (db_insert_room E)) [0..<3]
     @ [silently (db_insert_seats E 1 4),
        error_if (\<lambda>r. r = SQLITE_OK) (db_insert_seats E 1 5),
        show_table select_all Seats])"

definition db_pay_reservations_test :: "'db sqlite \<Rightarrow> (table \<Rightarrow> 'db \<Rightarrow> row list) \<Rightarrow> 'db test" where
  "db_pay_reservations_test E select_all = steps (
     [silently (db_initialize E)]
     @ map (\<lambda>i. error_if (\<lambda>r. r \<noteq> 1) (db_insert_room E)) [0..<3]
     @ map (\<lambda>i. error_if (\<lambda>r. r \<noteq> 1) (db_insert_seats E 1 (int i + 1))) [0..<3]
     @ [silently (db_insert_reservation E 1 1 1),
        silently (db_insert_reservation E 1 1 2),
        silently (db_insert_reservation E 2 2 1),
        silently (db_update_paid_reservation E 1 \<lparr>res_room = 1, res_seat_num = 1\<rparr>),
        silently (db_update_paid_reservation E 1 \<lparr>res_room = 1, res_seat_num = 2\<rparr>),
        show_table select_all Reservations,
        silently (db_remove_user_unpaid_reservations E 1),
        silently (db_remove_user_unpaid_reservations E 2),
        show_table select_all Reservations])"

definition db_insert_reservations_test :: "'db sqlite \<Rightarrow> (table \<Rightarrow> 'db \<Rightarrow> row list) \<Rightarrow> 'db test" where
  "db_insert_reservations_test E select_all = steps (
     [silently (db_initialize E)]
     @ map (\<lambda>i. error_if (\<lambda>r. r \<noteq> 1) (db_insert_room E)) [0..<3]
     @ map (\<lambda>i. error_if (\<lambda>r. r \<noteq> 1) (db_insert_seats E 1 (int i + 1))) [0..<3]
     @ [printing Number (db_insert_reservation E 1 1 1),
        printing Number (db_insert_reservation E 1 1 1),
        silently (db_insert_reservation E 1 1 2),
        silently (db_insert_reservation E 1 2 1),
        show_table select_all Reservations])"

definition db_select_reservations_test :: "'db sqlite \<Rightarrow> 'db test" where
  "db_select_reservations_test E = steps (
     [silently (db_initialize E)]
     @ map (\<lambda>i. silently (room_or_user E)) [0..<3]
     @ map (\<lambda>i. silently (db_insert_seats E 1 (int i + 1))) [0..<3]
     @ [silently (db_insert_reservation E 1 1 1),
        silently (db_insert_reservation E 1 1 5),
        silently (db_insert_reservation E 1 2 1),
        printing Vector (db_select_reservations E 1)])"

definition db_select_room_seats_test :: "'db sqlite \<Rightarrow> 'db test" where
  "db_select_room_seats_test E = steps (
     [silently (db_initialize E)]
     @ map (\<lambda>i. error_if id (room_or_user E)) [0..<3]
     @ map (\<lambda>i. error_if (\<lambda>r. r \<noteq> SQLITE_OK) (db_insert_seats E 1 (int i + 1))) [0..<5]
     @ map (\<lambda>i. error_if (\<lambda>r. r \<noteq> SQLITE_OK) (db_insert_seats E 2 (int i + 1))) [0..<2]
     @ [printing Vector (db_select_room_seats E 1),
        printing Vector (db_select_room_seats E 2)])"

definition db_select_users_in_room_test :: "'db sqlite \<Rightarrow> 'db test" where
  "db_select_users_in_room_test E = steps (
     [silently (db_initialize E)]
     @ map (\<lambda>i. silently (db_insert_user E)) [0..<5]
     @ map (\<lambda>i. silently (db_insert_room E)) [0..<3]
     @ map (\<lambda>i. error_if (\<lambda>r. r \<noteq> SQLITE_OK) (db_insert_seats E 1 (int i + 1))) [0..<5]
     @ [silently (db_insert_user_in_room E 1 1),
        silently (db_insert_user_in_room E 2 1),
        silently (db_insert_user_in_room E 3 2),
        printing Vector (db_select_users_in_room E 1),
        printing Vector (db_select_users_in_room E 2),
        silently (db_remove_user_in_room E 2),
        printing Vector (db_select_users_in_room E 1)])"

section \<open>What they print\<close>

text \<open>The engine chooses the order of the rows of a query: what is printed, up to this order.\<close>

datatype tally =
    An_error
  | A_number int
  | Some_numbers "int multiset"
  | Some_rows "shown_row multiset"

primrec up_to_order :: "shown \<Rightarrow> tally" where
  "up_to_order Last_error = An_error"
| "up_to_order (Number n) = A_number n"
| "up_to_order (Vector xs) = Some_numbers (mset xs)"
| "up_to_order (Rows rs) = Some_rows (mset rs)"

text \<open>
  The statement \<open>s\<close> makes the calls \<open>cs\<close> and prints what \<open>f\<close> says of the tables before it, as far as
  they are determined.
\<close>

definition does :: "'db sqlite \<Rightarrow> ('db \<Rightarrow> tables) \<Rightarrow> ('db \<Rightarrow> bool) \<Rightarrow> 'db test \<Rightarrow> db_call list \<times> (tables \<Rightarrow> tally list) \<Rightarrow> bool" where
  "does E tab fk s cf \<longleftrightarrow> (\<forall>d T. \<not> fk d \<longrightarrow> agree (tab d) T \<longrightarrow>
     snd (s d) = db_run E (fst cf) d \<and> map up_to_order (fst (s d)) = snd cf T)"

primrec foretold :: "(db_call list \<times> (tables \<Rightarrow> tally list)) list \<Rightarrow> tables \<Rightarrow> tally list" where
  "foretold [] T = []"
| "foretold (cf # cfs) T = snd cf T @ foretold cfs (run_tables (fst cf) T)"

definition row_inserted :: "table \<Rightarrow> (column \<times> int option) list \<Rightarrow> tables \<Rightarrow> bool" where
  "row_inserted t vals T \<longleftrightarrow> \<not> pk_clash T t (new_row t vals 0)"

definition seat_inserted :: "int \<Rightarrow> int \<Rightarrow> tables \<Rightarrow> bool" where
  "seat_inserted r s T \<longleftrightarrow> row_inserted Seats [(Col_room_id, Some r), (Col_seat_id, Some s)] T"

definition rows_shown :: "table \<Rightarrow> tables \<Rightarrow> tally list" where
  "rows_shown t T = [Some_rows (mset (map show_select_reservations_callback (T t)))]"

definition numbers_shown :: "db_call \<Rightarrow> tables \<Rightarrow> tally list" where
  "numbers_shown c T = [Some_numbers (mset (map int32 (sql_answer T (statement_of c))))]"

lemma fst_snd_if_error:
  "fst (error_if bad q d) = (if bad (fst (q d)) then [Last_error] else [])" "snd (error_if bad q d) = snd (q d)"
  "fst (silently q d) = []" "snd (silently q d) = snd (q d)"
  "fst (printing out q d) = [out (fst (q d))]" "snd (printing out q d) = snd (q d)"
  by (simp_all add: error_if_def silently_def printing_def split: prod.splits)

lemma sql_answer_agree:
  "t \<in> {Seats, Reservations, Clients_rooms, Active_clients} \<Longrightarrow> agree T T' \<Longrightarrow>
     sql_answer T (SelectFrom c t w) = sql_answer T' (SelectFrom c t w)"
  by (auto simp: agree_def)

context reliable_engine
begin

lemma fk_run: "fk (db_run E cs d) = fk d"
  by (induction cs arbitrary: d) (simp_all add: db_run_def fk_perform del: db_perform.simps)

lemma steps_do:
  assumes "list_all2 (does E tab fk) ss cfs" and "\<not> fk d" and "agree (tab d) T"
  shows "map up_to_order (fst (steps ss d)) = foretold cfs T"
  using assms
proof (induction ss cfs arbitrary: d T rule: list_all2_induct)
  case (Cons s ss cf cfs)
  obtain out d' where s: "s d = (out, d')" by fastforce
  have out: "d' = db_run E (fst cf) d" "map up_to_order out = snd cf T"
    using Cons.hyps(1) Cons.prems s by (auto simp: does_def)
  have "\<not> fk d'"
    using Cons.prems(1) by (simp add: out(1) fk_run)
  moreover have "agree (tab d') (run_tables (fst cf) T)"
    unfolding out(1) by (rule run_runs_tables [OF Cons.prems])
  ultimately have "map up_to_order (fst (steps ss d')) = foretold cfs (run_tables (fst cf) T)"
    by (rule Cons.IH)
  with s out(2) show ?case by (cases "steps ss d'") simp
qed simp

lemma does_silently:
  assumes "\<And>d. snd (q d) = db_perform E c d"
  shows "does E tab fk (silently q) ([c], \<lambda>T. [])"
  using assms by (simp add: does_def fst_snd_if_error db_run_def del: db_perform.simps)

lemma does_error_if:
  assumes "\<And>d. snd (q d) = db_perform E c d"
    and "\<And>d T. \<not> fk d \<Longrightarrow> agree (tab d) T \<Longrightarrow> bad (fst (q d)) \<longleftrightarrow> b T"
  shows "does E tab fk (error_if bad q) ([c], \<lambda>T. if b T then [An_error] else [])"
  using assms by (simp add: does_def fst_snd_if_error db_run_def del: db_perform.simps)

lemma does_printing:
  assumes "\<And>d. snd (q d) = db_perform E c d"
    and "\<And>d T. \<not> fk d \<Longrightarrow> agree (tab d) T \<Longrightarrow> up_to_order (out (fst (q d))) = f T"
  shows "does E tab fk (printing out q) ([c], \<lambda>T. [f T])"
  using assms by (simp add: does_def fst_snd_if_error db_run_def del: db_perform.simps)

lemma does_show_table:
  assumes "\<And>d. mset (select_all t d) = mset (tab d t)"
    and "t \<in> {Seats, Reservations, Clients_rooms, Active_clients}"
  shows "does E tab fk (show_table select_all t) ([], rows_shown t)"
  using assms by (auto simp: does_def show_table_def rows_shown_def db_run_def agree_def)

lemma insert_result:
  assumes "\<not> fk d" and "agree (tab d) T" and "no_nulls vals"
    and "t \<in> {Seats, Reservations, Clients_rooms, Active_clients}"
  shows "fst (step_and_finalize E t vals d) = SQLITE_OK \<longleftrightarrow> row_inserted t vals T"
proof -
  obtain rc rows d' where e: "sq_exec E (InsertInto t vals) d = ((rc, rows), d')" by (metis prod.exhaust)
  have "rc = SQLITE_OK \<longleftrightarrow> \<not> pk_clash (tab d) t (new_row t vals 0)"
    by (rule insert_exec(2) [OF assms(1,3) e])
  moreover have "tab d t = T t" using assms(2,4) by (auto simp: agree_def)
  ultimately show ?thesis
    by (simp add: step_and_finalize_def prepare_reliable e row_inserted_def pk_clash_def)
qed

lemma insert_seats_result:
  assumes "\<not> fk d" and "agree (tab d) T"
  shows "fst (db_insert_seats E r s d) = of_bool (seat_inserted r s T)"
  using insert_result [OF assms, of "[(Col_room_id, Some r), (Col_seat_id, Some s)]" Seats]
  by (cases "step_and_finalize E Seats [(Col_room_id, Some r), (Col_seat_id, Some s)] d")
    (simp add: db_insert_seats_def seat_inserted_def no_nulls_def)

lemma insert_reservation_result:
  assumes "\<not> fk d" and "agree (tab d) T" and "0 < s"
  shows "fst (db_insert_reservation E u r s d) = of_bool (row_inserted Reservations (reservation_values u r s) T)"
  using insert_result [OF assms(1,2), of "reservation_values u r s" Reservations] assms(3)
  by (cases "step_and_finalize E Reservations (reservation_values u r s) d")
    (simp add: db_insert_reservation_def reservation_values_def no_nulls_def)

lemma insert_room_result: "fst (db_insert_room E d) = 1"
proof -
  obtain rc rows d' where e: "sq_exec E (InsertInto Rooms [(Col_id, None)]) d = ((rc, rows), d')" by (metis prod.exhaust)
  then show ?thesis
    using exec_new_row [OF e] by (simp add: db_insert_room_def query_succeeds_def execute_query_def)
qed

lemma room_or_user_run: "room_or_user E d = (True, db_perform E Call_insert_room d)"
  using insert_room_result [of d] by (cases "db_insert_room E d") (simp add: room_or_user_def)

lemma select_result:
  assumes "agree (tab d) T" and "t \<in> {Seats, Reservations, Clients_rooms, Active_clients}"
  shows "mset (fst (query_rows E (SelectFrom c t w) d)) = mset (map int32 (sql_answer T (SelectFrom c t w)))"
proof -
  obtain rc rows d' where e: "sq_exec E (SelectFrom c t w) d = ((rc, rows), d')" by (metis prod.exhaust)
  have "rc = SQLITE_OK" using exec_reliable [OF e] by simp
  from exec_answer [OF e this] sql_answer_agree [OF assms(2,1)]
  show ?thesis
    by (simp add: query_rows_def execute_query_def e callback_foldl del: sql_answer.simps)
qed

lemma does_error_room: "does E tab fk (error_if bad (db_insert_room E)) ([Call_insert_room], \<lambda>T. if bad 1 then [An_error] else [])"
  by (rule does_error_if) (simp_all add: insert_room_result)

lemma does_room_or_user: "does E tab fk (error_if id (room_or_user E)) ([Call_insert_room], \<lambda>T. if True then [An_error] else [])"
  by (rule does_error_if) (simp_all add: room_or_user_run del: db_perform.simps)

lemma does_room_or_user_silently: "does E tab fk (silently (room_or_user E)) ([Call_insert_room], \<lambda>T. [])"
  by (rule does_silently) (simp_all add: room_or_user_run del: db_perform.simps)

lemma does_error_seats:
  "does E tab fk (error_if bad (db_insert_seats E r s))
     ([Call_insert_seats r s], \<lambda>T. if bad (of_bool (seat_inserted r s T)) then [An_error] else [])"
  by (rule does_error_if) (simp_all add: insert_seats_result)

lemma does_number_reservation:
  "0 < s \<Longrightarrow> does E tab fk (printing Number (db_insert_reservation E u r s))
     ([Call_insert_reservation u r s],
      \<lambda>T. [A_number (of_bool (row_inserted Reservations (reservation_values u r s) T))])"
  by (rule does_printing) (simp_all add: insert_reservation_result)

lemma does_vector:
  assumes "\<And>d. q d = query_rows E (statement_of c) d" and "\<And>d. snd (q d) = db_perform E c d"
    and "statement_of c = SelectFrom col t w" and "t \<in> {Seats, Reservations, Clients_rooms, Active_clients}"
  shows "does E tab fk (printing Vector q) ([c], numbers_shown c)"
proof -
  have "does E tab fk (printing Vector q) ([c], \<lambda>T. [Some_numbers (mset (map int32 (sql_answer T (statement_of c))))])"
    by (rule does_printing) (use assms select_result in \<open>simp_all del: sql_answer.simps db_perform.simps mset_map\<close>)
  then show ?thesis by (simp add: numbers_shown_def [abs_def])
qed

lemma does_calls:
  "does E tab fk (silently (db_initialize E)) ([Call_initialize], \<lambda>T. [])"
  "does E tab fk (silently (db_insert_user E)) ([Call_insert_user], \<lambda>T. [])"
  "does E tab fk (silently (db_insert_room E)) ([Call_insert_room], \<lambda>T. [])"
  "does E tab fk (silently (db_insert_seats E r s)) ([Call_insert_seats r s], \<lambda>T. [])"
  "does E tab fk (silently (db_insert_reservation E u r s)) ([Call_insert_reservation u r s], \<lambda>T. [])"
  "does E tab fk (silently (db_update_paid_reservation E u rv)) ([Call_pay u rv], \<lambda>T. [])"
  "does E tab fk (silently (db_remove_user_unpaid_reservations E u)) ([Call_remove_user_unpaid u], \<lambda>T. [])"
  "does E tab fk (silently (db_insert_user_in_room E u r)) ([Call_insert_user_in_room u r], \<lambda>T. [])"
  "does E tab fk (silently (db_remove_user_in_room E u)) ([Call_remove_user_in_room u], \<lambda>T. [])"
  by (simp_all add: does_silently)

lemma does_selects:
  "does E tab fk (printing Vector (db_select_reservations E r)) ([Call_select_reservations r], numbers_shown (Call_select_reservations r))"
  "does E tab fk (printing Vector (db_select_room_seats E r)) ([Call_select_seats r], numbers_shown (Call_select_seats r))"
  "does E tab fk (printing Vector (db_select_users_in_room E r)) ([Call_select_users r], numbers_shown (Call_select_users r))"
  by (rule does_vector [where t = Reservations], simp_all add: db_select_reservations_def)
    (rule does_vector [where t = Seats], simp_all add: db_select_room_seats_def,
     rule does_vector [where t = Clients_rooms], simp_all add: db_select_users_in_room_def)

lemmas does_statements = does_calls does_selects does_show_table does_error_room does_room_or_user
  does_room_or_user_silently does_error_seats does_number_reservation

lemma tests_print:
  assumes "\<And>t d. mset (select_all t d) = mset (tab d t)" and "\<not> fk d" and "tab d = (\<lambda>_. [])"
  shows "map up_to_order (fst (db_insert_seats_test E select_all d)) =
      [An_error, An_error, An_error, Some_rows {#(None, Some 1, Some 4, None), (None, Some 1, Some 5, None)#}]
    \<and> map up_to_order (fst (db_pay_reservations_test E select_all d)) =
      [Some_rows {#(Some 1, Some 1, Some 1, Some 1), (Some 1, Some 1, Some 2, Some 1), (Some 2, Some 2, Some 1, Some 0)#},
       Some_rows {#(Some 1, Some 1, Some 1, Some 1), (Some 1, Some 1, Some 2, Some 1)#}]
    \<and> map up_to_order (fst (db_insert_reservations_test E select_all d)) =
      [A_number 1, A_number 0,
       Some_rows {#(Some 1, Some 1, Some 1, Some 0), (Some 1, Some 1, Some 2, Some 0), (Some 1, Some 2, Some 1, Some 0)#}]
    \<and> map up_to_order (fst (db_select_reservations_test E d)) = [Some_numbers {#1, 5#}]
    \<and> map up_to_order (fst (db_select_room_seats_test E d)) =
      replicate 10 An_error @ [Some_numbers {#1, 2, 3, 4, 5#}, Some_numbers {#1, 2#}]
    \<and> map up_to_order (fst (db_select_users_in_room_test E d)) =
      replicate 5 An_error @ [Some_numbers {#1, 2#}, Some_numbers {#3#}, Some_numbers {#1#}]"
proof -
  have T: "agree (tab d) (\<lambda>_. [])" using assms(3) by simp
  note tests = db_insert_seats_test_def db_pay_reservations_test_def db_insert_reservations_test_def
    db_select_reservations_test_def db_select_room_seats_test_def db_select_users_in_room_test_def
  show ?thesis
    by (intro conjI; simp add: tests upt_rec del: steps.simps;
        rule trans [OF steps_do [OF _ assms(2) T]],
        ((rule list.rel_intros does_statements assms(1) | simp; fail)+)[1], code_simp)
qed

end

text \<open>C40. What the authors' tests of the database print, whichever reliable engine runs them, up to the order of
  the rows: the reservation of user 2 disappears and the two paid ones of user 1 stay; the same seat is reserved
  once; the seats of a room and the users in it are the vectors the comments give.  They pass although
  they reserve a seat that does not exist, for users that do not exist, and print an error for every insertion
  that succeeds where the value is compared with \<open>SQLITE_OK\<close>.\<close>

theorem database_tests_print:
  assumes "reliable_engine E tab fk" and "\<And>t d. mset (select_all t d) = mset (tab d t)"
    and "\<not> fk d" and "tab d = (\<lambda>_. [])"
  shows "map up_to_order (fst (db_insert_seats_test E select_all d)) =
      [An_error, An_error, An_error, Some_rows {#(None, Some 1, Some 4, None), (None, Some 1, Some 5, None)#}]
    \<and> map up_to_order (fst (db_pay_reservations_test E select_all d)) =
      [Some_rows {#(Some 1, Some 1, Some 1, Some 1), (Some 1, Some 1, Some 2, Some 1), (Some 2, Some 2, Some 1, Some 0)#},
       Some_rows {#(Some 1, Some 1, Some 1, Some 1), (Some 1, Some 1, Some 2, Some 1)#}]
    \<and> map up_to_order (fst (db_insert_reservations_test E select_all d)) =
      [A_number 1, A_number 0,
       Some_rows {#(Some 1, Some 1, Some 1, Some 0), (Some 1, Some 1, Some 2, Some 0), (Some 1, Some 2, Some 1, Some 0)#}]
    \<and> map up_to_order (fst (db_select_reservations_test E d)) = [Some_numbers {#1, 5#}]
    \<and> map up_to_order (fst (db_select_room_seats_test E d)) =
      replicate 10 An_error @ [Some_numbers {#1, 2, 3, 4, 5#}, Some_numbers {#1, 2#}]
    \<and> map up_to_order (fst (db_select_users_in_room_test E d)) =
      replicate 5 An_error @ [Some_numbers {#1, 2#}, Some_numbers {#3#}, Some_numbers {#1#}]"
  by (rule reliable_engine.tests_print [OF assms])

theorem database_tests_print_witness:
  "map up_to_order (fst (db_pay_reservations_test ref_engine (\<lambda>t d. rd_tab d t) ref_empty)) =
     [Some_rows {#(Some 1, Some 1, Some 1, Some 1), (Some 1, Some 1, Some 2, Some 1), (Some 2, Some 2, Some 1, Some 0)#},
      Some_rows {#(Some 1, Some 1, Some 1, Some 1), (Some 1, Some 1, Some 2, Some 1)#}]"
  using database_tests_print [OF ref.reliable_engine_axioms, of "\<lambda>t d. rd_tab d t" ref_empty]
  by (simp add: ref_empty_def)

text \<open>With foreign keys checked, which the pragma of \<open>db_initialize\<close> means to switch on, the same test
  would show no reservation at all.\<close>

lemma tests_need_no_foreign_keys:
  "fst (db_pay_reservations_test ref_engine (\<lambda>t d. rd_tab d t) (ref_empty\<lparr>rd_fk := True\<rparr>)) = [Rows [], Rows []]"
  by code_simp

end
