(* ===== verification/Identifier_Tests.thy ===== *)
theory Identifier_Tests
  imports Database_Tests
begin

text \<open>
  The rest of test/db_test/db_test.cpp: the tests that print the identifiers the engine chooses for users and rooms,
  and the test of the creation of the file.  As in theory Database_Tests the first and last line of a test and the texts are
  left out, but for the last test, which consists of them.
\<close>

text \<open>The number inserted and the one \<open>db_insert_user\<close> returns.\<close>

primrec insert_users :: "'db sqlite \<Rightarrow> nat list \<Rightarrow> ((int \<times> int) list, 'db) query" where
  "insert_users E [] d = ([], d)"
| "insert_users E (i # is) d =
     (case db_insert_user E d of (last_id, d') \<Rightarrow>
      case insert_users E is d' of (printed, d'') \<Rightarrow> ((int i + 1, last_id) # printed, d''))"

text \<open>What the callbacks print of a table whose only column is its identifier.\<close>

definition show_identifiers :: "(table \<Rightarrow> 'db \<Rightarrow> row list) \<Rightarrow> table \<Rightarrow> 'db \<Rightarrow> int option list" where
  "show_identifiers select_all t d = map (\<lambda>r. r Col_id) (select_all t d)"

definition db_insert_user_test ::
  "'db sqlite \<Rightarrow> (table \<Rightarrow> 'db \<Rightarrow> row list) \<Rightarrow> ((int \<times> int) list \<times> int option list, 'db) query" where
  "db_insert_user_test E select_all d =
     (case db_initialize E d of (_, d) \<Rightarrow>
      case insert_users E [0..<5] d of (printed, d) \<Rightarrow> ((printed, show_identifiers select_all Users d), d))"

definition db_insert_room_test ::
  "'db sqlite \<Rightarrow> (table \<Rightarrow> 'db \<Rightarrow> row list) \<Rightarrow> (shown list \<times> int option list, 'db) query" where
  "db_insert_room_test E select_all d =
     (case db_initialize E d of (_, d) \<Rightarrow>
      case steps (map (\<lambda>i. error_if (\<lambda>r. r \<noteq> SQLITE_OK) (db_insert_room E)) [0..<3]) d of (printed, d) \<Rightarrow>
        ((printed, show_identifiers select_all Rooms d), d))"

definition db_select_room_test :: "'db sqlite \<Rightarrow> (shown list \<times> int list, 'db) query" where
  "db_select_room_test E d =
     (case db_initialize E d of (_, d) \<Rightarrow>
      case steps (map (\<lambda>i. error_if (\<lambda>r. r \<noteq> SQLITE_OK) (db_insert_room E)) [0..<5]) d of (printed, d) \<Rightarrow>
      case db_select_room E d of (resulting_rooms, d) \<Rightarrow> ((printed, resulting_rooms), d))"

text \<open>\<open>good\<close> is whether the file can be opened for reading.\<close>

definition TEST_DB_FILENAME :: string where "TEST_DB_FILENAME = ''test_db.db''"

definition db_create_test :: "'w db_files \<Rightarrow> (string \<Rightarrow> 'w \<Rightarrow> bool) \<Rightarrow> (int, 'w) prog" where
  "db_create_test F good =
     andThen (db_create F TEST_DB_FILENAME) (\<lambda>_ w.
       if \<not> good TEST_DB_FILENAME w then andThen (db_close F) (\<lambda>_. ret (- 1)) w
       else andThen (db_delete F True TEST_DB_FILENAME) (\<lambda>_. ret 0) w)"

section \<open>Rows with identifiers\<close>

text \<open>The rows of a table of identifiers, in the order of their insertion.\<close>

definition numbered :: "table \<Rightarrow> int list \<Rightarrow> tables \<Rightarrow> bool" where
  "numbered t ids T \<longleftrightarrow> T t = map (\<lambda>i. [Col_id \<mapsto> i]) ids \<and> sorted_wrt (<) (0 # ids)"

context reliable_engine
begin

lemma identifier_inserted:
  assumes "t \<in> {Users, Rooms}" and "numbered t ids (tab d)"
    and "sq_exec E (InsertInto t [(Col_id, None)]) d = ((rc, rows), d')"
  shows "rc = SQLITE_OK \<and> numbered t (ids @ [sq_last_insert_rowid E d']) (tab d')"
proof -
  have rc: "rc = SQLITE_OK" using exec_new_row [OF assms(3)] assms(1) by auto
  have "new_row t [(Col_id, None)] i = [Col_id \<mapsto> i]" for i
    using assms(1) by (auto simp: new_row_def)
  with exec_ok [OF assms(3) rc] exec_rowid [OF assms(3) rc] assms(2) rc show ?thesis
    by (auto simp: numbered_def sorted_wrt_append)
qed

lemma user_inserted:
  assumes "numbered Users ids (tab d)"
  shows "\<exists>i. fst (db_insert_user E d) = int32 i \<and> numbered Users (ids @ [i]) (tab (snd (db_insert_user E d)))"
proof -
  obtain rc rows d' where e: "sq_exec E (InsertInto Users [(Col_id, None)]) d = ((rc, rows), d')" by (metis prod.exhaust)
  from identifier_inserted [OF _ assms e] show ?thesis by (auto simp: db_insert_user_def execute_query_def e)
qed

lemma room_inserted:
  assumes "numbered Rooms ids (tab d)"
  shows "\<exists>i. numbered Rooms (ids @ [i]) (tab (snd (db_insert_room E d)))"
proof -
  obtain rc rows d' where e: "sq_exec E (InsertInto Rooms [(Col_id, None)]) d = ((rc, rows), d')" by (metis prod.exhaust)
  from identifier_inserted [OF _ assms e] show ?thesis
    by (auto simp: db_insert_room_def query_succeeds_def execute_query_def e)
qed

lemma users_inserted:
  assumes "numbered Users ids (tab d)"
  shows "\<exists>new. length new = length is \<and> fst (insert_users E is d) = zip (map (\<lambda>i. int i + 1) is) (map int32 new)
     \<and> numbered Users (ids @ new) (tab (snd (insert_users E is d)))"
  using assms
proof (induction "is" arbitrary: ids d)
  case (Cons i "is")
  obtain id d1 where i: "db_insert_user E d = (int32 id, d1)" "numbered Users (ids @ [id]) (tab d1)"
    using user_inserted [OF Cons.prems] by (metis prod.collapse)
  obtain new where "length new = length is" "fst (insert_users E is d1) = zip (map (\<lambda>i. int i + 1) is) (map int32 new)"
      "numbered Users (ids @ id # new) (tab (snd (insert_users E is d1)))"
    using Cons.IH [OF i(2)] by auto
  then show ?case using i(1) by (intro exI [of _ "id # new"]) (cases "insert_users E is d1", auto)
qed auto

lemma rooms_inserted:
  assumes "numbered Rooms ids (tab d)"
  shows "\<exists>new. length new = length is
     \<and> fst (steps (map (\<lambda>i. error_if (\<lambda>r. r \<noteq> SQLITE_OK) (db_insert_room E)) is) d) = replicate (length is) Last_error
     \<and> numbered Rooms (ids @ new) (tab (snd (steps (map (\<lambda>i. error_if (\<lambda>r. r \<noteq> SQLITE_OK) (db_insert_room E)) is) d)))"
  using assms
proof (induction "is" arbitrary: ids d)
  case (Cons i "is")
  let ?s = "\<lambda>i. error_if (\<lambda>r. r \<noteq> SQLITE_OK) (db_insert_room E)"
  define d1 where "d1 = snd (db_insert_room E d)"
  obtain id where "numbered Rooms (ids @ [id]) (tab d1)"
    using room_inserted [OF Cons.prems] by (auto simp: d1_def)
  moreover have "?s i d = ([Last_error], d1)"
    by (rule prod_eqI) (simp_all add: fst_snd_if_error insert_room_result d1_def)
  ultimately have i: "?s i d = ([Last_error], d1)" "numbered Rooms (ids @ [id]) (tab d1)" by simp_all
  obtain new where "length new = length is" "fst (steps (map ?s is) d1) = replicate (length is) Last_error"
      "numbered Rooms (ids @ id # new) (tab (snd (steps (map ?s is) d1)))"
    using Cons.IH [OF i(2)] by auto
  then show ?case using i(1) by (intro exI [of _ "id # new"]) (cases "steps (map ?s is) d1", auto)
qed auto

lemma numbered_none: "tab d = (\<lambda>_. []) \<Longrightarrow> numbered t [] (tab (snd (db_initialize E d)))"
  by (simp add: numbered_def db_initialize_tables)

lemma identifiers_shown:
  assumes "\<And>t d. mset (select_all t d) = mset (tab d t)" and "numbered t ids (tab d)"
  shows "mset (show_identifiers select_all t d) = mset (map Some ids)"
  using assms by (simp add: show_identifiers_def numbered_def image_mset.compositionality comp_def)

lemma insert_user_prints:
  assumes "\<And>t d. mset (select_all t d) = mset (tab d t)" and "tab d = (\<lambda>_. [])"
  shows "\<exists>ids rows. fst (db_insert_user_test E select_all d) = (zip [1, 2, 3, 4, 5] (map int32 ids), rows)
     \<and> length ids = 5 \<and> sorted_wrt (<) (0 # ids) \<and> mset rows = mset (map Some ids)"
proof -
  obtain d1 where d1: "db_initialize E d = ((), d1)" "numbered Users [] (tab d1)"
    using numbered_none [OF assms(2), of Users] by (cases "db_initialize E d") auto
  have five: "map (\<lambda>i. int i + 1) [0..<5] = [1, 2, 3, 4, 5]" by (simp add: upt_rec)
  obtain new where new: "length new = 5" "fst (insert_users E [0..<5] d1) = zip [1, 2, 3, 4, 5] (map int32 new)"
      "numbered Users new (tab (snd (insert_users E [0..<5] d1)))"
    using users_inserted [OF d1(2), of "[0..<5]"] five by (auto simp del: upt_rec_numeral insert_users.simps)
  with d1(1) identifiers_shown [OF assms(1) new(3)] show ?thesis
    by (intro exI [of _ new] exI [of _ "show_identifiers select_all Users (snd (insert_users E [0..<5] d1))"])
      (cases "insert_users E [0..<5] d1", simp add: db_insert_user_test_def numbered_def del: upt_rec_numeral insert_users.simps)
qed

lemma room_tests_print:
  assumes "\<And>t d. mset (select_all t d) = mset (tab d t)" and "tab d = (\<lambda>_. [])"
  shows "\<exists>ids rows. fst (db_insert_room_test E select_all d) = (replicate 3 Last_error, rows)
       \<and> length ids = 3 \<and> sorted_wrt (<) (0 # ids) \<and> mset rows = mset (map Some ids)"
    and "\<exists>ids rooms. fst (db_select_room_test E d) = (replicate 5 Last_error, rooms)
       \<and> length ids = 5 \<and> sorted_wrt (<) (0 # ids) \<and> mset rooms = mset (map int32 ids)"
proof -
  let ?s = "\<lambda>i :: nat. error_if (\<lambda>r. r \<noteq> SQLITE_OK) (db_insert_room E)"
  obtain d1 where d1: "db_initialize E d = ((), d1)" "numbered Rooms [] (tab d1)"
    using numbered_none [OF assms(2), of Rooms] by (cases "db_initialize E d") auto
  obtain three d3 where three: "length three = 3" "steps (map ?s [0..<3]) d1 = (replicate 3 Last_error, d3)"
      "numbered Rooms three (tab d3)"
    using rooms_inserted [OF d1(2), of "[0..<3]"] by (cases "steps (map ?s [0..<3]) d1") (auto simp del: upt_rec_numeral)
  from d1(1) three identifiers_shown [OF assms(1) three(3)]
  show "\<exists>ids rows. fst (db_insert_room_test E select_all d) = (replicate 3 Last_error, rows)
       \<and> length ids = 3 \<and> sorted_wrt (<) (0 # ids) \<and> mset rows = mset (map Some ids)"
    by (intro exI [of _ three] exI [of _ "show_identifiers select_all Rooms d3"])
      (simp add: db_insert_room_test_def numbered_def del: upt_rec_numeral)
  obtain five d5 where five: "length five = 5" "steps (map ?s [0..<5]) d1 = (replicate 5 Last_error, d5)"
      "numbered Rooms five (tab d5)"
    using rooms_inserted [OF d1(2), of "[0..<5]"] by (cases "steps (map ?s [0..<5]) d1") (auto simp del: upt_rec_numeral)
  obtain rc rows d6 where e: "sq_exec E (SelectFrom Col_id Rooms []) d5 = ((rc, rows), d6)" by (metis prod.exhaust)
  have rc: "rc = SQLITE_OK" using exec_reliable [OF e] by simp
  have "mset rows = mset five"
    using exec_answer [OF e rc] five(3) by (simp add: numbered_def matches_def image_mset.compositionality comp_def)
  then show "\<exists>ids rooms. fst (db_select_room_test E d) = (replicate 5 Last_error, rooms)
       \<and> length ids = 5 \<and> sorted_wrt (<) (0 # ids) \<and> mset rooms = mset (map int32 ids)"
    using d1(1) five
    by (intro exI [of _ five] exI [of _ "map int32 rows"])
      (simp add: db_select_room_test_def db_select_room_def query_rows_def execute_query_def e callback_foldl numbered_def
        del: upt_rec_numeral)
qed

end

text \<open>The file is created and deleted where the calls succeed; it is -1 that tells of a file that is not there.\<close>

lemma create_test_result:
  assumes "sq_open F TEST_DB_FILENAME w = (SQLITE_OK, w1)"
    and "\<And>w. fst (sq_close F w) = 0" and "\<And>w. fst (c_remove F TEST_DB_FILENAME w) = 0"
  shows "fst (db_create_test F good w) = Ret (if good TEST_DB_FILENAME w1 then 0 else - 1)"
proof -
  obtain w2 where w2: "c_remove F TEST_DB_FILENAME w1 = (0, w2)"
    using assms(3) [of w1] by (cases "c_remove F TEST_DB_FILENAME w1") simp
  obtain w3 w4 where "sq_close F w1 = (0, w3)" "sq_close F w2 = (0, w4)"
    using assms(2) [of w1] assms(2) [of w2] by (cases "sq_close F w1"; cases "sq_close F w2") simp
  with assms(1) w2 show ?thesis
    by (simp add: db_create_test_def db_create_def db_delete_def db_close_def andThen_def ret_run)
qed

end
