(* ===== verification/Transport_Tests.thy ===== *)
theory Transport_Tests
  imports Wire Sysv_Ipc
begin

text \<open>
  The authors' tests of the transport.  The program test/socket_test/socket_test.cpp: eight messages through \<open>serialize_message\<close> and
  \<open>deserialize_message\<close>.  The two messages of a test and its buffer start with whatever the memory held,
  the arguments \<open>s\<close>, \<open>r\<close> and \<open>buf\<close>; a test gives the values it prints of the message received and the
  number it returns, or \<open>None\<close> where it goes outside its objects.  Texts and the values printed of the
  message sent are left out.
\<close>

definition through_buffer :: "q_message \<Rightarrow> q_message \<Rightarrow> byte list \<Rightarrow> q_message option" where
  "through_buffer s r buf = do { data_buffer \<leftarrow> serialize_message s buf; deserialize_message r data_buffer }"

definition socket_serialize_message_test1 :: "q_message \<Rightarrow> q_message \<Rightarrow> byte list \<Rightarrow> (int \<times> int \<times> int) option" where
  "socket_serialize_message_test1 s r buf = do {
     let s = s\<lparr>client_id := 9100, msg_choice := M1 5, message_choice_number := CHOICE_CONNECTION_ACCEPTED\<rparr>;
     r \<leftarrow> through_buffer s r buf;
     Some (as_m1 (msg_choice r), message_choice_number r,
       if as_m1 (msg_choice s) \<noteq> as_m1 (msg_choice r) then - 1 else 1)
   }"

definition socket_serialize_message_test2 :: "q_message \<Rightarrow> q_message \<Rightarrow> byte list \<Rightarrow> (int \<times> int \<times> int list) option" where
  "socket_serialize_message_test2 s r buf = do {
     ids \<leftarrow> std_copy [1, 2, 3, 4, 5] (m2_ids (as_m2 (msg_choice s)));
     let s = s\<lparr>client_id := 4, msg_choice := M2 \<lparr>m2_count = 5, m2_ids = ids\<rparr>,
               message_choice_number := CHOICE_ROOMS_RESPONSE\<rparr>;
     r \<leftarrow> through_buffer s r buf;
     Some (client_id r, m2_count (as_m2 (msg_choice r)), take 5 (m2_ids (as_m2 (msg_choice r))))
   }"

definition socket_serialize_message_test3 :: "q_message \<Rightarrow> q_message \<Rightarrow> byte list \<Rightarrow> (int \<times> int \<times> int) option" where
  "socket_serialize_message_test3 s r buf = do {
     let s = s\<lparr>client_id := 6, msg_choice := M3 2, message_choice_number := CHOICE_SEATS_REQUEST\<rparr>;
     r \<leftarrow> through_buffer s r buf;
     Some (client_id r, as_m3 (msg_choice r),
       if as_m3 (msg_choice s) \<noteq> as_m3 (msg_choice r) then - 1 else 1)
   }"

text \<open>The status of a seat is a character, \<open>'0'\<close> or \<open>'1'\<close>.\<close>

definition socket_serialize_message_test4 ::
  "q_message \<Rightarrow> q_message \<Rightarrow> byte list \<Rightarrow> (int \<times> int \<times> string \<times> bool \<times> int list \<times> int list) option" where
  "socket_serialize_message_test4 s r buf = do {
     let m4 = as_m4 (msg_choice s);
     information \<leftarrow> strcpy (m4_information m4) ''This is a test'';
     ids \<leftarrow> std_copy [1, 2, 3, 4, 5, 6, 7] (m4_seats_id m4);
     status \<leftarrow> std_copy [48, 49, 49, 48, 48, 49, 49] (m4_seats_status m4);
     let s = s\<lparr>client_id := 7, message_choice_number := CHOICE_SEATS_RESPONSE,
               msg_choice := M4 \<lparr>m4_count = 7, m4_success = SUCCESS, m4_information = information,
                 m4_seats_id = ids, m4_seats_status = status\<rparr>\<rparr>;
     r \<leftarrow> through_buffer s r buf;
     Some (client_id r, m4_count (as_m4 (msg_choice r)), c_string (m4_information (as_m4 (msg_choice r))),
       m4_success (as_m4 (msg_choice r)) = m4_success (as_m4 (msg_choice s)),
       take 7 (m4_seats_id (as_m4 (msg_choice r))), take 7 (m4_seats_status (as_m4 (msg_choice r))))
   }"

definition socket_serialize_message_test5 ::
  "q_message \<Rightarrow> q_message \<Rightarrow> byte list \<Rightarrow> (int \<times> int \<times> Reservation list) option" where
  "socket_serialize_message_test5 s r buf = do {
     rs \<leftarrow> std_copy [\<lparr>res_room = 1, res_seat_num = 2\<rparr>, \<lparr>res_room = 3, res_seat_num = 5\<rparr>]
       (m7_list (as_m7 (msg_choice s)));
     let s = s\<lparr>client_id := 15, message_choice_number := CHOICE_PAY_RESERVATION_REQUEST,
               msg_choice := M7 \<lparr>m7_count = 2, m7_list = rs\<rparr>\<rparr>;
     r \<leftarrow> through_buffer s r buf;
     Some (client_id r, m7_count (as_m7 (msg_choice r)), take 2 (m7_list (as_m7 (msg_choice r))))
   }"

definition socket_serialize_message_test6 :: "q_message \<Rightarrow> q_message \<Rightarrow> byte list \<Rightarrow> (bool \<times> string) option" where
  "socket_serialize_message_test6 s r buf = do {
     information \<leftarrow> strcpy (m6_information (as_m6 (msg_choice s))) ''Succesful Payment'';
     let s = s\<lparr>client_id := 27, message_choice_number := CHOICE_PAY_RESERVATION_RESPONSE,
               msg_choice := M6 \<lparr>m6_success = SUCCESS, m6_information = information\<rparr>\<rparr>;
     r \<leftarrow> through_buffer s r buf;
     Some (m6_success (as_m6 (msg_choice s)) = m6_success (as_m6 (msg_choice r)),
       c_string (m6_information (as_m6 (msg_choice r))))
   }"

definition socket_serialize_message_test7 :: "q_message \<Rightarrow> q_message \<Rightarrow> byte list \<Rightarrow> int option" where
  "socket_serialize_message_test7 s r buf = do {
     let s = s\<lparr>client_id := 27, message_choice_number := CHOICE_SEATS_REQUEST, msg_choice := M3 2\<rparr>;
     r \<leftarrow> through_buffer s r buf;
     Some (as_m3 (msg_choice r))
   }"

text \<open>The eighth test leaves the choice number as it was.\<close>

definition socket_serialize_message_only_with_client_id_test8 ::
  "q_message \<Rightarrow> q_message \<Rightarrow> byte list \<Rightarrow> (int \<times> int) option" where
  "socket_serialize_message_only_with_client_id_test8 s r buf = do {
     let s = s\<lparr>msg_choice := M1 12041994\<rparr>;
     r \<leftarrow> through_buffer s r buf;
     Some (as_m1 (msg_choice r), if as_m1 (msg_choice s) = as_m1 (msg_choice r) then 1 else 0)
   }"

section \<open>What they print\<close>

lemma through_buffer:
  assumes "wf_message s" and "counts_ok s" and "wf_choice (msg_choice r)" and "PACKET_SIZE \<le> length buf"
  shows "\<exists>r'. through_buffer s r buf = Some r' \<and> client_id r' = client_id s
     \<and> message_choice_number r' = message_choice_number s \<and> payload r' = on_wire (payload s)
     \<and> wf_choice (msg_choice r') \<and> counts_bounded r'"
proof -
  obtain b r' where "serialize_message s buf = Some b" "deserialize_message r b = Some r'"
    "client_id r' = client_id s" "message_choice_number r' = message_choice_number s" "payload r' = on_wire (payload s)"
    using serialize_then_deserialize [OF assms] by auto
  with deserialize_fits [OF _ assms(3), of b r'] show ?thesis by (simp add: through_buffer_def)
qed

text \<open>A received count is the length of what was sent.\<close>

lemma count_received: "take (nat c) xs = ys \<Longrightarrow> c \<le> int (length xs) \<Longrightarrow> ys \<noteq> [] \<Longrightarrow> c = int (length ys)"
  by (cases "0 \<le> c") auto

lemma c_string_info: "strcpy dst src = Some d \<Longrightarrow> list_all (\<lambda>c. c \<noteq> NUL) src \<Longrightarrow> c_string d = src"
  by (erule c_string_strcpy) (auto simp: list_all_iff)

lemma string_copied: "length src < length dst \<Longrightarrow> \<exists>d. strcpy dst src = Some d \<and> length d = length dst"
  by (auto simp: strcpy_def std_copy_def)

lemma small_tests:
  assumes "wf_message s" and "wf_choice (msg_choice r)" and "PACKET_SIZE \<le> length buf"
  shows "socket_serialize_message_test1 s r buf = Some (5, 2, 1)"
    and "socket_serialize_message_test3 s r buf = Some (6, 2, 1)"
    and "socket_serialize_message_test7 s r buf = Some 2"
proof -
  have header: "in_int32 (message_type s)" using assms(1) by (simp add: wf_message_def)
  define m1 where "m1 = s\<lparr>client_id := 9100, msg_choice := M1 5, message_choice_number := CHOICE_CONNECTION_ACCEPTED\<rparr>"
  have "wf_message m1" "counts_ok m1"
    using header by (simp_all add: m1_def wf_message_def counts_ok_def)
  from through_buffer [OF this assms(2,3)] show "socket_serialize_message_test1 s r buf = Some (5, 2, 1)"
    by (auto simp: socket_serialize_message_test1_def m1_def payload_def as_m1_def Let_def)
  define m3 where "m3 c = s\<lparr>client_id := c, msg_choice := M3 2, message_choice_number := CHOICE_SEATS_REQUEST\<rparr>" for c
  have "wf_message (m3 c)" "counts_ok (m3 c)" if "in_int32 c" for c
    using header that by (simp_all add: m3_def wf_message_def counts_ok_def)
  from through_buffer [OF this assms(2,3)]
  have "in_int32 c \<Longrightarrow> \<exists>r'. through_buffer (m3 c) r buf = Some r' \<and> client_id r' = c \<and> as_m3 (msg_choice r') = 2" for c
    by (force simp: m3_def payload_def as_m3_def Let_def)
  from this [of 6] this [of 27]
  have "\<exists>r'. through_buffer (m3 6) r buf = Some r' \<and> client_id r' = 6 \<and> as_m3 (msg_choice r') = 2"
    "\<exists>r'. through_buffer (m3 27) r buf = Some r' \<and> as_m3 (msg_choice r') = 2" by auto
  moreover have "s\<lparr>client_id := 6, msg_choice := M3 2, message_choice_number := CHOICE_SEATS_REQUEST\<rparr> = m3 6"
    "s\<lparr>client_id := 27, message_choice_number := CHOICE_SEATS_REQUEST, msg_choice := M3 2\<rparr> = m3 27"
    "as_m3 (msg_choice (m3 6)) = 2"
    by (cases s; simp add: m3_def as_m3_def)+
  ultimately show "socket_serialize_message_test3 s r buf = Some (6, 2, 1)" "socket_serialize_message_test7 s r buf = Some 2"
    unfolding socket_serialize_message_test3_def socket_serialize_message_test7_def by (auto simp only: Let_def bind.bind_lunit simp_thms if_False)
qed

lemma rooms_test:
  assumes "wf_message s" and "wf_choice (msg_choice r)" and "PACKET_SIZE \<le> length buf"
  shows "socket_serialize_message_test2 s r buf = Some (4, 5, [1, 2, 3, 4, 5])"
proof -
  have len: "length (m2_ids (as_m2 (msg_choice s))) = 20"
    using assms(1) as_member_lengths [of "msg_choice s"] by (simp add: wf_message_def)
  then obtain ids where ids: "std_copy [1, 2, 3, 4, 5] (m2_ids (as_m2 (msg_choice s))) = Some ids"
      "take 5 ids = [1, 2, 3, 4, 5]" "length ids = 20" "list_all in_int32 ids"
    using as_member_ints(1) [of "msg_choice s"] assms(1)
    by (auto simp: std_copy_def list_all_iff wf_message_def dest: in_set_dropD)
  define m where "m = s\<lparr>client_id := 4, msg_choice := M2 \<lparr>m2_count = 5, m2_ids = ids\<rparr>,
     message_choice_number := CHOICE_ROOMS_RESPONSE\<rparr>"
  have "wf_message m" "counts_ok m"
    using assms(1) ids(3,4) by (simp_all add: m_def wf_message_def counts_ok_def wf_m2_def)
  from through_buffer [OF this assms(2,3)] obtain r' where r': "through_buffer m r buf = Some r'" "client_id r' = 4"
      "take (nat (m2_count (as_m2 (msg_choice r')))) (m2_ids (as_m2 (msg_choice r'))) = [1, 2, 3, 4, 5]"
      "m2_count (as_m2 (msg_choice r')) \<le> 20" "length (m2_ids (as_m2 (msg_choice r'))) = 20"
    by (auto simp: m_def payload_def Let_def ids(2) counts_bounded_def as_member_lengths)
  with count_received [OF r'(3)] ids(1) show ?thesis
    by (simp add: socket_serialize_message_test2_def m_def)
qed

lemma payments_test:
  assumes "wf_message s" and "wf_choice (msg_choice r)" and "PACKET_SIZE \<le> length buf"
  shows "socket_serialize_message_test5 s r buf =
     Some (15, 2, [\<lparr>res_room = 1, res_seat_num = 2\<rparr>, \<lparr>res_room = 3, res_seat_num = 5\<rparr>])"
proof -
  let ?two = "[\<lparr>res_room = 1, res_seat_num = 2\<rparr>, \<lparr>res_room = 3, res_seat_num = 5\<rparr>]"
  have len: "length (m7_list (as_m7 (msg_choice s))) = 500"
    using assms(1) as_member_lengths [of "msg_choice s"] by (simp add: wf_message_def)
  then obtain rs where rs: "std_copy ?two (m7_list (as_m7 (msg_choice s))) = Some rs"
      "take 2 rs = ?two" "length rs = 500" "list_all wf_reservation rs"
    using as_member_ints(3) [of "msg_choice s"] assms(1)
    by (auto simp: std_copy_def list_all_iff wf_message_def wf_reservation_def numeral_2_eq_2 dest: in_set_dropD)
  define m where "m = s\<lparr>client_id := 15, message_choice_number := CHOICE_PAY_RESERVATION_REQUEST,
     msg_choice := M7 \<lparr>m7_count = 2, m7_list = rs\<rparr>\<rparr>"
  have "wf_message m" "counts_ok m"
    using assms(1) rs(3,4) by (simp_all add: m_def wf_message_def counts_ok_def wf_m7_def)
  from through_buffer [OF this assms(2,3)] obtain r' where r': "through_buffer m r buf = Some r'" "client_id r' = 15"
      "take (nat (m7_count (as_m7 (msg_choice r')))) (m7_list (as_m7 (msg_choice r'))) = ?two"
      "m7_count (as_m7 (msg_choice r')) \<le> 500" "length (m7_list (as_m7 (msg_choice r'))) = 500"
    by (auto simp: m_def payload_def Let_def rs(2) counts_bounded_def as_member_lengths)
  with count_received [OF r'(3)] rs(1) show ?thesis
    by (simp add: socket_serialize_message_test5_def m_def)
qed

lemma payment_answer_test:
  assumes "wf_message s" and "wf_choice (msg_choice r)" and "PACKET_SIZE \<le> length buf"
  shows "socket_serialize_message_test6 s r buf = Some (True, ''Succesful Payment'')"
proof -
  have "length (m6_information (as_m6 (msg_choice s))) = 500"
    using assms(1) as_member_lengths [of "msg_choice s"] by (simp add: wf_message_def)
  then obtain info where info: "strcpy (m6_information (as_m6 (msg_choice s))) ''Succesful Payment'' = Some info" "length info = 500"
    using string_copied [of "''Succesful Payment''" "m6_information (as_m6 (msg_choice s))"] by auto
  define m where "m = s\<lparr>client_id := 27, message_choice_number := CHOICE_PAY_RESERVATION_RESPONSE,
     msg_choice := M6 \<lparr>m6_success = SUCCESS, m6_information = info\<rparr>\<rparr>"
  have "wf_message m" "counts_ok m"
    using assms(1) info(2) by (simp_all add: m_def wf_message_def counts_ok_def wf_m6_def)
  from through_buffer [OF this assms(2,3)] info(1) c_string_info [OF info(1)] show ?thesis
    by (auto simp: socket_serialize_message_test6_def m_def payload_def Let_def swap_int_zero)
qed

lemma seats_test:
  assumes "wf_message s" and "wf_choice (msg_choice r)" and "PACKET_SIZE \<le> length buf"
  shows "socket_serialize_message_test4 s r buf =
     Some (7, 7, ''This is a test'', True, [1, 2, 3, 4, 5, 6, 7], [48, 49, 49, 48, 48, 49, 49])"
proof -
  let ?m4 = "as_m4 (msg_choice s)"
  have wf: "wf_choice (msg_choice s)" using assms(1) by (simp add: wf_message_def)
  have st: "list_all in_int8 (m4_seats_status ?m4)"
    using wf by (cases "msg_choice s") (simp_all add: wf_m4_def zero_m4_def list_all_iff)
  note len = as_member_lengths [OF wf]
  obtain info where info: "strcpy (m4_information ?m4) ''This is a test'' = Some info" "length info = 500"
    using string_copied [of "''This is a test''" "m4_information ?m4"] len by auto
  obtain ids where ids: "std_copy [1, 2, 3, 4, 5, 6, 7] (m4_seats_id ?m4) = Some ids"
      "take 7 ids = [1, 2, 3, 4, 5, 6, 7]" "length ids = 50" "list_all in_int32 ids"
    using as_member_ints(2) [OF wf] len by (auto simp: std_copy_def list_all_iff dest: in_set_dropD)
  obtain sts where sts: "std_copy [48, 49, 49, 48, 48, 49, 49] (m4_seats_status ?m4) = Some sts"
      "take 7 sts = [48, 49, 49, 48, 48, 49, 49]" "length sts = 50" "list_all in_int8 sts"
    using st len by (auto simp: std_copy_def list_all_iff dest: in_set_dropD)
  define m where "m = s\<lparr>client_id := 7, message_choice_number := CHOICE_SEATS_RESPONSE,
     msg_choice := M4 \<lparr>m4_count = 7, m4_success = SUCCESS, m4_information = info,
       m4_seats_id = ids, m4_seats_status = sts\<rparr>\<rparr>"
  have "wf_message m" "counts_ok m"
    using assms(1) info(2) ids(3,4) sts(3,4) by (simp_all add: m_def wf_message_def counts_ok_def wf_m4_def)
  from through_buffer [OF this assms(2,3)] obtain r' where r': "through_buffer m r buf = Some r'" "client_id r' = 7"
      "take (nat (m4_count (as_m4 (msg_choice r')))) (m4_seats_id (as_m4 (msg_choice r'))) = [1, 2, 3, 4, 5, 6, 7]"
      "take (nat (m4_count (as_m4 (msg_choice r')))) (m4_seats_status (as_m4 (msg_choice r'))) = [48, 49, 49, 48, 48, 49, 49]"
      "m4_information (as_m4 (msg_choice r')) = info" "m4_success (as_m4 (msg_choice r')) = 0"
      "m4_count (as_m4 (msg_choice r')) \<le> 50" "length (m4_seats_id (as_m4 (msg_choice r'))) = 50"
    by (auto simp: m_def payload_def Let_def ids(2) sts(2) counts_bounded_def as_member_lengths)
  with count_received [OF r'(3)] info(1) ids(1) sts(1) c_string_info [OF info(1)] show ?thesis
    by (simp add: socket_serialize_message_test4_def m_def)
qed

text \<open>The eighth test passes unless the memory held the number of a choice with another member or with none; for
  some of these it leaves the arrays of the message.\<close>

lemma client_id_test:
  assumes "wf_message s" and "wf_choice (msg_choice r)" and "PACKET_SIZE \<le> length buf"
    and "message_choice_number s \<notin> {CHOICE_ROOMS_REQUEST, CHOICE_ROOMS_RESPONSE, CHOICE_SEATS_RESPONSE,
       CHOICE_SEAT_SELECT_RESPONSE, CHOICE_PAY_RESERVATION_REQUEST, CHOICE_PAY_RESERVATION_RESPONSE}"
  shows "socket_serialize_message_only_with_client_id_test8 s r buf = Some (12041994, 1)"
proof -
  have "wf_message (s\<lparr>msg_choice := M1 12041994\<rparr>)" "counts_ok (s\<lparr>msg_choice := M1 12041994\<rparr>)"
    using assms(1,4) by (simp_all add: wf_message_def counts_ok_def)
  from through_buffer [OF this assms(2,3)] assms(4) show ?thesis
    by (auto simp: socket_serialize_message_only_with_client_id_test8_def payload_def as_m1_def as_m3_def as_m5_def Let_def
        split: if_splits)
qed

lemma serialize_ints_overrun: "length data < i + k \<Longrightarrow> i \<le> length data \<Longrightarrow> serialize_ints buf p data i k = None"
  by (induction k arbitrary: buf p i) (auto split: bind_splits)

lemma client_id_test_overruns:
  assumes "message_choice_number s = CHOICE_ROOMS_RESPONSE"
  shows "socket_serialize_message_only_with_client_id_test8 s r buf = None"
proof -
  have "serialize_ints b p (m2_ids zero_m2) 0 (nat 12041994) = None" for b p
    by (rule serialize_ints_overrun) (simp_all add: zero_m2_def)
  then have "serialize_message (s\<lparr>msg_choice := M1 12041994\<rparr>) buf = None"
    using assms by (simp add: serialize_message_def Let_def split: bind_splits)
  then show ?thesis
    by (simp add: socket_serialize_message_only_with_client_id_test8_def through_buffer_def Let_def)
qed

section \<open>A message through a channel\<close>

definition test_string :: string where
  "test_string = ''Hola, soy un mensaje de prueba''"

text \<open>\<open>memory\<close> is what \<open>test_msg\<close> held before.\<close>

definition test_parent :: "commqueue \<Rightarrow> q_message \<Rightarrow> (unit, 'a ipc_scheme) prog" where
  "test_parent test_queue memory =
     andThen (defined (strcpy (case msg_choice memory of M0 cs \<Rightarrow> cs | _ \<Rightarrow> zero_chars) test_string)) (\<lambda>text.
     send_message (test_queue\<lparr>orientation := Some 1\<rparr>) (memory\<lparr>message_type := 10, msg_choice := M0 text\<rparr>))"

text \<open>The exit status of the child; a member of the union that was not sent is not read.\<close>

definition test_child :: "('a ipc_scheme \<Rightarrow> 'a ipc_scheme) \<Rightarrow> commqueue \<Rightarrow> (int, 'a ipc_scheme) prog" where
  "test_child env test_queue =
     andThen (receive_message_type env (test_queue\<lparr>orientation := Some 0\<rparr>) 10) (\<lambda>test_msg.
     case msg_choice test_msg of
       M0 text \<Rightarrow> ret (if c_string text = test_string then 0 else 255)
     | _ \<Rightarrow> undef_behaviour)"

text \<open>The parent sends before the child receives, or while the child waits.\<close>

definition test_msg_transmission :: "ftok \<Rightarrow> bool \<Rightarrow> q_message \<Rightarrow> (int, 'a ipc_scheme) prog" where
  "test_msg_transmission ftok child_waits memory =
     andThen (create_commqueue ftok ''/bin/bash'' (CHR ''a'')) (\<lambda>test_queue.
     andThen (if child_waits then test_child (\<lambda>s. snd (test_parent test_queue memory s)) test_queue
              else andThen (test_parent test_queue memory) (\<lambda>_. test_child (\<lambda>s. s) test_queue)) (\<lambda>child_status.
     andThen (delete_queue test_queue) (\<lambda>_.
     ret (if child_status = 0 then 0 else - 1))))"

lemma channel_test_passes:
  assumes "ftok ''/bin/bash'' (CHR ''a'') = j" and "ftok ''/bin/bash'' (CHR ''b'') = k" and "j \<noteq> k"
    and "j \<noteq> - 1" and "k \<noteq> - 1" and "msg_ids s j = None" and "msg_ids s k = None"
    and "wf_choice (msg_choice memory)"
  shows "fst (test_msg_transmission ftok child_waits memory s) = Ret 0"
proof -
  define s1 where "s1 = s\<lparr>msg_ids := (msg_ids s)(j \<mapsto> next_id s, k \<mapsto> next_id s + 1),
    msg_queues := (msg_queues s)(next_id s \<mapsto> [], next_id s + 1 \<mapsto> []), next_id := next_id s + 2\<rparr>"
  define ch where "ch = \<lparr>id_firstqueue = next_id s, id_secondqueue = next_id s + 1, orientation = None, cq_id = - 1\<rparr>"
  have create: "create_commqueue ftok ''/bin/bash'' (CHR ''a'') s = (Ret ch, s1)"
    using assms(1-7) by (simp add: create_commqueue_def queue_create_def Let_def next_char_letters s1_def ch_def)
  have "length (case msg_choice memory of M0 cs \<Rightarrow> cs | _ \<Rightarrow> zero_chars) = 500"
    using assms(8) by (cases "msg_choice memory") simp_all
  then obtain d where d: "strcpy (case msg_choice memory of M0 cs \<Rightarrow> cs | _ \<Rightarrow> zero_chars) test_string = Some d"
    using string_copied [of test_string "case msg_choice memory of M0 cs \<Rightarrow> cs | _ \<Rightarrow> zero_chars"] by (auto simp: test_string_def)
  have said: "c_string d = test_string" using c_string_info [OF d] by (simp add: test_string_def)
  define m where "m = memory\<lparr>message_type := 10, msg_choice := M0 d\<rparr>"
  have empty: "msg_queues s1 (next_id s + 1) = Some []" by (simp add: s1_def)
  have "memory\<lparr>msg_choice := M0 d, message_type := 10\<rparr> = m" by (cases memory) (simp add: m_def)
  then have parent: "test_parent ch memory s1 = (Ret (), set_queue (next_id s + 1) [(10, m)] s1)"
    by (simp add: test_parent_def d ch_def send_message_def queue_send_def Let_def empty)
  note receive = test_child_def receive_message_type_def queue_receive_def try_receive_def msgrcv_def
  have child: "test_child (\<lambda>s. s) ch (set_queue (next_id s + 1) [(10, m)] s1) = (Ret 0, set_queue (next_id s + 1) [] s1)"
    by (simp add: receive Let_def ch_def m_def said)
  have waiting: "test_child (\<lambda>s. snd (test_parent ch memory s)) ch s1 = (Ret 0, set_queue (next_id s + 1) [] s1)"
    unfolding receive using parent said by (simp add: Let_def ch_def empty) (simp add: m_def)
  have deleted: "\<exists>s2. delete_queue ch (set_queue (next_id s + 1) [] s1) = (Ret (), s2)"
    by (simp add: delete_queue_def queue_destroy_def ch_def s1_def)
  show ?thesis
    using parent child waiting deleted by (cases child_waits) (auto simp: test_msg_transmission_def create)
qed

end
