(* ===== verification/Spec2Isabelle.thy ===== *)
theory Spec2Isabelle
  imports Wire Sockets Sysv_Ipc Sqlite_Engine Sqlite_Codes Sqlite_Interface Sqlite_Extension Db_Api Hosts Admin
    Cinema Mom Client_Interface Utilities Mutual_Exclusion Client_Program End_To_End Sessions Views Db_Tables Cinema_Identities Mom_Processes
    Updates Identifier_Tests Transport_Tests
begin

text \<open>
  A verification of a distributed cinema written in C++: clients reserve and pay seats of rooms.  It runs
  as several processes on three kinds of hosts.  On the client's host the program with the menu
  (src/client) calls a library (src/middleware/client_interface.cpp) that talks over System V message
  queues to a middleware daemon (src/middleware/mom.cpp), which forks a service per client and bridges
  its queues to TCP.  On the cinema's host a daemon (src/cinema) takes the connections, forks a
  listener and a timer per client and relays the requests, over queues again, to the administrator
  (src/admin/admin.cpp), the only process that reads and writes the SQLite database (src/db/db_api.cpp).
  After a reservation the administrator sends the new state of the seats over a second connection to
  the middleware, which puts it into shared memory for the library's polling thread.

  \<^bold>\<open>The effects.\<close> A C++ function is a \<open>prog\<close> (theory Prelude): from a state to an outcome
  (\<open>Ret\<close>, \<open>Exit\<close> for \<open>THROW_UTIL\<close> and \<open>exit\<close>, \<open>Undef\<close> for what the language leaves undefined, \<open>Blocked\<close>
  for a call that waits for ever) and a state.  \<open>andThen\<close> is the semicolon; three collections of rules
  go through its structure: \<open>keeps_intros\<close> (invariants of the state), \<open>yields_intros\<close> (what a call
  returns), and \<open>db_calls_intros\<close> of theory Hosts (which calls of db_api.cpp a handler makes).

  \<^bold>\<open>The theories\<close>, in the order of the calls:
  \<^item> Prelude: effects, C integers of 8, 16 and 32 bits, copies into arrays, C strings, and the runs of a labelled step
    relation (\<open>path\<close>).
  \<^item> Messages: include/constants.h and include/messages/message.h, structs as records, the union of
    messages as the datatype \<open>message_choice\<close>; \<open>wf_message\<close> says that a value fits the C types.
  \<^item> Wire: \<open>serialize_message\<close> and \<open>deserialize_message\<close> of src/network/socket.cpp byte by byte on an array of
    bytes, and their round trip \<open>wire_transfer\<close>.  \<open>net_payload\<close> is what bytes mean in network order: any packet is read
    as it says, or its count is too large for the array.
  \<^item> Sockets: the rest of socket.cpp and network_comm.cpp over a parameter \<open>sock_api\<close> (the kernel);
    \<open>send_loop\<close> and \<open>recv_loop\<close> are \<open>partial_function (option)\<close>, since they need not end.
  \<^item> Sysv_Ipc: src/ipc: queues, semaphores and shared memory as the kernel's tables of
    objects, and the channels of two queues built on them.  A receive takes the behaviour of the other
    processes as its parameter \<open>env\<close>, which acts once while it waits.  The locale \<open>mailbox\<close> is the
    interface of a queue with types.
  \<^item> Sqlite_Engine: the schema of \<open>db_initialize\<close> and the library SQLite, which is not in the
    repository, as the parameter \<open>sqlite\<close> with the documented laws of the locale \<open>sqlite_engine\<close> (a statement that
    succeeds has its effect and keeps the keys unique, one that fails has none) and of
    \<open>reliable_engine\<close> (statements fail only for a constraint); \<open>ref_engine\<close> is an engine that has them.
  \<^item> Sqlite_Codes, Sqlite_Interface, Sqlite_Extension: the constants of include/db/sqlite3.h, its
    declarations and structures of methods as C types, the calls of the program checked against them,
    and the redirections of sqlite3ext.h.
  \<^item> Db_Api: every function of db_api.cpp as a query, and \<open>seat_map\<close>, the abstract state of the
    reservations: a partial map from room and seat to user and paid flag, with the locale \<open>seat_store\<close>, the
    contract of the calls on it, interpreted on the functions of db_api.cpp.
  \<^item> Hosts, Admin: the state of the cinema's host, every request of \<open>admin_handle_request\<close>,
    the daemon and the updates of the users of a room.
  \<^item> Cinema, Mom, Client_Interface: the three programs between the user and the administrator.
  \<^item> Mutual_Exclusion: the processes around a semaphore as one machine (\<open>lock_step\<close>), whose steps are the calls of
    \<open>semaphore_wait\<close> and \<open>semaphore_signal\<close>, the accesses between them and the deaths of processes, after which the kernel
    undoes what was done with \<open>SEM_UNDO\<close>; the accessors of the shared segments, as the code has them, run as it says.
  \<^item> Utilities: initializer, destructor and the program that fills the database.
  \<^item> Text_Table, Terminal, Client_Program: the tables as they are printed, questions and menu over an
    input and an output, the labels of \<open>main\<close> of client.cpp as a machine.
  \<^item> Polling: the thread of the library that waits for updates, as a whole, beside the calls that start
    and cancel it.  Updates: what it shows over many turns, against the sequence of the updates that come.
  \<^item> End_To_End: a request, a payment and an update from one end of the system to the other.
  \<^item> Sessions: a client's whole session, his calls of the library with the network and the administrator
    behind them and other clients' requests in between, as an inductive step relation, labelled with what the
    client sees, that refines the specification \<open>booking_step\<close>.  Views: the rooms and seats he is shown against the tables.
  \<^item> Db_Tables: the calls of db_api.cpp as functions on the tables (\<open>run_tables\<close>), the same for every reliable engine.
  \<^item> Processes: the processes of a host.  A process is a place in a loop with its local variables; \<open>runs\<close> is the
    inductive relation of their interleavings by turns, in which other processes run, by the same relation,
    while a turn waits; \<open>carries\<close> is a calculus for what a turn establishes.  Cinema_Processes: from \<open>main\<close> on,
    all the processes of the cinema's host (\<open>cinema_turn\<close>).  Cinema_Identities: who serves whom.  Mom_Processes: the
    processes of the middleware (\<open>mom_turn\<close>), with what \<open>kill\<close> does to them.
  \<^item> Database_Tests, Identifier_Tests, Transport_Tests: the authors' own tests (src/test) and what they print.

  \<^bold>\<open>What is shown.\<close> Of the database: no seat is reserved twice, a paid seat stays paid, through any calls
  with any failures.  Of the administrator: each request does to \<open>seat_map\<close> what it should and touches no
  other client's seats; the answers fit the wire format.  Of the transport: channels are first in,
  first out per identifier, packets arrive whole, messages survive the byte format but for two status
  fields.  Of the services: the relay is a call, the timer closes a silent client and the listener
  ends, the last update of each sleep is shown to the user once, at most one process is inside a mutex.  Of the hosts, for all
  interleavings of their processes, failures and kills: a paid seat stays with its user, no two listeners serve one
  client, each service answers its own client.  Of the client: \<open>reserve_seat\<close> is true exactly when the seat of that number was free in
  the room the database has the client in and is now his; over a session in which this is the room he asks in whenever
  he gets a seat, his library remembers exactly the seats the database has for him, and a payment
  pays all of them; without that condition both fail; what he is shown is what the tables hold.  Most theorems about
  what a request achieves are of a reliable engine and say so; those about safety are of any.  Of the
  terminal: lines of a table align, numbers can be typed back, the menu ends exactly when a valid
  option comes.  Errors of the program that the proofs brought out are stated as theorems too (payments
  confirmed whatever happens, a seat reserved in a room the client is not in, listeners that are never killed,
  updates that are never shown, a payment after the connection is closed, and others).

  \<^bold>\<open>Bounds and fuel.\<close> The endless loops of the daemons are modelled by their turn, which the relation \<open>runs\<close> repeats any
  number of times; the loop of the cinema's listener also runs over a list of readings of the clock, the service of a client
  over a list of the identifiers its forks return and the polling thread over a list of what happens while it
  sleeps, one per turn, and the theorems hold for lists of every length.  Loops that
  wait for input or the network are \<open>partial_function (option)\<close>, with theorems for when they return and
  when they do not.  All others end, with a \<open>termination\<close> proof where the recursion is not structural.

  \<^bold>\<open>Not modelled.\<close> Output to the terminals of the daemons; \<open>sleep\<close>; \<open>waitpid\<close>; limits of the kernel on
  sizes and counts of queues and segments.  Processes interleave between turns and where a turn waits; the
  memory they share is read and written in a turn as a whole, but for the sections of the mutexes, which
  theory Mutual_Exclusion interleaves step by step, and the calls on the database, which the theorems of Db_Api interleave in any way.  \<open>update_timestamp\<close> has no return statement: its
  result, which nobody reads, is left out.  \<open>data_init\<close> leaves out the opening and closing of its
  database.  Lines 104 to 434 of client.cpp are commented out.  Of sqlite3.h: what the functions
  do (the parameter above), the functions declared alone between two comments that the program
  does not call, the structures of the index planner and the session extension.  Of the tests under
  src/test: the texts they print around the values.
\<close>

end
